(* ===== verification/Visuara_Prelude.thy ===== *)
theory Visuara_Prelude
  imports Main "HOL-Library.Word"
begin

text \<open>
  Shared vocabulary of the development: the result type, the pieces of the Rust standard library
  the sources use (\<open>Iterator::position\<close>, \<open>slice::windows\<close>, \<open>slice::chunks\<close>, \<open>str::trim\<close>,
  \<open>str::split\<close>, \<open>str::split_once\<close>, \<open>str::contains\<close>, decimal formatting and parsing), and the
  generic notion of a state machine with an invariant.

  A Rust \<open>String\<close> is a HOL \<^typ>\<open>string\<close>: a list of code points in the range 0 to 255.  The
  white-space test of \<open>str::trim\<close> is the Unicode property on that range.
\<close>

section \<open>Results, bytes and bundles of facts\<close>

type_synonym ('e, 'a) result = "'e + 'a"
type_synonym u8 = "8 word"
type_synonym u32 = "32 word"
type_synonym u64 = "64 word"
type_synonym bytes = "u8 list"

named_theorems op_defs "unfolding rules of the operations of a component"
named_theorems frame "which parts of a state an operation leaves alone"
named_theorems inv_intros "preservation of invariants by the operations"

section \<open>Slices\<close>

text \<open>\<open>Iterator::position\<close>: index of the first element that satisfies the predicate.\<close>

fun position :: "('a \<Rightarrow> bool) \<Rightarrow> 'a list \<Rightarrow> nat option" where
  "position P [] = None"
| "position P (x # xs) = (if P x then Some 0 else map_option Suc (position P xs))"

lemma position_eq_None: "position P xs = None \<longleftrightarrow> (\<forall>x \<in> set xs. \<not> P x)"
  by (induction xs) auto

lemma position_eq_Some:
  "position P xs = Some i \<longleftrightarrow> i < length xs \<and> P (xs ! i) \<and> (\<forall>j < i. \<not> P (xs ! j))"
proof (induction xs arbitrary: i)
  case Nil
  then show ?case by simp
next
  case (Cons x xs)
  show ?case
  proof (cases i)
    case 0
    then show ?thesis by (auto simp: Cons.IH)
  next
    case (Suc k)
    then show ?thesis by (auto simp: Cons.IH less_Suc_eq_0_disj)
  qed
qed

text \<open>\<open>slice::windows(n)\<close> for a positive \<open>n\<close>: every run of \<open>n\<close> consecutive elements.\<close>

definition windows :: "nat \<Rightarrow> 'a list \<Rightarrow> 'a list list" where
  "windows n xs = map (\<lambda>i. take n (drop i xs)) [0 ..< Suc (length xs) - n]"

lemma length_windows [simp]: "length (windows n xs) = Suc (length xs) - n"
  by (simp add: windows_def)

lemma nth_windows [simp]: "i < Suc (length xs) - n \<Longrightarrow> windows n xs ! i = take n (drop i xs)"
  by (simp add: windows_def del: upt_Suc)

text \<open>\<open>slice::chunks(n)\<close> for a positive \<open>n\<close>: consecutive runs of \<open>n\<close> elements, the last one
  possibly shorter.\<close>

fun chunks :: "nat \<Rightarrow> 'a list \<Rightarrow> 'a list list" where
  "chunks n xs = (if n = 0 \<or> xs = [] then [] else take n xs # chunks n (drop n xs))"

declare chunks.simps [simp del]

lemma chunks_Nil [simp]: "chunks n [] = []"
  by (simp add: chunks.simps)

lemma concat_chunks: "0 < n \<Longrightarrow> concat (chunks n xs) = xs"
proof (induction n xs rule: chunks.induct)
  case (1 n xs)
  then show ?case
    by (cases "xs = []") (simp_all add: chunks.simps [of n xs])
qed

lemma chunks_bound: "c \<in> set (chunks n xs) \<Longrightarrow> 0 < length c \<and> length c \<le> n"
proof (induction n xs rule: chunks.induct)
  case (1 n xs)
  then show ?case
    by (cases "n = 0 \<or> xs = []") (auto simp: chunks.simps [of n xs])
qed

section \<open>Strings\<close>

definition is_whitespace :: "char \<Rightarrow> bool" where
  "is_whitespace c \<longleftrightarrow>
     (let n = (of_char c :: nat) in (9 \<le> n \<and> n \<le> 13) \<or> n = 32 \<or> n = 133 \<or> n = 160)"

definition trim_start :: "string \<Rightarrow> string" where
  "trim_start s = dropWhile is_whitespace s"

definition trim :: "string \<Rightarrow> string" where
  "trim s = rev (trim_start (rev (trim_start s)))"

lemma trim_id:
  "(s \<noteq> [] \<Longrightarrow> \<not> is_whitespace (hd s)) \<Longrightarrow> (s \<noteq> [] \<Longrightarrow> \<not> is_whitespace (last s)) \<Longrightarrow> trim s = s"
proof -
  assume h: "s \<noteq> [] \<Longrightarrow> \<not> is_whitespace (hd s)" and l: "s \<noteq> [] \<Longrightarrow> \<not> is_whitespace (last s)"
  have "trim_start s = s" using h by (cases s) (auto simp: trim_start_def)
  moreover have "trim_start (rev s) = rev s"
    using l by (cases s rule: rev_cases) (auto simp: trim_start_def)
  ultimately show ?thesis by (simp add: trim_def)
qed

lemma trim_no_whitespace: "\<forall>c \<in> set s. \<not> is_whitespace c \<Longrightarrow> trim s = s"
  by (rule trim_id) auto

lemma hd_dropWhile_False: "dropWhile P xs \<noteq> [] \<Longrightarrow> \<not> P (hd (dropWhile P xs))"
  by (induction xs) auto

lemma last_dropWhile: "dropWhile P xs \<noteq> [] \<Longrightarrow> last (dropWhile P xs) = last xs"
  by (induction xs) auto

lemma trim_idem [simp]: "trim (trim s) = trim s"
proof (rule trim_id)
  assume ne: "trim s \<noteq> []"
  define u where "u = trim_start (rev (trim_start s))"
  have t: "trim s = rev u" by (simp add: trim_def u_def)
  with ne have une: "u \<noteq> []" by simp
  have "\<not> is_whitespace (hd u)"
    using une unfolding u_def trim_start_def by (rule hd_dropWhile_False)
  then show "\<not> is_whitespace (last (trim s))" by (simp add: t une last_rev)
  have sne: "trim_start s \<noteq> []" using une unfolding u_def trim_start_def
    by (metis dropWhile.simps(1) rev.simps(1))
  have "last u = last (rev (trim_start s))"
    using une unfolding u_def trim_start_def by (rule last_dropWhile)
  also have "\<dots> = hd (trim_start s)" using sne by (simp add: last_rev)
  finally have "last u = hd (trim_start s)" .
  moreover have "\<not> is_whitespace (hd (trim_start s))"
    using sne unfolding trim_start_def by (rule hd_dropWhile_False)
  ultimately show "\<not> is_whitespace (hd (trim s))" by (simp add: t une hd_rev)
qed

text \<open>\<open>str::split(c)\<close>: the pieces between occurrences of a character; never empty.\<close>

fun split_on :: "char \<Rightarrow> string \<Rightarrow> string list" where
  "split_on c [] = [[]]"
| "split_on c (x # xs) =
     (if x = c then [] # split_on c xs
      else case split_on c xs of [] \<Rightarrow> [[x]] | p # ps \<Rightarrow> (x # p) # ps)"

lemma split_on_not_Nil [simp]: "split_on c s \<noteq> []"
  by (induction s) (auto split: list.splits)

lemma split_on_no_sep: "c \<notin> set s \<Longrightarrow> split_on c s = [s]"
  by (induction s) auto

lemma split_on_append_sep: "c \<notin> set s \<Longrightarrow> split_on c (s @ c # t) = s # split_on c t"
  by (induction s) auto

text \<open>\<open>str::split_once(c)\<close>: the text before and after the first occurrence.\<close>

fun split_once :: "char \<Rightarrow> string \<Rightarrow> (string \<times> string) option" where
  "split_once c [] = None"
| "split_once c (x # xs) =
     (if x = c then Some ([], xs) else map_option (\<lambda>(a, b). (x # a, b)) (split_once c xs))"

lemma split_once_append: "c \<notin> set k \<Longrightarrow> split_once c (k @ c # v) = Some (k, v)"
  by (induction k) auto

lemma split_once_None: "c \<notin> set s \<Longrightarrow> split_once c s = None"
  by (induction s) auto

text \<open>\<open>str::starts_with\<close> and \<open>str::contains\<close>.\<close>

fun starts_with :: "'a list \<Rightarrow> 'a list \<Rightarrow> bool" where
  "starts_with s [] = True"
| "starts_with [] (y # ys) = False"
| "starts_with (x # xs) (y # ys) = (x = y \<and> starts_with xs ys)"

fun contains :: "'a list \<Rightarrow> 'a list \<Rightarrow> bool" where
  "contains [] p = (p = [])"
| "contains (x # xs) p = (starts_with (x # xs) p \<or> contains xs p)"

lemma starts_with_append [simp]: "starts_with (p @ s) p"
  by (induction p) auto

lemma contains_prefix: "contains (p @ s) p"
  using starts_with_append [of p s] by (cases "p @ s") auto

text \<open>\<open>Path::join\<close> on Unix paths.\<close>

definition path_join :: "string \<Rightarrow> string \<Rightarrow> string" where
  "path_join base p =
     (if starts_with p ''/'' then p
      else if base = [] \<or> last base = CHR ''/'' then base @ p
      else base @ ''/'' @ p)"

lemma path_join_inj: "\<not> starts_with p ''/'' \<Longrightarrow> \<not> starts_with q ''/'' \<Longrightarrow> path_join b p = path_join b q \<Longrightarrow> p = q"
  by (auto simp: path_join_def split: if_splits)

text \<open>Arithmetic of \<open>i64\<close> in a release build, where it wraps around.\<close>

definition wrap_i64 :: "int \<Rightarrow> int" where
  "wrap_i64 x = (x + 2 ^ 63) mod 2 ^ 64 - 2 ^ 63"

lemma wrap_i64_id: "- (2 ^ 63) \<le> x \<Longrightarrow> x < 2 ^ 63 \<Longrightarrow> wrap_i64 x = x"
  by (simp add: wrap_i64_def)

subsection \<open>Decimal numbers\<close>

definition digit :: "nat \<Rightarrow> char" where
  "digit d = char_of (48 + d)"

fun dec :: "nat \<Rightarrow> string" where
  "dec n = (if n < 10 then [digit n] else dec (n div 10) @ [digit (n mod 10)])"

declare dec.simps [simp del]

text \<open>The format directive \<open>{:0w}\<close>: left padding with zeros to width \<open>w\<close>.\<close>

definition pad0 :: "nat \<Rightarrow> nat \<Rightarrow> string" where
  "pad0 w n = replicate (w - length (dec n)) (CHR ''0'') @ dec n"

definition is_digit :: "char \<Rightarrow> bool" where
  "is_digit c \<longleftrightarrow> (48 :: nat) \<le> of_char c \<and> of_char c \<le> (57 :: nat)"

definition digit_val :: "char \<Rightarrow> nat" where
  "digit_val c = of_char c - 48"

definition undec :: "string \<Rightarrow> nat" where
  "undec s = foldl (\<lambda>a c. 10 * a + digit_val c) 0 s"

text \<open>\<open>str::parse::<i64>()\<close>: an optional sign, at least one digit, and a value in range.\<close>

definition parse_i64 :: "string \<Rightarrow> int option" where
  "parse_i64 s =
     (let (neg, ds) = (case s of c # t \<Rightarrow> if c = CHR ''-'' then (True, t)
                                         else if c = CHR ''+'' then (False, t) else (False, s)
                      | [] \<Rightarrow> (False, s));
          v = (if neg then - int (undec ds) else int (undec ds))
      in if ds \<noteq> [] \<and> list_all is_digit ds \<and> - (2 ^ 63) \<le> v \<and> v < 2 ^ 63 then Some v else None)"

lemma digit_props:
  assumes "d < 10"
  shows "is_digit (digit d)" and "digit_val (digit d) = d"
  using assms by (simp_all add: digit_def is_digit_def digit_val_def)

lemma dec_not_Nil [simp]: "dec n \<noteq> []"
  by (subst dec.simps) simp

lemma dec_digits: "list_all is_digit (dec n)"
proof (induction n rule: dec.induct)
  case (1 n)
  then show ?case
    by (cases "n < 10") (simp_all add: dec.simps [of n] digit_props)
qed

lemma undec_append: "undec (s @ [c]) = 10 * undec s + digit_val c"
  by (simp add: undec_def)

lemma undec_dec [simp]: "undec (dec n) = n"
proof (induction n rule: dec.induct)
  case (1 n)
  show ?case
  proof (cases "n < 10")
    case True
    then show ?thesis by (simp add: dec.simps [of n] undec_def digit_props)
  next
    case False
    then have "undec (dec n) = 10 * undec (dec (n div 10)) + n mod 10"
      by (simp add: dec.simps [of n] undec_append digit_props)
    with "1.IH" False show ?thesis by simp
  qed
qed

lemma dec_inj [simp]: "dec m = dec n \<longleftrightarrow> m = n"
  by (metis undec_dec)

lemma undec_zeros: "undec (replicate k (CHR ''0'') @ s) = undec s"
  by (induction k) (simp_all add: undec_def digit_val_def)

lemma undec_pad0 [simp]: "undec (pad0 w n) = n"
  by (simp add: pad0_def undec_zeros)

lemma pad0_inj [simp]: "pad0 w m = pad0 w n \<longleftrightarrow> m = n"
  by (metis undec_pad0)

lemma pad0_digits: "list_all is_digit (pad0 w n)"
  using dec_digits [of n] by (auto simp: pad0_def list_all_iff is_digit_def)

lemma length_dec_le: "n < 10 ^ Suc k \<Longrightarrow> length (dec n) \<le> Suc k"
proof (induction k arbitrary: n)
  case 0
  then show ?case by (simp add: dec.simps [of n])
next
  case (Suc k)
  show ?case
  proof (cases "n < 10")
    case True
    then show ?thesis by (simp add: dec.simps [of n])
  next
    case False
    have "n div 10 < 10 ^ Suc k" using Suc.prems by (simp add: less_mult_imp_div_less)
    then show ?thesis using Suc.IH False by (simp add: dec.simps [of n])
  qed
qed

lemma length_pad0: "n < 10 ^ w \<Longrightarrow> 0 < w \<Longrightarrow> length (pad0 w n) = w"
  using length_dec_le [of n "w - 1"] by (simp add: pad0_def)

lemma digit_not_sign: "is_digit c \<Longrightarrow> c \<noteq> CHR ''-'' \<and> c \<noteq> CHR ''+''"
  by (auto simp: is_digit_def)

lemma parse_i64_dec: "n < 2 ^ 63 \<Longrightarrow> parse_i64 (dec n) = Some (int n)"
proof -
  assume n: "n < 2 ^ 63"
  obtain c t where d: "dec n = c # t" by (cases "dec n") auto
  with dec_digits [of n] have "is_digit c" by simp
  from digit_not_sign [OF this] have s: "c \<noteq> CHR ''-''" "c \<noteq> CHR ''+''" by auto
  have "int n < 2 ^ 63" using n by (metis of_nat_less_iff of_nat_numeral of_nat_power)
  then show ?thesis
    using s dec_digits [of n] undec_dec [of n] by (simp add: parse_i64_def d)
qed

section \<open>State machines\<close>

text \<open>
  The reachable states of a machine given by its initial states and its labelled steps, and the
  contract \<open>machine\<close>: an invariant that holds initially and is kept by every step.
\<close>

inductive reachable :: "('s \<Rightarrow> bool) \<Rightarrow> ('e \<Rightarrow> 's \<Rightarrow> 's \<Rightarrow> bool) \<Rightarrow> 's \<Rightarrow> bool"
  for init step where
  reach_init: "init s \<Longrightarrow> reachable init step s"
| reach_step: "reachable init step s \<Longrightarrow> step e s t \<Longrightarrow> reachable init step t"

locale machine =
  fixes init :: "'s \<Rightarrow> bool"
    and step :: "'e \<Rightarrow> 's \<Rightarrow> 's \<Rightarrow> bool"
    and inv :: "'s \<Rightarrow> bool"
  assumes inv_init: "init s \<Longrightarrow> inv s"
    and inv_step: "inv s \<Longrightarrow> step e s t \<Longrightarrow> inv t"
begin

lemma invariant: "reachable init step s \<Longrightarrow> inv s"
  by (induction rule: reachable.induct) (auto intro: inv_init inv_step)

end

end
