(* ===== verification/Embedded_Config.thy ===== *)
theory Embedded_Config
  imports Visuara_Prelude
begin

text \<open>
  \<^verbatim>\<open>visuara-common/src/embedded_config.rs\<close>: the configuration slot that the server patches into a
  client binary and that the client reads back from its own executable.  \<open>serde_json\<close> is a
  parameter: \<open>to_vec\<close> serialises a configuration, \<open>from_slice\<close> parses one.  The theorems about the
  round trip rely on \<open>json_codec\<close>: parsing inverts serialising, and JSON text has no zero byte.
\<close>

section \<open>The model\<close>

definition CONFIG_MAGIC :: bytes where
  "CONFIG_MAGIC = map (\<lambda>c. of_nat (of_char c)) ''VISUARA_EMBEDDED_CONFIG_V1'' @ [0]"

definition CONFIG_SLOT_SIZE :: nat where
  "CONFIG_SLOT_SIZE = 4096"

definition TOTAL_LEN :: nat where
  "TOTAL_LEN = length CONFIG_MAGIC + CONFIG_SLOT_SIZE"

record embedded_config =
  cfg_server_url :: "string option"
  cfg_device_name :: "string option"

text \<open>The derived \<open>Default\<close>.\<close>

definition default_config :: embedded_config where
  "default_config = \<lparr>cfg_server_url = None, cfg_device_name = None\<rparr>"

datatype config_error =
  SerializeError string
| SlotOverflow nat
| ParseError string
| NoMarker
| TruncatedSlot

type_synonym to_vec = "embedded_config \<Rightarrow> (string, bytes) result"
type_synonym from_slice = "bytes \<Rightarrow> (string, embedded_config) result"

definition to_slot_bytes :: "to_vec \<Rightarrow> embedded_config \<Rightarrow> (config_error, bytes) result" where
  "to_slot_bytes to_vec c =
     (case to_vec c of
        Inl e \<Rightarrow> Inl (SerializeError e)
      | Inr json \<Rightarrow>
          if length json > CONFIG_SLOT_SIZE then Inl (SlotOverflow (length json))
          else Inr (json @ replicate (CONFIG_SLOT_SIZE - length json) 0))"

definition from_slot_bytes :: "from_slice \<Rightarrow> bytes \<Rightarrow> (config_error, embedded_config) result" where
  "from_slot_bytes from_slice bs =
     (let stop = (case position (\<lambda>b. b = 0) bs of None \<Rightarrow> length bs | Some i \<Rightarrow> i)
      in case from_slice (take stop bs) of Inl e \<Rightarrow> Inl (ParseError e) | Inr c \<Rightarrow> Inr c)"

definition find_subslice :: "bytes \<Rightarrow> bytes \<Rightarrow> nat option" where
  "find_subslice haystack needle = position (\<lambda>w. w = needle) (windows (length needle) haystack)"

definition find_in_binary ::
  "from_slice \<Rightarrow> bytes \<Rightarrow> (config_error, embedded_config option) result" where
  "find_in_binary from_slice data =
     (case find_subslice data CONFIG_MAGIC of
        None \<Rightarrow> Inr None
      | Some pos \<Rightarrow>
          let start = pos + length CONFIG_MAGIC;
              stop = min (start + CONFIG_SLOT_SIZE) (length data)
          in if stop \<le> start then Inr None
             else case from_slot_bytes from_slice (take (stop - start) (drop start data)) of
                    Inl e \<Rightarrow> Inl e | Inr c \<Rightarrow> Inr (Some c))"

definition patch_binary :: "to_vec \<Rightarrow> embedded_config \<Rightarrow> bytes \<Rightarrow> (config_error, bytes) result" where
  "patch_binary to_vec c template =
     (case find_subslice template CONFIG_MAGIC of
        None \<Rightarrow> Inl NoMarker
      | Some pos \<Rightarrow>
          let start = pos + length CONFIG_MAGIC; stop = start + CONFIG_SLOT_SIZE
          in if \<not> stop \<le> length template then Inl TruncatedSlot
             else case to_slot_bytes to_vec c of
                    Inl e \<Rightarrow> Inl e
                  | Inr slot \<Rightarrow> Inr (take start template @ slot @ drop stop template))"

text \<open>\<open>build_marker_slot\<close>: the \<open>while\<close> loop copies the marker into a zeroed array.\<close>

function build_loop :: "nat \<Rightarrow> bytes \<Rightarrow> bytes" where
  "build_loop i buf =
     (if i < length CONFIG_MAGIC then build_loop (Suc i) (buf[i := CONFIG_MAGIC ! i]) else buf)"
  by pat_completeness auto
termination
  by (relation "measure (\<lambda>(i, buf). length CONFIG_MAGIC - i)") auto

declare build_loop.simps [simp del]

definition build_marker_slot :: bytes where
  "build_marker_slot = build_loop 0 (replicate TOTAL_LEN 0)"

text \<open>\<open>read_from_current_exe\<close>: the executable's bytes, or the error of reading it; the two
  callers (\<open>main\<close> and \<open>VisuaraApp::new\<close>) fall back to the default on any failure.\<close>

definition read_from_current_exe ::
  "from_slice \<Rightarrow> (string, bytes) result \<Rightarrow> (config_error + string, embedded_config option) result" where
  "read_from_current_exe from_slice exe =
     (case exe of
        Inl e \<Rightarrow> Inl (Inr e)
      | Inr data \<Rightarrow>
          (case find_in_binary from_slice data of Inl e \<Rightarrow> Inl (Inl e) | Inr r \<Rightarrow> Inr r))"

definition startup_config :: "from_slice \<Rightarrow> (string, bytes) result \<Rightarrow> embedded_config" where
  "startup_config from_slice exe =
     (case read_from_current_exe from_slice exe of Inr (Some c) \<Rightarrow> c | _ \<Rightarrow> default_config)"

text \<open>What the code relies on of \<open>serde_json\<close>.\<close>

definition json_codec :: "to_vec \<Rightarrow> from_slice \<Rightarrow> bool" where
  "json_codec to_vec from_slice \<longleftrightarrow>
     (\<forall>c js. to_vec c = Inr js \<longrightarrow> from_slice js = Inr c \<and> 0 \<notin> set js)"

section \<open>Searching for the marker\<close>

lemma length_MAGIC [simp]: "length CONFIG_MAGIC = 27"
  by (simp add: CONFIG_MAGIC_def)

lemma find_subslice_Some:
  "find_subslice h n = Some p \<longleftrightarrow>
     p + length n \<le> length h \<and> take (length n) (drop p h) = n \<and>
     (\<forall>q < p. take (length n) (drop q h) \<noteq> n)"
proof -
  have "p < Suc (length h) - length n \<longleftrightarrow> p + length n \<le> length h" by arith
  then show ?thesis
    by (auto simp: find_subslice_def position_eq_Some)
qed

lemma find_subslice_None:
  "find_subslice h n = None \<longleftrightarrow> (\<forall>p. p + length n \<le> length h \<longrightarrow> take (length n) (drop p h) \<noteq> n)"
proof -
  have "p < Suc (length h) - length n \<longleftrightarrow> p + length n \<le> length h" for p by arith
  then show ?thesis
    by (auto simp: find_subslice_def position_eq_None set_conv_nth)
qed

text \<open>A hit at \<open>p\<close> depends only on the bytes up to the end of the needle.\<close>

lemma find_subslice_agree:
  assumes "find_subslice h n = Some p" and "take (p + length n) h' = take (p + length n) h"
  shows "find_subslice h' n = Some p"
proof -
  let ?k = "length n"
  have le: "p + ?k \<le> length h" using assms(1) by (simp add: find_subslice_Some)
  have "length (take (p + ?k) h') = p + ?k" using assms(2) le by simp
  then have le': "p + ?k \<le> length h'" by simp
  have win: "take ?k (drop q h') = take ?k (drop q h)" if "q \<le> p" for q
  proof -
    have "take ?k (drop q xs) = take ?k (drop q (take (p + ?k) xs))" for xs :: bytes
      using that by (simp add: drop_take min_def)
    from this [of h'] this [of h] assms(2) show ?thesis by metis
  qed
  show ?thesis
    using assms(1) le' win by (simp add: find_subslice_Some)
qed

section \<open>Slots\<close>

lemma to_slot_bytes_Inr:
  "to_slot_bytes tv c = Inr s \<longleftrightarrow>
     (\<exists>js. tv c = Inr js \<and> length js \<le> CONFIG_SLOT_SIZE \<and>
           s = js @ replicate (CONFIG_SLOT_SIZE - length js) 0)"
  by (auto simp: to_slot_bytes_def split: sum.splits)

lemma length_slot: "to_slot_bytes tv c = Inr s \<Longrightarrow> length s = CONFIG_SLOT_SIZE"
  by (auto simp: to_slot_bytes_Inr)

lemma position_zero_padded:
  "0 \<notin> set js \<Longrightarrow>
   (case position (\<lambda>b. b = 0) (js @ replicate k (0 :: u8)) of
      None \<Rightarrow> length (js @ replicate k (0 :: u8)) | Some i \<Rightarrow> i)
     = length js"
proof (induction js)
  case Nil
  then show ?case by (cases k) auto
next
  case (Cons a js)
  then show ?case by (auto split: option.splits)
qed

lemma slot_roundtrip:
  assumes "json_codec tv fs" and "to_slot_bytes tv c = Inr s"
  shows "from_slot_bytes fs s = Inr c"
proof -
  from assms(2) obtain js where js: "tv c = Inr js"
    and s: "s = js @ replicate (CONFIG_SLOT_SIZE - length js) 0"
    by (auto simp: to_slot_bytes_Inr)
  from assms(1) js have "fs js = Inr c" and z: "0 \<notin> set js"
    by (auto simp: json_codec_def)
  then show ?thesis
    using position_zero_padded [OF z, of "CONFIG_SLOT_SIZE - length js"]
    by (simp add: from_slot_bytes_def s Let_def)
qed

section \<open>Patching\<close>

lemma patch_binary_Inr:
  "patch_binary tv c t = Inr p \<longleftrightarrow>
     (\<exists>pos s. find_subslice t CONFIG_MAGIC = Some pos \<and> pos + 27 + CONFIG_SLOT_SIZE \<le> length t \<and>
        to_slot_bytes tv c = Inr s \<and>
        p = take (pos + 27) t @ s @ drop (pos + 27 + CONFIG_SLOT_SIZE) t)"
  by (auto simp: patch_binary_def Let_def split: option.splits sum.splits)

lemma patched_marker:
  assumes "find_subslice t CONFIG_MAGIC = Some pos" and "pos + 27 \<le> length t"
  shows "find_subslice (take (pos + 27) t @ r) CONFIG_MAGIC = Some pos"
  by (rule find_subslice_agree [OF assms(1)]) (use assms(2) in simp)

lemma find_subslice_prefix [simp]: "find_subslice (n @ r) n = Some 0"
  by (simp add: find_subslice_Some)

lemma length_build_loop [simp]: "length (build_loop i buf) = length buf"
  by (induction i buf rule: build_loop.induct) (subst build_loop.simps, simp)

lemma nth_build_loop:
  "j < length buf \<Longrightarrow> build_loop i buf ! j =
     (if i \<le> j \<and> j < length CONFIG_MAGIC then CONFIG_MAGIC ! j else buf ! j)"
proof (induction i buf rule: build_loop.induct)
  case (1 i buf)
  show ?case
  proof (cases "i < length CONFIG_MAGIC")
    case True
    with 1 have "build_loop (Suc i) (buf[i := CONFIG_MAGIC ! i]) ! j =
       (if Suc i \<le> j \<and> j < 27 then CONFIG_MAGIC ! j else buf[i := CONFIG_MAGIC ! i] ! j)"
      by simp
    moreover have "build_loop i buf = build_loop (Suc i) (buf[i := CONFIG_MAGIC ! i])"
      using True by (simp add: build_loop.simps [of i buf])
    ultimately show ?thesis using True 1(2) by (cases "i = j") auto
  next
    case False
    then show ?thesis by (subst build_loop.simps) auto
  qed
qed

lemma build_marker_slot_eq: "build_marker_slot = CONFIG_MAGIC @ replicate CONFIG_SLOT_SIZE 0"
  by (rule nth_equalityI)
    (auto simp: build_marker_slot_def nth_build_loop TOTAL_LEN_def nth_append)

text \<open>The slot of a freshly built binary, before any patching, cuts down to the empty text.\<close>

lemma from_slot_bytes_zero:
  "from_slot_bytes fs (replicate (Suc k) 0) =
     (case fs [] of Inl e \<Rightarrow> Inl (ParseError e) | Inr c \<Rightarrow> Inr c)"
  by (simp add: from_slot_bytes_def)

lemma find_in_binary_at:
  assumes "find_subslice d CONFIG_MAGIC = Some pos" and "pos + 27 + CONFIG_SLOT_SIZE \<le> length d"
  shows "find_in_binary fs d =
     (case from_slot_bytes fs (take CONFIG_SLOT_SIZE (drop (pos + 27) d)) of
        Inl e \<Rightarrow> Inl e | Inr c \<Rightarrow> Inr (Some c))"
  using assms by (simp add: find_in_binary_def min_def CONFIG_SLOT_SIZE_def)

text \<open>Reading back what was patched in.\<close>

lemma patch_roundtrip:
  assumes "json_codec to_vec from_slice"
    and "patch_binary to_vec c template = Inr patched"
  shows "find_in_binary from_slice patched = Inr (Some c) \<and>
         startup_config from_slice (Inr patched) = c"
proof -
  from assms(2) obtain pos s where pos: "find_subslice template CONFIG_MAGIC = Some pos"
    and len: "pos + 27 + CONFIG_SLOT_SIZE \<le> length template"
    and s: "to_slot_bytes to_vec c = Inr s"
    and p: "patched = take (pos + 27) template @ s @ drop (pos + 27 + CONFIG_SLOT_SIZE) template"
    by (auto simp: patch_binary_Inr)
  have ls: "length s = CONFIG_SLOT_SIZE" using s by (rule length_slot)
  have "find_subslice patched CONFIG_MAGIC = Some pos"
    unfolding p by (rule patched_marker [OF pos]) (use len in simp)
  from find_in_binary_at [OF this] have "find_in_binary from_slice patched = Inr (Some c)"
    using len ls slot_roundtrip [OF assms(1) s] by (simp add: p)
  then show ?thesis by (simp add: startup_config_def read_from_current_exe_def)
qed

section \<open>Properties\<close>

text \<open>
  C17. The round trip the download feature rests on: whatever configuration the server patches into
  whatever template, the client that reads the patched file at startup finds that configuration.
\<close>

theorem patch_then_startup:
  assumes "json_codec to_vec from_slice"
    and "patch_binary to_vec c template = Inr patched"
  shows "find_in_binary from_slice patched = Inr (Some c) \<and>
         startup_config from_slice (Inr patched) = c"
  using assms by (rule patch_roundtrip)

text \<open>A codec that serialises one configuration, for the witnesses.\<close>

definition wit_config :: embedded_config where
  "wit_config = \<lparr>cfg_server_url = Some ''wss://h/ws'', cfg_device_name = None\<rparr>"

definition wit_to_vec :: to_vec where
  "wit_to_vec c = (if c = wit_config then Inr [123, 125] else Inl ''unsupported'')"

definition wit_from_slice :: from_slice where
  "wit_from_slice js = (if js = [123, 125] then Inr wit_config else Inl ''EOF'')"

definition wit_template :: bytes where
  "wit_template = [127, 69] @ CONFIG_MAGIC @ replicate 4096 0 @ [7]"

lemma wit_codec: "json_codec wit_to_vec wit_from_slice"
  by (auto simp: json_codec_def wit_to_vec_def wit_from_slice_def split: if_splits)

lemma wit_marker: "find_subslice wit_template CONFIG_MAGIC = Some 2"
  by (auto simp: wit_template_def find_subslice_Some CONFIG_MAGIC_def less_Suc_eq numeral_2_eq_2)

lemma wit_slot: "to_slot_bytes wit_to_vec wit_config = Inr (123 # 125 # replicate 4094 0)"
  by (simp add: to_slot_bytes_def wit_to_vec_def CONFIG_SLOT_SIZE_def)

definition wit_patched :: bytes where
  "wit_patched = [127, 69] @ CONFIG_MAGIC @ (123 # 125 # replicate 4094 0) @ [7]"

lemma wit_patch: "patch_binary wit_to_vec wit_config wit_template = Inr wit_patched"
  using wit_marker wit_slot
  by (simp add: patch_binary_Inr wit_patched_def CONFIG_SLOT_SIZE_def wit_template_def)

theorem patch_then_startup_witness:
  "find_in_binary wit_from_slice wit_patched = Inr (Some wit_config) \<and>
   startup_config wit_from_slice (Inr wit_patched) = wit_config"
  using patch_then_startup [OF wit_codec wit_patch] .

text \<open>
  Patching is local: the result has the template's length, differs from it only inside the
  4096-byte slot behind the first marker, and holds the null-padded JSON text there.
\<close>

theorem patch_is_local:
  assumes "patch_binary to_vec c template = Inr patched"
  shows "\<exists>pos js. find_subslice template CONFIG_MAGIC = Some pos \<and> to_vec c = Inr js \<and>
     length patched = length template \<and>
     take (pos + length CONFIG_MAGIC) patched = take (pos + length CONFIG_MAGIC) template \<and>
     drop (pos + TOTAL_LEN) patched = drop (pos + TOTAL_LEN) template \<and>
     take CONFIG_SLOT_SIZE (drop (pos + length CONFIG_MAGIC) patched) =
       js @ replicate (CONFIG_SLOT_SIZE - length js) 0"
proof -
  from assms obtain pos js where pos: "find_subslice template CONFIG_MAGIC = Some pos"
    and len: "pos + 27 + CONFIG_SLOT_SIZE \<le> length template"
    and js: "to_vec c = Inr js" "length js \<le> CONFIG_SLOT_SIZE"
    and p: "patched = take (pos + 27) template @ (js @ replicate (CONFIG_SLOT_SIZE - length js) 0)
              @ drop (pos + 27 + CONFIG_SLOT_SIZE) template"
    by (auto simp: patch_binary_Inr to_slot_bytes_Inr)
  show ?thesis
    using pos len js by (intro exI [of _ pos] exI [of _ js]) (simp add: p TOTAL_LEN_def add.assoc)
qed

theorem patch_is_local_witness:
  "\<exists>pos js. find_subslice wit_template CONFIG_MAGIC = Some pos \<and> wit_to_vec wit_config = Inr js \<and>
     length wit_patched = length wit_template \<and>
     take (pos + length CONFIG_MAGIC) wit_patched = take (pos + length CONFIG_MAGIC) wit_template \<and>
     drop (pos + TOTAL_LEN) wit_patched = drop (pos + TOTAL_LEN) wit_template \<and>
     take CONFIG_SLOT_SIZE (drop (pos + length CONFIG_MAGIC) wit_patched) =
       js @ replicate (CONFIG_SLOT_SIZE - length js) 0"
  using patch_is_local [OF wit_patch] .

text \<open>
  Reconfiguring a download is idempotent: patching an already patched binary gives exactly what
  patching the pristine template gives, errors included.
\<close>

theorem repatch:
  assumes "patch_binary to_vec c template = Inr patched"
  shows "patch_binary to_vec c' patched = patch_binary to_vec c' template"
proof -
  from assms obtain pos s where pos: "find_subslice template CONFIG_MAGIC = Some pos"
    and len: "pos + 27 + CONFIG_SLOT_SIZE \<le> length template"
    and s: "to_slot_bytes to_vec c = Inr s"
    and p: "patched = take (pos + 27) template @ s @ drop (pos + 27 + CONFIG_SLOT_SIZE) template"
    by (auto simp: patch_binary_Inr)
  have ls: "length s = CONFIG_SLOT_SIZE" using s by (rule length_slot)
  have "find_subslice patched CONFIG_MAGIC = Some pos"
    unfolding p by (rule patched_marker [OF pos]) (use len in simp)
  moreover have "length patched = length template" "take (pos + 27) patched = take (pos + 27) template"
    "drop (pos + 27 + CONFIG_SLOT_SIZE) patched = drop (pos + 27 + CONFIG_SLOT_SIZE) template"
    using len ls by (simp_all add: p)
  ultimately show ?thesis
    using pos by (cases "to_slot_bytes to_vec c'") (simp_all add: patch_binary_def Let_def)
qed

theorem repatch_witness:
  "patch_binary wit_to_vec wit_config wit_patched = patch_binary wit_to_vec wit_config wit_template"
  using repatch [OF wit_patch] .

text \<open>
  A pristine build does contain the marker: reading its configuration finds the zeroed slot and
  hands the empty text to the JSON parser, so it is a parse error and not \<open>Ok(None)\<close>.  The module
  documentation says an un-patched build "simply won't find the marker".  The callers fall back to
  the defaults either way.
\<close>

theorem unpatched_build_is_parse_error:
  assumes "find_subslice (pre @ build_marker_slot) CONFIG_MAGIC = Some (length pre)"
    and "from_slice [] = Inl e"
  shows "find_in_binary from_slice (pre @ build_marker_slot @ post) = Inl (ParseError e) \<and>
         startup_config from_slice (Inr (pre @ build_marker_slot @ post)) = default_config"
proof -
  have "find_subslice (pre @ build_marker_slot @ post) CONFIG_MAGIC = Some (length pre)"
    by (rule find_subslice_agree [OF assms(1)]) (simp add: build_marker_slot_eq)
  from find_in_binary_at [OF this]
  have "find_in_binary from_slice (pre @ build_marker_slot @ post) = Inl (ParseError e)"
    using assms(2) from_slot_bytes_zero [of from_slice 4095]
    by (simp add: build_marker_slot_eq CONFIG_SLOT_SIZE_def del: replicate_Suc)
  then show ?thesis by (simp add: startup_config_def read_from_current_exe_def)
qed

theorem unpatched_build_is_parse_error_witness:
  "find_in_binary wit_from_slice ([] @ build_marker_slot @ [1, 2]) = Inl (ParseError ''EOF'') \<and>
   startup_config wit_from_slice (Inr ([] @ build_marker_slot @ [1, 2])) = default_config"
proof (rule unpatched_build_is_parse_error)
  show "find_subslice ([] @ build_marker_slot) CONFIG_MAGIC = Some (length [])"
    by (simp add: build_marker_slot_eq)
  show "wit_from_slice [] = Inl ''EOF''" by (simp add: wit_from_slice_def)
qed

text \<open>
  When patching fails, and why: exactly when the template has no marker, its slot is cut off, the
  configuration cannot be serialised, or its JSON text is longer than the slot.
\<close>

theorem patch_errors:
  "patch_binary to_vec c template = Inl e \<longleftrightarrow>
     (case find_subslice template CONFIG_MAGIC of
        None \<Rightarrow> e = NoMarker
      | Some pos \<Rightarrow>
          if length template < pos + TOTAL_LEN then e = TruncatedSlot
          else (\<exists>m. to_vec c = Inl m \<and> e = SerializeError m) \<or>
               (\<exists>js. to_vec c = Inr js \<and> CONFIG_SLOT_SIZE < length js \<and> e = SlotOverflow (length js)))"
  by (auto simp: patch_binary_def to_slot_bytes_def TOTAL_LEN_def Let_def
      split: option.splits sum.splits)

end
