(* ===== verification/Database.thy ===== *)
theory Database
  imports Visuara_Prelude
begin

text \<open>
  \<^verbatim>\<open>visuara-signaling/src/db.rs\<close>: the four SQLite tables and every method of \<open>Db\<close>.  A table is the
  list of its rows in rowid order, a method is the SQL statement it executes.  The engine can refuse
  any statement (I/O error, locked or full database): the \<open>faults\<close> field is an arbitrary schedule
  of such refusals, one entry consumed per statement, and every theorem is for all schedules unless
  it says otherwise.  \<open>foreign_keys\<close> is the connection's enforcement flag (on in the bundled
  build of SQLite the server links), \<open>wall_clock\<close> is what \<open>strftime('%s','now')\<close> reads.
\<close>

section \<open>Rows and tables\<close>

datatype account_role = User | Admin

fun as_str :: "account_role \<Rightarrow> string" where
  "as_str User = ''user''"
| "as_str Admin = ''admin''"

definition from_column :: "string \<Rightarrow> account_role" where
  "from_column s = (if s = ''admin'' then Admin else User)"

record account =
  acc_id :: int
  acc_email :: string
  acc_password_hash :: string
  acc_role :: account_role

record device =
  dev_id :: string
  dev_account_id :: int
  dev_name :: string
  dev_unattended_password_hash :: "string option"

record account_summary =
  sum_id :: int
  sum_email :: string
  sum_created_at :: int
  sum_role :: account_role

record account_row =
  ar_id :: int
  ar_email :: string
  ar_password_hash :: string
  ar_created_at :: int
  ar_role :: string

record device_row =
  dr_id :: string
  dr_account_id :: int
  dr_name :: string
  dr_unattended_password_hash :: "string option"
  dr_created_at :: int

record session_row =
  sr_token :: string
  sr_account_id :: int
  sr_created_at :: int

record db =
  accounts_tbl :: "account_row list"
  accounts_seq :: int
  devices_tbl :: "device_row list"
  settings_tbl :: "string \<rightharpoonup> string"
  sessions_tbl :: "session_row list"
  foreign_keys :: bool
  wall_clock :: int
  faults :: "string option list"

type_synonym 'a db_op = "db \<Rightarrow> (string, 'a) result \<times> db"

section \<open>Statements and transactions\<close>

definition stmt :: "'a db_op \<Rightarrow> 'a db_op" where
  "stmt body d =
     (case faults d of
        [] \<Rightarrow> body d
      | None # fs \<Rightarrow> body (d\<lparr>faults := fs\<rparr>)
      | Some e # fs \<Rightarrow> (Inl e, d\<lparr>faults := fs\<rparr>))"

text \<open>Sequencing with Rust's \<open>?\<close>, and a transaction that is rolled back when it is dropped.\<close>

definition and_then :: "'a db_op \<Rightarrow> ('a \<Rightarrow> 'b db_op) \<Rightarrow> 'b db_op" where
  "and_then m f d = (case m d of (Inl e, d') \<Rightarrow> (Inl e, d') | (Inr x, d') \<Rightarrow> f x d')"

definition transaction :: "'a db_op \<Rightarrow> 'a db_op" where
  "transaction body d =
     (case body d of (Inl e, d') \<Rightarrow> (Inl e, d\<lparr>faults := faults d'\<rparr>) | (Inr x, d') \<Rightarrow> (Inr x, d'))"

definition query_row :: "'a list \<Rightarrow> 'a option" where
  "query_row rows = (case rows of [] \<Rightarrow> None | r # _ \<Rightarrow> Some r)"

definition fk_error :: string where
  "fk_error = ''FOREIGN KEY constraint failed''"

definition unique_error :: "string \<Rightarrow> string" where
  "unique_error column = ''UNIQUE constraint failed: '' @ column"

definition account_exists :: "int \<Rightarrow> db \<Rightarrow> bool" where
  "account_exists i d \<longleftrightarrow> list_ex (\<lambda>r. ar_id r = i) (accounts_tbl d)"

definition map_account_row :: "account_row \<Rightarrow> account" where
  "map_account_row r = \<lparr>acc_id = ar_id r, acc_email = ar_email r,
     acc_password_hash = ar_password_hash r, acc_role = from_column (ar_role r)\<rparr>"

definition map_device_row :: "device_row \<Rightarrow> device" where
  "map_device_row r = \<lparr>dev_id = dr_id r, dev_account_id = dr_account_id r, dev_name = dr_name r,
     dev_unattended_password_hash = dr_unattended_password_hash r\<rparr>"

section \<open>The methods\<close>

definition get_setting :: "string \<Rightarrow> string option db_op" where
  "get_setting key = stmt (\<lambda>d. (Inr (settings_tbl d key), d))"

definition set_setting :: "string \<Rightarrow> string \<Rightarrow> unit db_op" where
  "set_setting key v = stmt (\<lambda>d. (Inr (), d\<lparr>settings_tbl := (settings_tbl d)(key \<mapsto> v)\<rparr>))"

definition registration_enabled :: "bool db_op" where
  "registration_enabled =
     and_then (get_setting ''registration_enabled'')
       (\<lambda>r d. (Inr (case r of None \<Rightarrow> True | Some v \<Rightarrow> v = ''true''), d))"

definition set_registration_enabled :: "bool \<Rightarrow> unit db_op" where
  "set_registration_enabled enabled =
     set_setting ''registration_enabled'' (if enabled then ''true'' else ''false'')"

definition count_admins :: "int db_op" where
  "count_admins =
     stmt (\<lambda>d. (Inr (int (length (filter (\<lambda>r. ar_role r = ''admin'') (accounts_tbl d)))), d))"

definition count_accounts :: "int db_op" where
  "count_accounts = stmt (\<lambda>d. (Inr (int (length (accounts_tbl d))), d))"

text \<open>\<open>AUTOINCREMENT\<close>: the next id is one above every id ever used, and the statement fails with
  \<open>SQLITE_FULL\<close> once the largest \<open>i64\<close> has been used.\<close>

definition create_account :: "string \<Rightarrow> string \<Rightarrow> account_role \<Rightarrow> int db_op" where
  "create_account email hash role = stmt (\<lambda>d.
     if list_ex (\<lambda>r. ar_email r = email) (accounts_tbl d) then (Inl (unique_error ''accounts.email''), d)
     else if 2 ^ 63 - 1 \<le> accounts_seq d then (Inl ''database or disk is full'', d)
     else let i = accounts_seq d + 1;
              row = \<lparr>ar_id = i, ar_email = email, ar_password_hash = hash,
                     ar_created_at = wall_clock d, ar_role = as_str role\<rparr>
          in (Inr i, d\<lparr>accounts_tbl := accounts_tbl d @ [row], accounts_seq := i\<rparr>))"

definition find_account_by_email :: "string \<Rightarrow> account option db_op" where
  "find_account_by_email email = stmt (\<lambda>d.
     (Inr (query_row (map map_account_row (filter (\<lambda>r. ar_email r = email) (accounts_tbl d)))), d))"

definition find_account_by_id :: "int \<Rightarrow> account option db_op" where
  "find_account_by_id i = stmt (\<lambda>d.
     (Inr (query_row (map map_account_row (filter (\<lambda>r. ar_id r = i) (accounts_tbl d)))), d))"

definition set_account_role :: "int \<Rightarrow> account_role \<Rightarrow> unit db_op" where
  "set_account_role i role = stmt (\<lambda>d.
     (Inr (), d\<lparr>accounts_tbl :=
        map (\<lambda>r. if ar_id r = i then r\<lparr>ar_role := as_str role\<rparr> else r) (accounts_tbl d)\<rparr>))"

definition delete_account_sessions :: "int \<Rightarrow> unit db_op" where
  "delete_account_sessions i = stmt (\<lambda>d.
     (Inr (), d\<lparr>sessions_tbl := filter (\<lambda>s. sr_account_id s \<noteq> i) (sessions_tbl d)\<rparr>))"

definition delete_account_devices :: "int \<Rightarrow> unit db_op" where
  "delete_account_devices i = stmt (\<lambda>d.
     (Inr (), d\<lparr>devices_tbl := filter (\<lambda>r. dr_account_id r \<noteq> i) (devices_tbl d)\<rparr>))"

definition delete_account_row :: "int \<Rightarrow> unit db_op" where
  "delete_account_row i = stmt (\<lambda>d.
     if foreign_keys d \<and> account_exists i d \<and>
        (list_ex (\<lambda>s. sr_account_id s = i) (sessions_tbl d) \<or>
         list_ex (\<lambda>r. dr_account_id r = i) (devices_tbl d))
     then (Inl fk_error, d)
     else (Inr (), d\<lparr>accounts_tbl := filter (\<lambda>r. ar_id r \<noteq> i) (accounts_tbl d)\<rparr>))"

definition begin_stmt :: "unit db_op" where
  "begin_stmt = stmt (\<lambda>d. (Inr (), d))"

definition commit_stmt :: "unit db_op" where
  "commit_stmt = stmt (\<lambda>d. (Inr (), d))"

definition delete_account :: "int \<Rightarrow> unit db_op" where
  "delete_account i =
     transaction (and_then begin_stmt (\<lambda>_.
       and_then (delete_account_sessions i) (\<lambda>_.
       and_then (delete_account_devices i) (\<lambda>_.
       and_then (delete_account_row i) (\<lambda>_. commit_stmt)))))"

definition create_session :: "string \<Rightarrow> int \<Rightarrow> unit db_op" where
  "create_session token i = stmt (\<lambda>d.
     if list_ex (\<lambda>s. sr_token s = token) (sessions_tbl d) then (Inl (unique_error ''sessions.token''), d)
     else if foreign_keys d \<and> \<not> account_exists i d then (Inl fk_error, d)
     else (Inr (), d\<lparr>sessions_tbl := sessions_tbl d @
             [\<lparr>sr_token = token, sr_account_id = i, sr_created_at = wall_clock d\<rparr>]\<rparr>))"

definition find_session :: "string \<Rightarrow> account option db_op" where
  "find_session token = stmt (\<lambda>d.
     (Inr (query_row [map_account_row a. s \<leftarrow> sessions_tbl d, sr_token s = token,
                                         a \<leftarrow> accounts_tbl d, ar_id a = sr_account_id s]), d))"

definition delete_session :: "string \<Rightarrow> unit db_op" where
  "delete_session token = stmt (\<lambda>d.
     (Inr (), d\<lparr>sessions_tbl := filter (\<lambda>s. sr_token s \<noteq> token) (sessions_tbl d)\<rparr>))"

definition create_device :: "string \<Rightarrow> int \<Rightarrow> string \<Rightarrow> unit db_op" where
  "create_device di i name = stmt (\<lambda>d.
     if list_ex (\<lambda>r. dr_id r = di) (devices_tbl d) then (Inl (unique_error ''devices.id''), d)
     else if foreign_keys d \<and> \<not> account_exists i d then (Inl fk_error, d)
     else (Inr (), d\<lparr>devices_tbl := devices_tbl d @
             [\<lparr>dr_id = di, dr_account_id = i, dr_name = name,
               dr_unattended_password_hash = None, dr_created_at = wall_clock d\<rparr>]\<rparr>))"

definition find_device :: "string \<Rightarrow> device option db_op" where
  "find_device di = stmt (\<lambda>d.
     (Inr (query_row (map map_device_row (filter (\<lambda>r. dr_id r = di) (devices_tbl d)))), d))"

definition list_devices_for_account :: "int \<Rightarrow> device list db_op" where
  "list_devices_for_account i = stmt (\<lambda>d.
     (Inr (map map_device_row (filter (\<lambda>r. dr_account_id r = i) (devices_tbl d))), d))"

definition set_unattended_password_hash :: "string \<Rightarrow> string \<Rightarrow> unit db_op" where
  "set_unattended_password_hash di hash = stmt (\<lambda>d.
     (Inr (), d\<lparr>devices_tbl :=
        map (\<lambda>r. if dr_id r = di then r\<lparr>dr_unattended_password_hash := Some hash\<rparr> else r) (devices_tbl d)\<rparr>))"

text \<open>\<open>ORDER BY created_at\<close> leaves the order of equal timestamps open; rowid order is one choice.\<close>

definition list_all_accounts :: "account_summary list db_op" where
  "list_all_accounts = stmt (\<lambda>d.
     (Inr (map (\<lambda>r. \<lparr>sum_id = ar_id r, sum_email = ar_email r, sum_created_at = ar_created_at r,
                     sum_role = from_column (ar_role r)\<rparr>)
            (sort_key ar_created_at (accounts_tbl d))), d))"

definition delete_device :: "string \<Rightarrow> unit db_op" where
  "delete_device di = stmt (\<lambda>d.
     (Inr (), d\<lparr>devices_tbl := filter (\<lambda>r. dr_id r \<noteq> di) (devices_tbl d)\<rparr>))"

section \<open>Well-formed databases\<close>

text \<open>
  The schema's constraints: primary keys, the unique email column, ids within the sequence counter,
  and, when enforcement is on, no device or session without its account.
\<close>

definition ids_ok :: "db \<Rightarrow> bool" where
  "ids_ok d \<longleftrightarrow> distinct (map ar_id (accounts_tbl d)) \<and>
     (\<forall>i \<in> set (map ar_id (accounts_tbl d)). 1 \<le> i \<and> i \<le> accounts_seq d) \<and>
     0 \<le> accounts_seq d \<and> accounts_seq d < 2 ^ 63"

definition keys_ok :: "db \<Rightarrow> bool" where
  "keys_ok d \<longleftrightarrow> distinct (map ar_email (accounts_tbl d)) \<and> distinct (map dr_id (devices_tbl d)) \<and>
     distinct (map sr_token (sessions_tbl d))"

definition refs_ok :: "db \<Rightarrow> bool" where
  "refs_ok d \<longleftrightarrow>
     (\<forall>i \<in> set (map dr_account_id (devices_tbl d)). account_exists i d) \<and>
     (\<forall>i \<in> set (map sr_account_id (sessions_tbl d)). account_exists i d)"

definition db_wf :: "db \<Rightarrow> bool" where
  "db_wf d \<longleftrightarrow> ids_ok d \<and> keys_ok d \<and> (foreign_keys d \<longrightarrow> refs_ok d)"

lemma account_exists_iff: "account_exists i d \<longleftrightarrow> i \<in> set (map ar_id (accounts_tbl d))"
  by (auto simp: account_exists_def list_ex_iff)

lemma list_ex_key_iff: "list_ex (\<lambda>r. f r = k) xs \<longleftrightarrow> k \<in> set (map f xs)"
  by (auto simp: list_ex_iff)

lemmas db_wf_defs = db_wf_def ids_ok_def keys_ok_def refs_ok_def account_exists_iff list_ex_key_iff

lemma map_update_other:
  "(\<And>r. f (g r) = f r) \<Longrightarrow> map f (map (\<lambda>r. if P r then g r else r) xs) = map f xs"
  by auto

lemma set_map_filter_key: "set (map f (filter (\<lambda>r. f r \<noteq> k) xs)) = set (map f xs) - {k}"
  by auto

definition same_tables :: "db \<Rightarrow> db \<Rightarrow> bool" where
  "same_tables d d' \<longleftrightarrow> d' = d\<lparr>faults := faults d'\<rparr>"

definition has_admin :: "db \<Rightarrow> bool" where
  "has_admin d \<longleftrightarrow> list_ex (\<lambda>r. ar_role r = ''admin'') (accounts_tbl d)"

lemma same_tables_refl [simp]: "same_tables d d"
  by (simp add: same_tables_def)

lemma same_tables_faults [simp]: "same_tables d (d\<lparr>faults := fs\<rparr>)"
  by (simp add: same_tables_def)

lemma same_tables_trans: "same_tables a b \<Longrightarrow> same_tables b c \<Longrightarrow> same_tables a c"
  by (simp add: same_tables_def) (metis db.surjective db.update_convs(8))

lemma same_tablesD:
  assumes "same_tables d d'"
  shows "accounts_tbl d' = accounts_tbl d" "accounts_seq d' = accounts_seq d"
    "devices_tbl d' = devices_tbl d" "settings_tbl d' = settings_tbl d"
    "sessions_tbl d' = sessions_tbl d" "foreign_keys d' = foreign_keys d"
    "wall_clock d' = wall_clock d"
  using assms by (metis same_tables_def db.select_convs db.surjective db.update_convs(8))+

lemma same_tables_iff:
  "same_tables d d' \<longleftrightarrow> accounts_tbl d' = accounts_tbl d \<and> accounts_seq d' = accounts_seq d \<and>
     devices_tbl d' = devices_tbl d \<and> settings_tbl d' = settings_tbl d \<and>
     sessions_tbl d' = sessions_tbl d \<and> foreign_keys d' = foreign_keys d \<and> wall_clock d' = wall_clock d"
  by (cases d; cases d') (auto simp: same_tables_def)

lemma same_tables_wf: "same_tables d d' \<Longrightarrow> db_wf d' \<longleftrightarrow> db_wf d"
  using same_tablesD [of d d'] by (simp add: db_wf_defs)

lemma db_wf_faults [simp]: "db_wf (d\<lparr>faults := fs\<rparr>) \<longleftrightarrow> db_wf d"
  by (simp add: same_tables_wf [OF same_tables_faults])

section \<open>The contract of a database method\<close>

text \<open>
  \<open>db_step\<close>: a method keeps the schema's constraints, the connection's settings and only consumes
  faults.  \<open>db_method\<close> adds atomicity: a method that returns an error has changed no table.
  \<open>db_query\<close> is the stronger contract of the read-only methods.
\<close>

locale db_step =
  fixes op :: "'a db_op"
  assumes wf: "db_wf d \<Longrightarrow> db_wf (snd (op d))"
    and env: "foreign_keys (snd (op d)) = foreign_keys d \<and> wall_clock (snd (op d)) = wall_clock d"
    and consumes: "\<exists>k. faults (snd (op d)) = drop k (faults d)"
begin

lemma fault_free: "faults d = [] \<Longrightarrow> faults (snd (op d)) = []"
  using consumes [of d] by auto

end

locale db_method = db_step +
  assumes atomic: "fst (op d) = Inl e \<Longrightarrow> same_tables d (snd (op d))"
begin

lemma error_keeps_admin: "fst (op d) = Inl e \<Longrightarrow> has_admin (snd (op d)) = has_admin d"
  using atomic [of d e] by (simp add: has_admin_def same_tablesD)

end

locale db_query =
  fixes op :: "'a db_op"
  assumes read_only: "same_tables d (snd (op d))"
    and consumes_q: "\<exists>k. faults (snd (op d)) = drop k (faults d)"
begin

sublocale db_method op
  by unfold_locales
    (use read_only consumes_q same_tablesD [OF read_only] in
      \<open>auto simp: same_tables_wf [OF read_only]\<close>)

lemma is_method: "db_method op"
  by (rule db_method_axioms)

end

text \<open>A single statement satisfies the contract when its body does.\<close>

definition body_ok :: "'a db_op \<Rightarrow> bool" where
  "body_ok b \<longleftrightarrow> (\<forall>d. foreign_keys (snd (b d)) = foreign_keys d \<and> wall_clock (snd (b d)) = wall_clock d \<and>
     faults (snd (b d)) = faults d \<and> (db_wf d \<longrightarrow> db_wf (snd (b d))) \<and>
     (\<forall>e. fst (b d) = Inl e \<longrightarrow> snd (b d) = d))"

lemma stmt_cases:
  obtains (fault) e fs where "faults d = Some e # fs" "stmt b d = (Inl e, d\<lparr>faults := fs\<rparr>)"
  | (run) d' k where "same_tables d d'" "faults d' = drop k (faults d)" "stmt b d = b d'"
proof (cases "faults d")
  case Nil
  then show ?thesis using run [of d 0] by (simp add: stmt_def)
next
  case (Cons x fs)
  then show ?thesis
    using fault run [of "d\<lparr>faults := fs\<rparr>" 1] by (cases x) (auto simp: stmt_def)
qed

lemma stmt_method: "body_ok b \<Longrightarrow> db_method (stmt b)"
proof
  fix d assume b: "body_ok b" and "db_wf d"
  then show "db_wf (snd (stmt b d))"
    by (cases rule: stmt_cases [of d b]) (auto simp: body_ok_def same_tables_wf)
next
  fix d assume b: "body_ok b"
  then show "foreign_keys (snd (stmt b d)) = foreign_keys d \<and> wall_clock (snd (stmt b d)) = wall_clock d"
    by (cases rule: stmt_cases [of d b]) (auto simp: body_ok_def same_tablesD)
next
  fix d assume b: "body_ok b"
  then show "\<exists>k. faults (snd (stmt b d)) = drop k (faults d)"
  proof (cases rule: stmt_cases [of d b])
    case fault
    then show ?thesis by (auto intro: exI [of _ 1])
  next
    case run
    then show ?thesis using b by (auto simp: body_ok_def)
  qed
next
  fix d e assume b: "body_ok b" and "fst (stmt b d) = Inl e"
  then show "same_tables d (snd (stmt b d))"
    by (cases rule: stmt_cases [of d b]) (auto simp: body_ok_def)
qed

lemma stmt_query: "(\<And>d. snd (b d) = d) \<Longrightarrow> db_query (stmt b)"
proof
  fix d assume b: "\<And>d. snd (b d) = d"
  show "same_tables d (snd (stmt b d))"
    by (cases rule: stmt_cases [of d b]) (auto simp: b)
  show "\<exists>k. faults (snd (stmt b d)) = drop k (faults d)"
    by (cases rule: stmt_cases [of d b]) (auto simp: b intro: exI [of _ 1])
qed

lemma and_then_step:
  assumes "db_step m" and "\<And>x. db_step (f x)"
  shows "db_step (and_then m f)"
proof -
  have "db_wf (snd (and_then m f d))" if "db_wf d" for d
    using db_step.wf [OF assms(1) that] db_step.wf [OF assms(2)]
    by (auto simp: and_then_def split: prod.splits sum.splits)
  moreover have "foreign_keys (snd (and_then m f d)) = foreign_keys d \<and>
      wall_clock (snd (and_then m f d)) = wall_clock d" for d
    using db_step.env [OF assms(1), of d] db_step.env [OF assms(2)]
    by (auto simp: and_then_def split: prod.splits sum.splits)
  moreover have "\<exists>k. faults (snd (and_then m f d)) = drop k (faults d)" for d
  proof -
    obtain k where k: "faults (snd (m d)) = drop k (faults d)"
      using db_step.consumes [OF assms(1)] by blast
    show ?thesis
    proof (cases "m d")
      case (Pair r d')
      show ?thesis
      proof (cases r)
        case (Inl e)
        then show ?thesis using Pair k by (auto simp: and_then_def)
      next
        case (Inr x)
        obtain j where "faults (snd (f x d')) = drop j (faults d')"
          using db_step.consumes [OF assms(2)] by blast
        then show ?thesis using Pair Inr k by (auto simp: and_then_def)
      qed
    qed
  qed
  ultimately show ?thesis by unfold_locales auto
qed

lemma transaction_method:
  assumes "db_step m"
  shows "db_method (transaction m)"
proof
  fix d
  have e: "foreign_keys (snd (m d)) = foreign_keys d \<and> wall_clock (snd (m d)) = wall_clock d"
    by (rule db_step.env [OF assms])
  obtain k where k: "faults (snd (m d)) = drop k (faults d)"
    using db_step.consumes [OF assms] by blast
  show "foreign_keys (snd (transaction m d)) = foreign_keys d \<and>
      wall_clock (snd (transaction m d)) = wall_clock d"
    using e by (auto simp: transaction_def split: prod.splits sum.splits)
  show "\<exists>k. faults (snd (transaction m d)) = drop k (faults d)"
    using k by (auto simp: transaction_def split: prod.splits sum.splits)
  show "db_wf (snd (transaction m d))" if "db_wf d"
    using that db_step.wf [OF assms that]
    by (auto simp: transaction_def split: prod.splits sum.splits)
  show "same_tables d (snd (transaction m d))" if "fst (transaction m d) = Inl e" for e
    using that by (auto simp: transaction_def split: prod.splits sum.splits)
qed

lemmas method_is_step = db_method.axioms(1)

lemmas query_is_method = db_query.is_method
lemmas query_is_step = query_is_method [THEN method_is_step]

section \<open>Every method meets its contract\<close>

lemmas query_rules = stmt_query

interpretation get_setting: db_query "get_setting key" for key
  unfolding get_setting_def by (rule stmt_query) simp

interpretation count_admins: db_query count_admins
  unfolding count_admins_def by (rule stmt_query) simp

interpretation count_accounts: db_query count_accounts
  unfolding count_accounts_def by (rule stmt_query) simp

interpretation find_account_by_email: db_query "find_account_by_email email" for email
  unfolding find_account_by_email_def by (rule stmt_query) simp

interpretation find_account_by_id: db_query "find_account_by_id i" for i
  unfolding find_account_by_id_def by (rule stmt_query) simp

interpretation find_session: db_query "find_session token" for token
  unfolding find_session_def by (rule stmt_query) simp

interpretation find_device: db_query "find_device di" for di
  unfolding find_device_def by (rule stmt_query) simp

interpretation list_devices_for_account: db_query "list_devices_for_account i" for i
  unfolding list_devices_for_account_def by (rule stmt_query) simp

interpretation list_all_accounts: db_query list_all_accounts
  unfolding list_all_accounts_def by (rule stmt_query) simp

lemma registration_enabled_snd: "snd (registration_enabled d) = snd (get_setting ''registration_enabled'' d)"
  by (auto simp: registration_enabled_def and_then_def split: prod.splits sum.splits)

interpretation registration_enabled: db_query registration_enabled
  by unfold_locales (simp_all add: registration_enabled_snd get_setting.read_only get_setting.consumes_q)

interpretation set_setting: db_method "set_setting key v" for key v
  unfolding set_setting_def by (rule stmt_method) (simp add: body_ok_def db_wf_defs)

interpretation set_registration_enabled: db_method "set_registration_enabled b" for b
  unfolding set_registration_enabled_def by (rule set_setting.db_method_axioms)

interpretation create_account: db_method "create_account email hash role" for email hash role
  unfolding create_account_def
  by (rule stmt_method) (fastforce simp: body_ok_def db_wf_defs Let_def)

interpretation set_account_role: db_method "set_account_role i role" for i role
  unfolding set_account_role_def
  by (rule stmt_method) (simp add: body_ok_def db_wf_defs map_update_other del: map_map)

interpretation delete_account_sessions: db_method "delete_account_sessions i" for i
  unfolding delete_account_sessions_def
  by (rule stmt_method) (auto simp: body_ok_def db_wf_defs distinct_map_filter)

interpretation delete_account_devices: db_method "delete_account_devices i" for i
  unfolding delete_account_devices_def
  by (rule stmt_method) (auto simp: body_ok_def db_wf_defs distinct_map_filter)

lemma delete_row_wf:
  assumes "db_wf d"
    and "\<not> (foreign_keys d \<and> account_exists i d \<and>
           (list_ex (\<lambda>s. sr_account_id s = i) (sessions_tbl d) \<or>
            list_ex (\<lambda>r. dr_account_id r = i) (devices_tbl d)))"
  shows "db_wf (d\<lparr>accounts_tbl := filter (\<lambda>r. ar_id r \<noteq> i) (accounts_tbl d)\<rparr>)" (is "db_wf ?d'")
proof -
  have "refs_ok ?d'" if fk: "foreign_keys d"
  proof -
    from assms(1) fk have r: "refs_ok d" by (simp add: db_wf_def)
    have ex: "account_exists j ?d' \<longleftrightarrow> account_exists j d \<and> j \<noteq> i" for j
      by (auto simp: account_exists_def list_ex_iff)
    have "account_exists j ?d'" if "j \<in> set (map dr_account_id (devices_tbl d))" for j
      using that r fk assms(2) by (auto simp: ex refs_ok_def list_ex_key_iff simp del: set_map)
    moreover have "account_exists j ?d'" if "j \<in> set (map sr_account_id (sessions_tbl d))" for j
      using that r fk assms(2) by (auto simp: ex refs_ok_def list_ex_key_iff simp del: set_map)
    ultimately show ?thesis unfolding refs_ok_def by simp
  qed
  moreover have "ids_ok ?d'" "keys_ok ?d'"
    using assms(1) by (auto simp: db_wf_def ids_ok_def keys_ok_def distinct_map_filter)
  ultimately show ?thesis by (simp add: db_wf_def)
qed

interpretation delete_account_row: db_method "delete_account_row i" for i
  unfolding delete_account_row_def
  by (rule stmt_method) (simp add: body_ok_def delete_row_wf)

interpretation begin_stmt: db_method begin_stmt
  unfolding begin_stmt_def by (rule stmt_method) (simp add: body_ok_def)

interpretation commit_stmt: db_method commit_stmt
  unfolding commit_stmt_def by (rule stmt_method) (simp add: body_ok_def)

interpretation delete_account: db_method "delete_account i" for i
  unfolding delete_account_def
  by (intro transaction_method and_then_step begin_stmt.db_step_axioms commit_stmt.db_step_axioms
      delete_account_sessions.db_step_axioms delete_account_devices.db_step_axioms
      delete_account_row.db_step_axioms)

interpretation create_session: db_method "create_session token i" for token i
  unfolding create_session_def
  by (rule stmt_method) (auto simp: body_ok_def db_wf_defs)

interpretation delete_session: db_method "delete_session token" for token
  unfolding delete_session_def
  by (rule stmt_method) (auto simp: body_ok_def db_wf_defs distinct_map_filter)

interpretation create_device: db_method "create_device di i name" for di i name
  unfolding create_device_def
  by (rule stmt_method) (auto simp: body_ok_def db_wf_defs)

interpretation set_unattended_password_hash: db_method "set_unattended_password_hash di h" for di h
  unfolding set_unattended_password_hash_def
  by (rule stmt_method) (simp add: body_ok_def db_wf_defs map_update_other del: map_map)

interpretation delete_device: db_method "delete_device di" for di
  unfolding delete_device_def
  by (rule stmt_method) (auto simp: body_ok_def db_wf_defs distinct_map_filter)

end
