(* ===== verification/Database_Schema.thy ===== *)
theory Database_Schema
  imports Database
begin

text \<open>
  \<open>Db::open\<close> and \<open>ensure_column\<close> of \<^verbatim>\<open>visuara-signaling/src/db.rs\<close>: how the server brings a database file,
  new, current or from before the role column, to the schema the rest of the program uses.  A file is
  its catalogue (the columns of each table) and the rows of each table; a row gives a value to each
  column.  Any statement can be refused, as in \<open>Database\<close>: the schedule of refusals is an argument and
  what is left of it a result.
\<close>

section \<open>Database files\<close>

datatype sql_value = Null | Integer int | Text string

type_synonym sql_row = "string \<rightharpoonup> sql_value"

record db_file =
  catalog :: "string \<rightharpoonup> string list"
  table_rows :: "string \<Rightarrow> sql_row list"
  sequence :: int  \<comment> \<open>the entry of \<open>accounts\<close> in \<open>sqlite_sequence\<close>\<close>

type_synonym 'a file_op = "string option list \<Rightarrow> db_file \<Rightarrow> (string, 'a) result \<times> string option list \<times> db_file"

definition file_stmt :: "(db_file \<Rightarrow> 'a \<times> db_file) \<Rightarrow> 'a file_op" where
  "file_stmt act fs f =
     (case fs of
        Some e # fs' \<Rightarrow> (Inl e, fs', f)
      | None # fs' \<Rightarrow> (case act f of (x, f') \<Rightarrow> (Inr x, fs', f'))
      | [] \<Rightarrow> (case act f of (x, f') \<Rightarrow> (Inr x, [], f')))"

definition exec :: "(db_file \<Rightarrow> db_file) \<Rightarrow> unit file_op" where
  "exec change = file_stmt (\<lambda>f. ((), change f))"

definition file_then :: "unit file_op \<Rightarrow> 'a file_op \<Rightarrow> 'a file_op" where
  "file_then m k fs f = (case m fs f of (Inl e, fs', f') \<Rightarrow> (Inl e, fs', f') | (Inr _, fs', f') \<Rightarrow> k fs' f')"

text \<open>\<open>CREATE TABLE IF NOT EXISTS\<close> and \<open>ALTER TABLE \<dots> ADD COLUMN\<close> with a constant default.\<close>

definition create_table :: "string \<Rightarrow> string list \<Rightarrow> db_file \<Rightarrow> db_file" where
  "create_table t cols f =
     (if catalog f t = None
      then f\<lparr>catalog := (catalog f)(t \<mapsto> cols), table_rows := (table_rows f)(t := [])\<rparr> else f)"

definition add_column :: "string \<Rightarrow> string \<Rightarrow> sql_value \<Rightarrow> db_file \<Rightarrow> db_file" where
  "add_column t c v f =
     f\<lparr>catalog := (catalog f)(t := map_option (\<lambda>cols. cols @ [c]) (catalog f t)),
       table_rows := (table_rows f)(t := map (\<lambda>r. r(c \<mapsto> v)) (table_rows f t))\<rparr>"

definition has_column :: "string \<Rightarrow> string \<Rightarrow> db_file \<Rightarrow> bool" where
  "has_column t c f \<longleftrightarrow> (case catalog f t of None \<Rightarrow> False | Some cols \<Rightarrow> c \<in> set cols)"

section \<open>Opening\<close>

definition ensure_column :: "string \<Rightarrow> string \<Rightarrow> sql_value \<Rightarrow> unit file_op" where
  "ensure_column t c v fs f =
     (case file_stmt (\<lambda>f. (has_column t c f, f)) fs f of
        (Inl e, fs1, f1) \<Rightarrow> (Inl e, fs1, f1)
      | (Inr exists, fs1, f1) \<Rightarrow>
          if exists then (Inr (), fs1, f1) else exec (add_column t c v) fs1 f1)"

text \<open>The four statements of the batch.  \<open>execute_batch\<close> runs them one after the other and stops at
  the first that fails.\<close>

definition create_accounts :: "db_file \<Rightarrow> db_file" where
  "create_accounts = create_table ''accounts'' [''id'', ''email'', ''password_hash'', ''created_at'']"

definition create_devices :: "db_file \<Rightarrow> db_file" where
  "create_devices =
     create_table ''devices'' [''id'', ''account_id'', ''name'', ''unattended_password_hash'', ''created_at'']"

definition create_settings :: "db_file \<Rightarrow> db_file" where
  "create_settings = create_table ''settings'' [''key'', ''value'']"

definition create_sessions :: "db_file \<Rightarrow> db_file" where
  "create_sessions = create_table ''sessions'' [''token'', ''account_id'', ''created_at'']"

definition create_tables :: "unit file_op" where
  "create_tables =
     file_then (exec create_accounts) (file_then (exec create_devices)
       (file_then (exec create_settings) (exec create_sessions)))"

definition db_open :: "unit file_op" where
  "db_open = file_then create_tables (ensure_column ''accounts'' ''role'' (Text ''user''))"

text \<open>What the statements of \<open>Db\<close> see of an opened file.  Columns are read at the type the schema declares.\<close>

definition sql_int :: "sql_value option \<Rightarrow> int" where
  "sql_int v = (case v of Some (Integer i) \<Rightarrow> i | _ \<Rightarrow> 0)"

definition sql_text :: "sql_value option \<Rightarrow> string" where
  "sql_text v = (case v of Some (Text s) \<Rightarrow> s | _ \<Rightarrow> [])"

definition sql_nullable :: "sql_value option \<Rightarrow> string option" where
  "sql_nullable v = (case v of Some (Text s) \<Rightarrow> Some s | _ \<Rightarrow> None)"

definition read_account :: "sql_row \<Rightarrow> account_row" where
  "read_account r = \<lparr>ar_id = sql_int (r ''id''), ar_email = sql_text (r ''email''),
     ar_password_hash = sql_text (r ''password_hash''), ar_created_at = sql_int (r ''created_at''),
     ar_role = sql_text (r ''role'')\<rparr>"

definition read_device :: "sql_row \<Rightarrow> device_row" where
  "read_device r = \<lparr>dr_id = sql_text (r ''id''), dr_account_id = sql_int (r ''account_id''),
     dr_name = sql_text (r ''name''), dr_unattended_password_hash = sql_nullable (r ''unattended_password_hash''),
     dr_created_at = sql_int (r ''created_at'')\<rparr>"

definition read_session :: "sql_row \<Rightarrow> session_row" where
  "read_session r = \<lparr>sr_token = sql_text (r ''token''), sr_account_id = sql_int (r ''account_id''),
     sr_created_at = sql_int (r ''created_at'')\<rparr>"

definition read_db :: "int \<Rightarrow> db_file \<Rightarrow> db" where
  "read_db now f = \<lparr>accounts_tbl = map read_account (table_rows f ''accounts''), accounts_seq = sequence f,
     devices_tbl = map read_device (table_rows f ''devices''),
     settings_tbl = map_of (map (\<lambda>r. (sql_text (r ''key''), sql_text (r ''value''))) (table_rows f ''settings'')),
     sessions_tbl = map read_session (table_rows f ''sessions''),
     foreign_keys = True, wall_clock = now, faults = []\<rparr>"

section \<open>What opening does\<close>

text \<open>The reference: every missing table is created empty, and a missing role column is added.\<close>

definition all_tables :: "db_file \<Rightarrow> db_file" where
  "all_tables f = create_sessions (create_settings (create_devices (create_accounts f)))"

definition with_role :: "db_file \<Rightarrow> db_file" where
  "with_role f =
     (if has_column ''accounts'' ''role'' f then f else add_column ''accounts'' ''role'' (Text ''user'') f)"

definition upgraded :: "db_file \<Rightarrow> db_file" where
  "upgraded f = with_role (all_tables f)"

lemmas creates = create_accounts_def create_devices_def create_settings_def create_sessions_def

lemma create_table_present: "catalog f t \<noteq> None \<Longrightarrow> create_table t cols f = f"
  by (auto simp: create_table_def)

lemma create_table_catalog:
  "catalog (create_table t cols f) u = (if u = t \<and> catalog f t = None then Some cols else catalog f u)"
  by (simp add: create_table_def)

lemma create_table_commute:
  "t \<noteq> u \<Longrightarrow> create_table t cols (create_table u cols' f) = create_table u cols' (create_table t cols f)"
  by (cases "catalog f t"; cases "catalog f u") (simp_all add: create_table_def fun_upd_twist)

lemma creates_idem:
  "create_accounts (create_accounts f) = create_accounts f" "create_devices (create_devices f) = create_devices f"
  "create_settings (create_settings f) = create_settings f" "create_sessions (create_sessions f) = create_sessions f"
  by (simp_all add: creates create_table_present create_table_catalog)

lemma creates_commute:
  "create_accounts (create_devices f) = create_devices (create_accounts f)"
  "create_accounts (create_settings f) = create_settings (create_accounts f)"
  "create_accounts (create_sessions f) = create_sessions (create_accounts f)"
  "create_devices (create_settings f) = create_settings (create_devices f)"
  "create_devices (create_sessions f) = create_sessions (create_devices f)"
  "create_settings (create_sessions f) = create_sessions (create_settings f)"
  unfolding creates by (rule create_table_commute; simp)+

lemma all_tables_create:
  "all_tables (create_accounts f) = all_tables f" "all_tables (create_devices f) = all_tables f"
  "all_tables (create_settings f) = all_tables f" "all_tables (create_sessions f) = all_tables f"
  by (simp_all only: all_tables_def creates_commute creates_idem)

lemma create_table_None: "catalog (create_table u cols f) t = None \<longleftrightarrow> t \<noteq> u \<and> catalog f t = None"
  by (auto simp: create_table_def)

lemma creates_catalog:
  "catalog (create_accounts f) t = None \<longleftrightarrow> t \<noteq> ''accounts'' \<and> catalog f t = None"
  "catalog (create_devices f) t = None \<longleftrightarrow> t \<noteq> ''devices'' \<and> catalog f t = None"
  "catalog (create_settings f) t = None \<longleftrightarrow> t \<noteq> ''settings'' \<and> catalog f t = None"
  "catalog (create_sessions f) t = None \<longleftrightarrow> t \<noteq> ''sessions'' \<and> catalog f t = None"
  by (simp_all only: creates create_table_None)

lemma all_tables_catalog:
  "catalog (all_tables f) t = None \<longleftrightarrow>
     catalog f t = None \<and> t \<notin> {''accounts'', ''devices'', ''settings'', ''sessions''}"
  unfolding all_tables_def creates_catalog by blast

lemma all_tables_present:
  "(\<And>t. t \<in> {''accounts'', ''devices'', ''settings'', ''sessions''} \<Longrightarrow> catalog f t \<noteq> None) \<Longrightarrow> all_tables f = f"
  by (simp add: all_tables_def creates create_table_present)

lemma with_role_catalog: "catalog (with_role f) t \<noteq> None \<longleftrightarrow> catalog f t \<noteq> None"
  by (auto simp: with_role_def add_column_def)

lemma with_role_has: "catalog f ''accounts'' \<noteq> None \<Longrightarrow> has_column ''accounts'' ''role'' (with_role f)"
  by (auto simp: with_role_def has_column_def add_column_def)

lemma creates_keep:
  assumes "catalog f t \<noteq> None"
  shows "catalog (create_table u cols f) t = catalog f t" "table_rows (create_table u cols f) t = table_rows f t"
  using assms by (auto simp: create_table_def)

lemma all_tables_keeps:
  assumes "catalog f t \<noteq> None"
  shows "catalog (all_tables f) t = catalog f t" "table_rows (all_tables f) t = table_rows f t"
  using assms by (simp_all add: all_tables_def creates creates_keep)

lemma upgraded_tables: "t \<in> {''accounts'', ''devices'', ''settings'', ''sessions''} \<Longrightarrow> catalog (upgraded f) t \<noteq> None"
  unfolding upgraded_def with_role_catalog all_tables_catalog by simp

lemma upgraded_role: "has_column ''accounts'' ''role'' (upgraded f)"
  unfolding upgraded_def by (rule with_role_has) (simp only: all_tables_catalog, simp)

text \<open>The rows of a table that existed: the role is added to accounts that had none.\<close>

definition role_rows :: "db_file \<Rightarrow> string \<Rightarrow> sql_row list" where
  "role_rows f t =
     (if t = ''accounts'' \<and> \<not> has_column ''accounts'' ''role'' f
      then map (\<lambda>r. r(''role'' \<mapsto> Text ''user'')) (table_rows f t) else table_rows f t)"

lemma upgraded_idem: "upgraded (upgraded f) = upgraded f"
proof -
  have "all_tables (upgraded f) = upgraded f" by (rule all_tables_present) (rule upgraded_tables)
  then show ?thesis using upgraded_role [of f] by (simp add: upgraded_def [of "upgraded f"] with_role_def)
qed

section \<open>The contract of a statement that opens the file\<close>

text \<open>Whatever the engine refuses, a statement moves the file towards the reference and never past it.\<close>

locale file_step =
  fixes m :: "'a file_op"
  assumes towards: "upgraded (snd (snd (m fs f))) = upgraded f"

lemma file_step_exec: "(\<And>f. upgraded (change f) = upgraded f) \<Longrightarrow> file_step (exec change)"
  by unfold_locales (simp add: exec_def file_stmt_def split: list.split option.split)

lemma file_step_then: "file_step m \<Longrightarrow> file_step k \<Longrightarrow> file_step (file_then m k)"
  unfolding file_step_def by (simp add: file_then_def case_prod_beta split: sum.split)

text \<open>The statements of the batch do more: they leave the tables alone that exist.\<close>

locale file_creation = file_step +
  assumes keeps: "catalog f t \<noteq> None \<Longrightarrow>
    catalog (snd (snd (m fs f))) t = catalog f t \<and> table_rows (snd (snd (m fs f))) t = table_rows f t"

lemma file_creation_exec:
  assumes "\<And>f. upgraded (create_table u cols f) = upgraded f"
  shows "file_creation (exec (create_table u cols))"
proof -
  have "file_step (exec (create_table u cols))" by (rule file_step_exec [OF assms])
  then show ?thesis
    by (auto simp: file_creation_def file_creation_axioms_def exec_def file_stmt_def create_table_def split: list.split option.split)
qed

lemma file_creation_then: "file_creation m \<Longrightarrow> file_creation k \<Longrightarrow> file_creation (file_then m k)"
  unfolding file_creation_def file_creation_axioms_def
  by (simp add: file_step_then) (simp add: file_then_def case_prod_beta split: sum.split)

interpretation create_tables: file_creation create_tables
  unfolding create_tables_def creates
  by (intro file_creation_then file_creation_exec)
    (simp_all add: upgraded_def all_tables_create [unfolded creates])

lemma file_then_Inr:
  "file_then m k fs f = (Inr x, fs', f') \<longleftrightarrow>
     (\<exists>u fs1 f1. m fs f = (Inr u, fs1, f1) \<and> k fs1 f1 = (Inr x, fs', f'))"
  by (auto simp: file_then_def split: sum.splits prod.splits)

lemma exec_Inr: "exec change fs f = (Inr u, fs', f') \<Longrightarrow> f' = change f"
  by (auto simp: exec_def file_stmt_def split: list.splits option.splits)

lemma create_tables_Inr: "create_tables fs f = (Inr u, fs', f') \<Longrightarrow> f' = all_tables f"
  unfolding create_tables_def all_tables_def file_then_Inr by (auto dest!: exec_Inr)

lemma ensure_role_Inr:
  "ensure_column ''accounts'' ''role'' (Text ''user'') fs f = (Inr u, fs', f') \<Longrightarrow> f' = with_role f"
  by (auto simp: ensure_column_def file_stmt_def with_role_def split: list.splits option.splits if_splits
      dest: exec_Inr)

lemma db_open_Inr: "db_open fs f = (Inr u, fs', f') \<Longrightarrow> f' = upgraded f"
  unfolding db_open_def upgraded_def file_then_Inr by (auto dest: create_tables_Inr ensure_role_Inr)

lemma ensure_role_cases:
  "snd (snd (ensure_column ''accounts'' ''role'' (Text ''user'') fs f)) \<in> {f, with_role f}"
  by (simp add: ensure_column_def exec_def file_stmt_def with_role_def split: list.split option.split)

lemma with_role_upgraded: "upgraded (with_role (all_tables f)) = upgraded f"
  using upgraded_idem [of f] by (simp add: upgraded_def)

interpretation db_open: file_step db_open
proof
  fix fs f
  show "upgraded (snd (snd (db_open fs f))) = upgraded f"
  proof (cases "fst (create_tables fs f)")
    case (Inl e)
    then show ?thesis using create_tables.towards [of fs f]
      by (simp add: db_open_def file_then_def case_prod_beta)
  next
    case (Inr u)
    have g: "snd (snd (create_tables fs f)) = all_tables f"
      by (rule create_tables_Inr [of fs f u "fst (snd (create_tables fs f))"]) (metis Inr prod.collapse)
    have "all_tables (all_tables f) = all_tables f" by (simp add: all_tables_def creates_commute creates_idem)
    then show ?thesis
      using Inr g ensure_role_cases [of "fst (snd (create_tables fs f))" "all_tables f"] with_role_upgraded [of f]
      by (auto simp: db_open_def file_then_def case_prod_beta upgraded_def)
  qed
qed

lemma upgraded_rows:
  assumes "catalog f t \<noteq> None"
  shows "table_rows (upgraded f) t = role_rows f t"
  using assms all_tables_keeps [OF assms] all_tables_keeps [of f "''accounts''"]
  by (cases "catalog f ''accounts''") (auto simp: upgraded_def with_role_def role_rows_def add_column_def has_column_def)

lemma create_table_rows:
  "table_rows (create_table u cols f) t = (if t = u \<and> catalog f t = None then [] else table_rows f t)"
  by (auto simp: create_table_def)

lemma all_tables_new:
  assumes "catalog f t = None"
  shows "t = ''devices'' \<Longrightarrow> table_rows (all_tables f) t = []"
    and "t = ''sessions'' \<Longrightarrow> table_rows (all_tables f) t = []"
  using assms by (simp_all add: all_tables_def creates create_table_rows create_table_None)

lemma upgraded_new_rows:
  assumes "catalog f t = None" and "t = ''devices'' \<or> t = ''sessions''"
  shows "table_rows (upgraded f) t = []"
  using assms all_tables_new [OF assms(1)] by (auto simp: upgraded_def with_role_def add_column_def)

lemma create_table_sequence: "sequence (create_table u cols f) = sequence f"
  by (simp add: create_table_def)

lemma upgraded_sequence: "sequence (upgraded f) = sequence f"
  by (simp add: upgraded_def with_role_def add_column_def all_tables_def creates create_table_sequence)

lemma db_open_rows:
  assumes "catalog f t \<noteq> None"
  shows "table_rows (snd (snd (db_open fs f))) t = table_rows f t \<or>
     table_rows (snd (snd (db_open fs f))) t = role_rows f t"
proof (cases "fst (create_tables fs f)")
  case (Inl e)
  then show ?thesis using create_tables.keeps [OF assms, of fs]
    by (simp add: db_open_def file_then_def case_prod_beta)
next
  case (Inr u)
  have g: "snd (snd (create_tables fs f)) = all_tables f"
    by (rule create_tables_Inr [of fs f u "fst (snd (create_tables fs f))"]) (metis Inr prod.collapse)
  show ?thesis
    using ensure_role_cases [of "fst (snd (create_tables fs f))" "all_tables f"] Inr g
      all_tables_keeps(2) [OF assms] upgraded_rows [OF assms]
    by (auto simp: db_open_def file_then_def case_prod_beta upgraded_def)
qed

lemma db_open_no_faults: "\<exists>f'. db_open [] f = (Inr (), [], f')"
  by (simp add: db_open_def create_tables_def file_then_def exec_def ensure_column_def file_stmt_def)

section \<open>Properties\<close>

text \<open>The tables of a new database, with the column that \<open>ensure_column\<close> adds.\<close>

definition schema :: "(string \<times> string list) list" where
  "schema =
     [(''accounts'', [''id'', ''email'', ''password_hash'', ''created_at'', ''role'']),
      (''devices'', [''id'', ''account_id'', ''name'', ''unattended_password_hash'', ''created_at'']),
      (''settings'', [''key'', ''value'']), (''sessions'', [''token'', ''account_id'', ''created_at''])]"

lemma all_tables_creates:
  "(t, cols) \<in> set schema \<Longrightarrow> catalog f t = None \<Longrightarrow>
     catalog (all_tables f) t = Some (filter (\<lambda>c. c \<noteq> ''role'') cols) \<and> table_rows (all_tables f) t = []"
proof -
  assume n: "catalog f t = None" and "(t, cols) \<in> set schema"
  then consider "t = ''accounts'' \<and> cols = [''id'', ''email'', ''password_hash'', ''created_at'', ''role'']"
    | "t = ''devices'' \<and> cols = [''id'', ''account_id'', ''name'', ''unattended_password_hash'', ''created_at'']"
    | "t = ''settings'' \<and> cols = [''key'', ''value'']" | "t = ''sessions'' \<and> cols = [''token'', ''account_id'', ''created_at'']"
    unfolding schema_def by fastforce
  then show "catalog (all_tables f) t = Some (filter (\<lambda>c. c \<noteq> ''role'') cols) \<and> table_rows (all_tables f) t = []"
    using n by cases (simp_all add: all_tables_def creates create_table_rows create_table_catalog)
qed

lemma upgraded_creates:
  assumes "(t, cols) \<in> set schema" and "catalog f t = None"
  shows "catalog (upgraded f) t = Some cols \<and> table_rows (upgraded f) t = []"
proof (cases "t = ''accounts''")
  case True
  then have "cols = [''id'', ''email'', ''password_hash'', ''created_at'', ''role'']" using assms(1) by (simp add: schema_def)
  then show ?thesis using all_tables_creates [OF assms] True
    by (simp add: upgraded_def with_role_def add_column_def has_column_def)
next
  case False
  then have "''role'' \<notin> set cols" using assms(1) by (auto simp: schema_def)
  then have "filter (\<lambda>c. c \<noteq> ''role'') cols = cols" by (simp add: filter_id_conv) metis
  then show ?thesis using all_tables_creates [OF assms] False
    by (simp add: upgraded_def with_role_def add_column_def)
qed

text \<open>
  C23. Opening a database is safe to repeat, for any file, a new and empty one included.  An open that succeeds
  leaves the role column and the tables of the schema: one that was missing is there with its columns and no row, and one that was
  there keeps every row, existing accounts getting the role user only if the column was missing.  An open
  that fails at any statement loses no row either, and a later open that succeeds (as one without
  refusals does) gives the same file as if the first had succeeded.
\<close>

theorem open_upgrades_once:
  assumes "db_open fs f = (r, fs', f')"
  shows "(r = Inr () \<longrightarrow> f' = upgraded f \<and> has_column ''accounts'' ''role'' f' \<and>
       (\<forall>(t, cols) \<in> set schema. catalog f' t \<noteq> None \<and>
          (catalog f t = None \<longrightarrow> catalog f' t = Some cols \<and> table_rows f' t = []))) \<and>
     (\<forall>t. catalog f t \<noteq> None \<longrightarrow> table_rows f' t = table_rows f t \<or> table_rows f' t = role_rows f t) \<and>
     (\<forall>fs2 fs3 f2. db_open fs2 f' = (Inr (), fs3, f2) \<longrightarrow> f2 = upgraded f) \<and>
     (\<exists>f2. db_open [] f' = (Inr (), [], f2))"
proof (intro conjI impI)
  assume "r = Inr ()"
  then have f': "f' = upgraded f" using db_open_Inr assms by blast
  then show "f' = upgraded f" "has_column ''accounts'' ''role'' f'" using upgraded_role by blast+
  have "fst x \<in> {''accounts'', ''devices'', ''settings'', ''sessions''}" if "x \<in> set schema" for x
    using that by (auto simp: schema_def)
  then show "\<forall>(t, cols) \<in> set schema. catalog f' t \<noteq> None \<and>
      (catalog f t = None \<longrightarrow> catalog f' t = Some cols \<and> table_rows f' t = [])"
    unfolding f' using upgraded_tables upgraded_creates by fastforce
next
  show "\<forall>t. catalog f t \<noteq> None \<longrightarrow> table_rows f' t = table_rows f t \<or> table_rows f' t = role_rows f t"
    using db_open_rows [of f _ fs] assms by (metis snd_conv)
next
  show "\<forall>fs2 fs3 f2. db_open fs2 f' = (Inr (), fs3, f2) \<longrightarrow> f2 = upgraded f"
    using db_open_Inr db_open.towards [of fs f] assms by fastforce
qed (rule db_open_no_faults)

definition wit_old_file :: db_file where
  "wit_old_file = \<lparr>catalog = [''accounts'' \<mapsto> [''id'', ''email'', ''password_hash'', ''created_at'']],
     table_rows = (\<lambda>t. if t = ''accounts''
       then [[''id'' \<mapsto> Integer 1, ''email'' \<mapsto> Text ''a@b'', ''password_hash'' \<mapsto> Text ''h'', ''created_at'' \<mapsto> Integer 5]]
       else []), sequence = 1\<rparr>"

text \<open>An old file whose open fails after its second statement, and a new one.\<close>

theorem open_upgrades_once_witness:
  "(\<exists>f' f2. db_open [None, Some ''disk I/O error''] wit_old_file = (Inl ''disk I/O error'', [], f') \<and>
     db_open [] f' = (Inr (), [], f2) \<and> f2 = upgraded wit_old_file) \<and>
   (\<exists>f'. db_open [] \<lparr>catalog = Map.empty, table_rows = (\<lambda>_. []), sequence = 0\<rparr> = (Inr (), [], f') \<and>
     catalog f' ''settings'' = Some [''key'', ''value''])"
proof
  obtain f' where 1: "db_open [None, Some ''disk I/O error''] wit_old_file = (Inl ''disk I/O error'', [], f')"
    by (simp add: db_open_def create_tables_def file_then_def exec_def file_stmt_def)
  from open_upgrades_once [OF 1] 1 show "\<exists>f' f2. db_open [None, Some ''disk I/O error''] wit_old_file = (Inl ''disk I/O error'', [], f') \<and>
     db_open [] f' = (Inr (), [], f2) \<and> f2 = upgraded wit_old_file" by blast
next
  let ?new = "\<lparr>catalog = Map.empty, table_rows = (\<lambda>_. []), sequence = 0\<rparr>"
  obtain f' where 1: "db_open [] ?new = (Inr (), [], f')" using db_open_no_faults by blast
  have "(''settings'', [''key'', ''value'']) \<in> set schema" by (simp add: schema_def)
  then have "catalog f' ''settings'' = Some [''key'', ''value'']" using open_upgrades_once [OF 1] by fastforce
  then show "\<exists>f'. db_open [] ?new = (Inr (), [], f') \<and> catalog f' ''settings'' = Some [''key'', ''value'']" using 1 by blast
qed

end
