(* ===== verification/Signaling_Messages.thy ===== *)
theory Signaling_Messages
  imports Visuara_Prelude
begin

text \<open>
  \<^verbatim>\<open>visuara-common/src/signaling.rs\<close>: the messages between a client (host, controller or
  dashboard) and the signaling server.  Their JSON form is produced by \<open>serde_json\<close> and stays
  outside the model: both ends of the WebSocket exchange values of these types.
\<close>

type_synonym device_id = string
type_synonym session_id = string

datatype connect_credential =
  OneTimePassword string
| UnattendedPassword string

datatype client_message =
  Register (cm_email: string) (cm_password: string)
| Login (cm_email: string) (cm_password: string)
| RegisterDevice (cm_name: string)
| ListDevices
| RequestConnection (cm_target: device_id) (cm_credential: connect_credential)
| SdpOffer (cm_session: session_id) (cm_sdp: string)
| SdpAnswer (cm_session: session_id) (cm_sdp: string)
| IceCandidate (cm_session: session_id) (cm_candidate: string)
| RequestTurnCredentials
| SetUnattendedPassword (cm_target: device_id) (cm_password: string)

record device_summary =
  ds_device_id :: device_id
  ds_name :: string
  ds_online :: bool
  ds_unattended_access_enabled :: bool

datatype server_message =
  AuthOk (sm_token: string)
| AuthError (sm_message: string)
| DeviceRegistered (sm_device: device_id) (sm_otp: string)
| DeviceList (sm_devices: "device_summary list")
| IncomingConnection (sm_session: session_id) (sm_from: "device_id option")
| ConnectionEstablished (sm_session: session_id) (sm_target: device_id)
| SrvSdpOffer (sm_session: session_id) (sm_sdp: string)
| SrvSdpAnswer (sm_session: session_id) (sm_sdp: string)
| SrvIceCandidate (sm_session: session_id) (sm_candidate: string)
| TurnCredentials (sm_urls: "string list") (sm_username: string) (sm_password: string) (sm_ttl: u32)
| UnattendedPasswordUpdated (sm_password: string)
| ServerError (sm_message: string)

end
