(* ===== verification/Database_Laws.thy ===== *)
theory Database_Laws
  imports Database
begin

text \<open>
  What the methods of \<open>Db\<close> promise to their callers: results on fault-free databases, lookups
  after updates, the sequences of calls a running server can make, and what deleting an account
  removes.
\<close>

section \<open>Results of statements\<close>

lemma stmt_ok: "faults d = [] \<Longrightarrow> stmt b d = b d"
  by (simp add: stmt_def)

text \<open>A statement that succeeds has run its body on the same tables.\<close>

lemma stmt_Inr:
  assumes "stmt b d = (Inr x, d')"
  obtains d0 where "same_tables d d0" "b d0 = (Inr x, d')"
  using assms by (cases rule: stmt_cases [of d b]) auto

lemma query_row_map_filter:
  "query_row (map f (filter P xs)) = map_option f (find P xs)"
  by (induction xs) (auto simp: query_row_def)

lemma find_key:
  assumes "distinct (map f xs)" and "r \<in> set xs"
  shows "find (\<lambda>s. f s = f r) xs = Some r"
  using assms by (induction xs) auto

lemma find_key_None: "find (\<lambda>s. f s = k) xs = None \<longleftrightarrow> k \<notin> set (map f xs)"
  by (induction xs) auto

lemma get_setting_ok: "faults d = [] \<Longrightarrow> get_setting k d = (Inr (settings_tbl d k), d)"
  by (simp add: get_setting_def stmt_ok)

lemma set_setting_ok:
  "faults d = [] \<Longrightarrow> set_setting k v d = (Inr (), d\<lparr>settings_tbl := (settings_tbl d)(k \<mapsto> v)\<rparr>)"
  by (simp add: set_setting_def stmt_ok)

definition reg_open :: "db \<Rightarrow> bool" where
  "reg_open d \<longleftrightarrow> settings_tbl d ''registration_enabled'' = None \<or>
     settings_tbl d ''registration_enabled'' = Some ''true''"

lemma registration_enabled_ok: "faults d = [] \<Longrightarrow> registration_enabled d = (Inr (reg_open d), d)"
  by (auto simp: registration_enabled_def and_then_def get_setting_ok reg_open_def split: option.splits)

lemma registration_enabled_Inr:
  assumes "registration_enabled d = (Inr b, d')"
  shows "b = reg_open d" and "same_tables d d'"
proof -
  have g: "get_setting ''registration_enabled'' d = (Inr r, d1) \<Longrightarrow>
        r = settings_tbl d ''registration_enabled''" for r d1
    unfolding get_setting_def by (erule stmt_Inr) (auto simp: same_tables_iff)
  show "b = reg_open d"
    using assms g by (auto simp: registration_enabled_def and_then_def reg_open_def
        split: prod.splits sum.splits option.splits)
  show "same_tables d d'"
    using registration_enabled.read_only [of d] assms by simp
qed

definition account_of :: "db \<Rightarrow> int \<Rightarrow> account option" where
  "account_of d i = map_option map_account_row (find (\<lambda>r. ar_id r = i) (accounts_tbl d))"

definition account_by_email :: "db \<Rightarrow> string \<Rightarrow> account option" where
  "account_by_email d email = map_option map_account_row (find (\<lambda>r. ar_email r = email) (accounts_tbl d))"

definition device_of :: "db \<Rightarrow> string \<Rightarrow> device option" where
  "device_of d di = map_option map_device_row (find (\<lambda>r. dr_id r = di) (devices_tbl d))"

definition session_of :: "db \<Rightarrow> string \<Rightarrow> account option" where
  "session_of d token =
     Option.bind (find (\<lambda>s. sr_token s = token) (sessions_tbl d)) (\<lambda>s. account_of d (sr_account_id s))"

lemma find_account_by_id_Inr:
  "find_account_by_id i d = (Inr r, d') \<Longrightarrow> r = account_of d i \<and> same_tables d d'"
  unfolding find_account_by_id_def
  by (elim stmt_Inr) (auto simp: same_tables_iff account_of_def query_row_map_filter)

lemma find_account_by_email_Inr:
  "find_account_by_email e d = (Inr r, d') \<Longrightarrow> r = account_by_email d e \<and> same_tables d d'"
  unfolding find_account_by_email_def
  by (elim stmt_Inr) (auto simp: same_tables_iff account_by_email_def query_row_map_filter)

lemma find_device_Inr:
  "find_device i d = (Inr r, d') \<Longrightarrow> r = device_of d i \<and> same_tables d d'"
  unfolding find_device_def
  by (elim stmt_Inr) (auto simp: same_tables_iff device_of_def query_row_map_filter)

lemma find_account_by_id_ok: "faults d = [] \<Longrightarrow> find_account_by_id i d = (Inr (account_of d i), d)"
  by (simp add: find_account_by_id_def stmt_ok account_of_def query_row_map_filter)

lemma find_account_by_email_ok:
  "faults d = [] \<Longrightarrow> find_account_by_email e d = (Inr (account_by_email d e), d)"
  by (simp add: find_account_by_email_def stmt_ok account_by_email_def query_row_map_filter)

lemma find_device_ok: "faults d = [] \<Longrightarrow> find_device i d = (Inr (device_of d i), d)"
  by (simp add: find_device_def stmt_ok device_of_def query_row_map_filter)

text \<open>The join of \<open>find_session\<close>, when tokens and account ids are keys.\<close>

lemma join_one:
  assumes "distinct (map sr_token ss)" and "distinct (map ar_id aa)"
  shows "query_row [map_account_row a. s \<leftarrow> ss, sr_token s = t, a \<leftarrow> aa, ar_id a = sr_account_id s] =
    Option.bind (find (\<lambda>s. sr_token s = t) ss)
      (\<lambda>s. map_option map_account_row (find (\<lambda>a. ar_id a = sr_account_id s) aa))"
  using assms(1)
proof (induction ss)
  case Nil
  then show ?case by (simp add: query_row_def)
next
  case (Cons s ss)
  have acc: "concat (map (\<lambda>a. if ar_id a = k then [map_account_row a] else []) aa) =
       map map_account_row (filter (\<lambda>a. ar_id a = k) aa)" for k
    by (induction aa) auto
  have rest: "concat (map (\<lambda>s. if sr_token s = t
        then concat (map (\<lambda>a. if ar_id a = sr_account_id s then [map_account_row a] else []) aa)
        else []) ss) = []" if "sr_token s = t"
    using Cons.prems that by (auto simp: image_iff)
  show ?case
  proof (cases "sr_token s = t")
    case True
    then show ?thesis by (simp add: rest acc query_row_map_filter)
  next
    case False
    then show ?thesis using Cons by simp
  qed
qed

lemma session_of_same: "same_tables d d' \<Longrightarrow> session_of d' t = session_of d t"
  by (simp add: same_tables_iff session_of_def account_of_def)

lemma find_session_Inr:
  assumes "db_wf d" and "find_session t d = (Inr r, d')"
  shows "r = session_of d t \<and> same_tables d d'"
proof -
  from assms(2) have st: "same_tables d d'" and
    r: "r = query_row [map_account_row a. s \<leftarrow> sessions_tbl d', sr_token s = t,
                                         a \<leftarrow> accounts_tbl d', ar_id a = sr_account_id s]"
    unfolding find_session_def by (auto elim!: stmt_Inr)
  from st assms(1) have "db_wf d'" by (simp add: same_tables_wf)
  then have "distinct (map sr_token (sessions_tbl d'))" "distinct (map ar_id (accounts_tbl d'))"
    by (auto simp: db_wf_def ids_ok_def keys_ok_def)
  from join_one [OF this] have "r = session_of d' t" by (simp add: r session_of_def account_of_def)
  with st show ?thesis by (simp add: session_of_same)
qed

lemma find_session_ok: "db_wf d \<Longrightarrow> faults d = [] \<Longrightarrow> find_session t d = (Inr (session_of d t), d)"
proof -
  assume wf: "db_wf d" and ff: "faults d = []"
  have "\<exists>r. find_session t d = (Inr r, d)" using ff by (simp add: find_session_def stmt_ok)
  then show ?thesis using find_session_Inr [OF wf] by blast
qed

section \<open>Creating accounts\<close>

lemma create_account_Inr:
  assumes "create_account e h r d = (Inr i, d')"
  shows "i = accounts_seq d + 1" and "e \<notin> set (map ar_email (accounts_tbl d))"
    and "accounts_tbl d' = accounts_tbl d @ [\<lparr>ar_id = i, ar_email = e, ar_password_hash = h,
            ar_created_at = wall_clock d, ar_role = as_str r\<rparr>]"
    and "accounts_seq d' = i" and "devices_tbl d' = devices_tbl d" and "sessions_tbl d' = sessions_tbl d"
    and "settings_tbl d' = settings_tbl d"
  using assms unfolding create_account_def
  by (elim stmt_Inr; auto simp: same_tables_iff Let_def list_ex_key_iff split: if_splits)+

lemma create_account_ok:
  assumes "faults d = []" and "e \<notin> set (map ar_email (accounts_tbl d))" and "accounts_seq d < 2 ^ 63 - 1"
  shows "create_account e h r d = (Inr (accounts_seq d + 1),
     d\<lparr>accounts_tbl := accounts_tbl d @ [\<lparr>ar_id = accounts_seq d + 1, ar_email = e, ar_password_hash = h,
            ar_created_at = wall_clock d, ar_role = as_str r\<rparr>], accounts_seq := accounts_seq d + 1\<rparr>)"
  using assms by (simp add: create_account_def stmt_ok list_ex_key_iff Let_def)

lemma from_as_str [simp]: "from_column (as_str r) = r"
  by (cases r) (simp_all add: from_column_def)

lemma as_str_admin [simp]: "as_str r = ''admin'' \<longleftrightarrow> r = Admin"
  by (cases r) simp_all

lemma from_column_Admin [simp]: "from_column s = Admin \<longleftrightarrow> s = ''admin''"
  by (simp add: from_column_def)

section \<open>Deleting accounts\<close>

lemma and_then_Inr:
  assumes "and_then m f d = (Inr y, d')"
  obtains x d1 where "m d = (Inr x, d1)" "f x d1 = (Inr y, d')"
  using assms by (auto simp: and_then_def split: prod.splits sum.splits)

lemma delete_account_Inr:
  assumes "delete_account i d = (Inr (), d')"
  shows "accounts_tbl d' = filter (\<lambda>r. ar_id r \<noteq> i) (accounts_tbl d)"
    and "sessions_tbl d' = filter (\<lambda>s. sr_account_id s \<noteq> i) (sessions_tbl d)"
    and "devices_tbl d' = filter (\<lambda>r. dr_account_id r \<noteq> i) (devices_tbl d)"
    and "settings_tbl d' = settings_tbl d" and "accounts_seq d' = accounts_seq d"
proof -
  from assms obtain d1 d2 d3 d4 where
    1: "begin_stmt d = (Inr (), d1)" and 2: "delete_account_sessions i d1 = (Inr (), d2)" and
    3: "delete_account_devices i d2 = (Inr (), d3)" and 4: "delete_account_row i d3 = (Inr (), d4)" and
    5: "commit_stmt d4 = (Inr (), d')"
    by (auto simp: delete_account_def transaction_def split: prod.splits sum.splits elim!: and_then_Inr)
  have s1: "same_tables d d1" using 1 unfolding begin_stmt_def by (elim stmt_Inr) auto
  obtain e1 where s2: "same_tables d1 e1"
    "d2 = e1\<lparr>sessions_tbl := filter (\<lambda>s. sr_account_id s \<noteq> i) (sessions_tbl e1)\<rparr>"
    using 2 unfolding delete_account_sessions_def by (elim stmt_Inr) auto
  obtain e2 where s3: "same_tables d2 e2"
    "d3 = e2\<lparr>devices_tbl := filter (\<lambda>r. dr_account_id r \<noteq> i) (devices_tbl e2)\<rparr>"
    using 3 unfolding delete_account_devices_def by (elim stmt_Inr) auto
  obtain e3 where s4: "same_tables d3 e3"
    "d4 = e3\<lparr>accounts_tbl := filter (\<lambda>r. ar_id r \<noteq> i) (accounts_tbl e3)\<rparr>"
    using 4 unfolding delete_account_row_def by (elim stmt_Inr) (auto split: if_splits)
  have s5: "same_tables d4 d'" using 5 unfolding commit_stmt_def by (elim stmt_Inr) auto
  note eqs = same_tablesD [OF s1] same_tablesD [OF s2(1)] same_tablesD [OF s3(1)]
    same_tablesD [OF s4(1)] same_tablesD [OF s5]
  show "accounts_tbl d' = filter (\<lambda>r. ar_id r \<noteq> i) (accounts_tbl d)"
    and "sessions_tbl d' = filter (\<lambda>s. sr_account_id s \<noteq> i) (sessions_tbl d)"
    and "devices_tbl d' = filter (\<lambda>r. dr_account_id r \<noteq> i) (devices_tbl d)"
    and "settings_tbl d' = settings_tbl d" and "accounts_seq d' = accounts_seq d"
    using eqs by (simp_all add: s2(2) s3(2) s4(2))
qed

text \<open>On a fault-free database the transaction goes through: its own deletes have removed every row
  the foreign-key check of the last one looks at.\<close>

lemma delete_account_succeeds: "faults d = [] \<Longrightarrow> fst (delete_account i d) = Inr ()"
  by (simp add: delete_account_def transaction_def and_then_def begin_stmt_def commit_stmt_def
      delete_account_sessions_def delete_account_devices_def delete_account_row_def stmt_ok list_ex_iff)

section \<open>Tables a method leaves alone\<close>

lemma stmt_keeps:
  assumes "\<And>d. f (snd (b d)) = f d" and "\<And>d fs. f (d\<lparr>faults := fs\<rparr>) = f d"
  shows "f (snd (stmt b d)) = f d"
  using assms by (auto simp: stmt_def split: list.split option.split)

lemma queries_keep [simp]:
  assumes "db_query op"
  shows "accounts_tbl (snd (op d)) = accounts_tbl d" "accounts_seq (snd (op d)) = accounts_seq d"
    "devices_tbl (snd (op d)) = devices_tbl d" "settings_tbl (snd (op d)) = settings_tbl d"
    "sessions_tbl (snd (op d)) = sessions_tbl d"
  using db_query.read_only [OF assms, of d] by (simp_all add: same_tables_iff)

lemmas all_queries [simp] = get_setting.db_query_axioms registration_enabled.db_query_axioms
  count_admins.db_query_axioms count_accounts.db_query_axioms find_account_by_email.db_query_axioms
  find_account_by_id.db_query_axioms find_session.db_query_axioms find_device.db_query_axioms
  list_devices_for_account.db_query_axioms list_all_accounts.db_query_axioms

lemma create_account_keeps [simp]:
  "devices_tbl (snd (create_account e h r d)) = devices_tbl d"
  "settings_tbl (snd (create_account e h r d)) = settings_tbl d"
  "sessions_tbl (snd (create_account e h r d)) = sessions_tbl d"
  unfolding create_account_def by (rule stmt_keeps; simp add: Let_def)+

lemma set_setting_keeps [simp]:
  "accounts_tbl (snd (set_setting k v d)) = accounts_tbl d"
  "devices_tbl (snd (set_setting k v d)) = devices_tbl d"
  "sessions_tbl (snd (set_setting k v d)) = sessions_tbl d"
  unfolding set_setting_def by (rule stmt_keeps; simp)+

lemma set_registration_keeps [simp]:
  "accounts_tbl (snd (set_registration_enabled b d)) = accounts_tbl d"
  "devices_tbl (snd (set_registration_enabled b d)) = devices_tbl d"
  "sessions_tbl (snd (set_registration_enabled b d)) = sessions_tbl d"
  by (simp_all add: set_registration_enabled_def)

lemma create_device_keeps [simp]:
  "accounts_tbl (snd (create_device di i n d)) = accounts_tbl d"
  "settings_tbl (snd (create_device di i n d)) = settings_tbl d"
  "sessions_tbl (snd (create_device di i n d)) = sessions_tbl d"
  unfolding create_device_def by (rule stmt_keeps; simp)+

lemma set_unattended_keeps [simp]:
  "accounts_tbl (snd (set_unattended_password_hash di h d)) = accounts_tbl d"
  "settings_tbl (snd (set_unattended_password_hash di h d)) = settings_tbl d"
  "sessions_tbl (snd (set_unattended_password_hash di h d)) = sessions_tbl d"
  unfolding set_unattended_password_hash_def by (rule stmt_keeps; simp)+

lemma create_session_keeps [simp]:
  "accounts_tbl (snd (create_session t i d)) = accounts_tbl d"
  "settings_tbl (snd (create_session t i d)) = settings_tbl d"
  "devices_tbl (snd (create_session t i d)) = devices_tbl d"
  unfolding create_session_def by (rule stmt_keeps; simp)+

lemma delete_session_keeps [simp]:
  "accounts_tbl (snd (delete_session t d)) = accounts_tbl d"
  "settings_tbl (snd (delete_session t d)) = settings_tbl d"
  "devices_tbl (snd (delete_session t d)) = devices_tbl d"
  unfolding delete_session_def by (rule stmt_keeps; simp)+

lemma delete_device_keeps [simp]:
  "accounts_tbl (snd (delete_device di d)) = accounts_tbl d"
  "settings_tbl (snd (delete_device di d)) = settings_tbl d"
  "sessions_tbl (snd (delete_device di d)) = sessions_tbl d"
  unfolding delete_device_def by (rule stmt_keeps; simp)+

lemma set_account_role_keeps [simp]:
  "settings_tbl (snd (set_account_role i r d)) = settings_tbl d"
  "devices_tbl (snd (set_account_role i r d)) = devices_tbl d"
  "sessions_tbl (snd (set_account_role i r d)) = sessions_tbl d"
  unfolding set_account_role_def by (rule stmt_keeps; simp)+

text \<open>The accounts table only grows, except through the two administrative methods.\<close>

lemma create_account_prefix: "\<exists>rs. accounts_tbl (snd (create_account e h r d)) = accounts_tbl d @ rs"
proof (cases "create_account e h r d")
  case (Pair res d')
  show ?thesis
  proof (cases res)
    case (Inl x)
    then show ?thesis using Pair create_account.atomic [of e h r d x] by (simp add: same_tables_iff)
  next
    case (Inr i)
    then show ?thesis using Pair create_account_Inr(3) [of e h r d i d'] by simp
  qed
qed

section \<open>Sequences of calls\<close>

text \<open>Every public method of \<open>Db\<close>, as a label of a step; the clock may move between calls.\<close>

datatype db_call =
  CGetSetting string | CSetSetting string string | CRegistrationEnabled
| CSetRegistrationEnabled bool | CCountAdmins | CCountAccounts
| CCreateAccount string string account_role | CFindAccountByEmail string | CFindAccountById int
| CSetAccountRole int account_role | CDeleteAccount int
| CCreateSession string int | CFindSession string | CDeleteSession string
| CCreateDevice string int string | CFindDevice string | CListDevicesForAccount int
| CSetUnattendedPasswordHash string string | CListAllAccounts | CDeleteDevice string
| CClock int

fun db_exec :: "db_call \<Rightarrow> db \<Rightarrow> db" where
  "db_exec (CGetSetting k) d = snd (get_setting k d)"
| "db_exec (CSetSetting k v) d = snd (set_setting k v d)"
| "db_exec CRegistrationEnabled d = snd (registration_enabled d)"
| "db_exec (CSetRegistrationEnabled b) d = snd (set_registration_enabled b d)"
| "db_exec CCountAdmins d = snd (count_admins d)"
| "db_exec CCountAccounts d = snd (count_accounts d)"
| "db_exec (CCreateAccount e h r) d = snd (create_account e h r d)"
| "db_exec (CFindAccountByEmail e) d = snd (find_account_by_email e d)"
| "db_exec (CFindAccountById i) d = snd (find_account_by_id i d)"
| "db_exec (CSetAccountRole i r) d = snd (set_account_role i r d)"
| "db_exec (CDeleteAccount i) d = snd (delete_account i d)"
| "db_exec (CCreateSession t i) d = snd (create_session t i d)"
| "db_exec (CFindSession t) d = snd (find_session t d)"
| "db_exec (CDeleteSession t) d = snd (delete_session t d)"
| "db_exec (CCreateDevice di i n) d = snd (create_device di i n d)"
| "db_exec (CFindDevice di) d = snd (find_device di d)"
| "db_exec (CListDevicesForAccount i) d = snd (list_devices_for_account i d)"
| "db_exec (CSetUnattendedPasswordHash di h) d = snd (set_unattended_password_hash di h d)"
| "db_exec CListAllAccounts d = snd (list_all_accounts d)"
| "db_exec (CDeleteDevice di) d = snd (delete_device di d)"
| "db_exec (CClock t) d = d\<lparr>wall_clock := t\<rparr>"

text \<open>A database file that has just been created, with any future faults.\<close>

definition fresh_db :: "db \<Rightarrow> bool" where
  "fresh_db d \<longleftrightarrow> accounts_tbl d = [] \<and> accounts_seq d = 0 \<and> devices_tbl d = [] \<and>
     settings_tbl d = Map.empty \<and> sessions_tbl d = []"

lemmas all_wf = get_setting.wf set_setting.wf registration_enabled.wf set_registration_enabled.wf
  count_admins.wf count_accounts.wf create_account.wf find_account_by_email.wf find_account_by_id.wf
  set_account_role.wf delete_account.wf create_session.wf find_session.wf delete_session.wf
  create_device.wf find_device.wf list_devices_for_account.wf set_unattended_password_hash.wf
  list_all_accounts.wf delete_device.wf

lemma db_exec_wf: "db_wf d \<Longrightarrow> db_wf (db_exec c d)"
  by (cases c) (simp_all add: all_wf, simp add: db_wf_defs)

lemma fresh_db_wf: "fresh_db d \<Longrightarrow> db_wf d"
  by (simp add: fresh_db_def db_wf_defs)

interpretation db_machine: machine fresh_db "\<lambda>c d d'. d' = db_exec c d" db_wf
  by unfold_locales (auto intro: fresh_db_wf db_exec_wf)

text \<open>The ids of deleted accounts stay below the sequence counter, which never goes down.\<close>

lemma stmt_seq:
  "(\<And>d. accounts_seq d \<le> accounts_seq (snd (b d))) \<Longrightarrow> accounts_seq d \<le> accounts_seq (snd (stmt b d))"
  by (cases rule: stmt_cases [of d b]) (auto simp: same_tables_iff, metis+)

lemma delete_account_seq: "accounts_seq (snd (delete_account i d)) = accounts_seq d"
proof (cases "delete_account i d")
  case (Pair res d')
  show ?thesis
  proof (cases res)
    case (Inl e)
    then show ?thesis using Pair delete_account.atomic [of i d e] by (simp add: same_tables_iff)
  next
    case (Inr u)
    then show ?thesis using Pair delete_account_Inr(5) [of i d d'] by simp
  qed
qed

lemma db_exec_seq: "accounts_seq d \<le> accounts_seq (db_exec c d)"
  by (cases c)
    (auto simp: delete_account_seq Let_def set_setting_def set_registration_enabled_def create_account_def
      set_account_role_def create_session_def delete_session_def create_device_def
      set_unattended_password_hash_def delete_device_def intro!: stmt_seq)

fun db_run :: "db_call list \<Rightarrow> db \<Rightarrow> db" where
  "db_run [] d = d"
| "db_run (c # cs) d = db_run cs (db_exec c d)"

lemma db_run_seq: "accounts_seq d \<le> accounts_seq (db_run cs d)"
  by (induction cs arbitrary: d) (auto intro: order_trans [OF db_exec_seq])

lemma db_run_reachable:
  "reachable init (\<lambda>c d d'. d' = db_exec c d) d \<Longrightarrow>
   reachable init (\<lambda>c d d'. d' = db_exec c d) (db_run cs d)"
  by (induction cs arbitrary: d) (auto intro: reach_step)

section \<open>Properties\<close>

text \<open>
  C12. Whatever calls the server makes on a new database, in whatever order and with whatever
  statements refused by the engine, the schema's constraints hold: unique ids, emails, device ids
  and tokens, ids within \<open>i64\<close> and the sequence counter, and (with enforcement on, as in the
  bundled SQLite) every device and session belongs to an existing account.
\<close>

theorem database_always_well_formed:
  assumes "reachable fresh_db (\<lambda>c d d'. d' = db_exec c d) d"
  shows "db_wf d"
  using assms by (rule db_machine.invariant)

definition wit_db :: db where
  "wit_db = \<lparr>accounts_tbl = [], accounts_seq = 0, devices_tbl = [], settings_tbl = Map.empty,
     sessions_tbl = [], foreign_keys = True, wall_clock = 1700000000, faults = []\<rparr>"

theorem database_always_well_formed_witness:
  "db_wf (db_run [CCreateAccount ''a@b'' ''h'' Admin, CCreateSession ''tok'' 1] wit_db) \<and>
   length (sessions_tbl (db_run [CCreateAccount ''a@b'' ''h'' Admin, CCreateSession ''tok'' 1] wit_db)) = 1"
proof -
  have "reachable fresh_db (\<lambda>c d d'. d' = db_exec c d)
     (db_run [CCreateAccount ''a@b'' ''h'' Admin, CCreateSession ''tok'' 1] wit_db)"
    by (rule db_run_reachable, rule reach_init) (simp add: fresh_db_def wit_db_def)
  from database_always_well_formed [OF this] show ?thesis
    by (simp add: wit_db_def create_account_def create_session_def stmt_def account_exists_def Let_def)
qed

text \<open>
  C31. \<open>delete_account\<close> is all or nothing: on success exactly the account's row, sessions and devices
  are gone; on any error, at any of its five statements, no table has changed.
\<close>

theorem delete_account_all_or_nothing:
  "case delete_account i d of
     (Inl e, d') \<Rightarrow> same_tables d d'
   | (Inr _, d') \<Rightarrow>
       accounts_tbl d' = filter (\<lambda>r. ar_id r \<noteq> i) (accounts_tbl d) \<and>
       sessions_tbl d' = filter (\<lambda>s. sr_account_id s \<noteq> i) (sessions_tbl d) \<and>
       devices_tbl d' = filter (\<lambda>r. dr_account_id r \<noteq> i) (devices_tbl d) \<and>
       settings_tbl d' = settings_tbl d \<and> account_of d' i = None"
proof (cases "delete_account i d")
  case (Pair res d')
  show ?thesis
  proof (cases res)
    case (Inl e)
    then show ?thesis using Pair delete_account.atomic [of i d e] by simp
  next
    case (Inr u)
    then have "delete_account i d = (Inr (), d')" using Pair by simp
    from delete_account_Inr [OF this] show ?thesis
      using Pair Inr by (auto simp: account_of_def find_key_None)
  qed
qed

text \<open>
  Account ids are never reused: an id handed out by \<open>create_account\<close> is larger than every id
  that any earlier successful \<open>create_account\<close> on this database returned, deleted accounts included.
\<close>

theorem account_ids_never_reused:
  assumes "create_account e h r d = (Inr i, d1)"
    and "create_account e' h' r' (db_run cs d1) = (Inr j, d2)"
  shows "i < j"
  using create_account_Inr(4) [OF assms(1)] create_account_Inr(1) [OF assms(2)] db_run_seq [of d1 cs]
  by simp

theorem account_ids_never_reused_witness:
  "\<exists>d1 d2. create_account ''a'' ''h'' Admin wit_db = (Inr 1, d1) \<and>
     create_account ''a'' ''h'' User (db_run [CDeleteAccount 1] d1) = (Inr 2, d2) \<and> (1::int) < 2"
proof -
  obtain d1 where 1: "create_account ''a'' ''h'' Admin wit_db = (Inr 1, d1)"
    by (simp add: wit_db_def create_account_def stmt_def Let_def)
  obtain d2 where 2: "create_account ''a'' ''h'' User (db_run [CDeleteAccount 1] d1) = (Inr 2, d2)"
    using 1 by (auto simp: wit_db_def create_account_def delete_account_def transaction_def and_then_def
        begin_stmt_def commit_stmt_def delete_account_sessions_def delete_account_devices_def
        delete_account_row_def stmt_def Let_def)
  show ?thesis using 1 2 account_ids_never_reused [OF 1 2] by blast
qed

end
