(* ===== verification/Credentials.thy ===== *)
theory Credentials
  imports Visuara_Prelude
begin

text \<open>
  \<^verbatim>\<open>visuara-signaling/src/auth.rs\<close> and \<^verbatim>\<open>turn.rs\<close>: password hashing, generated ids, one-time
  passwords and tokens, and TURN credentials.  Argon2, HMAC-SHA1 and base64 are third-party code: the
  record \<open>crypto\<close> holds them as parameters, and \<open>argon2_sound\<close> is what the server relies on.
  Random draws are arguments, in the record \<open>entropy\<close>: the ranges of \<open>gen_range\<close> are \<open>entropy_ok\<close>.
\<close>

record crypto =
  argon2_hash :: "string \<Rightarrow> string \<Rightarrow> (string, string) result"  \<comment> \<open>salt, password\<close>
  phc_parses :: "string \<Rightarrow> bool"
  argon2_verifies :: "string \<Rightarrow> string \<Rightarrow> bool"  \<comment> \<open>password, parsed hash\<close>
  hmac_sha1_base64 :: "string \<Rightarrow> string \<Rightarrow> string"  \<comment> \<open>key, message\<close>

definition argon2_sound :: "crypto \<Rightarrow> bool" where
  "argon2_sound c \<longleftrightarrow>
     (\<forall>salt pw h. argon2_hash c salt pw = Inr h \<longrightarrow> phc_parses c h \<and> argon2_verifies c pw h)"

record entropy =
  rnd_salt :: string
  rnd_token :: "nat \<Rightarrow> char"  \<comment> \<open>the samples of \<open>Alphanumeric\<close>\<close>
  rnd_device :: "nat \<times> nat \<times> nat"
  rnd_otp :: "nat \<times> nat"
  rnd_uuid :: string  \<comment> \<open>\<open>Uuid::new_v4().to_string()\<close>\<close>
  now_secs :: u64

definition is_alnum :: "char \<Rightarrow> bool" where
  "is_alnum c \<longleftrightarrow> (let n = (of_char c :: nat) in
     (48 \<le> n \<and> n \<le> 57) \<or> (65 \<le> n \<and> n \<le> 90) \<or> (97 \<le> n \<and> n \<le> 122))"

definition entropy_ok :: "entropy \<Rightarrow> bool" where
  "entropy_ok r \<longleftrightarrow> (\<forall>i. is_alnum (rnd_token r i)) \<and>
     (case rnd_device r of (a, b, c) \<Rightarrow> a < 1000 \<and> b < 1000 \<and> c < 1000) \<and>
     (case rnd_otp r of (a, b) \<Rightarrow> a < 10000 \<and> b < 10000)"

section \<open>auth.rs\<close>

definition hash_password :: "crypto \<Rightarrow> entropy \<Rightarrow> string \<Rightarrow> (string, string) result" where
  "hash_password c r password =
     (case argon2_hash c (rnd_salt r) password of
        Inl e \<Rightarrow> Inl (''failed to hash password: '' @ e)
      | Inr h \<Rightarrow> Inr h)"

definition verify_password :: "crypto \<Rightarrow> string \<Rightarrow> string \<Rightarrow> bool" where
  "verify_password c password hash =
     (if \<not> phc_parses c hash then False else argon2_verifies c password hash)"

definition random_alnum :: "entropy \<Rightarrow> nat \<Rightarrow> string" where
  "random_alnum r len = map (rnd_token r) [0 ..< len]"

definition generate_session_token :: "entropy \<Rightarrow> string" where
  "generate_session_token r = random_alnum r 32"

definition generate_one_time_password :: "entropy \<Rightarrow> string" where
  "generate_one_time_password r = (case rnd_otp r of (a, b) \<Rightarrow> pad0 4 a @ '' '' @ pad0 4 b)"

definition generate_device_id :: "entropy \<Rightarrow> string" where
  "generate_device_id r =
     (case rnd_device r of (a, b, c) \<Rightarrow> pad0 3 a @ '' '' @ pad0 3 b @ '' '' @ pad0 3 c)"

section \<open>turn.rs\<close>

record turn_config =
  turn_urls :: "string list"
  turn_secret :: string

definition mint_credentials ::
  "crypto \<Rightarrow> entropy \<Rightarrow> turn_config \<Rightarrow> string \<Rightarrow> u32 \<Rightarrow> string \<times> string" where
  "mint_credentials c r cfg label ttl =
     (let expiry = now_secs r + ucast ttl;
          username = dec (unat expiry) @ '':'' @ label
      in (username, hmac_sha1_base64 c (turn_secret cfg) username))"

section \<open>Lemmas\<close>

lemma hash_then_verify:
  "argon2_sound c \<Longrightarrow> hash_password c r pw = Inr h \<Longrightarrow> verify_password c pw h"
  by (auto simp: argon2_sound_def hash_password_def verify_password_def split: sum.splits)

lemma length_token [simp]: "length (generate_session_token r) = 32"
  by (simp add: generate_session_token_def random_alnum_def)

lemma token_alnum: "entropy_ok r \<Longrightarrow> \<forall>c \<in> set (generate_session_token r). is_alnum c"
  by (auto simp: generate_session_token_def random_alnum_def entropy_ok_def)

lemma alnum_facts: "is_alnum c \<Longrightarrow> c \<noteq> CHR '';'' \<and> c \<noteq> CHR ''='' \<and> \<not> is_whitespace c"
  by (auto simp: is_alnum_def is_whitespace_def Let_def)

section \<open>Properties\<close>

text \<open>
  The codes shown to users keep every bit of the draw: device ids are eleven characters, one-time
  passwords nine, and two different draws never print the same code (so there are \<open>10\<^sup>9\<close> device ids
  and \<open>10\<^sup>8\<close> one-time passwords).
\<close>

theorem generated_codes_injective:
  assumes "entropy_ok r" and "entropy_ok s"
  shows "length (generate_device_id r) = 11 \<and> length (generate_one_time_password r) = 9 \<and>
     (generate_device_id r = generate_device_id s \<longleftrightarrow> rnd_device r = rnd_device s) \<and>
     (generate_one_time_password r = generate_one_time_password s \<longleftrightarrow> rnd_otp r = rnd_otp s)"
proof -
  have l3: "length (pad0 3 n) = 3" if "n < 1000" for n using that by (simp add: length_pad0)
  have l4: "length (pad0 4 n) = 4" if "n < 10000" for n using that by (simp add: length_pad0)
  show ?thesis
    using assms
    by (auto simp: entropy_ok_def generate_device_id_def generate_one_time_password_def l3 l4
        split: prod.splits)
qed

definition wit_entropy :: entropy where
  "wit_entropy = \<lparr>rnd_salt = ''salt'', rnd_token = (\<lambda>_. CHR ''x''), rnd_device = (12, 345, 6),
     rnd_otp = (42, 9999), rnd_uuid = ''uuid-1'', now_secs = 1700000000\<rparr>"

lemma wit_entropy_ok: "entropy_ok wit_entropy"
  by (simp add: entropy_ok_def wit_entropy_def is_alnum_def)

theorem generated_codes_injective_witness:
  "length (generate_device_id wit_entropy) = 11 \<and> length (generate_one_time_password wit_entropy) = 9 \<and>
   generate_device_id wit_entropy \<noteq> generate_device_id (wit_entropy\<lparr>rnd_device := (12, 345, 7)\<rparr>)"
proof -
  have ok: "entropy_ok (wit_entropy\<lparr>rnd_device := (12, 345, 7)\<rparr>)"
    by (simp add: entropy_ok_def wit_entropy_def is_alnum_def)
  have "rnd_device wit_entropy \<noteq> rnd_device (wit_entropy\<lparr>rnd_device := (12, 345, 7)\<rparr>)"
    by (simp add: wit_entropy_def)
  then show ?thesis
    using generated_codes_injective [OF wit_entropy_ok ok] by blast
qed

text \<open>
  TURN credentials follow the REST convention: the part of the username before the first colon is
  the expiry in Unix seconds, \<open>ttl\<close> seconds from now, the rest is the label, and the password is the
  keyed digest of that same username, so it is bound to both.
\<close>

theorem turn_credentials_convention:
  assumes "mint_credentials c r cfg label ttl = (username, password)"
    and "unat (now_secs r) + unat ttl < 2 ^ 64"
  shows "\<exists>expiry. split_once (CHR '':'') username = Some (expiry, label) \<and>
     undec expiry = unat (now_secs r) + unat ttl \<and>
     password = hmac_sha1_base64 c (turn_secret cfg) username"
proof -
  let ?e = "now_secs r + ucast ttl"
  have u: "username = dec (unat ?e) @ '':'' @ label"
    and p: "password = hmac_sha1_base64 c (turn_secret cfg) username"
    using assms(1) by (auto simp: mint_credentials_def Let_def)
  have "CHR '':'' \<notin> set (dec (unat ?e))"
    using dec_digits [of "unat ?e"] by (auto simp: list_all_iff is_digit_def)
  then have "split_once (CHR '':'') username = Some (dec (unat ?e), label)"
    by (simp add: u split_once_append)
  moreover have "unat ?e = unat (now_secs r) + unat ttl"
  proof -
    have "unat ttl < 2 ^ LENGTH(32)" by (rule unsigned_less)
    then have "unat ttl < 2 ^ 64" by simp
    then have "unat (ucast ttl :: u64) = unat ttl"
      by (simp add: unsigned_ucast_eq take_bit_nat_eq_self)
    then show ?thesis using assms(2) by (simp add: unat_word_ariths)
  qed
  ultimately show ?thesis using p by (intro exI [of _ "dec (unat ?e)"]) simp
qed

definition wit_crypto :: crypto where
  "wit_crypto = \<lparr>argon2_hash = (\<lambda>salt pw. if CHR ''$'' \<in> set salt then Inl ''salt invalid'' else Inr (salt @ ''$'' @ pw)),
     phc_parses = (\<lambda>h. CHR ''$'' \<in> set h),
     argon2_verifies = (\<lambda>pw h. case split_once (CHR ''$'') h of None \<Rightarrow> False | Some (_, p) \<Rightarrow> p = pw),
     hmac_sha1_base64 = (\<lambda>k m. k @ ''/'' @ m)\<rparr>"

lemma wit_crypto_sound: "argon2_sound wit_crypto"
  by (auto simp: argon2_sound_def wit_crypto_def split_once_append split: if_splits)

definition wit_turn :: turn_config where
  "wit_turn = \<lparr>turn_urls = [''turn:localhost:3478''], turn_secret = ''s3cret''\<rparr>"

theorem turn_credentials_convention_witness:
  "\<exists>expiry. split_once (CHR '':'') (fst (mint_credentials wit_crypto wit_entropy wit_turn ''conn'' 300))
       = Some (expiry, ''conn'') \<and> undec expiry = 1700000300"
proof -
  have n: "unat (now_secs wit_entropy) = 1700000000" "unat (300 :: u32) = 300"
    by (simp_all add: wit_entropy_def)
  then have "unat (now_secs wit_entropy) + unat (300 :: u32) < 2 ^ 64" by simp
  from turn_credentials_convention [OF surjective_pairing this] show ?thesis
    unfolding n by fastforce
qed

end
