(* ===== verification/App_State.thy ===== *)
theory App_State
  imports Signaling_Messages Database_Laws Credentials
begin

text \<open>
  \<^verbatim>\<open>visuara-signaling/src/state.rs\<close>: the state shared by every WebSocket connection and HTTP handler.
  A connection is named by the text of its Uuid.  An \<open>mpsc\<close> sender is a handle on the channel of the
  connection it was made for (\<open>channels\<close> is the store of channels), so the clones kept in
  \<open>connections\<close> and by the connection's own task are the same channel; a send fails once the receiving
  task has gone.  \<open>files\<close> is the part of the file system the server reads and writes: the template
  binaries, by path.
\<close>

type_synonym conn_id = string
type_synonym sender = conn_id

record channel =
  rx_alive :: bool
  queue :: "server_message list"

record session_peers =
  peer_a :: conn_id
  peer_b :: conn_id

definition other :: "session_peers \<Rightarrow> conn_id \<Rightarrow> conn_id option" where
  "other p me = (if peer_a p = me then Some (peer_b p)
                 else if peer_b p = me then Some (peer_a p) else None)"

record app_state =
  app_db :: db
  turn :: turn_config
  connections :: "conn_id \<rightharpoonup> sender"
  device_online :: "device_id \<rightharpoonup> conn_id"
  otp :: "device_id \<rightharpoonup> string"
  sessions :: "session_id \<rightharpoonup> session_peers"
  client_templates_dir :: string
  fetched_templates_dir :: string
  channels :: "sender \<Rightarrow> channel"
  files :: "string \<rightharpoonup> bytes"

text \<open>Running a database method on the shared connection.\<close>

definition with_db :: "'a db_op \<Rightarrow> app_state \<Rightarrow> (string, 'a) result \<times> app_state" where
  "with_db op st = (case op (app_db st) of (r, d) \<Rightarrow> (r, st\<lparr>app_db := d\<rparr>))"

text \<open>\<open>UnboundedSender::send\<close>, whose error prints as "channel closed".\<close>

definition send :: "sender \<Rightarrow> server_message \<Rightarrow> app_state \<Rightarrow> (string, unit) result \<times> app_state" where
  "send tx msg st =
     (if rx_alive (channels st tx)
      then (Inr (), st\<lparr>channels := (channels st)(tx := (channels st tx)\<lparr>queue := queue (channels st tx) @ [msg]\<rparr>)\<rparr>)
      else (Inl ''channel closed'', st))"

definition inbox :: "app_state \<Rightarrow> conn_id \<Rightarrow> server_message list" where
  "inbox st c = queue (channels st c)"

section \<open>Frame lemmas\<close>

lemma send_frame [simp]:
  "app_db (snd (send tx m st)) = app_db st" "turn (snd (send tx m st)) = turn st"
  "connections (snd (send tx m st)) = connections st"
  "device_online (snd (send tx m st)) = device_online st" "otp (snd (send tx m st)) = otp st"
  "sessions (snd (send tx m st)) = sessions st"
  "client_templates_dir (snd (send tx m st)) = client_templates_dir st"
  "fetched_templates_dir (snd (send tx m st)) = fetched_templates_dir st"
  "files (snd (send tx m st)) = files st"
  by (simp_all add: send_def)

lemma send_inbox:
  "inbox (snd (send tx m st)) c =
     (if c = tx \<and> rx_alive (channels st tx) then inbox st c @ [m] else inbox st c)"
  by (simp add: send_def inbox_def)

lemma send_alive [simp]: "rx_alive (channels (snd (send tx m st)) c) = rx_alive (channels st c)"
  by (simp add: send_def)

lemma send_ok: "fst (send tx m st) = Inr () \<longleftrightarrow> rx_alive (channels st tx)"
  by (simp add: send_def)

lemma with_db_frame [simp]:
  "app_db (snd (with_db op st)) = snd (op (app_db st))" "turn (snd (with_db op st)) = turn st"
  "connections (snd (with_db op st)) = connections st"
  "device_online (snd (with_db op st)) = device_online st" "otp (snd (with_db op st)) = otp st"
  "sessions (snd (with_db op st)) = sessions st" "channels (snd (with_db op st)) = channels st"
  "inbox (snd (with_db op st)) c = inbox st c"
  "client_templates_dir (snd (with_db op st)) = client_templates_dir st"
  "fetched_templates_dir (snd (with_db op st)) = fetched_templates_dir st"
  "files (snd (with_db op st)) = files st"
  "fst (with_db op st) = fst (op (app_db st))"
  by (simp_all add: with_db_def inbox_def split: prod.splits)

lemma with_db_eq:
  "with_db op st = (r, st') \<longleftrightarrow> r = fst (op (app_db st)) \<and> st' = st\<lparr>app_db := snd (op (app_db st))\<rparr>"
  by (auto simp: with_db_def split: prod.splits)

lemma with_db_pair: "with_db op st = (fst (op (app_db st)), st\<lparr>app_db := snd (op (app_db st))\<rparr>)"
  by (simp add: with_db_def split: prod.split)

lemma if_pair: "fst (if b then x else y) = (if b then fst x else fst y)"
  "snd (if b then x else y) = (if b then snd x else snd y)"
  by simp_all

lemma other_sym: "other p x = Some y \<Longrightarrow> other p y = Some x"
  by (auto simp: other_def split: if_splits)

section \<open>The contract of an operation on the shared state\<close>

text \<open>
  Every message and every HTTP request keeps the database well formed, leaves the registry of
  connections and the liveness of channels alone, and keeps one-time passwords and presence in step:
  a device has a one-time password exactly while it is online.
\<close>

locale server_op =
  fixes run :: "app_state \<Rightarrow> app_state"
  assumes keeps_wf: "db_wf (app_db st) \<Longrightarrow> db_wf (app_db (run st))"
    and keeps_connections: "connections (run st) = connections st"
    and keeps_alive: "rx_alive (channels (run st) x) = rx_alive (channels st x)"
    and keeps_presence: "dom (otp st) = dom (device_online st) \<Longrightarrow> dom (otp (run st)) = dom (device_online (run st))"
begin

lemma otp_iff_online:
  "dom (otp st) = dom (device_online st) \<Longrightarrow> otp (run st) di = None \<longleftrightarrow> device_online (run st) di = None"
  using keeps_presence [of st] by (metis domIff)

end

lemma server_op_comp: "server_op f \<Longrightarrow> server_op g \<Longrightarrow> server_op (\<lambda>st. g (f st))"
  by (simp add: server_op_def)

lemma server_op_id: "server_op (\<lambda>st. st)"
  by (simp add: server_op_def)

lemma server_op_send: "server_op (\<lambda>st. snd (send tx m st))"
  by (simp add: server_op_def)

lemma server_op_db: "db_step op \<Longrightarrow> server_op (\<lambda>st. snd (with_db op st))"
  by (simp add: server_op_def db_step.wf)

end
