(* ===== verification/Web_Session.thy ===== *)
theory Web_Session
  imports App_State
begin

text \<open>
  \<^verbatim>\<open>visuara-signaling/src/session.rs\<close>: cookie sessions of the HTTP API, the two guards every
  protected endpoint starts with, and the registration rule that makes the first account the
  administrator.  A request header is \<open>Opaque\<close> when \<open>HeaderValue::to_str\<close> refuses it.
\<close>

section \<open>Requests and responses\<close>

datatype header_value = Text string | Opaque

record headers =
  cookie_header :: "header_value option"
  user_agent_header :: "header_value option"

datatype status_code =
  OK | CREATED | NO_CONTENT | BAD_REQUEST | UNAUTHORIZED | FORBIDDEN | NOT_FOUND | CONFLICT
| INTERNAL_SERVER_ERROR | BAD_GATEWAY

record authed_account =
  aa_id :: int
  aa_email :: string
  aa_role :: account_role

section \<open>Cookies\<close>

definition SESSION_COOKIE :: string where
  "SESSION_COOKIE = ''visuara_session''"

fun find_map :: "('a \<Rightarrow> 'b option) \<Rightarrow> 'a list \<Rightarrow> 'b option" where
  "find_map f [] = None"
| "find_map f (x # xs) = (case f x of Some y \<Rightarrow> Some y | None \<Rightarrow> find_map f xs)"

definition cookie_part :: "string \<Rightarrow> string \<Rightarrow> string option" where
  "cookie_part name part =
     (case split_once (CHR ''='') (trim part) of
        None \<Rightarrow> None
      | Some (k, v) \<Rightarrow> if k = name then Some v else None)"

definition cookie_value :: "headers \<Rightarrow> string \<Rightarrow> string option" where
  "cookie_value hs name =
     (case cookie_header hs of
        Some (Text h) \<Rightarrow> find_map (cookie_part name) (split_on (CHR '';'') h)
      | _ \<Rightarrow> None)"

definition set_session_cookie :: "string \<Rightarrow> string" where
  "set_session_cookie token = SESSION_COOKIE @ ''='' @ token @ ''; Path=/; HttpOnly; SameSite=Strict''"

definition clear_session_cookie :: string where
  "clear_session_cookie = SESSION_COOKIE @ ''=; Path=/; Max-Age=0''"

section \<open>Guards\<close>

definition current_account :: "headers \<Rightarrow> app_state \<Rightarrow> authed_account option \<times> app_state" where
  "current_account hs st =
     (case cookie_value hs SESSION_COOKIE of
        None \<Rightarrow> (None, st)
      | Some token \<Rightarrow>
          (case with_db (find_session token) st of
             (Inr (Some a), st') \<Rightarrow> (Some \<lparr>aa_id = acc_id a, aa_email = acc_email a, aa_role = acc_role a\<rparr>, st')
           | (_, st') \<Rightarrow> (None, st')))"

definition require_account :: "headers \<Rightarrow> app_state \<Rightarrow> (status_code, authed_account) result \<times> app_state" where
  "require_account hs st =
     (case current_account hs st of
        (None, st') \<Rightarrow> (Inl UNAUTHORIZED, st')
      | (Some a, st') \<Rightarrow> (Inr a, st'))"

definition require_admin :: "headers \<Rightarrow> app_state \<Rightarrow> (status_code, authed_account) result \<times> app_state" where
  "require_admin hs st =
     (case require_account hs st of
        (Inl s, st') \<Rightarrow> (Inl s, st')
      | (Inr a, st') \<Rightarrow> (if aa_role a = Admin then (Inr a, st') else (Inl FORBIDDEN, st')))"

section \<open>Registration\<close>

definition create_account_and_maybe_bootstrap_admin :: "string \<Rightarrow> string \<Rightarrow> (int \<times> account_role) db_op" where
  "create_account_and_maybe_bootstrap_admin email hash d =
     (case count_accounts d of
        (Inl e, d1) \<Rightarrow> (Inl e, d1)
      | (Inr n, d1) \<Rightarrow>
          let is_first = (n = 0); role = (if is_first then Admin else User) in
          (case create_account email hash role d1 of
             (Inl e, d2) \<Rightarrow> (Inl e, d2)
           | (Inr i, d2) \<Rightarrow>
               if is_first
               then (case set_registration_enabled False d2 of
                       (Inl e, d3) \<Rightarrow> (Inl e, d3)
                     | (Inr _, d3) \<Rightarrow> (Inr (i, role), d3))
               else (Inr (i, role), d2)))"

section \<open>Lemmas on cookies\<close>

lemma find_map_append:
  "find_map f (xs @ ys) = (case find_map f xs of Some y \<Rightarrow> Some y | None \<Rightarrow> find_map f ys)"
  by (induction xs) (auto split: option.splits)

text \<open>How a browser prints its cookies, and the well-formed name/value pairs of RFC 6265.\<close>

definition cookie_pair_ok :: "string \<times> string \<Rightarrow> bool" where
  "cookie_pair_ok kv \<longleftrightarrow>
     (\<forall>c \<in> set (fst kv). c \<noteq> CHR '';'' \<and> c \<noteq> CHR ''='' \<and> \<not> is_whitespace c) \<and>
     (\<forall>c \<in> set (snd kv). c \<noteq> CHR '';'' \<and> \<not> is_whitespace c)"

fun print_cookies :: "(string \<times> string) list \<Rightarrow> string" where
  "print_cookies [] = []"
| "print_cookies [(k, v)] = k @ ''='' @ v"
| "print_cookies ((k, v) # kvs) = k @ ''='' @ v @ ''; '' @ print_cookies kvs"

lemma pair_no_sep: "cookie_pair_ok (k, v) \<Longrightarrow> CHR '';'' \<notin> set (k @ CHR ''='' # v)"
  by (auto simp: cookie_pair_ok_def)

lemma cookie_part_pair:
  assumes "cookie_pair_ok (k, v)" and "p = [] \<or> p = '' ''"
  shows "cookie_part name (p @ k @ CHR ''='' # v) = (if k = name then Some v else None)"
proof -
  have nw: "\<forall>c \<in> set (k @ CHR ''='' # v). \<not> is_whitespace c"
    using assms(1) by (auto simp: cookie_pair_ok_def is_whitespace_def)
  have t1: "trim (k @ CHR ''='' # v) = k @ CHR ''='' # v" by (rule trim_no_whitespace [OF nw])
  have "trim_start (p @ k @ CHR ''='' # v) = trim_start (k @ CHR ''='' # v)"
    using assms(2) by (auto simp: trim_start_def is_whitespace_def)
  then have "trim (p @ k @ CHR ''='' # v) = k @ CHR ''='' # v" using t1 by (simp add: trim_def)
  moreover have "CHR ''='' \<notin> set k" using assms by (auto simp: cookie_pair_ok_def)
  then have "split_once (CHR ''='') (k @ CHR ''='' # v) = Some (k, v)" by (rule split_once_append)
  ultimately show ?thesis by (simp add: cookie_part_def)
qed

lemma cookie_parts:
  "kvs \<noteq> [] \<Longrightarrow> list_all cookie_pair_ok kvs \<Longrightarrow> p = [] \<or> p = '' '' \<Longrightarrow>
   find_map (cookie_part name) (split_on (CHR '';'') (p @ print_cookies kvs)) = map_of kvs name"
proof (induction kvs arbitrary: p rule: print_cookies.induct)
  case 1
  then show ?case by simp
next
  case (2 k v)
  then have "CHR '';'' \<notin> set (p @ k @ CHR ''='' # v)" using pair_no_sep by auto
  from split_on_no_sep [OF this] show ?case using 2 cookie_part_pair [of k v p] by simp
next
  case (3 k v kv kvs)
  then have ok: "cookie_pair_ok (k, v)" by simp
  then have "CHR '';'' \<notin> set (p @ k @ CHR ''='' # v)" using "3.prems" pair_no_sep by auto
  from split_on_append_sep [OF this, of "'' '' @ print_cookies (kv # kvs)"]
  have "split_on (CHR '';'') (p @ print_cookies ((k, v) # kv # kvs)) =
      (p @ k @ CHR ''='' # v) # split_on (CHR '';'') ('' '' @ print_cookies (kv # kvs))"
    by simp
  moreover have "find_map (cookie_part name) (split_on (CHR '';'') ('' '' @ print_cookies (kv # kvs))) =
      map_of (kv # kvs) name"
    by (rule "3.IH") (use "3.prems" in simp_all)
  ultimately show ?case using cookie_part_pair [OF ok "3.prems"(3)] by simp
qed

section \<open>Lemmas on the guards\<close>

lemma current_account_frame:
  assumes "current_account hs st = (r, st')"
  shows "\<exists>fs. st' = st\<lparr>app_db := (app_db st)\<lparr>faults := fs\<rparr>\<rparr>"
proof (cases "cookie_value hs SESSION_COOKIE")
  case None
  then show ?thesis using assms
    by (auto simp: current_account_def intro!: exI [of _ "faults (app_db st)"])
next
  case (Some t)
  then have "st' = st\<lparr>app_db := snd (find_session t (app_db st))\<rparr>"
    using assms by (auto simp: current_account_def with_db_eq split: prod.splits sum.splits option.splits)
  then show ?thesis
    using find_session.read_only [of "app_db st" t] unfolding same_tables_def by metis
qed

lemma require_account_frame:
  "require_account hs st = (r, st') \<Longrightarrow> \<exists>fs. st' = st\<lparr>app_db := (app_db st)\<lparr>faults := fs\<rparr>\<rparr>"
  by (auto simp: require_account_def split: prod.splits option.splits dest: current_account_frame)

lemma require_admin_frame:
  "require_admin hs st = (r, st') \<Longrightarrow> \<exists>fs. st' = st\<lparr>app_db := (app_db st)\<lparr>faults := fs\<rparr>\<rparr>"
  by (auto simp: require_admin_def split: prod.splits sum.splits if_splits dest: require_account_frame)

text \<open>A guard that lets a request pass has resolved its cookie to a row of the sessions table.\<close>

lemma require_account_Inr:
  assumes "db_wf (app_db st)" and "require_account hs st = (Inr a, st')"
  shows "\<exists>token acc. cookie_value hs SESSION_COOKIE = Some token \<and> session_of (app_db st) token = Some acc \<and>
     aa_id a = acc_id acc \<and> aa_email a = acc_email acc \<and> aa_role a = acc_role acc"
  using assms(2) find_session_Inr [OF assms(1)]
  by (auto simp: require_account_def current_account_def with_db_def
      split: prod.splits sum.splits option.splits dest!: sym [of "Some _" "session_of _ _"])

lemma require_admin_Inr:
  "require_admin hs st = (Inr a, st') \<longleftrightarrow> require_account hs st = (Inr a, st') \<and> aa_role a = Admin"
  by (auto simp: require_admin_def split: prod.splits sum.splits if_splits)

lemma count_accounts_Inr: "count_accounts d = (Inr n, d') \<Longrightarrow> n = int (length (accounts_tbl d)) \<and> same_tables d d'"
  unfolding count_accounts_def by (elim stmt_Inr) (auto simp: same_tables_iff)

lemma set_registration_Inr:
  "set_registration_enabled b d = (Inr u, d') \<Longrightarrow> accounts_tbl d' = accounts_tbl d \<and> (reg_open d' \<longleftrightarrow> b) \<and>
     devices_tbl d' = devices_tbl d \<and> sessions_tbl d' = sessions_tbl d"
  unfolding set_registration_enabled_def set_setting_def
  by (elim stmt_Inr) (auto simp: same_tables_iff reg_open_def split: if_splits)

lemma bootstrap_step: "db_step (create_account_and_maybe_bootstrap_admin email hash)"
proof -
  have "create_account_and_maybe_bootstrap_admin email hash =
      and_then count_accounts (\<lambda>n.
        and_then (create_account email hash (if n = 0 then Admin else User)) (\<lambda>i.
          if n = 0 then and_then (set_registration_enabled False) (\<lambda>_ d. (Inr (i, Admin), d))
          else (\<lambda>d. (Inr (i, User), d))))"
    by (auto simp: fun_eq_iff create_account_and_maybe_bootstrap_admin_def and_then_def Let_def
        split: prod.splits sum.splits)
  moreover have "db_step (\<lambda>d. (Inr x, d))" for x :: "int \<times> account_role"
    by unfold_locales (auto intro: exI [of _ 0])
  ultimately show ?thesis
    by (auto intro!: and_then_step count_accounts.db_step_axioms create_account.db_step_axioms
        set_registration_enabled.db_step_axioms)
qed

lemma bootstrap_keeps [simp]:
  "sessions_tbl (snd (create_account_and_maybe_bootstrap_admin e h d)) = sessions_tbl d"
  "devices_tbl (snd (create_account_and_maybe_bootstrap_admin e h d)) = devices_tbl d"
  by (simp_all add: create_account_and_maybe_bootstrap_admin_def case_prod_beta Let_def split: sum.split)

lemma bootstrap_prefix:
  "\<exists>rs. accounts_tbl (snd (create_account_and_maybe_bootstrap_admin e h d)) = accounts_tbl d @ rs"
  using create_account_prefix [of e h _ "snd (count_accounts d)"]
  by (simp add: create_account_and_maybe_bootstrap_admin_def case_prod_beta Let_def split: sum.split)

interpretation bootstrap: db_step "create_account_and_maybe_bootstrap_admin email hash" for email hash
  by (rule bootstrap_step)

section \<open>Properties\<close>

definition wit_admin_db :: db where
  "wit_admin_db = wit_db\<lparr>accounts_tbl := [\<lparr>ar_id = 1, ar_email = ''a@b'', ar_password_hash = ''salt$pw'',
       ar_created_at = 5, ar_role = ''admin''\<rparr>], accounts_seq := 1,
     sessions_tbl := [\<lparr>sr_token = ''tok'', sr_account_id = 1, sr_created_at = 6\<rparr>]\<rparr>"

definition wit_app :: app_state where
  "wit_app = \<lparr>app_db = wit_admin_db, turn = wit_turn, connections = Map.empty, device_online = Map.empty,
     otp = Map.empty, sessions = Map.empty, client_templates_dir = ''client-templates'',
     fetched_templates_dir = ''fetched-client-templates'',
     channels = (\<lambda>_. \<lparr>rx_alive = False, queue = []\<rparr>), files = Map.empty\<rparr>"

definition wit_headers :: headers where
  "wit_headers = \<lparr>cookie_header = Some (Text ''visuara_session=tok''), user_agent_header = None\<rparr>"

lemma wit_admin_wf: "db_wf wit_admin_db"
  by (simp add: db_wf_defs wit_admin_db_def wit_db_def)

lemma wit_cookie: "cookie_value wit_headers SESSION_COOKIE = Some ''tok''"
  by (simp add: cookie_value_def wit_headers_def SESSION_COOKIE_def cookie_part_def trim_def
      trim_start_def is_whitespace_def)

lemma wit_require_admin:
  "require_admin wit_headers wit_app = (Inr \<lparr>aa_id = 1, aa_email = ''a@b'', aa_role = Admin\<rparr>, wit_app)"
  using wit_cookie
  by (simp add: require_admin_def require_account_def current_account_def with_db_def find_session_def
      stmt_def wit_app_def wit_admin_db_def wit_db_def query_row_def map_account_row_def from_column_def)

text \<open>
  The registration rule: whenever registering succeeds, the new account is the administrator exactly
  if it is the first one, and in that case public registration is closed afterwards; for a later
  account every setting stays as it was.  The account is appended and nothing else changes.
\<close>

theorem first_account_becomes_admin:
  assumes "create_account_and_maybe_bootstrap_admin email hash d = (Inr (i, role), d')"
  shows "(role = Admin \<longleftrightarrow> accounts_tbl d = []) \<and>
     (accounts_tbl d = [] \<longrightarrow> \<not> reg_open d') \<and>
     (accounts_tbl d \<noteq> [] \<longrightarrow> settings_tbl d' = settings_tbl d) \<and>
     accounts_tbl d' = accounts_tbl d @ [\<lparr>ar_id = i, ar_email = email, ar_password_hash = hash,
        ar_created_at = wall_clock d, ar_role = as_str role\<rparr>] \<and>
     email \<notin> set (map ar_email (accounts_tbl d)) \<and>
     devices_tbl d' = devices_tbl d \<and> sessions_tbl d' = sessions_tbl d"
proof -
  from assms obtain n d1 d2 where
    1: "count_accounts d = (Inr n, d1)" and
    2: "create_account email hash role d1 = (Inr i, d2)" and
    r: "role = (if n = 0 then Admin else User)" and
    3: "if n = 0 then \<exists>u. set_registration_enabled False d2 = (Inr u, d') else d' = d2"
    by (auto simp: create_account_and_maybe_bootstrap_admin_def Let_def
        split: prod.splits sum.splits if_splits)
  note s = count_accounts_Inr [OF 1]
  have n: "n = 0 \<longleftrightarrow> accounts_tbl d = []" using s by auto
  note c = create_account_Inr [OF 2]
  show ?thesis
  proof (cases "accounts_tbl d = []")
    case True
    with 3 n obtain u where "set_registration_enabled False d2 = (Inr u, d')" by auto
    from set_registration_Inr [OF this] show ?thesis using c s r n True by (simp add: same_tables_iff)
  next
    case False
    then show ?thesis using c s r n 3 by (simp add: same_tables_iff)
  qed
qed

theorem first_account_becomes_admin_witness:
  "\<exists>d'. create_account_and_maybe_bootstrap_admin ''me@x'' ''h'' wit_db = (Inr (1, Admin), d') \<and> \<not> reg_open d'"
proof -
  obtain d' where
    c: "create_account_and_maybe_bootstrap_admin ''me@x'' ''h'' wit_db = (Inr (1, Admin), d')"
    by (simp add: create_account_and_maybe_bootstrap_admin_def count_accounts_def create_account_def
        set_registration_enabled_def set_setting_def stmt_def wit_db_def Let_def)
  show ?thesis using c first_account_becomes_admin [OF c] by (auto simp: wit_db_def)
qed

text \<open>
  Registering is three statements without a transaction.  If the engine refuses the last one, the
  caller is told that registration failed, yet the account exists with the admin role and public
  registration is still open.
\<close>

theorem bootstrap_not_atomic:
  assumes "accounts_tbl d = []" and "accounts_seq d < 2 ^ 63 - 1" and "faults d = [None, None, Some e]"
  shows "\<exists>d'. create_account_and_maybe_bootstrap_admin email hash d = (Inl e, d') \<and>
     map ar_email (accounts_tbl d') = [email] \<and> has_admin d' \<and> reg_open d' = reg_open d"
  using assms
  by (simp add: create_account_and_maybe_bootstrap_admin_def count_accounts_def create_account_def
      set_registration_enabled_def set_setting_def stmt_def Let_def has_admin_def reg_open_def)

theorem bootstrap_not_atomic_witness:
  "\<exists>d'. create_account_and_maybe_bootstrap_admin ''me@x'' ''h''
          (wit_db\<lparr>faults := [None, None, Some ''disk I/O error'']\<rparr>) = (Inl ''disk I/O error'', d') \<and>
     map ar_email (accounts_tbl d') = [''me@x''] \<and> has_admin d' \<and> reg_open d'"
  using bootstrap_not_atomic [of "wit_db\<lparr>faults := [None, None, Some ''disk I/O error'']\<rparr>"
      "''disk I/O error''" "''me@x''" "''h''"]
  by (simp add: wit_db_def reg_open_def)

end
