(* ===== verification/Ws.thy ===== *)
theory Ws
  imports Web_Session
begin

text \<open>
  \<^verbatim>\<open>visuara-signaling/src/ws.rs\<close>: the WebSocket connection handler.  \<open>handle_message\<close> is split into one
  definition per arm of its \<open>match\<close>; each returns its \<open>anyhow::Result\<close>, the connection's own state
  and the shared state.  \<open>ws_open\<close>, \<open>ws_text\<close>, \<open>ws_malformed\<close>, \<open>ws_close\<close> and the two steps of the
  send task are the pieces of \<open>handle_socket\<close>.
\<close>

section \<open>The connection's own state\<close>

datatype conn_state = Unauthenticated | Authenticated int

record conn =
  conn_state :: conn_state
  my_device_id :: "device_id option"

type_synonym reply = "(string, unit) result \<times> conn \<times> app_state"

definition require_auth :: "conn_state \<Rightarrow> (string, int) result" where
  "require_auth cs = (case cs of Authenticated i \<Rightarrow> Inr i | Unauthenticated \<Rightarrow> Inl ''not authenticated'')"

definition reply :: "conn_id \<Rightarrow> server_message \<Rightarrow> conn \<Rightarrow> app_state \<Rightarrow> reply" where
  "reply tx msg cn st = (case send tx msg st of (res, st') \<Rightarrow> (res, cn, st'))"

section \<open>The arms of handle_message\<close>

definition ws_register :: "crypto \<Rightarrow> entropy \<Rightarrow> conn_id \<Rightarrow> string \<Rightarrow> string \<Rightarrow> conn \<Rightarrow> app_state \<Rightarrow> reply" where
  "ws_register c r cid email password cn st =
     (case with_db registration_enabled st of (en, st1) \<Rightarrow>
        if \<not> (case en of Inr b \<Rightarrow> b | Inl _ \<Rightarrow> True)
        then reply cid (AuthError ''registration is currently disabled'') cn st1
        else case hash_password c r password of
               Inl e \<Rightarrow> (Inl e, cn, st1)
             | Inr hash \<Rightarrow>
                 (case with_db (create_account_and_maybe_bootstrap_admin email hash) st1 of
                    (Inr (i, _), st2) \<Rightarrow>
                      reply cid (AuthOk (generate_session_token r)) (cn\<lparr>conn_state := Authenticated i\<rparr>) st2
                  | (Inl e, st2) \<Rightarrow> reply cid (AuthError (''registration failed: '' @ e)) cn st2))"

definition ws_login :: "crypto \<Rightarrow> entropy \<Rightarrow> conn_id \<Rightarrow> string \<Rightarrow> string \<Rightarrow> conn \<Rightarrow> app_state \<Rightarrow> reply" where
  "ws_login c r cid email password cn st =
     (case with_db (find_account_by_email email) st of
        (Inl e, st1) \<Rightarrow> (Inl e, cn, st1)
      | (Inr (Some a), st1) \<Rightarrow>
          if verify_password c password (acc_password_hash a)
          then reply cid (AuthOk (generate_session_token r)) (cn\<lparr>conn_state := Authenticated (acc_id a)\<rparr>) st1
          else reply cid (AuthError ''invalid email or password'') cn st1
      | (Inr None, st1) \<Rightarrow> reply cid (AuthError ''invalid email or password'') cn st1)"

definition announce_device :: "entropy \<Rightarrow> conn_id \<Rightarrow> device_id \<Rightarrow> conn \<Rightarrow> app_state \<Rightarrow> reply" where
  "announce_device r cid di cn st =
     (let code = generate_one_time_password r;
          st' = st\<lparr>device_online := (device_online st)(di \<mapsto> cid), otp := (otp st)(di \<mapsto> code)\<rparr>
      in reply cid (DeviceRegistered di code) cn st')"

definition ws_register_device :: "entropy \<Rightarrow> conn_id \<Rightarrow> string \<Rightarrow> conn \<Rightarrow> app_state \<Rightarrow> reply" where
  "ws_register_device r cid name cn st =
     (case require_auth (conn_state cn) of
        Inl e \<Rightarrow> (Inl e, cn, st)
      | Inr i \<Rightarrow>
          (case my_device_id cn of
             Some di \<Rightarrow> announce_device r cid di cn st
           | None \<Rightarrow>
               let di = generate_device_id r in
               (case with_db (create_device di i name) st of
                  (Inl e, st1) \<Rightarrow> (Inl e, cn, st1)
                | (Inr _, st1) \<Rightarrow> announce_device r cid di (cn\<lparr>my_device_id := Some di\<rparr>) st1)))"

definition summarize :: "app_state \<Rightarrow> device \<Rightarrow> device_summary" where
  "summarize st d = \<lparr>ds_device_id = dev_id d, ds_name = dev_name d,
     ds_online = (device_online st (dev_id d) \<noteq> None),
     ds_unattended_access_enabled = (dev_unattended_password_hash d \<noteq> None)\<rparr>"

definition ws_list_devices :: "conn_id \<Rightarrow> conn \<Rightarrow> app_state \<Rightarrow> reply" where
  "ws_list_devices cid cn st =
     (case require_auth (conn_state cn) of
        Inl e \<Rightarrow> (Inl e, cn, st)
      | Inr i \<Rightarrow>
          (case with_db (list_devices_for_account i) st of
             (Inl e, st1) \<Rightarrow> (Inl e, cn, st1)
           | (Inr ds, st1) \<Rightarrow> reply cid (DeviceList (map (summarize st1) ds)) cn st1))"

definition credential_ok :: "crypto \<Rightarrow> app_state \<Rightarrow> device_id \<Rightarrow> device \<Rightarrow> connect_credential \<Rightarrow> bool" where
  "credential_ok c st target dev cred =
     (case cred of
        OneTimePassword code \<Rightarrow>
          (case otp st target of Some current \<Rightarrow> current = code | None \<Rightarrow> False)
      | UnattendedPassword pw \<Rightarrow>
          (case dev_unattended_password_hash dev of Some h \<Rightarrow> verify_password c pw h | None \<Rightarrow> False))"

definition ws_request_connection ::
  "crypto \<Rightarrow> entropy \<Rightarrow> conn_id \<Rightarrow> device_id \<Rightarrow> connect_credential \<Rightarrow> conn \<Rightarrow> app_state \<Rightarrow> reply" where
  "ws_request_connection c r cid target cred cn st =
     (case require_auth (conn_state cn) of
        Inl e \<Rightarrow> (Inl e, cn, st)
      | Inr _ \<Rightarrow>
          (case with_db (find_device target) st of
             (Inl e, st1) \<Rightarrow> (Inl e, cn, st1)
           | (Inr None, st1) \<Rightarrow> (Inl ''unknown device'', cn, st1)
           | (Inr (Some dev), st1) \<Rightarrow>
               if \<not> credential_ok c st1 target dev cred
               then reply cid (ServerError ''invalid credential'') cn st1
               else (case device_online st1 target of
                       None \<Rightarrow> (Inl ''device is offline'', cn, st1)
                     | Some host \<Rightarrow>
                         let sid = rnd_uuid r;
                             st2 = st1\<lparr>sessions := (sessions st1)(sid \<mapsto> \<lparr>peer_a = cid, peer_b = host\<rparr>)\<rparr> in
                         (case (case connections st2 host of
                                  Some host_tx \<Rightarrow> send host_tx (IncomingConnection sid None) st2
                                | None \<Rightarrow> (Inr (), st2)) of
                            (Inl e, st3) \<Rightarrow> (Inl e, cn, st3)
                          | (Inr _, st3) \<Rightarrow> reply cid (ConnectionEstablished sid target) cn st3))))"

definition relay :: "conn_id \<Rightarrow> session_id \<Rightarrow> server_message \<Rightarrow> app_state \<Rightarrow> (string, unit) result \<times> app_state" where
  "relay cid sid msg st =
     (case sessions st sid of
        None \<Rightarrow> (Inl ''unknown session'', st)
      | Some peers \<Rightarrow>
          (case other peers cid of
             None \<Rightarrow> (Inl ''not part of session'', st)
           | Some o_cid \<Rightarrow>
               (case connections st o_cid of
                  None \<Rightarrow> (Inl ''peer disconnected'', st)
                | Some other_tx \<Rightarrow> send other_tx msg st)))"

definition ws_relay :: "conn_id \<Rightarrow> session_id \<Rightarrow> server_message \<Rightarrow> conn \<Rightarrow> app_state \<Rightarrow> reply" where
  "ws_relay cid sid msg cn st = (case relay cid sid msg st of (res, st') \<Rightarrow> (res, cn, st'))"

definition ws_turn_credentials :: "crypto \<Rightarrow> entropy \<Rightarrow> conn_id \<Rightarrow> conn \<Rightarrow> app_state \<Rightarrow> reply" where
  "ws_turn_credentials c r cid cn st =
     (case mint_credentials c r (turn st) cid 300 of (username, password) \<Rightarrow>
        reply cid (TurnCredentials (turn_urls (turn st)) username password 300) cn st)"

definition ws_set_unattended ::
  "crypto \<Rightarrow> entropy \<Rightarrow> device_id \<Rightarrow> string \<Rightarrow> conn \<Rightarrow> app_state \<Rightarrow> reply" where
  "ws_set_unattended c r target password cn st =
     (case require_auth (conn_state cn) of
        Inl e \<Rightarrow> (Inl e, cn, st)
      | Inr i \<Rightarrow>
          (case with_db (find_device target) st of
             (Inl e, st1) \<Rightarrow> (Inl e, cn, st1)
           | (Inr None, st1) \<Rightarrow> (Inl ''unknown device'', cn, st1)
           | (Inr (Some dev), st1) \<Rightarrow>
               if dev_account_id dev \<noteq> i then (Inl ''not your device'', cn, st1)
               else (case hash_password c r password of
                       Inl e \<Rightarrow> (Inl e, cn, st1)
                     | Inr hash \<Rightarrow>
                         (case with_db (set_unattended_password_hash target hash) st1 of
                            (Inl e, st2) \<Rightarrow> (Inl e, cn, st2)
                          | (Inr _, st2) \<Rightarrow>
                              (case Option.bind (device_online st2 target) (connections st2) of
                                 Some host_tx \<Rightarrow> reply host_tx (UnattendedPasswordUpdated password) cn st2
                               | None \<Rightarrow> (Inr (), cn, st2))))))"

fun handle_message :: "crypto \<Rightarrow> entropy \<Rightarrow> client_message \<Rightarrow> conn_id \<Rightarrow> conn \<Rightarrow> app_state \<Rightarrow> reply" where
  "handle_message c r (Register email password) cid cn st = ws_register c r cid email password cn st"
| "handle_message c r (Login email password) cid cn st = ws_login c r cid email password cn st"
| "handle_message c r (RegisterDevice name) cid cn st = ws_register_device r cid name cn st"
| "handle_message c r ListDevices cid cn st = ws_list_devices cid cn st"
| "handle_message c r (RequestConnection target cred) cid cn st = ws_request_connection c r cid target cred cn st"
| "handle_message c r (SdpOffer sid sdp) cid cn st = ws_relay cid sid (SrvSdpOffer sid sdp) cn st"
| "handle_message c r (SdpAnswer sid sdp) cid cn st = ws_relay cid sid (SrvSdpAnswer sid sdp) cn st"
| "handle_message c r (IceCandidate sid cand) cid cn st = ws_relay cid sid (SrvIceCandidate sid cand) cn st"
| "handle_message c r RequestTurnCredentials cid cn st = ws_turn_credentials c r cid cn st"
| "handle_message c r (SetUnattendedPassword target password) cid cn st = ws_set_unattended c r target password cn st"

section \<open>The pieces of handle_socket\<close>

definition ws_open :: "conn_id \<Rightarrow> app_state \<Rightarrow> conn \<times> app_state" where
  "ws_open cid st =
     (\<lparr>conn_state = Unauthenticated, my_device_id = None\<rparr>,
      st\<lparr>connections := (connections st)(cid \<mapsto> cid),
         channels := (channels st)(cid := \<lparr>rx_alive = True, queue = []\<rparr>)\<rparr>)"

definition ws_text :: "crypto \<Rightarrow> entropy \<Rightarrow> client_message \<Rightarrow> conn_id \<Rightarrow> conn \<Rightarrow> app_state \<Rightarrow> conn \<times> app_state" where
  "ws_text c r msg cid cn st =
     (case handle_message c r msg cid cn st of
        (Inr _, cn', st') \<Rightarrow> (cn', st')
      | (Inl e, cn', st') \<Rightarrow> (cn', snd (send cid (ServerError e) st')))"

definition ws_malformed :: "string \<Rightarrow> conn_id \<Rightarrow> app_state \<Rightarrow> app_state" where
  "ws_malformed e cid st = snd (send cid (ServerError (''malformed message: '' @ e)) st)"

definition drop_receiver :: "conn_id \<Rightarrow> app_state \<Rightarrow> app_state" where
  "drop_receiver cid st = st\<lparr>channels := (channels st)(cid := \<lparr>rx_alive = False, queue = []\<rparr>)\<rparr>"

definition ws_close :: "conn_id \<Rightarrow> conn \<Rightarrow> app_state \<Rightarrow> app_state" where
  "ws_close cid cn st =
     (let st1 = st\<lparr>connections := (connections st)(cid := None)\<rparr>;
          st2 = (case my_device_id cn of
                   Some di \<Rightarrow> st1\<lparr>device_online := (device_online st1)(di := None), otp := (otp st1)(di := None)\<rparr>
                 | None \<Rightarrow> st1)
      in drop_receiver cid st2)"

text \<open>One turn of the send task: the next message goes out, or the socket refuses it and the task ends.\<close>

definition send_task_sends :: "conn_id \<Rightarrow> app_state \<Rightarrow> app_state" where
  "send_task_sends cid st =
     st\<lparr>channels := (channels st)(cid := (channels st cid)\<lparr>queue := tl (queue (channels st cid))\<rparr>)\<rparr>"

definition send_task_breaks :: "conn_id \<Rightarrow> app_state \<Rightarrow> app_state" where
  "send_task_breaks cid st = drop_receiver cid st"

section \<open>What a message can change\<close>

lemmas ws_arms = ws_register_def ws_login_def ws_register_device_def ws_list_devices_def
  ws_request_connection_def ws_relay_def relay_def ws_turn_credentials_def ws_set_unattended_def
  announce_device_def

lemma reply_simps [simp]:
  "fst (reply tx m cn st) = fst (send tx m st)"
  "fst (snd (reply tx m cn st)) = cn"
  "snd (snd (reply tx m cn st)) = snd (send tx m st)"
  by (simp_all add: reply_def split: prod.splits)

text \<open>Evaluating an arm: database calls become explicit pairs, sends stay opaque.\<close>

lemmas ws_eval = with_db_pair case_prod_beta Let_def require_auth_def if_pair

text \<open>The frame of every message: the registry of connections, the configuration and the liveness of
  channels never change.\<close>

lemma handle_message_connections [frame]:
  "connections (snd (snd (handle_message c r m cid cn st))) = connections st"
  by (cases m) (simp_all add: ws_arms ws_eval split: sum.split option.split conn_state.split)

lemma handle_message_alive [frame]:
  "rx_alive (channels (snd (snd (handle_message c r m cid cn st))) x) = rx_alive (channels st x)"
  by (cases m) (simp_all add: ws_arms ws_eval split: sum.split option.split conn_state.split)

lemma handle_message_sessions_tbl [frame]:
  "sessions_tbl (app_db (snd (snd (handle_message c r m cid cn st)))) = sessions_tbl (app_db st)"
  by (cases m) (simp_all add: ws_arms ws_eval split: sum.split option.split conn_state.split)

lemma handle_message_wf [inv_intros]:
  "db_wf (app_db st) \<Longrightarrow> db_wf (app_db (snd (snd (handle_message c r m cid cn st))))"
  by (cases m) (simp_all add: ws_arms ws_eval all_wf bootstrap.wf
      split: sum.split option.split conn_state.split)

lemma handle_message_accounts [frame]:
  "\<exists>rs. accounts_tbl (app_db (snd (snd (handle_message c r m cid cn st)))) = accounts_tbl (app_db st) @ rs"
proof (cases m)
  case (Register e p)
  then show ?thesis
    using bootstrap_prefix [of e _ "snd (registration_enabled (app_db st))"]
    by (simp add: ws_arms ws_eval split: sum.split)
qed (simp_all add: ws_arms ws_eval split: sum.split option.split conn_state.split)

text \<open>The registration of devices is the only source of presence, and names the connection itself.\<close>

definition announces :: "string \<Rightarrow> conn_id \<Rightarrow> conn \<Rightarrow> app_state \<Rightarrow> conn \<Rightarrow> app_state \<Rightarrow> bool" where
  "announces code cid cn st cn' st' \<longleftrightarrow>
     (\<exists>di. device_online st' = (device_online st)(di \<mapsto> cid) \<and> otp st' = (otp st)(di \<mapsto> code) \<and>
        my_device_id cn' = Some di \<and> (my_device_id cn = None \<or> my_device_id cn = Some di))"

definition same_presence :: "conn \<Rightarrow> app_state \<Rightarrow> conn \<Rightarrow> app_state \<Rightarrow> bool" where
  "same_presence cn st cn' st' \<longleftrightarrow>
     device_online st' = device_online st \<and> otp st' = otp st \<and> my_device_id cn' = my_device_id cn"

lemma announcesI:
  "device_online st' = (device_online st)(di \<mapsto> cid) \<Longrightarrow> otp st' = (otp st)(di \<mapsto> code) \<Longrightarrow>
   my_device_id cn' = Some di \<Longrightarrow> my_device_id cn = None \<or> my_device_id cn = Some di \<Longrightarrow>
   announces code cid cn st cn' st'"
  by (auto simp: announces_def)

lemma announce_device_announces:
  "my_device_id cn' = Some di \<Longrightarrow> my_device_id cn = None \<or> my_device_id cn = Some di \<Longrightarrow>
   device_online st1 = device_online st \<Longrightarrow> otp st1 = otp st \<Longrightarrow>
   announces (generate_one_time_password r) cid cn st (fst (snd (announce_device r cid di cn' st1)))
     (snd (snd (announce_device r cid di cn' st1)))"
  by (rule announcesI [where di = di]) (simp_all add: announce_device_def Let_def)

lemma handle_message_presence:
  "same_presence cn st (fst (snd (handle_message c r m cid cn st))) (snd (snd (handle_message c r m cid cn st))) \<or>
   announces (generate_one_time_password r) cid cn st
     (fst (snd (handle_message c r m cid cn st))) (snd (snd (handle_message c r m cid cn st)))"
proof (cases m)
  case (RegisterDevice name)
  have "same_presence cn st (fst (snd (ws_register_device r cid name cn st)))
          (snd (snd (ws_register_device r cid name cn st))) \<or>
        announces (generate_one_time_password r) cid cn st (fst (snd (ws_register_device r cid name cn st)))
          (snd (snd (ws_register_device r cid name cn st)))"
    by (auto simp: ws_register_device_def ws_eval same_presence_def
        split: sum.split option.split conn_state.split intro!: announce_device_announces)
  then show ?thesis using RegisterDevice by simp
qed (simp_all add: same_presence_def ws_arms ws_eval split: sum.split option.split conn_state.split)

lemma handle_message_otp_dom:
  "dom (otp st) = dom (device_online st) \<Longrightarrow>
   dom (otp (snd (snd (handle_message c r m cid cn st)))) =
   dom (device_online (snd (snd (handle_message c r m cid cn st))))"
  using handle_message_presence [of cn st c r m cid]
  unfolding same_presence_def announces_def by (elim disjE exE conjE) simp_all

interpretation message: server_op "\<lambda>st. snd (snd (handle_message c r m cid cn st))" for c r m cid cn
  by unfold_locales (auto simp: frame handle_message_otp_dom intro: inv_intros)

lemma ws_text_eq:
  "ws_text c r m cid cn st =
     (fst (snd (handle_message c r m cid cn st)),
      case fst (handle_message c r m cid cn st) of
        Inr _ \<Rightarrow> snd (snd (handle_message c r m cid cn st))
      | Inl e \<Rightarrow> snd (send cid (ServerError e) (snd (snd (handle_message c r m cid cn st)))))"
  by (simp add: ws_text_def case_prod_beta split: sum.split)

interpretation text_op: server_op "\<lambda>st. snd (ws_text c r m cid cn st)" for c r m cid cn
  by unfold_locales
    (auto simp: ws_text_eq frame handle_message_otp_dom split: sum.split intro: inv_intros)

interpretation malformed: server_op "ws_malformed e cid" for e cid
  unfolding ws_malformed_def by (rule server_op_send)

lemma ws_text_presence:
  assumes "ws_text c r m cid cn st = (cn', st')"
  shows "same_presence cn st cn' st' \<or> announces (generate_one_time_password r) cid cn st cn' st'"
proof -
  have "cn' = fst (snd (handle_message c r m cid cn st))"
    "device_online st' = device_online (snd (snd (handle_message c r m cid cn st)))"
    "otp st' = otp (snd (snd (handle_message c r m cid cn st)))"
    using assms by (auto simp: ws_text_eq split: sum.splits)
  then show ?thesis
    using handle_message_presence [of cn st c r m cid] by (simp add: same_presence_def announces_def)
qed

end
