(* ===== verification/Http_Api.thy ===== *)
theory Http_Api
  imports Ws
begin

text \<open>
  \<^verbatim>\<open>visuara-signaling/src/api/\<close>: \<open>mod.rs\<close>, \<open>auth.rs\<close> and \<open>devices.rs\<close>, the public and the self-service
  endpoints.  A handler takes the extracted parts of the request and the shared state and returns its
  response and the new state; extracting JSON bodies and path segments is the web framework's.  The
  argument \<open>alt\<close> renders an error the way \<open>{e:#}\<close> does, with its chain of causes, which only the
  database driver knows.
\<close>

section \<open>Responses\<close>

record account_view =
  av_id :: int
  av_email :: string
  av_role :: account_role

record settings_view =
  sv_server_url :: string
  sv_default_device_name :: string

record build_status =
  bs_platform :: string
  bs_status :: string

record fetch_release_result =
  fr_platform :: string
  fr_version :: "string option"
  fr_error :: "string option"

record device_view =
  dv_id :: string
  dv_name :: string
  dv_online :: bool
  dv_unattended_access_enabled :: bool

record account_detail_view =
  ad_id :: int
  ad_email :: string
  ad_role :: account_role
  ad_devices :: "device_view list"

record download_option =
  do_platform :: string
  do_available :: bool
  do_recommended :: bool
  do_custom_build :: bool
  do_version :: "string option"
  do_fetched_at :: "int option"

datatype body =
  EmptyBody
| ErrorBody string
| PlainText string
| AccountBody account_view
| DevicesBody "device_summary list"
| EnabledBody bool
| SettingsBody settings_view
| BuildsBody "build_status list"
| FetchBody "fetch_release_result list"
| AccountsBody "account_summary list"
| DetailBody account_detail_view
| DownloadListBody "string option" "download_option list"
| BinaryBody string string bytes  \<comment> \<open>content type, content disposition, data\<close>

record response =
  status :: status_code
  body :: body
  set_cookie :: "string option"

definition ok_response :: "body \<Rightarrow> response" where
  "ok_response b = \<lparr>status = OK, body = b, set_cookie = None\<rparr>"

definition status_response :: "status_code \<Rightarrow> response" where
  "status_response s = \<lparr>status = s, body = EmptyBody, set_cookie = None\<rparr>"

definition error_response :: "status_code \<Rightarrow> string \<Rightarrow> response" where
  "error_response s message = \<lparr>status = s, body = ErrorBody message, set_cookie = None\<rparr>"

type_synonym handler = "app_state \<Rightarrow> response \<times> app_state"
type_synonym alt = "string \<Rightarrow> string"

section \<open>api/auth.rs\<close>

definition start_session :: "alt \<Rightarrow> entropy \<Rightarrow> int \<Rightarrow> string \<Rightarrow> account_role \<Rightarrow> handler" where
  "start_session alt r account_id email role st =
     (let token = generate_session_token r in
      case with_db (create_session token account_id) st of
        (Inl e, st') \<Rightarrow> (error_response INTERNAL_SERVER_ERROR (''failed to create session: '' @ alt e), st')
      | (Inr _, st') \<Rightarrow>
          ((ok_response (AccountBody \<lparr>av_id = account_id, av_email = email, av_role = role\<rparr>))
             \<lparr>set_cookie := Some (set_session_cookie token)\<rparr>, st'))"

text \<open>The em dash of the message is written as its UTF-8 bytes.\<close>

definition already_registered :: string where
  "already_registered = ''That email is already registered '' @ [CHR 0xE2, CHR 0x80, CHR 0x94] @
     '' try logging in instead.''"

definition register :: "alt \<Rightarrow> crypto \<Rightarrow> entropy \<Rightarrow> string \<Rightarrow> string \<Rightarrow> handler" where
  "register alt c r body_email password st =
     (let email = trim body_email in
      if email = [] \<or> password = []
      then (error_response BAD_REQUEST ''email and password are required'', st)
      else case with_db registration_enabled st of
             (Inr False, st1) \<Rightarrow> (error_response FORBIDDEN ''registration is currently disabled'', st1)
           | (Inl e, st1) \<Rightarrow> (error_response INTERNAL_SERVER_ERROR (alt e), st1)
           | (Inr True, st1) \<Rightarrow>
               (case hash_password c r password of
                  Inl e \<Rightarrow> (error_response INTERNAL_SERVER_ERROR (''failed to hash password: '' @ e), st1)
                | Inr hash \<Rightarrow>
                    (case with_db (create_account_and_maybe_bootstrap_admin email hash) st1 of
                       (Inr (account_id, role), st2) \<Rightarrow> start_session alt r account_id email role st2
                     | (Inl e, st2) \<Rightarrow>
                         (error_response CONFLICT
                            (if contains e ''UNIQUE'' then already_registered
                             else ''registration failed: '' @ alt e), st2))))"

definition login :: "alt \<Rightarrow> crypto \<Rightarrow> entropy \<Rightarrow> string \<Rightarrow> string \<Rightarrow> handler" where
  "login alt c r body_email password st =
     (let email = trim body_email in
      case with_db (find_account_by_email email) st of
        (Inr (Some account), st1) \<Rightarrow>
          if verify_password c password (acc_password_hash account)
          then start_session alt r (acc_id account) (acc_email account) (acc_role account) st1
          else (error_response UNAUTHORIZED ''incorrect email or password'', st1)
      | (Inr None, st1) \<Rightarrow> (error_response UNAUTHORIZED ''incorrect email or password'', st1)
      | (Inl e, st1) \<Rightarrow> (error_response INTERNAL_SERVER_ERROR (alt e), st1))"

definition logout :: "headers \<Rightarrow> handler" where
  "logout hs st =
     ((status_response NO_CONTENT)\<lparr>set_cookie := Some clear_session_cookie\<rparr>,
      case cookie_value hs SESSION_COOKIE of
        Some token \<Rightarrow> snd (with_db (delete_session token) st)
      | None \<Rightarrow> st)"

definition me :: "headers \<Rightarrow> handler" where
  "me hs st =
     (case current_account hs st of
        (Some a, st') \<Rightarrow>
          (ok_response (AccountBody \<lparr>av_id = aa_id a, av_email = aa_email a, av_role = aa_role a\<rparr>), st')
      | (None, st') \<Rightarrow> (status_response UNAUTHORIZED, st'))"

definition unwrap_or :: "'a \<Rightarrow> ('e, 'a) result \<Rightarrow> 'a" where
  "unwrap_or v r = (case r of Inr x \<Rightarrow> x | Inl _ \<Rightarrow> v)"

definition registration_status :: handler where
  "registration_status st =
     (case with_db registration_enabled st of (r, st') \<Rightarrow> (ok_response (EnabledBody (unwrap_or True r)), st'))"

section \<open>api/devices.rs\<close>

definition kick_device :: "device_id \<Rightarrow> string \<Rightarrow> app_state \<Rightarrow> app_state" where
  "kick_device di message st =
     (let live_conn = device_online st di;
          st1 = st\<lparr>device_online := (device_online st)(di := None)\<rparr>;
          st2 = st1\<lparr>otp := (otp st1)(di := None)\<rparr>
      in case Option.bind live_conn (connections st2) of
           Some tx \<Rightarrow> snd (send tx (ServerError message) st2)
         | None \<Rightarrow> st2)"

text \<open>\<open>devices::list\<close>\<close>

definition list_devices :: "headers \<Rightarrow> handler" where
  "list_devices hs st =
     (case require_account hs st of
        (Inl s, st1) \<Rightarrow> (status_response s, st1)
      | (Inr account, st1) \<Rightarrow>
          (case with_db (list_devices_for_account (aa_id account)) st1 of
             (r, st2) \<Rightarrow> (ok_response (DevicesBody (map (summarize st2) (unwrap_or [] r))), st2)))"

definition delete_own :: "alt \<Rightarrow> headers \<Rightarrow> device_id \<Rightarrow> handler" where
  "delete_own alt hs di st =
     (case require_account hs st of
        (Inl s, st1) \<Rightarrow> (status_response s, st1)
      | (Inr account, st1) \<Rightarrow>
          (case with_db (find_device di) st1 of
             (Inl e, st2) \<Rightarrow> (error_response INTERNAL_SERVER_ERROR (alt e), st2)
           | (Inr None, st2) \<Rightarrow> (error_response NOT_FOUND ''device not found'', st2)
           | (Inr (Some dev), st2) \<Rightarrow>
               if dev_account_id dev = aa_id account
               then let st3 = snd (with_db (delete_device di) st2) in
                    (status_response NO_CONTENT, kick_device di ''This device was removed.'' st3)
               else (error_response FORBIDDEN ''not your device'', st2)))"

section \<open>Contracts\<close>

lemma current_account_state:
  "snd (current_account hs st) = (case cookie_value hs SESSION_COOKIE of
     None \<Rightarrow> st | Some token \<Rightarrow> snd (with_db (find_session token) st))"
  by (simp add: current_account_def with_db_pair case_prod_beta split: option.split sum.split)

lemma require_account_state: "snd (require_account hs st) = snd (current_account hs st)"
  by (simp add: require_account_def case_prod_beta split: option.split)

lemma require_admin_state: "snd (require_admin hs st) = snd (current_account hs st)"
  by (simp add: require_admin_def case_prod_beta require_account_state if_pair split: sum.split)

interpretation resolve: server_op "\<lambda>st. snd (current_account hs st)" for hs
  by unfold_locales (simp_all add: current_account_state find_session.wf split: option.split)

text \<open>What resolving a session can change: the fault schedule of the database.\<close>

lemma guard_frame [simp]:
  "accounts_tbl (app_db (snd (current_account hs st))) = accounts_tbl (app_db st)"
  "accounts_seq (app_db (snd (current_account hs st))) = accounts_seq (app_db st)"
  "devices_tbl (app_db (snd (current_account hs st))) = devices_tbl (app_db st)"
  "sessions_tbl (app_db (snd (current_account hs st))) = sessions_tbl (app_db st)"
  "settings_tbl (app_db (snd (current_account hs st))) = settings_tbl (app_db st)"
  "connections (snd (current_account hs st)) = connections st"
  "device_online (snd (current_account hs st)) = device_online st"
  "otp (snd (current_account hs st)) = otp st"
  "sessions (snd (current_account hs st)) = sessions st"
  "channels (snd (current_account hs st)) = channels st"
  "files (snd (current_account hs st)) = files st"
  "turn (snd (current_account hs st)) = turn st"
  "client_templates_dir (snd (current_account hs st)) = client_templates_dir st"
  "fetched_templates_dir (snd (current_account hs st)) = fetched_templates_dir st"
  by (simp_all add: current_account_state split: option.split)

lemma guard_faults: "faults (app_db st) = [] \<Longrightarrow> snd (current_account hs st) = st"
  by (simp add: current_account_state with_db_pair find_session_def stmt_ok split: option.split)

lemma kick_frame [simp]:
  "app_db (kick_device di m st) = app_db st" "connections (kick_device di m st) = connections st"
  "device_online (kick_device di m st) = (device_online st)(di := None)"
  "otp (kick_device di m st) = (otp st)(di := None)" "sessions (kick_device di m st) = sessions st"
  "rx_alive (channels (kick_device di m st) x) = rx_alive (channels st x)"
  "files (kick_device di m st) = files st"
  by (simp_all add: kick_device_def Let_def split: option.split)

interpretation kick: server_op "kick_device di m" for di m
  by unfold_locales simp_all

lemmas http_eval = with_db_pair case_prod_beta Let_def if_pair require_account_state require_admin_state

interpretation start_session: server_op "\<lambda>st. snd (start_session alt r i e role st)" for alt r i e role
  by unfold_locales (simp_all add: start_session_def http_eval create_session.wf split: sum.split)

interpretation register: server_op "\<lambda>st. snd (register alt c r e p st)" for alt c r e p
  by unfold_locales
    (simp_all add: register_def start_session_def http_eval all_wf bootstrap.wf split: sum.split bool.split)

interpretation login: server_op "\<lambda>st. snd (login alt c r e p st)" for alt c r e p
  by unfold_locales (simp_all add: login_def start_session_def http_eval all_wf split: sum.split option.split)

interpretation logout: server_op "\<lambda>st. snd (logout hs st)" for hs
  by unfold_locales (simp_all add: logout_def http_eval all_wf split: option.split)

interpretation me: server_op "\<lambda>st. snd (me hs st)" for hs
  by unfold_locales (simp_all add: me_def http_eval resolve.keeps_wf split: option.split)

interpretation registration_status: server_op "\<lambda>st. snd (registration_status st)"
  by unfold_locales (simp_all add: registration_status_def http_eval all_wf)

interpretation list_devices: server_op "\<lambda>st. snd (list_devices hs st)" for hs
  by unfold_locales (simp_all add: list_devices_def http_eval all_wf resolve.keeps_wf split: sum.split)

interpretation delete_own: server_op "\<lambda>st. snd (delete_own alt hs di st)" for alt hs di
  by unfold_locales
    (simp_all add: delete_own_def http_eval all_wf resolve.keeps_wf split: sum.split option.split)

end
