(* ===== verification/Releases.thy ===== *)
theory Releases
  imports Http_Api Embedded_Config "HOL-Library.Multiset"
begin

text \<open>
  \<^verbatim>\<open>visuara-signaling/src/platforms.rs\<close>, \<^verbatim>\<open>release_fetch.rs\<close> and \<^verbatim>\<open>api/download.rs\<close>: which client builds the server
  offers, how it fetches them from a release, and how it serves them with the configuration patched
  in.  What the network and the disk answer is in the record \<open>server_io\<close>; the JSON of a release is
  parsed by a parameter of it.  Error texts are the full chains that \<open>{e:#}\<close> prints.
\<close>

section \<open>platforms.rs\<close>

record platform_info =
  pi_key :: string
  pi_template_filename :: string
  pi_download_filename :: string
  pi_content_type :: string

definition PLATFORMS :: "platform_info list" where
  "PLATFORMS =
     [\<lparr>pi_key = ''windows-x86_64'', pi_template_filename = ''windows-x86_64.exe'',
       pi_download_filename = ''visuara.exe'',
       pi_content_type = ''application/vnd.microsoft.portable-executable''\<rparr>,
      \<lparr>pi_key = ''linux-x86_64'', pi_template_filename = ''linux-x86_64'',
       pi_download_filename = ''visuara'', pi_content_type = ''application/octet-stream''\<rparr>]"

datatype template_source = Manual | Fetched

definition path_exists :: "app_state \<Rightarrow> string \<Rightarrow> bool" where
  "path_exists st p \<longleftrightarrow> files st p \<noteq> None"

definition resolve_template_path :: "platform_info \<Rightarrow> app_state \<Rightarrow> (string \<times> template_source) option" where
  "resolve_template_path info st =
     (let manual = path_join (client_templates_dir st) (pi_template_filename info);
          fetched = path_join (fetched_templates_dir st) (pi_template_filename info)
      in if path_exists st manual then Some (manual, Manual)
         else if path_exists st fetched then Some (fetched, Fetched)
         else None)"

section \<open>release_fetch.rs\<close>

record github_asset =
  ga_name :: string
  ga_browser_download_url :: string

record github_release =
  gr_tag_name :: string
  gr_assets :: "github_asset list"

record http_reply =
  error_status :: "string option"  \<comment> \<open>what \<open>error_for_status\<close> reports\<close>
  reply_bytes :: "(string, bytes) result"

record server_io =
  http_get :: "string \<Rightarrow> (string, http_reply) result"
  parse_release :: "bytes \<Rightarrow> (string, github_release) result"
  write_fault :: "string \<Rightarrow> (string \<times> bytes option) option"  \<comment> \<open>error, and what the file then holds\<close>
  rename_fault :: "string \<Rightarrow> string option"
  read_fault :: "string \<Rightarrow> bool"
  unix_secs :: "u64 option"  \<comment> \<open>none when the clock is before 1970\<close>

definition RELEASE_REPO :: string where
  "RELEASE_REPO = ''deranjer/visuara''"

definition fetch_latest_release :: "server_io \<Rightarrow> string \<Rightarrow> (string, github_release) result" where
  "fetch_latest_release io repo =
     (let url = ''https://api.github.com/repos/'' @ repo @ ''/releases/latest'' in
      case http_get io url of
        Inl e \<Rightarrow> Inl (''request GitHub latest release: '' @ e)
      | Inr resp \<Rightarrow>
          (case error_status resp of
             Some e \<Rightarrow> Inl (''GitHub API returned an error status: '' @ e)
           | None \<Rightarrow>
               (case reply_bytes resp of
                  Inl e \<Rightarrow> Inl (''parse GitHub release JSON: '' @ e)
                | Inr b \<Rightarrow>
                    (case parse_release io b of
                       Inl e \<Rightarrow> Inl (''parse GitHub release JSON: '' @ e)
                     | Inr rel \<Rightarrow> Inr rel))))"

text \<open>\<open>tokio::fs::write\<close> and \<open>tokio::fs::rename\<close>.\<close>

definition fs_write :: "server_io \<Rightarrow> string \<Rightarrow> bytes \<Rightarrow> app_state \<Rightarrow> (string, unit) result \<times> app_state" where
  "fs_write io p data st =
     (case write_fault io p of
        None \<Rightarrow> (Inr (), st\<lparr>files := (files st)(p \<mapsto> data)\<rparr>)
      | Some (e, left) \<Rightarrow> (Inl e, st\<lparr>files := (files st)(p := left)\<rparr>))"

definition fs_rename :: "server_io \<Rightarrow> string \<Rightarrow> string \<Rightarrow> app_state \<Rightarrow> (string, unit) result \<times> app_state" where
  "fs_rename io src dst st =
     (case rename_fault io src of
        Some e \<Rightarrow> (Inl e, st)
      | None \<Rightarrow> (Inr (), st\<lparr>files := (files st)(src := None, dst := files st src)\<rparr>))"

definition download_asset :: "server_io \<Rightarrow> string \<Rightarrow> (string, bytes) result" where
  "download_asset io url =
     (case http_get io url of
        Inl e \<Rightarrow> Inl (''download '' @ url @ '': '' @ e)
      | Inr resp \<Rightarrow>
          (case error_status resp of
             Some e \<Rightarrow> Inl (''download '' @ url @ '' returned an error status: '' @ e)
           | None \<Rightarrow>
               (case reply_bytes resp of
                  Inl e \<Rightarrow> Inl (''read downloaded asset body: '' @ e)
                | Inr b \<Rightarrow> Inr b)))"

definition fetch_one_platform ::
  "alt \<Rightarrow> server_io \<Rightarrow> github_release \<Rightarrow> platform_info \<Rightarrow> app_state \<Rightarrow> (string, string) result \<times> app_state" where
  "fetch_one_platform alt io release platform st =
     (case find (\<lambda>a. ga_name a = pi_template_filename platform) (gr_assets release) of
        None \<Rightarrow> (Inl (''no asset named '' @ pi_template_filename platform @ '' in release '' @ gr_tag_name release), st)
      | Some asset \<Rightarrow>
          (case download_asset io (ga_browser_download_url asset) of
             Inl e \<Rightarrow> (Inl e, st)
           | Inr data \<Rightarrow>
               let final_path = path_join (fetched_templates_dir st) (pi_template_filename platform);
                   tmp_path = path_join (fetched_templates_dir st) (pi_template_filename platform @ ''.tmp'') in
               (case fs_write io tmp_path data st of
                  (Inl e, st1) \<Rightarrow> (Inl (''write '' @ tmp_path @ '': '' @ e), st1)
                | (Inr _, st1) \<Rightarrow>
                    (case fs_rename io tmp_path final_path st1 of
                       (Inl e, st2) \<Rightarrow> (Inl (''rename '' @ tmp_path @ '' to '' @ final_path @ '': '' @ e), st2)
                     | (Inr _, st2) \<Rightarrow>
                         let now = (case unix_secs io of Some s \<Rightarrow> unat s | None \<Rightarrow> 0) in
                         (case with_db (set_setting (''client_version_'' @ pi_key platform) (gr_tag_name release)) st2 of
                            (Inl e, st3) \<Rightarrow> (Inl (alt e), st3)
                          | (Inr _, st3) \<Rightarrow>
                              (case with_db (set_setting (''client_fetched_at_'' @ pi_key platform) (dec now)) st3 of
                                 (Inl e, st4) \<Rightarrow> (Inl (alt e), st4)
                               | (Inr _, st4) \<Rightarrow> (Inr (gr_tag_name release), st4)))))))"

fun fetch_platforms ::
  "alt \<Rightarrow> server_io \<Rightarrow> github_release \<Rightarrow> platform_info list \<Rightarrow> app_state \<Rightarrow>
   (string \<times> (string, string) result) list \<times> app_state" where
  "fetch_platforms alt io release [] st = ([], st)"
| "fetch_platforms alt io release (p # ps) st =
     (case fetch_one_platform alt io release p st of (outcome, st1) \<Rightarrow>
        (case fetch_platforms alt io release ps st1 of (rest, st2) \<Rightarrow> ((pi_key p, outcome) # rest, st2)))"

definition fetch_and_store ::
  "alt \<Rightarrow> server_io \<Rightarrow> string \<Rightarrow> app_state \<Rightarrow>
   (string, (string \<times> (string, string) result) list) result \<times> app_state" where
  "fetch_and_store alt io repo st =
     (case fetch_latest_release io repo of
        Inl e \<Rightarrow> (Inl e, st)
      | Inr release \<Rightarrow> (case fetch_platforms alt io release PLATFORMS st of (rs, st') \<Rightarrow> (Inr rs, st')))"

section \<open>api/download.rs\<close>

definition detect_platform :: "headers \<Rightarrow> string option" where
  "detect_platform hs =
     (case user_agent_header hs of
        Some (Text ua) \<Rightarrow>
          if contains ua ''Windows'' then Some ''windows-x86_64''
          else if contains ua ''Linux'' \<and> \<not> contains ua ''Android'' then Some ''linux-x86_64''
          else None
      | _ \<Rightarrow> None)"

text \<open>\<open>get_setting(..).await.ok().flatten()\<close>\<close>

definition setting_or_none :: "string \<Rightarrow> app_state \<Rightarrow> string option \<times> app_state" where
  "setting_or_none key st =
     (case with_db (get_setting key) st of (r, st') \<Rightarrow> (unwrap_or None r, st'))"

definition download_entry :: "string option \<Rightarrow> platform_info \<Rightarrow> app_state \<Rightarrow> download_option \<times> app_state" where
  "download_entry detected platform st =
     (let recommended = (Some (pi_key platform) = detected) in
      case resolve_template_path platform st of
        None \<Rightarrow> (\<lparr>do_platform = pi_key platform, do_available = False, do_recommended = recommended,
                  do_custom_build = False, do_version = None, do_fetched_at = None\<rparr>, st)
      | Some (_, Manual) \<Rightarrow>
          (\<lparr>do_platform = pi_key platform, do_available = True, do_recommended = recommended,
            do_custom_build = True, do_version = None, do_fetched_at = None\<rparr>, st)
      | Some (_, Fetched) \<Rightarrow>
          (case setting_or_none (''client_version_'' @ pi_key platform) st of (version, st1) \<Rightarrow>
             (case setting_or_none (''client_fetched_at_'' @ pi_key platform) st1 of (at, st2) \<Rightarrow>
                (\<lparr>do_platform = pi_key platform, do_available = True, do_recommended = recommended,
                  do_custom_build = False, do_version = version,
                  do_fetched_at = Option.bind at parse_i64\<rparr>, st2))))"

fun download_entries ::
  "string option \<Rightarrow> platform_info list \<Rightarrow> app_state \<Rightarrow> download_option list \<times> app_state" where
  "download_entries detected [] st = ([], st)"
| "download_entries detected (p # ps) st =
     (case download_entry detected p st of (opt, st1) \<Rightarrow>
        (case download_entries detected ps st1 of (rest, st2) \<Rightarrow> (opt # rest, st2)))"

definition download_list :: "headers \<Rightarrow> handler" where
  "download_list hs st =
     (case setting_or_none ''server_url'' st of (server_url, st1) \<Rightarrow>
        (case download_entries (detect_platform hs) PLATFORMS st1 of (options, st2) \<Rightarrow>
           (ok_response (DownloadListBody server_url (sort_key (\<lambda>opt. \<not> do_recommended opt) options)), st2)))"

definition config_error_text :: "config_error \<Rightarrow> string" where
  "config_error_text e =
     (case e of
        SerializeError m \<Rightarrow> ''serialize embedded config: '' @ m
      | SlotOverflow n \<Rightarrow> ''embedded config is '' @ dec n @ '' bytes, exceeds the '' @ dec CONFIG_SLOT_SIZE @ ''-byte slot''
      | ParseError m \<Rightarrow> ''parse embedded config JSON: '' @ m
      | NoMarker \<Rightarrow> ''template binary has no embedded-config marker '' @ [CHR 0xE2, CHR 0x80, CHR 0x94] @
          '' was it built from a version with embedded_config support?''
      | TruncatedSlot \<Rightarrow> ''template binary's config slot is truncated'')"

definition plain :: "status_code \<Rightarrow> string \<Rightarrow> response" where
  "plain s m = \<lparr>status = s, body = PlainText m, set_cookie = None\<rparr>"

definition download_platform :: "to_vec \<Rightarrow> server_io \<Rightarrow> string \<Rightarrow> handler" where
  "download_platform to_vec io platform st =
     (case find (\<lambda>p. pi_key p = platform) PLATFORMS of
        None \<Rightarrow> (plain NOT_FOUND ''unknown platform'', st)
      | Some info \<Rightarrow>
          (case resolve_template_path info st of
             None \<Rightarrow> (plain NOT_FOUND ''no build uploaded for this platform yet'', st)
           | Some (template_path, _) \<Rightarrow>
               (case if read_fault io template_path then None else files st template_path of
                  None \<Rightarrow> (plain NOT_FOUND ''no build uploaded for this platform yet'', st)
                | Some template \<Rightarrow>
                    (case setting_or_none ''server_url'' st of (server_url, st1) \<Rightarrow>
                       (case setting_or_none ''default_device_name'' st1 of (device_name, st2) \<Rightarrow>
                          (case patch_binary to_vec \<lparr>cfg_server_url = server_url, cfg_device_name = device_name\<rparr> template of
                             Inl e \<Rightarrow> (plain INTERNAL_SERVER_ERROR (''failed to patch client binary: '' @ config_error_text e), st2)
                           | Inr patched \<Rightarrow>
                               (ok_response (BinaryBody (pi_content_type info)
                                  (''attachment; filename=\"'' @ pi_download_filename info @ ''\"'') patched), st2)))))))"


section \<open>Contracts\<close>

lemma setting_or_none_snd: "snd (setting_or_none k st) = snd (with_db (get_setting k) st)"
  by (simp add: setting_or_none_def case_prod_beta)

lemma setting_or_none_frame [simp]:
  "files (snd (setting_or_none k st)) = files st"
  "client_templates_dir (snd (setting_or_none k st)) = client_templates_dir st"
  "fetched_templates_dir (snd (setting_or_none k st)) = fetched_templates_dir st"
  "connections (snd (setting_or_none k st)) = connections st"
  "device_online (snd (setting_or_none k st)) = device_online st"
  "otp (snd (setting_or_none k st)) = otp st"
  "sessions (snd (setting_or_none k st)) = sessions st" "channels (snd (setting_or_none k st)) = channels st"
  "accounts_tbl (app_db (snd (setting_or_none k st))) = accounts_tbl (app_db st)"
  "db_wf (app_db st) \<Longrightarrow> db_wf (app_db (snd (setting_or_none k st)))"
  by (simp_all add: setting_or_none_snd get_setting.wf)

lemma setting_or_none_ok:
  "faults (app_db st) = [] \<Longrightarrow> setting_or_none k st = (settings_tbl (app_db st) k, st)"
  by (simp add: setting_or_none_def with_db_pair get_setting_ok unwrap_or_def)

lemma fs_frame [simp]:
  "app_db (snd (fs_write io p b st)) = app_db st" "app_db (snd (fs_rename io p q st)) = app_db st"
  "connections (snd (fs_write io p b st)) = connections st"
  "connections (snd (fs_rename io p q st)) = connections st"
  "channels (snd (fs_write io p b st)) = channels st" "channels (snd (fs_rename io p q st)) = channels st"
  "device_online (snd (fs_write io p b st)) = device_online st"
  "device_online (snd (fs_rename io p q st)) = device_online st"
  "otp (snd (fs_write io p b st)) = otp st"
  "sessions (snd (fs_write io p b st)) = sessions st" "otp (snd (fs_rename io p q st)) = otp st"
  "sessions (snd (fs_rename io p q st)) = sessions st"
  by (simp_all add: fs_write_def fs_rename_def split: option.split)

lemma fetch_one_frame [simp]:
  "connections (snd (fetch_one_platform alt io rel p st)) = connections st"
  "channels (snd (fetch_one_platform alt io rel p st)) = channels st"
  "device_online (snd (fetch_one_platform alt io rel p st)) = device_online st"
  "otp (snd (fetch_one_platform alt io rel p st)) = otp st"
  "sessions (snd (fetch_one_platform alt io rel p st)) = sessions st"
  "accounts_tbl (app_db (snd (fetch_one_platform alt io rel p st))) = accounts_tbl (app_db st)"
  "db_wf (app_db st) \<Longrightarrow> db_wf (app_db (snd (fetch_one_platform alt io rel p st)))"
  by (simp_all add: fetch_one_platform_def http_eval set_setting.wf split: option.split sum.split)

lemma fetch_platforms_frame [simp]:
  "connections (snd (fetch_platforms alt io rel ps st)) = connections st"
  "channels (snd (fetch_platforms alt io rel ps st)) = channels st"
  "device_online (snd (fetch_platforms alt io rel ps st)) = device_online st"
  "otp (snd (fetch_platforms alt io rel ps st)) = otp st"
  "sessions (snd (fetch_platforms alt io rel ps st)) = sessions st"
  "accounts_tbl (app_db (snd (fetch_platforms alt io rel ps st))) = accounts_tbl (app_db st)"
  "db_wf (app_db st) \<Longrightarrow> db_wf (app_db (snd (fetch_platforms alt io rel ps st)))"
  by (induction ps arbitrary: st) (simp_all add: case_prod_beta)

lemma fetch_and_store_snd:
  "snd (fetch_and_store alt io repo st) = (case fetch_latest_release io repo of
     Inl e \<Rightarrow> st | Inr rel \<Rightarrow> snd (fetch_platforms alt io rel PLATFORMS st))"
  by (simp add: fetch_and_store_def case_prod_beta split: sum.split)

interpretation fetch_and_store: server_op "\<lambda>st. snd (fetch_and_store alt io repo st)" for alt io repo
  by unfold_locales (simp_all add: fetch_and_store_snd split: sum.split)

lemma download_entry_frame [simp]:
  "files (snd (download_entry det p st)) = files st"
  "client_templates_dir (snd (download_entry det p st)) = client_templates_dir st"
  "fetched_templates_dir (snd (download_entry det p st)) = fetched_templates_dir st"
  "connections (snd (download_entry det p st)) = connections st"
  "device_online (snd (download_entry det p st)) = device_online st"
  "otp (snd (download_entry det p st)) = otp st"
  "sessions (snd (download_entry det p st)) = sessions st" "channels (snd (download_entry det p st)) = channels st"
  "accounts_tbl (app_db (snd (download_entry det p st))) = accounts_tbl (app_db st)"
  "db_wf (app_db st) \<Longrightarrow> db_wf (app_db (snd (download_entry det p st)))"
  by (simp_all add: download_entry_def Let_def case_prod_beta split: option.split template_source.split)

lemma download_entries_frame [simp]:
  "files (snd (download_entries det ps st)) = files st"
  "connections (snd (download_entries det ps st)) = connections st"
  "device_online (snd (download_entries det ps st)) = device_online st"
  "otp (snd (download_entries det ps st)) = otp st"
  "sessions (snd (download_entries det ps st)) = sessions st" "channels (snd (download_entries det ps st)) = channels st"
  "accounts_tbl (app_db (snd (download_entries det ps st))) = accounts_tbl (app_db st)"
  "db_wf (app_db st) \<Longrightarrow> db_wf (app_db (snd (download_entries det ps st)))"
  by (induction ps arbitrary: st) (simp_all add: case_prod_beta)

interpretation download_list: server_op "\<lambda>st. snd (download_list hs st)" for hs
  by unfold_locales (simp_all add: download_list_def case_prod_beta)

interpretation download_platform: server_op "\<lambda>st. snd (download_platform tv io p st)" for tv io p
  by unfold_locales (simp_all add: download_platform_def case_prod_beta split: option.split sum.split)

section \<open>Lemmas\<close>

text \<open>Resolving depends only on the files and the two directories.\<close>

lemma resolve_cong:
  "files st' = files st \<Longrightarrow> client_templates_dir st' = client_templates_dir st \<Longrightarrow>
   fetched_templates_dir st' = fetched_templates_dir st \<Longrightarrow>
   resolve_template_path p st' = resolve_template_path p st"
  by (simp add: resolve_template_path_def path_exists_def Let_def)

lemma resolve_exists: "resolve_template_path p st = Some (path, src) \<Longrightarrow> files st path \<noteq> None"
  by (auto simp: resolve_template_path_def path_exists_def Let_def split: if_splits)

lemma download_entry_facts:
  "do_platform (fst (download_entry det p st)) = pi_key p"
  "do_available (fst (download_entry det p st)) \<longleftrightarrow> resolve_template_path p st \<noteq> None"
  "do_recommended (fst (download_entry det p st)) \<longleftrightarrow> Some (pi_key p) = det"
  by (simp_all add: download_entry_def Let_def case_prod_beta split: option.split template_source.split)

lemma download_entries_facts:
  "map (\<lambda>opt. (do_platform opt, do_available opt, do_recommended opt)) (fst (download_entries det ps st)) =
   map (\<lambda>p. (pi_key p, resolve_template_path p st \<noteq> None, Some (pi_key p) = det)) ps"
proof (induction ps arbitrary: st)
  case Nil
  then show ?case by simp
next
  case (Cons p ps)
  have "resolve_template_path q (snd (download_entry det p st)) = resolve_template_path q st" for q
    by (rule resolve_cong) simp_all
  then show ?case using Cons [of "snd (download_entry det p st)"]
    by (simp add: case_prod_beta download_entry_facts)
qed

lemma keys_distinct: "p \<in> set PLATFORMS \<Longrightarrow> find (\<lambda>q. pi_key q = pi_key p) PLATFORMS = Some p"
  by (auto simp: PLATFORMS_def)

lemma download_status:
  assumes "p \<in> set PLATFORMS" and "\<forall>path. \<not> read_fault io path"
  shows "status (fst (download_platform tv io (pi_key p) st)) = NOT_FOUND \<longleftrightarrow> resolve_template_path p st = None"
proof (cases "resolve_template_path p st")
  case None
  then show ?thesis by (simp add: download_platform_def keys_distinct [OF assms(1)] plain_def)
next
  case (Some x)
  obtain path src where x: "x = (path, src)" by fastforce
  obtain t where "files st path = Some t" using resolve_exists Some x by (metis not_None_eq)
  then show ?thesis using Some x assms(2)
    by (simp add: download_platform_def keys_distinct [OF assms(1)] plain_def ok_response_def
        case_prod_beta split: sum.split)
qed

lemma platform_paths:
  assumes "p \<in> set PLATFORMS"
  shows "path_join d (pi_template_filename p @ ''.tmp'') \<noteq> path_join d (pi_template_filename p)"
proof
  assume "path_join d (pi_template_filename p @ ''.tmp'') = path_join d (pi_template_filename p)"
  then show False using assms by (auto simp: PLATFORMS_def path_join_def split: if_splits)
qed

text \<open>The bytes the release offers for a platform, if they can be downloaded.\<close>

definition release_data :: "server_io \<Rightarrow> github_release \<Rightarrow> platform_info \<Rightarrow> bytes option" where
  "release_data io rel p =
     (case find (\<lambda>a. ga_name a = pi_template_filename p) (gr_assets rel) of
        None \<Rightarrow> None
      | Some asset \<Rightarrow>
          (case download_asset io (ga_browser_download_url asset) of Inl _ \<Rightarrow> None | Inr b \<Rightarrow> Some b))"

lemma set_setting_tbl:
  "settings_tbl (snd (set_setting k v d)) =
     (case fst (set_setting k v d) of Inr _ \<Rightarrow> (settings_tbl d)(k \<mapsto> v) | Inl _ \<Rightarrow> settings_tbl d)"
  by (auto simp: set_setting_def stmt_def split: list.splits option.splits)

section \<open>Properties\<close>

text \<open>
  The download page tells the truth: whatever the files and the state of the database, it lists every
  platform exactly once, marks one as available exactly if downloading it does not answer "not
  found" (files that exist being readable), marks the detected platform as recommended and puts it
  first.
\<close>

theorem download_list_truthful:
  assumes "\<forall>path. \<not> read_fault io path"
  shows "\<exists>url opts. body (fst (download_list hs st)) = DownloadListBody url opts \<and>
     mset (map do_platform opts) = mset (map pi_key PLATFORMS) \<and>
     sorted (map (\<lambda>opt. \<not> do_recommended opt) opts) \<and>
     (\<forall>opt \<in> set opts.
        (do_available opt \<longleftrightarrow> status (fst (download_platform tv io (do_platform opt) st)) \<noteq> NOT_FOUND) \<and>
        (do_recommended opt \<longleftrightarrow> detect_platform hs = Some (do_platform opt)))"
proof -
  let ?st1 = "snd (setting_or_none ''server_url'' st)"
  let ?es = "fst (download_entries (detect_platform hs) PLATFORMS ?st1)"
  let ?opts = "sort_key (\<lambda>opt. \<not> do_recommended opt) ?es"
  let ?f = "\<lambda>opt. (do_platform opt, do_available opt, do_recommended opt)"
  have res: "resolve_template_path q ?st1 = resolve_template_path q st" for q
    by (rule resolve_cong) simp_all
  note facts = download_entries_facts [of "detect_platform hs" PLATFORMS ?st1, unfolded res]
  have b: "body (fst (download_list hs st)) = DownloadListBody (fst (setting_or_none ''server_url'' st)) ?opts"
    by (simp add: download_list_def case_prod_beta ok_response_def)
  have "map do_platform ?es = map fst (map ?f ?es)" by simp
  also have "\<dots> = map pi_key PLATFORMS" unfolding facts by (simp add: comp_def)
  finally have es: "map do_platform ?es = map pi_key PLATFORMS" .
  have "mset (map do_platform ?opts) = mset (map do_platform ?es)" by simp
  then have keys: "mset (map do_platform ?opts) = mset (map pi_key PLATFORMS)" unfolding es .
  have entry: "(do_available opt \<longleftrightarrow> status (fst (download_platform tv io (do_platform opt) st)) \<noteq> NOT_FOUND) \<and>
      (do_recommended opt \<longleftrightarrow> detect_platform hs = Some (do_platform opt))" if "opt \<in> set ?opts" for opt
  proof -
    from that have "?f opt \<in> set (map ?f ?es)" by simp
    then obtain p where p: "p \<in> set PLATFORMS"
      "?f opt = (pi_key p, resolve_template_path p st \<noteq> None, Some (pi_key p) = detect_platform hs)"
      unfolding facts by auto
    then show ?thesis using download_status [OF p(1) assms, of tv st] by auto
  qed
  have "sorted (map (\<lambda>opt. \<not> do_recommended opt) ?opts)" by (rule sorted_sort_key)
  with b keys entry show ?thesis by blast
qed

definition wit_io :: server_io where
  "wit_io = \<lparr>http_get = (\<lambda>url. Inr \<lparr>error_status = None, reply_bytes = Inr wit_template\<rparr>),
     parse_release = (\<lambda>_. Inr \<lparr>gr_tag_name = ''v1.2.0'',
        gr_assets = [\<lparr>ga_name = ''linux-x86_64'', ga_browser_download_url = ''https://x/l''\<rparr>]\<rparr>),
     write_fault = (\<lambda>_. None), rename_fault = (\<lambda>_. None), read_fault = (\<lambda>_. False),
     unix_secs = Some 1700000000\<rparr>"

theorem download_list_truthful_witness:
  "\<exists>url opts. body (fst (download_list wit_headers wit_app)) = DownloadListBody url opts \<and>
     mset (map do_platform opts) = mset [''linux-x86_64'', ''windows-x86_64'']"
proof -
  have "\<forall>path. \<not> read_fault wit_io path" by (simp add: wit_io_def)
  from download_list_truthful [OF this, of wit_headers wit_app wit_to_vec] show ?thesis
    by (auto simp: PLATFORMS_def)
qed

text \<open>
  C30. Fetching a build replaces it atomically: whichever step fails, the served file is either untouched
  or holds exactly the downloaded bytes; on success it holds them, the version and the time of the
  fetch are recorded, and in every case no path but that file and its temporary one changes.
\<close>

theorem fetch_is_atomic:
  assumes "p \<in> set PLATFORMS" and "fetch_one_platform alt io rel p st = (res, st')"
  defines "final_path \<equiv> path_join (fetched_templates_dir st) (pi_template_filename p)"
    and "tmp_path \<equiv> path_join (fetched_templates_dir st) (pi_template_filename p @ ''.tmp'')"
  shows "(files st' final_path = files st final_path \<or>
          (\<exists>data. release_data io rel p = Some data \<and> files st' final_path = Some data)) \<and>
     (\<forall>tag. res = Inr tag \<longrightarrow> tag = gr_tag_name rel \<and>
        (\<exists>data. release_data io rel p = Some data \<and> files st' final_path = Some data) \<and>
        settings_tbl (app_db st') (''client_version_'' @ pi_key p) = Some tag) \<and>
     (\<forall>path. path \<noteq> final_path \<and> path \<noteq> tmp_path \<longrightarrow> files st' path = files st path)"
proof (cases "release_data io rel p")
  case None
  then show ?thesis using assms(2)
    by (auto simp: fetch_one_platform_def release_data_def split: option.splits sum.splits)
next
  case (Some data)
  then obtain asset where a: "find (\<lambda>a. ga_name a = pi_template_filename p) (gr_assets rel) = Some asset"
    "download_asset io (ga_browser_download_url asset) = Inr data"
    by (auto simp: release_data_def split: option.splits sum.splits)
  have ne: "tmp_path \<noteq> final_path"
    unfolding final_path_def tmp_path_def by (rule platform_paths [OF assms(1)])
  note step = assms(2) [unfolded fetch_one_platform_def a option.case sum.case Let_def,
      folded final_path_def tmp_path_def]
  show ?thesis
  proof (cases "write_fault io tmp_path")
    case w: (Some x)
    then show ?thesis using step ne by (cases x) (auto simp: fs_write_def)
  next
    case w: None
    show ?thesis
    proof (cases "rename_fault io tmp_path")
      case r: (Some x)
      then show ?thesis using step ne w by (auto simp: fs_write_def fs_rename_def)
    next
      case r: None
      from step w r have f: "files st' = (files st)(tmp_path := None, final_path \<mapsto> data)"
        by (auto simp: fs_write_def fs_rename_def with_db_pair case_prod_beta split: sum.splits)
      have "res = Inr tag \<Longrightarrow> tag = gr_tag_name rel \<and>
          settings_tbl (app_db st') (''client_version_'' @ pi_key p) = Some tag" for tag
        using step w r set_setting_tbl
        by (auto simp: fs_write_def fs_rename_def with_db_pair case_prod_beta set_setting_tbl split: sum.splits)
      then show ?thesis using f ne Some by auto
    qed
  qed
qed

theorem fetch_is_atomic_witness:
  "\<exists>st'. fetch_one_platform (\<lambda>e. e) wit_io \<lparr>gr_tag_name = ''v1.2.0'',
        gr_assets = [\<lparr>ga_name = ''linux-x86_64'', ga_browser_download_url = ''https://x/l''\<rparr>]\<rparr>
        (PLATFORMS ! 1) wit_app = (Inr ''v1.2.0'', st') \<and>
     files st' ''fetched-client-templates/linux-x86_64'' = Some wit_template"
proof -
  let ?rel = "\<lparr>gr_tag_name = ''v1.2.0'',
        gr_assets = [\<lparr>ga_name = ''linux-x86_64'', ga_browser_download_url = ''https://x/l''\<rparr>]\<rparr>"
  have p: "PLATFORMS ! 1 \<in> set PLATFORMS" by (simp add: PLATFORMS_def)
  obtain st' where f: "fetch_one_platform (\<lambda>e. e) wit_io ?rel (PLATFORMS ! 1) wit_app = (Inr ''v1.2.0'', st')"
    by (simp add: fetch_one_platform_def PLATFORMS_def download_asset_def wit_io_def fs_write_def fs_rename_def
        with_db_def set_setting_def stmt_def wit_app_def wit_admin_db_def wit_db_def Let_def)
  have d: "release_data wit_io ?rel (PLATFORMS ! 1) = Some wit_template"
    by (simp add: release_data_def PLATFORMS_def download_asset_def wit_io_def)
  from fetch_is_atomic [OF p f] d show ?thesis
    using f by (auto simp: PLATFORMS_def wit_app_def path_join_def)
qed

end
