(* ===== verification/Http_Admin.thy ===== *)
theory Http_Admin
  imports Releases
begin

text \<open>
  \<^verbatim>\<open>visuara-signaling/src/api/admin.rs\<close>: the administrator's endpoints.  Every handler begins with
  \<open>require_admin\<close>; the locale \<open>admin_endpoint\<close> is that contract, interpreted for each of them.
\<close>

section \<open>Settings and registration\<close>

definition get_settings :: "headers \<Rightarrow> handler" where
  "get_settings hs st =
     (case require_admin hs st of
        (Inl s, st1) \<Rightarrow> (status_response s, st1)
      | (Inr _, st1) \<Rightarrow>
          (case setting_or_none ''server_url'' st1 of (url, st2) \<Rightarrow>
             (case setting_or_none ''default_device_name'' st2 of (name, st3) \<Rightarrow>
                (ok_response (SettingsBody \<lparr>sv_server_url = (case url of Some u \<Rightarrow> u | None \<Rightarrow> []),
                    sv_default_device_name = (case name of Some n \<Rightarrow> n | None \<Rightarrow> [])\<rparr>), st3))))"

definition save_settings :: "headers \<Rightarrow> string \<Rightarrow> string \<Rightarrow> handler" where
  "save_settings hs body_url body_name st =
     (case require_admin hs st of
        (Inl s, st1) \<Rightarrow> (status_response s, st1)
      | (Inr _, st1) \<Rightarrow>
          let server_url = trim body_url; default_device_name = trim body_name;
              st2 = snd (with_db (set_setting ''server_url'' server_url) st1);
              st3 = snd (with_db (set_setting ''default_device_name'' default_device_name) st2)
          in (ok_response (SettingsBody \<lparr>sv_server_url = server_url,
                sv_default_device_name = default_device_name\<rparr>), st3))"

definition get_registration :: "headers \<Rightarrow> handler" where
  "get_registration hs st =
     (case require_admin hs st of
        (Inl s, st1) \<Rightarrow> (status_response s, st1)
      | (Inr _, st1) \<Rightarrow>
          (case with_db registration_enabled st1 of (r, st2) \<Rightarrow> (ok_response (EnabledBody (unwrap_or True r)), st2)))"

definition set_registration :: "alt \<Rightarrow> headers \<Rightarrow> bool \<Rightarrow> handler" where
  "set_registration alt hs enabled st =
     (case require_admin hs st of
        (Inl s, st1) \<Rightarrow> (status_response s, st1)
      | (Inr _, st1) \<Rightarrow>
          (case with_db (set_registration_enabled enabled) st1 of
             (Inr _, st2) \<Rightarrow> (ok_response (EnabledBody enabled), st2)
           | (Inl e, st2) \<Rightarrow> (error_response INTERNAL_SERVER_ERROR (alt e), st2)))"

section \<open>Client builds\<close>

text \<open>\<open>relative_time\<close>: the clock is absent when it is before 1970, and then the difference is zero.\<close>

definition relative_time :: "u64 option \<Rightarrow> int \<Rightarrow> string" where
  "relative_time clock secs =
     (let now = (case clock of Some s \<Rightarrow> wrap_i64 (uint s) | None \<Rightarrow> secs);
          delta = max (wrap_i64 (now - secs)) 0
      in if delta < 60 then ''just now''
         else if delta < 3600 then dec (nat (delta div 60)) @ ''m ago''
         else if delta < 86400 then dec (nat (delta div 3600)) @ ''h ago''
         else dec (nat (delta div 86400)) @ ''d ago'')"

definition client_build_status :: "server_io \<Rightarrow> platform_info \<Rightarrow> app_state \<Rightarrow> build_status \<times> app_state" where
  "client_build_status io platform st =
     (case resolve_template_path platform st of
        Some (_, Manual) \<Rightarrow> (\<lparr>bs_platform = pi_key platform, bs_status = ''manual override''\<rparr>, st)
      | Some (_, Fetched) \<Rightarrow>
          (case setting_or_none (''client_version_'' @ pi_key platform) st of (v, st1) \<Rightarrow>
             (case setting_or_none (''client_fetched_at_'' @ pi_key platform) st1 of (at, st2) \<Rightarrow>
                let version = (case v of Some t \<Rightarrow> t | None \<Rightarrow> ''unknown'') in
                (\<lparr>bs_platform = pi_key platform,
                  bs_status = (case Option.bind at parse_i64 of
                     Some ts \<Rightarrow> ''fetched: '' @ version @ '' ('' @ relative_time (unix_secs io) ts @ '')''
                   | None \<Rightarrow> ''fetched: '' @ version)\<rparr>, st2)))
      | None \<Rightarrow> (\<lparr>bs_platform = pi_key platform, bs_status = ''not available''\<rparr>, st))"

fun client_build_statuses :: "server_io \<Rightarrow> platform_info list \<Rightarrow> app_state \<Rightarrow> build_status list \<times> app_state" where
  "client_build_statuses io [] st = ([], st)"
| "client_build_statuses io (p # ps) st =
     (case client_build_status io p st of (b, st1) \<Rightarrow>
        (case client_build_statuses io ps st1 of (bs, st2) \<Rightarrow> (b # bs, st2)))"

definition client_builds :: "server_io \<Rightarrow> headers \<Rightarrow> handler" where
  "client_builds io hs st =
     (case require_admin hs st of
        (Inl s, st1) \<Rightarrow> (status_response s, st1)
      | (Inr _, st1) \<Rightarrow>
          (case client_build_statuses io PLATFORMS st1 of (bs, st2) \<Rightarrow> (ok_response (BuildsBody bs), st2)))"

definition fetch_result_view :: "string \<times> (string, string) result \<Rightarrow> fetch_release_result" where
  "fetch_result_view r =
     (case snd r of
        Inr version \<Rightarrow> \<lparr>fr_platform = fst r, fr_version = Some version, fr_error = None\<rparr>
      | Inl e \<Rightarrow> \<lparr>fr_platform = fst r, fr_version = None, fr_error = Some e\<rparr>)"

definition fetch_release :: "alt \<Rightarrow> server_io \<Rightarrow> headers \<Rightarrow> handler" where
  "fetch_release alt io hs st =
     (case require_admin hs st of
        (Inl s, st1) \<Rightarrow> (status_response s, st1)
      | (Inr _, st1) \<Rightarrow>
          (case fetch_and_store alt io RELEASE_REPO st1 of
             (Inr results, st2) \<Rightarrow> (ok_response (FetchBody (map fetch_result_view results)), st2)
           | (Inl e, st2) \<Rightarrow> (error_response BAD_GATEWAY (''failed to check GitHub releases: '' @ e), st2)))"

section \<open>Accounts\<close>

definition list_accounts :: "headers \<Rightarrow> handler" where
  "list_accounts hs st =
     (case require_admin hs st of
        (Inl s, st1) \<Rightarrow> (status_response s, st1)
      | (Inr _, st1) \<Rightarrow>
          (case with_db list_all_accounts st1 of (r, st2) \<Rightarrow> (ok_response (AccountsBody (unwrap_or [] r)), st2)))"

definition view_device :: "app_state \<Rightarrow> device \<Rightarrow> device_view" where
  "view_device st d = \<lparr>dv_id = dev_id d, dv_name = dev_name d,
     dv_online = (device_online st (dev_id d) \<noteq> None),
     dv_unattended_access_enabled = (dev_unattended_password_hash d \<noteq> None)\<rparr>"

definition account_detail :: "alt \<Rightarrow> headers \<Rightarrow> int \<Rightarrow> handler" where
  "account_detail alt hs account_id st =
     (case require_admin hs st of
        (Inl s, st1) \<Rightarrow> (status_response s, st1)
      | (Inr _, st1) \<Rightarrow>
          (case with_db (find_account_by_id account_id) st1 of
             (Inl e, st2) \<Rightarrow> (error_response INTERNAL_SERVER_ERROR (alt e), st2)
           | (Inr None, st2) \<Rightarrow> (error_response NOT_FOUND ''account not found'', st2)
           | (Inr (Some a), st2) \<Rightarrow>
               (case with_db (list_devices_for_account account_id) st2 of (r, st3) \<Rightarrow>
                  (ok_response (DetailBody \<lparr>ad_id = acc_id a, ad_email = acc_email a, ad_role = acc_role a,
                     ad_devices = map (view_device st3) (unwrap_or [] r)\<rparr>), st3))))"

definition admin_create_account ::
  "alt \<Rightarrow> crypto \<Rightarrow> entropy \<Rightarrow> headers \<Rightarrow> string \<Rightarrow> string \<Rightarrow> account_role option \<Rightarrow> handler" where
  "admin_create_account alt c r hs body_email password body_role st =
     (case require_admin hs st of
        (Inl s, st1) \<Rightarrow> (status_response s, st1)
      | (Inr _, st1) \<Rightarrow>
          let email = trim body_email in
          if email = [] \<or> password = []
          then (error_response BAD_REQUEST ''email and password are required'', st1)
          else case hash_password c r password of
                 Inl e \<Rightarrow> (error_response INTERNAL_SERVER_ERROR (''failed to hash password: '' @ e), st1)
               | Inr hash \<Rightarrow>
                   let role = (case body_role of Some x \<Rightarrow> x | None \<Rightarrow> User) in
                   (case with_db (create_account email hash role) st1 of
                      (Inr i, st2) \<Rightarrow>
                        ((ok_response (AccountBody \<lparr>av_id = i, av_email = email, av_role = role\<rparr>))\<lparr>status := CREATED\<rparr>, st2)
                    | (Inl e, st2) \<Rightarrow>
                        (error_response CONFLICT
                           (if contains e ''UNIQUE'' then ''That email is already registered.''
                            else ''failed to create account: '' @ alt e), st2)))"

definition guard_last_admin :: "alt \<Rightarrow> int \<Rightarrow> app_state \<Rightarrow> (response, unit) result \<times> app_state" where
  "guard_last_admin alt account_id st =
     (case with_db (find_account_by_id account_id) st of
        (Inr (Some account), st1) \<Rightarrow>
          if acc_role account \<noteq> Admin then (Inr (), st1)
          else (case with_db count_admins st1 of
                  (Inr n, st2) \<Rightarrow>
                    if n \<le> 1
                    then (Inl (error_response CONFLICT ''cannot remove the last remaining admin account''), st2)
                    else (Inr (), st2)
                | (Inl e, st2) \<Rightarrow> (Inl (error_response INTERNAL_SERVER_ERROR (alt e)), st2))
      | (_, st1) \<Rightarrow> (Inr (), st1))"

definition admin_set_account_role :: "alt \<Rightarrow> headers \<Rightarrow> int \<Rightarrow> account_role \<Rightarrow> handler" where
  "admin_set_account_role alt hs account_id role st =
     (case require_admin hs st of
        (Inl s, st1) \<Rightarrow> (status_response s, st1)
      | (Inr _, st1) \<Rightarrow>
          (case if role \<noteq> Admin then guard_last_admin alt account_id st1 else (Inr (), st1) of
             (Inl resp, st2) \<Rightarrow> (resp, st2)
           | (Inr _, st2) \<Rightarrow>
               (case with_db (set_account_role account_id role) st2 of
                  (Inr _, st3) \<Rightarrow> (status_response NO_CONTENT, st3)
                | (Inl e, st3) \<Rightarrow> (error_response INTERNAL_SERVER_ERROR (alt e), st3))))"

definition admin_delete_account :: "alt \<Rightarrow> headers \<Rightarrow> int \<Rightarrow> handler" where
  "admin_delete_account alt hs account_id st =
     (case require_admin hs st of
        (Inl s, st1) \<Rightarrow> (status_response s, st1)
      | (Inr _, st1) \<Rightarrow>
          (case guard_last_admin alt account_id st1 of
             (Inl resp, st2) \<Rightarrow> (resp, st2)
           | (Inr _, st2) \<Rightarrow>
               (case with_db (delete_account account_id) st2 of
                  (Inr _, st3) \<Rightarrow> (status_response NO_CONTENT, st3)
                | (Inl e, st3) \<Rightarrow> (error_response INTERNAL_SERVER_ERROR (alt e), st3))))"

definition admin_delete_device :: "alt \<Rightarrow> headers \<Rightarrow> int \<Rightarrow> device_id \<Rightarrow> handler" where
  "admin_delete_device alt hs account_id di st =
     (case require_admin hs st of
        (Inl s, st1) \<Rightarrow> (status_response s, st1)
      | (Inr _, st1) \<Rightarrow>
          (case with_db (find_device di) st1 of
             (Inl e, st2) \<Rightarrow> (error_response INTERNAL_SERVER_ERROR (alt e), st2)
           | (Inr None, st2) \<Rightarrow> (error_response NOT_FOUND ''device not found for this account'', st2)
           | (Inr (Some dev), st2) \<Rightarrow>
               if dev_account_id dev = account_id
               then let st3 = snd (with_db (delete_device di) st2) in
                    (status_response NO_CONTENT, kick_device di ''This device was removed by an administrator.'' st3)
               else (error_response NOT_FOUND ''device not found for this account'', st2)))"

section \<open>The contract of an administrator's endpoint\<close>

text \<open>
  An endpoint answers a request that \<open>require_admin\<close> refuses with the bare status and no further
  effect, and otherwise keeps the contract of an operation on the shared state.
\<close>

locale admin_endpoint =
  fixes handle :: "headers \<Rightarrow> app_state \<Rightarrow> response \<times> app_state"
  assumes refuses: "require_admin hs st = (Inl s, st') \<Longrightarrow> handle hs st = (status_response s, st')"
    and operates: "server_op (\<lambda>st. snd (handle hs st))"
begin

lemma only_admins:
  assumes "fst (require_admin hs st) = Inl s"
  shows "fst (handle hs st) = status_response s \<and> s \<in> {UNAUTHORIZED, FORBIDDEN} \<and>
     (\<exists>fs. snd (handle hs st) = st\<lparr>app_db := (app_db st)\<lparr>faults := fs\<rparr>\<rparr>)"
proof -
  have r: "require_admin hs st = (Inl s, snd (require_admin hs st))" using assms by (metis prod.collapse)
  have "s \<in> {UNAUTHORIZED, FORBIDDEN}"
    using r by (auto simp: require_admin_def require_account_def split: prod.splits sum.splits option.splits if_splits)
  then show ?thesis using refuses [OF r] require_admin_frame [OF r] by auto
qed

end

lemma admin_endpointI:
  assumes "\<And>hs st s st'. require_admin hs st = (Inl s, st') \<Longrightarrow> handle hs st = (status_response s, st')"
    and "\<And>hs. server_op (\<lambda>st. snd (handle hs st))"
  shows "admin_endpoint handle"
  using assms by (simp add: admin_endpoint_def)

lemma guard_last_admin_frame [simp]:
  "connections (snd (guard_last_admin alt i st)) = connections st"
  "channels (snd (guard_last_admin alt i st)) = channels st"
  "device_online (snd (guard_last_admin alt i st)) = device_online st"
  "otp (snd (guard_last_admin alt i st)) = otp st"
  "sessions (snd (guard_last_admin alt i st)) = sessions st"
  "accounts_tbl (app_db (snd (guard_last_admin alt i st))) = accounts_tbl (app_db st)"
  "db_wf (app_db st) \<Longrightarrow> db_wf (app_db (snd (guard_last_admin alt i st)))"
  by (simp_all add: guard_last_admin_def http_eval all_wf split: sum.split option.split)

lemma build_status_frame [simp]:
  "connections (snd (client_build_status io p st)) = connections st"
  "channels (snd (client_build_status io p st)) = channels st"
  "device_online (snd (client_build_status io p st)) = device_online st"
  "otp (snd (client_build_status io p st)) = otp st"
  "sessions (snd (client_build_status io p st)) = sessions st"
  "accounts_tbl (app_db (snd (client_build_status io p st))) = accounts_tbl (app_db st)"
  "db_wf (app_db st) \<Longrightarrow> db_wf (app_db (snd (client_build_status io p st)))"
  by (simp_all add: client_build_status_def Let_def case_prod_beta split: option.split template_source.split)

lemma build_statuses_frame [simp]:
  "connections (snd (client_build_statuses io ps st)) = connections st"
  "channels (snd (client_build_statuses io ps st)) = channels st"
  "device_online (snd (client_build_statuses io ps st)) = device_online st"
  "otp (snd (client_build_statuses io ps st)) = otp st"
  "sessions (snd (client_build_statuses io ps st)) = sessions st"
  "accounts_tbl (app_db (snd (client_build_statuses io ps st))) = accounts_tbl (app_db st)"
  "db_wf (app_db st) \<Longrightarrow> db_wf (app_db (snd (client_build_statuses io ps st)))"
  by (induction ps arbitrary: st) (simp_all add: case_prod_beta)

lemmas admin_eval = http_eval all_wf resolve.keeps_wf

interpretation get_settings: admin_endpoint get_settings
  by (rule admin_endpointI, simp add: get_settings_def, unfold_locales)
    (simp_all add: get_settings_def admin_eval split: sum.split)

interpretation save_settings: admin_endpoint "\<lambda>hs. save_settings hs url name" for url name
  by (rule admin_endpointI, simp add: save_settings_def, unfold_locales)
    (simp_all add: save_settings_def admin_eval split: sum.split)

interpretation get_registration: admin_endpoint get_registration
  by (rule admin_endpointI, simp add: get_registration_def, unfold_locales)
    (simp_all add: get_registration_def admin_eval split: sum.split)

interpretation set_registration: admin_endpoint "\<lambda>hs. set_registration alt hs b" for alt b
  by (rule admin_endpointI, simp add: set_registration_def, unfold_locales)
    (simp_all add: set_registration_def admin_eval split: sum.split)

interpretation client_builds: admin_endpoint "client_builds io" for io
  by (rule admin_endpointI, simp add: client_builds_def, unfold_locales)
    (simp_all add: client_builds_def admin_eval split: sum.split)

interpretation fetch_release: admin_endpoint "fetch_release alt io" for alt io
  by (rule admin_endpointI, simp add: fetch_release_def, unfold_locales)
    (simp_all add: fetch_release_def admin_eval fetch_and_store.keeps_wf fetch_and_store.keeps_connections
      fetch_and_store.keeps_alive fetch_and_store.keeps_presence split: sum.split)

interpretation list_accounts: admin_endpoint list_accounts
  by (rule admin_endpointI, simp add: list_accounts_def, unfold_locales)
    (simp_all add: list_accounts_def admin_eval split: sum.split)

interpretation account_detail: admin_endpoint "\<lambda>hs. account_detail alt hs i" for alt i
  by (rule admin_endpointI, simp add: account_detail_def, unfold_locales)
    (simp_all add: account_detail_def admin_eval split: sum.split option.split)

interpretation admin_create_account: admin_endpoint "\<lambda>hs. admin_create_account alt c r hs e p role" for alt c r e p role
  by (rule admin_endpointI, simp add: admin_create_account_def, unfold_locales)
    (simp_all add: admin_create_account_def admin_eval split: sum.split)

interpretation admin_set_account_role: admin_endpoint "\<lambda>hs. admin_set_account_role alt hs i role" for alt i role
  by (rule admin_endpointI, simp add: admin_set_account_role_def, unfold_locales)
    (simp_all add: admin_set_account_role_def admin_eval split: sum.split)

interpretation admin_delete_account: admin_endpoint "\<lambda>hs. admin_delete_account alt hs i" for alt i
  by (rule admin_endpointI, simp add: admin_delete_account_def, unfold_locales)
    (simp_all add: admin_delete_account_def admin_eval split: sum.split)

interpretation admin_delete_device: admin_endpoint "\<lambda>hs. admin_delete_device alt hs i di" for alt i di
  by (rule admin_endpointI, simp add: admin_delete_device_def, unfold_locales)
    (simp_all add: admin_delete_device_def admin_eval split: sum.split option.split)

end
