(* ===== verification/Ws_Properties.thy ===== *)
theory Ws_Properties
  imports Ws
begin

text \<open>
  What the WebSocket protocol of \<^verbatim>\<open>ws.rs\<close> guarantees: how a connection becomes authenticated, what it
  takes to open a session with a device, which other connections a message can reach, and what the
  unattended password and the one-time password do.
\<close>

section \<open>Lookups that only touch the fault schedule\<close>

lemma query_fst_same:
  assumes "same_tables d d'"
  shows "account_of d' i = account_of d i" "device_of d' x = device_of d x"
    "account_by_email d' e = account_by_email d e" "reg_open d' = reg_open d"
  using assms by (simp_all add: same_tables_iff account_of_def device_of_def account_by_email_def reg_open_def)

lemma find_device_fst: "fst (find_device i d) = Inr r \<Longrightarrow> r = device_of d i"
  using find_device_Inr [of i d r "snd (find_device i d)"] by (metis prod.collapse)

lemma find_account_by_email_fst: "fst (find_account_by_email e d) = Inr r \<Longrightarrow> r = account_by_email d e"
  using find_account_by_email_Inr [of e d r "snd (find_account_by_email e d)"] by (metis prod.collapse)

lemma registration_enabled_fst: "fst (registration_enabled d) = Inr b \<Longrightarrow> b = reg_open d"
  using registration_enabled_Inr(1) [of d b "snd (registration_enabled d)"] by (metis prod.collapse)

lemma credential_ok_db [simp]: "credential_ok c (st\<lparr>app_db := d\<rparr>) t dev cred = credential_ok c st t dev cred"
  by (simp add: credential_ok_def split: connect_credential.split)

lemma inbox_frame [simp]:
  "inbox (st\<lparr>app_db := d\<rparr>) x = inbox st x" "inbox (st\<lparr>sessions := s\<rparr>) x = inbox st x"
  "inbox (st\<lparr>device_online := on, otp := ot\<rparr>) x = inbox st x"
  by (simp_all add: inbox_def)

section \<open>Single arms\<close>

lemma bootstrap_Inr_accounts:
  assumes "create_account_and_maybe_bootstrap_admin e h d = (Inr (i, role), d')"
  shows "\<exists>row. accounts_tbl d' = accounts_tbl d @ [row] \<and> ar_id row = i \<and> ar_email row = e \<and>
           ar_password_hash row = h"
proof -
  from assms obtain n d1 d2 where
    1: "count_accounts d = (Inr n, d1)" and 2: "create_account e h role d1 = (Inr i, d2)" and
    3: "if n = 0 then \<exists>u. set_registration_enabled False d2 = (Inr u, d') else d' = d2"
    by (auto simp: create_account_and_maybe_bootstrap_admin_def Let_def
        split: prod.splits sum.splits if_splits)
  have "accounts_tbl d' = accounts_tbl d2"
    using 3 set_registration_Inr [of False d2 _ d'] by (auto split: if_splits)
  then show ?thesis
    using create_account_Inr(3) [OF 2] count_accounts_Inr [OF 1] by (simp add: same_tables_iff)
qed

lemma ws_login_auth:
  assumes "conn_state (fst (snd (ws_login c r cid e p cn st))) \<noteq> conn_state cn"
  shows "\<exists>a. account_by_email (app_db st) e = Some a \<and> verify_password c p (acc_password_hash a) \<and>
     conn_state (fst (snd (ws_login c r cid e p cn st))) = Authenticated (acc_id a)"
proof (cases "fst (find_account_by_email e (app_db st))")
  case (Inl x)
  then show ?thesis using assms by (simp add: ws_login_def ws_eval)
next
  case (Inr res)
  from find_account_by_email_fst [OF Inr] Inr assms show ?thesis
    by (auto simp: ws_login_def ws_eval split: option.splits if_splits)
qed

lemma ws_register_auth:
  assumes "conn_state (fst (snd (ws_register c r cid e p cn st))) \<noteq> conn_state cn"
  shows "\<exists>row h. accounts_tbl (app_db (snd (snd (ws_register c r cid e p cn st)))) =
       accounts_tbl (app_db st) @ [row] \<and> ar_email row = e \<and> hash_password c r p = Inr h \<and>
     ar_password_hash row = h \<and>
     conn_state (fst (snd (ws_register c r cid e p cn st))) = Authenticated (ar_id row) \<and>
     (reg_open (app_db st) \<or> (\<exists>x. fst (registration_enabled (app_db st)) = Inl x))"
proof -
  let ?d = "app_db st"
  let ?d1 = "snd (registration_enabled ?d)"
  let ?en = "case fst (registration_enabled ?d) of Inr b \<Rightarrow> b | Inl _ \<Rightarrow> True"
  have en: "?en" by (rule ccontr) (use assms in \<open>simp add: ws_register_def ws_eval\<close>)
  then have op: "reg_open ?d \<or> (\<exists>x. fst (registration_enabled ?d) = Inl x)"
    by (auto dest: registration_enabled_fst split: sum.splits)
  obtain h where h: "hash_password c r p = Inr h"
    using assms en by (auto simp: ws_register_def ws_eval split: sum.splits)
  obtain i role where b: "fst (create_account_and_maybe_bootstrap_admin e h ?d1) = Inr (i, role)"
    using assms en h by (auto simp: ws_register_def ws_eval split: sum.splits)
  have "create_account_and_maybe_bootstrap_admin e h ?d1 =
      (Inr (i, role), snd (create_account_and_maybe_bootstrap_admin e h ?d1))"
    using b by (metis prod.collapse)
  from bootstrap_Inr_accounts [OF this] obtain row where
    row: "accounts_tbl (snd (create_account_and_maybe_bootstrap_admin e h ?d1)) = accounts_tbl ?d @ [row]"
      "ar_id row = i" "ar_email row = e" "ar_password_hash row = h" by auto
  show ?thesis
    using op row en h b by (intro exI [of _ row] exI [of _ h]) (simp add: ws_register_def ws_eval)
qed

text \<open>A request that adds a session passed every check.\<close>

definition may_connect :: "crypto \<Rightarrow> conn \<Rightarrow> app_state \<Rightarrow> device_id \<Rightarrow> connect_credential \<Rightarrow> conn_id \<Rightarrow> bool" where
  "may_connect c cn st target cred host \<longleftrightarrow>
     conn_state cn \<noteq> Unauthenticated \<and> device_online st target = Some host \<and>
     (case device_of (app_db st) target of
        None \<Rightarrow> False
      | Some dev \<Rightarrow> credential_ok c st target dev cred)"

definition peer_session :: "conn_id \<Rightarrow> conn_id \<Rightarrow> session_peers" where
  "peer_session a b = \<lparr>peer_a = a, peer_b = b\<rparr>"

lemma request_refused:
  assumes "\<nexists>host. may_connect c cn st target cred host"
  shows "sessions (snd (snd (ws_request_connection c r cid target cred cn st))) = sessions st \<and>
     (\<forall>x. x \<noteq> cid \<longrightarrow> inbox (snd (snd (ws_request_connection c r cid target cred cn st))) x = inbox st x)"
proof (cases "conn_state cn")
  case Unauthenticated
  then show ?thesis by (simp add: ws_request_connection_def ws_eval)
next
  case (Authenticated i)
  show ?thesis
  proof (cases "fst (find_device target (app_db st))")
    case (Inl e)
    then show ?thesis using Authenticated by (simp add: ws_request_connection_def ws_eval)
  next
    case (Inr dev)
    then have d: "dev = device_of (app_db st) target" by (rule find_device_fst)
    show ?thesis
      using assms Authenticated Inr d
      by (auto simp: ws_request_connection_def ws_eval may_connect_def send_inbox
          split: option.splits)
  qed
qed

lemma request_accepted:
  assumes "may_connect c cn st target cred host"
    and "fst (find_device target (app_db st)) = Inr dev"
  shows "sessions (snd (snd (ws_request_connection c r cid target cred cn st))) =
       (sessions st)(rnd_uuid r \<mapsto> peer_session cid host) \<and>
     device_online (snd (snd (ws_request_connection c r cid target cred cn st))) = device_online st \<and>
     otp (snd (snd (ws_request_connection c r cid target cred cn st))) = otp st"
  using assms find_device_fst [OF assms(2)]
  by (auto simp: ws_request_connection_def ws_eval may_connect_def peer_session_def
      split: option.splits conn_state.splits sum.splits)


text \<open>Which other connections a message may reach: the other peer of a session, the host of a device
  the sender may connect to, or the host of a device that the sender's account owns.\<close>

definition in_session_with :: "app_state \<Rightarrow> session_id \<Rightarrow> conn_id \<Rightarrow> sender \<Rightarrow> bool" where
  "in_session_with st sid cid x \<longleftrightarrow>
     Option.bind (Option.bind (sessions st sid) (\<lambda>p. other p cid)) (connections st) = Some x"

definition hosts_own_device :: "conn \<Rightarrow> app_state \<Rightarrow> device_id \<Rightarrow> sender \<Rightarrow> bool" where
  "hosts_own_device cn st target x \<longleftrightarrow>
     (case (conn_state cn, device_of (app_db st) target) of
        (Authenticated i, Some dev) \<Rightarrow> dev_account_id dev = i \<and>
           Option.bind (device_online st target) (connections st) = Some x
      | _ \<Rightarrow> False)"

fun may_reach :: "crypto \<Rightarrow> client_message \<Rightarrow> conn_id \<Rightarrow> conn \<Rightarrow> app_state \<Rightarrow> sender \<Rightarrow> bool" where
  "may_reach c (RequestConnection target cred) cid cn st x =
     (case device_online st target of
        None \<Rightarrow> False
      | Some host \<Rightarrow> may_connect c cn st target cred host \<and> connections st host = Some x)"
| "may_reach c (SdpOffer sid _) cid cn st x = in_session_with st sid cid x"
| "may_reach c (SdpAnswer sid _) cid cn st x = in_session_with st sid cid x"
| "may_reach c (IceCandidate sid _) cid cn st x = in_session_with st sid cid x"
| "may_reach c (SetUnattendedPassword target _) cid cn st x = hosts_own_device cn st target x"
| "may_reach c _ cid cn st x = False"

lemma request_reach:
  assumes "x \<noteq> cid" and "inbox (snd (snd (ws_request_connection c r cid target cred cn st))) x \<noteq> inbox st x"
  shows "may_reach c (RequestConnection target cred) cid cn st x"
proof -
  from assms request_refused [of c cn st target cred r cid]
  obtain host where host: "may_connect c cn st target cred host" by blast
  then have on: "device_online st target = Some host" by (simp add: may_connect_def)
  obtain dev where dev: "device_of (app_db st) target = Some dev" "credential_ok c st target dev cred"
    using host by (auto simp: may_connect_def split: option.splits)
  obtain i where au: "conn_state cn = Authenticated i"
    using host by (cases "conn_state cn") (auto simp: may_connect_def)
  have "connections st host = Some x"
  proof (cases "fst (find_device target (app_db st))")
    case (Inl e)
    then show ?thesis using assms(2) au by (simp add: ws_request_connection_def ws_eval)
  next
    case (Inr res)
    then have "res = Some dev" using find_device_fst dev by metis
    then show ?thesis
      using assms au Inr dev on
      by (auto simp: ws_request_connection_def ws_eval send_inbox
          split: option.splits sum.splits if_splits)
  qed
  then show ?thesis using host on by simp
qed

lemma set_unattended_reach:
  assumes "inbox (snd (snd (ws_set_unattended c r target pw cn st))) x \<noteq> inbox st x"
  shows "hosts_own_device cn st target x"
proof (cases "conn_state cn")
  case Unauthenticated
  then show ?thesis using assms by (simp add: ws_set_unattended_def ws_eval)
next
  case (Authenticated i)
  show ?thesis
  proof (cases "fst (find_device target (app_db st))")
    case (Inl e)
    then show ?thesis using assms Authenticated by (simp add: ws_set_unattended_def ws_eval)
  next
    case (Inr res)
    then have "res = device_of (app_db st) target" by (rule find_device_fst)
    then show ?thesis
      using assms Authenticated Inr
      by (auto simp: ws_set_unattended_def ws_eval send_inbox hosts_own_device_def
          split: option.splits sum.splits if_splits)
  qed
qed

lemma relay_reach:
  "inbox (snd (snd (ws_relay cid sid msg cn st))) x \<noteq> inbox st x \<Longrightarrow> in_session_with st sid cid x"
  by (auto simp: ws_relay_def relay_def in_session_with_def case_prod_beta send_inbox
      split: option.splits if_splits)

lemma handle_message_reach:
  assumes "x \<noteq> cid" and "inbox (snd (snd (handle_message c r m cid cn st))) x \<noteq> inbox st x"
  shows "may_reach c m cid cn st x"
proof (cases m)
  case (RequestConnection t cred)
  then show ?thesis using assms request_reach by simp
next
  case (SetUnattendedPassword t pw)
  then show ?thesis using assms set_unattended_reach by simp
qed (use assms in \<open>auto simp: ws_register_def ws_login_def ws_register_device_def announce_device_def
       ws_list_devices_def ws_turn_credentials_def ws_eval send_inbox dest: relay_reach
       split: sum.splits option.splits conn_state.splits if_splits\<close>)

lemma set_unattended_tbl:
  "fst (set_unattended_password_hash di h d) = Inr u \<Longrightarrow>
   devices_tbl (snd (set_unattended_password_hash di h d)) =
     map (\<lambda>row. if dr_id row = di then row\<lparr>dr_unattended_password_hash := Some h\<rparr> else row) (devices_tbl d)"
  by (auto simp: set_unattended_password_hash_def stmt_def split: list.splits option.splits)

lemma find_map_update:
  "find (\<lambda>row. dr_id row = x)
     (map (\<lambda>row. if dr_id row = di then row\<lparr>dr_unattended_password_hash := v\<rparr> else row) rows) =
   map_option (\<lambda>row. if x = di then row\<lparr>dr_unattended_password_hash := v\<rparr> else row)
     (find (\<lambda>row. dr_id row = x) rows)"
  by (induction rows) auto

lemma device_of_update:
  assumes "devices_tbl d' = map (\<lambda>row. if dr_id row = di
             then row\<lparr>dr_unattended_password_hash := Some h\<rparr> else row) (devices_tbl d)"
  shows "device_of d' x = map_option (\<lambda>dev. if x = di
           then dev\<lparr>dev_unattended_password_hash := Some h\<rparr> else dev) (device_of d x)"
  by (simp add: device_of_def assms find_map_update option.map_comp comp_def map_device_row_def
      if_distrib cong: if_cong)

section \<open>A server with one host online\<close>

text \<open>A concrete state for the witnesses: account 1 owns the device \<open>012 345 006\<close>, hosted by the
  connection \<open>host\<close>; the connection \<open>ctl\<close> is logged in as the same account.\<close>

definition wit_live :: app_state where
  "wit_live = wit_app\<lparr>
     app_db := wit_admin_db\<lparr>devices_tbl := [\<lparr>dr_id = ''012 345 006'', dr_account_id = 1, dr_name = ''pc'',
       dr_unattended_password_hash = None, dr_created_at = 7\<rparr>]\<rparr>,
     connections := [''host'' \<mapsto> ''host'', ''ctl'' \<mapsto> ''ctl''],
     device_online := [''012 345 006'' \<mapsto> ''host''], otp := [''012 345 006'' \<mapsto> ''0042 9999''],
     channels := (\<lambda>_. \<lparr>rx_alive = True, queue = []\<rparr>)\<rparr>"

definition wit_ctl :: conn where
  "wit_ctl = \<lparr>conn_state = Authenticated 1, my_device_id = None\<rparr>"

lemmas wit_defs = wit_live_def wit_ctl_def wit_app_def wit_admin_db_def wit_db_def wit_entropy_def

lemmas db_eval = stmt_def query_row_def find_device_def find_account_by_email_def map_device_row_def
  map_account_row_def set_unattended_password_hash_def registration_enabled_def get_setting_def
  and_then_def from_column_def

section \<open>Properties\<close>

text \<open>
  C3. A connection becomes authenticated, or changes the account it acts for, only by a \<open>Login\<close> whose
  password verifies against the hash stored for that email, or by a \<open>Register\<close> that has just
  appended a new account with that email and a fresh hash of that password, while registration was
  open or its flag could not be read.  No other message, failed or not, changes it.
\<close>

theorem authentication_sound:
  assumes "handle_message c r m cid cn st = (res, cn', st')" and "conn_state cn' \<noteq> conn_state cn"
  shows "(\<exists>email pw a. m = Login email pw \<and> account_by_email (app_db st) email = Some a \<and>
            verify_password c pw (acc_password_hash a) \<and> conn_state cn' = Authenticated (acc_id a)) \<or>
         (\<exists>email pw row h. m = Register email pw \<and>
            accounts_tbl (app_db st') = accounts_tbl (app_db st) @ [row] \<and> ar_email row = email \<and>
            hash_password c r pw = Inr h \<and> ar_password_hash row = h \<and>
            conn_state cn' = Authenticated (ar_id row) \<and>
            (reg_open (app_db st) \<or> (\<exists>e. fst (registration_enabled (app_db st)) = Inl e)))"
proof -
  have cn': "cn' = fst (snd (handle_message c r m cid cn st))"
    and st': "st' = snd (snd (handle_message c r m cid cn st))" using assms(1) by simp_all
  have "conn_state (fst (snd (handle_message c r m cid cn st))) = conn_state cn"
    if "\<forall>e p. m \<noteq> Login e p \<and> m \<noteq> Register e p"
    using that
    by (cases m) (simp_all add: ws_arms ws_eval split: sum.split option.split conn_state.split)
  with assms(2) cn' consider (login) e p where "m = Login e p" | (register) e p where "m = Register e p"
    by metis
  then show ?thesis
  proof cases
    case login
    then show ?thesis using ws_login_auth [of c r cid e p cn st] assms(2) by (simp add: cn')
  next
    case register
    then show ?thesis using ws_register_auth [of c r cid e p cn st] assms(2) by (simp add: cn' st')
  qed
qed

theorem authentication_sound_witness:
  "\<exists>st'. handle_message wit_crypto wit_entropy (Login ''a@b'' ''pw'') ''new''
     \<lparr>conn_state = Unauthenticated, my_device_id = None\<rparr> wit_live =
       (Inr (), \<lparr>conn_state = Authenticated 1, my_device_id = None\<rparr>, st') \<and>
     (\<exists>a. account_by_email (app_db wit_live) ''a@b'' = Some a \<and> acc_id a = 1)"
proof -
  have "\<exists>st'. handle_message wit_crypto wit_entropy (Login ''a@b'' ''pw'') ''new''
     \<lparr>conn_state = Unauthenticated, my_device_id = None\<rparr> wit_live =
       (Inr (), \<lparr>conn_state = Authenticated 1, my_device_id = None\<rparr>, st')"
    by (simp add: ws_login_def with_db_def reply_def send_def wit_defs wit_crypto_def db_eval verify_password_def)
  then obtain st' where h: "handle_message wit_crypto wit_entropy (Login ''a@b'' ''pw'') ''new''
     \<lparr>conn_state = Unauthenticated, my_device_id = None\<rparr> wit_live =
       (Inr (), \<lparr>conn_state = Authenticated 1, my_device_id = None\<rparr>, st')" by blast
  from authentication_sound [OF h] show ?thesis using h by auto
qed

text \<open>
  C1. Sessions are opened only with the device's consent: whenever a message changes the table of
  sessions it is a \<open>RequestConnection\<close> from an authenticated connection for a device that exists and
  is online, with the device's current one-time password or its unattended password; and the change
  is one new session between the sender and exactly that device's host.
\<close>

theorem session_requires_credential:
  assumes "handle_message c r m cid cn st = (res, cn', st')" and "sessions st' \<noteq> sessions st"
  shows "\<exists>target cred host. m = RequestConnection target cred \<and> may_connect c cn st target cred host \<and>
     sessions st' = (sessions st)(rnd_uuid r \<mapsto> peer_session cid host)"
proof -
  have st': "st' = snd (snd (handle_message c r m cid cn st))" using assms(1) by simp
  have "sessions (snd (snd (handle_message c r m cid cn st))) = sessions st"
    if "\<forall>t cred. m \<noteq> RequestConnection t cred"
    using that
    by (cases m) (simp_all add: ws_arms ws_eval split: sum.split option.split conn_state.split)
  with assms(2) st' obtain t cred where m: "m = RequestConnection t cred" by metis
  with assms(2) st' request_refused [of c cn st t cred r cid]
  obtain host where host: "may_connect c cn st t cred host" by auto
  show ?thesis
  proof (cases "fst (find_device t (app_db st))")
    case (Inl e)
    then show ?thesis using assms(2) host
      by (simp add: st' m ws_request_connection_def ws_eval split: conn_state.splits)
  next
    case (Inr dev)
    then show ?thesis using request_accepted [OF host Inr, of r cid] host by (auto simp: st' m)
  qed
qed

lemma wit_request:
  "\<exists>st'. handle_message wit_crypto wit_entropy
     (RequestConnection ''012 345 006'' (OneTimePassword ''0042 9999'')) ''ctl'' wit_ctl wit_live = (Inr (), wit_ctl, st') \<and>
     sessions st' = [''uuid-1'' \<mapsto> peer_session ''ctl'' ''host'']"
  by (simp add: ws_request_connection_def with_db_def reply_def send_def wit_defs db_eval require_auth_def
      credential_ok_def peer_session_def Let_def)

theorem session_requires_credential_witness:
  "\<exists>host. may_connect wit_crypto wit_ctl wit_live ''012 345 006'' (OneTimePassword ''0042 9999'') host"
proof -
  obtain st' where h: "handle_message wit_crypto wit_entropy
     (RequestConnection ''012 345 006'' (OneTimePassword ''0042 9999'')) ''ctl'' wit_ctl wit_live = (Inr (), wit_ctl, st')"
    and s: "sessions st' = [''uuid-1'' \<mapsto> peer_session ''ctl'' ''host'']"
    using wit_request by blast
  have "sessions st' ''uuid-1'' \<noteq> sessions wit_live ''uuid-1''" by (simp add: s wit_defs)
  then have "sessions st' \<noteq> sessions wit_live" by metis
  from session_requires_credential [OF h this] show ?thesis by auto
qed

text \<open>
  C2. Isolation of connections: handling any message of one connection, the error reply included, puts
  something into the queue of another connection only if that one is the other peer of the named
  session, hosts a device for which the message carries a valid credential, or hosts a device owned
  by the sender's account.
\<close>

theorem message_reaches_only_peers:
  assumes "ws_text c r m cid cn st = (cn', st')" and "x \<noteq> cid" and "\<not> may_reach c m cid cn st x"
  shows "inbox st' x = inbox st x"
proof -
  have "inbox (snd (snd (handle_message c r m cid cn st))) x = inbox st x"
    using handle_message_reach [of x cid c r m cn st] assms(2,3) by blast
  then show ?thesis using assms(1,2) by (auto simp: ws_text_eq send_inbox split: sum.splits)
qed


theorem message_reaches_only_peers_witness:
  "inbox (snd (ws_text wit_crypto wit_entropy (SdpOffer ''no-such'' ''sdp'') ''ctl'' wit_ctl wit_live)) ''host'' = []"
proof -
  have "\<not> may_reach wit_crypto (SdpOffer ''no-such'' ''sdp'') ''ctl'' wit_ctl wit_live ''host''"
    by (simp add: in_session_with_def wit_defs)
  from message_reaches_only_peers [OF surjective_pairing _ this, of wit_entropy] show ?thesis
    by (simp add: inbox_def wit_defs)
qed

text \<open>
  Changing the unattended password: if \<open>SetUnattendedPassword\<close> ends without an error the device
  belongs to the sender's account, from then on that password is accepted as an \<open>UnattendedPassword\<close>
  credential for it, no other device row has changed, and so no other device accepts anything new.
\<close>

theorem set_unattended_password_works:
  assumes "argon2_sound c"
    and "handle_message c r (SetUnattendedPassword target pw) cid cn st = (Inr (), cn', st')"
  shows "\<exists>i dev dev'. conn_state cn = Authenticated i \<and> device_of (app_db st) target = Some dev \<and>
     dev_account_id dev = i \<and> device_of (app_db st') target = Some dev' \<and>
     credential_ok c st' target dev' (UnattendedPassword pw) \<and>
     (\<forall>x. x \<noteq> target \<longrightarrow> device_of (app_db st') x = device_of (app_db st) x)"
proof -
  have res: "fst (ws_set_unattended c r target pw cn st) = Inr ()"
    and st': "st' = snd (snd (ws_set_unattended c r target pw cn st))" using assms(2) by simp_all
  obtain i where au: "conn_state cn = Authenticated i"
    using res by (cases "conn_state cn") (simp_all add: ws_set_unattended_def ws_eval)
  obtain r1 where r1: "fst (find_device target (app_db st)) = Inr r1"
    using res au by (cases "fst (find_device target (app_db st))") (simp_all add: ws_set_unattended_def ws_eval)
  obtain dev where dev: "r1 = Some dev" "dev_account_id dev = i"
    using res au r1 by (auto simp: ws_set_unattended_def ws_eval split: option.splits if_splits)
  obtain h where h: "hash_password c r pw = Inr h"
    using res au r1 dev by (auto simp: ws_set_unattended_def ws_eval split: sum.splits)
  let ?d1 = "snd (find_device target (app_db st))"
  obtain u where u: "fst (set_unattended_password_hash target h ?d1) = Inr u"
    using res au r1 dev h by (auto simp: ws_set_unattended_def ws_eval split: sum.splits)
  have db: "app_db st' = snd (set_unattended_password_hash target h ?d1)"
    using au r1 dev h u by (simp add: st' ws_set_unattended_def ws_eval split: option.split)
  have dt: "devices_tbl (app_db st') = map (\<lambda>row. if dr_id row = target
      then row\<lparr>dr_unattended_password_hash := Some h\<rparr> else row) (devices_tbl (app_db st))"
    using u unfolding db by (rule set_unattended_tbl [THEN trans]) simp
  have d0: "device_of (app_db st) target = Some dev" using find_device_fst [OF r1] dev by simp
  have "verify_password c pw h" by (rule hash_then_verify [OF assms(1) h])
  then show ?thesis
    using au dev d0 device_of_update [OF dt] by (auto simp: credential_ok_def option.map_ident)
qed

theorem set_unattended_password_works_witness:
  "\<exists>st' dev'. handle_message wit_crypto wit_entropy (SetUnattendedPassword ''012 345 006'' ''hunter2'') ''ctl''
       wit_ctl wit_live = (Inr (), wit_ctl, st') \<and> device_of (app_db st') ''012 345 006'' = Some dev' \<and>
     credential_ok wit_crypto st' ''012 345 006'' dev' (UnattendedPassword ''hunter2'')"
proof -
  obtain st' where h: "handle_message wit_crypto wit_entropy
     (SetUnattendedPassword ''012 345 006'' ''hunter2'') ''ctl'' wit_ctl wit_live = (Inr (), wit_ctl, st')"
    by (simp add: ws_set_unattended_def with_db_def reply_def send_def wit_defs db_eval require_auth_def
        hash_password_def wit_crypto_def)
  from set_unattended_password_works [OF wit_crypto_sound h] show ?thesis using h by blast
qed

text \<open>
  The one-time password is not consumed.  After a request with it has been accepted, the same code
  opens another session for any authenticated connection that sends it: using the code removes
  nothing, and only the host's own \<open>RegisterDevice\<close> replaces it.
\<close>

theorem one_time_password_reusable:
  assumes "handle_message c r (RequestConnection target (OneTimePassword code)) cid cn st = (Inr (), cn', st')"
    and "sessions st' \<noteq> sessions st"
    and "conn_state cn2 = Authenticated j" and "faults (app_db st') = []"
  shows "\<exists>host. sessions (snd (snd (handle_message c r2
            (RequestConnection target (OneTimePassword code)) cid2 cn2 st'))) =
          (sessions st')(rnd_uuid r2 \<mapsto> peer_session cid2 host)"
proof -
  have st': "st' = snd (snd (ws_request_connection c r cid target (OneTimePassword code) cn st))"
    using assms(1) by simp
  from assms(2) st' request_refused [of c cn st target "OneTimePassword code" r cid]
  obtain host where host: "may_connect c cn st target (OneTimePassword code) host" by auto
  obtain dev0 where dev0: "fst (find_device target (app_db st)) = Inr dev0"
    using assms(1) host
    by (cases "fst (find_device target (app_db st))")
      (auto simp: ws_request_connection_def ws_eval may_connect_def split: conn_state.splits)
  note acc = request_accepted [OF host dev0, of r cid, folded st']
  have "devices_tbl (app_db st') = devices_tbl (app_db st)"
    by (simp add: st' ws_request_connection_def ws_eval split: sum.split option.split conn_state.split)
  then have dv: "device_of (app_db st') target = device_of (app_db st) target" by (simp add: device_of_def)
  have m2: "may_connect c cn2 st' target (OneTimePassword code) host"
    using host acc dv assms(3) by (auto simp: may_connect_def credential_ok_def split: option.splits)
  have "fst (find_device target (app_db st')) = Inr (device_of (app_db st') target)"
    using find_device_ok [OF assms(4)] by simp
  from request_accepted [OF m2 this, of r2 cid2] show ?thesis by auto
qed

theorem one_time_password_reusable_witness:
  "\<exists>st' host. sessions (snd (snd (handle_message wit_crypto (wit_entropy\<lparr>rnd_uuid := ''uuid-2''\<rparr>)
      (RequestConnection ''012 345 006'' (OneTimePassword ''0042 9999'')) ''other''
      \<lparr>conn_state = Authenticated 1, my_device_id = None\<rparr> st'))) =
     (sessions st')(''uuid-2'' \<mapsto> peer_session ''other'' host) \<and> sessions st' ''uuid-1'' \<noteq> None"
proof -
  obtain st' where h: "handle_message wit_crypto wit_entropy
     (RequestConnection ''012 345 006'' (OneTimePassword ''0042 9999'')) ''ctl'' wit_ctl wit_live = (Inr (), wit_ctl, st')"
    and s: "sessions st' = [''uuid-1'' \<mapsto> peer_session ''ctl'' ''host'']"
    using wit_request by blast
  have "sessions st' ''uuid-1'' \<noteq> sessions wit_live ''uuid-1''" by (simp add: s wit_defs)
  then have ne: "sessions st' \<noteq> sessions wit_live" by metis
  have ff: "faults (app_db st') = []"
    using h by (auto simp: ws_request_connection_def with_db_def reply_def send_def wit_defs db_eval
        require_auth_def credential_ok_def Let_def)
  from one_time_password_reusable [OF h ne _ ff, of "\<lparr>conn_state = Authenticated 1, my_device_id = None\<rparr>" 1
      "wit_entropy\<lparr>rnd_uuid := ''uuid-2''\<rparr>" "''other''"]
  obtain host where "sessions (snd (snd (handle_message wit_crypto (wit_entropy\<lparr>rnd_uuid := ''uuid-2''\<rparr>)
      (RequestConnection ''012 345 006'' (OneTimePassword ''0042 9999'')) ''other''
      \<lparr>conn_state = Authenticated 1, my_device_id = None\<rparr> st'))) =
     (sessions st')(''uuid-2'' \<mapsto> peer_session ''other'' host)" by auto
  moreover have "sessions st' ''uuid-1'' \<noteq> None" by (simp add: s)
  ultimately show ?thesis by blast
qed

text \<open>
  The registration switch on the WebSocket: while it reads as closed, \<open>Register\<close> is answered with
  an error and creates nothing.  But when reading it fails, the handler goes on as if it were open:
  with registration closed and one refused statement, a new account is created and the connection is
  logged in.
\<close>

theorem ws_registration_switch:
  assumes "\<not> reg_open (app_db st)" and "accounts_tbl (app_db st) \<noteq> []"
    and "accounts_seq (app_db st) < 2 ^ 63 - 1" and "email \<notin> set (map ar_email (accounts_tbl (app_db st)))"
    and "hash_password c r pw = Inr h"
  shows "(faults (app_db st) = [] \<longrightarrow>
       handle_message c r (Register email pw) cid cn st =
         reply cid (AuthError ''registration is currently disabled'') cn st) \<and>
     (\<forall>e. faults (app_db st) = [Some e] \<longrightarrow>
       conn_state (fst (snd (handle_message c r (Register email pw) cid cn st))) =
         Authenticated (accounts_seq (app_db st) + 1))"
proof (intro conjI impI allI)
  assume "faults (app_db st) = []"
  then show "handle_message c r (Register email pw) cid cn st =
         reply cid (AuthError ''registration is currently disabled'') cn st"
    using assms(1) by (simp add: ws_register_def with_db_pair registration_enabled_ok)
next
  fix e assume f: "faults (app_db st) = [Some e]"
  let ?d = "app_db st\<lparr>faults := []\<rparr>"
  have re: "registration_enabled (app_db st) = (Inl e, ?d)"
    by (simp add: registration_enabled_def get_setting_def stmt_def and_then_def f)
  have ct: "count_accounts ?d = (Inr (int (length (accounts_tbl (app_db st)))), ?d)"
    by (simp add: count_accounts_def stmt_def)
  have "fst (create_account_and_maybe_bootstrap_admin email h ?d) = Inr (accounts_seq (app_db st) + 1, User)"
    using assms(2-4) create_account_ok [of ?d email h User]
    by (simp add: create_account_and_maybe_bootstrap_admin_def ct Let_def)
  then show "conn_state (fst (snd (handle_message c r (Register email pw) cid cn st))) =
         Authenticated (accounts_seq (app_db st) + 1)"
    using re assms(5) by (simp add: ws_register_def ws_eval)
qed

theorem ws_registration_switch_witness:
  "conn_state (fst (snd (handle_message wit_crypto wit_entropy (Register ''eve@x'' ''pw'') ''new''
     \<lparr>conn_state = Unauthenticated, my_device_id = None\<rparr> (wit_live\<lparr>app_db := (app_db wit_live)\<lparr>
        settings_tbl := [''registration_enabled'' \<mapsto> ''false''], faults := [Some ''disk I/O error'']\<rparr>\<rparr>)))) =
   Authenticated 2"
  using ws_registration_switch [of "wit_live\<lparr>app_db := (app_db wit_live)\<lparr>
      settings_tbl := [''registration_enabled'' \<mapsto> ''false''], faults := [Some ''disk I/O error'']\<rparr>\<rparr>"
      "''eve@x''" wit_crypto wit_entropy "''pw''" "''salt$pw''" "''new''"
      "\<lparr>conn_state = Unauthenticated, my_device_id = None\<rparr>"]
  by (simp add: wit_defs reg_open_def hash_password_def wit_crypto_def)

end
