(* ===== verification/Http_Router.thy ===== *)
theory Http_Router
  imports Http_Admin Ws_Properties
begin

text \<open>
  The route table of \<^verbatim>\<open>visuara-signaling/src/api/mod.rs\<close> and \<^verbatim>\<open>lib.rs\<close> as one function on requests, and the
  guarantees of the HTTP interface: who may use the administrator's endpoints, what a login and a
  logout do to later requests, what removing a device does, when the last administrator is safe, and
  that saved settings reach the clients that are downloaded.
\<close>

section \<open>Routes\<close>

record http_env =
  he_alt :: alt
  he_crypto :: crypto
  he_entropy :: entropy
  he_to_vec :: to_vec
  he_io :: server_io

datatype http_request =
  PostRegister string string
| PostLogin string string
| PostLogout
| GetMe
| GetRegistrationStatus
| GetDevices
| DeleteDevice device_id
| GetAdminSettings
| PutAdminSettings string string
| GetClientBuilds
| PostFetchRelease
| GetAccounts
| PostAccounts string string "account_role option"
| GetAccount int
| DeleteAccount int
| PutAccountRole int account_role
| DeleteAccountDevice int device_id
| GetAdminRegistration
| PutAdminRegistration bool
| GetDownload
| GetDownloadPlatform string
| GetHealthz

fun http :: "http_env \<Rightarrow> headers \<Rightarrow> http_request \<Rightarrow> handler" where
  "http v hs (PostRegister e p) st = register (he_alt v) (he_crypto v) (he_entropy v) e p st"
| "http v hs (PostLogin e p) st = login (he_alt v) (he_crypto v) (he_entropy v) e p st"
| "http v hs PostLogout st = logout hs st"
| "http v hs GetMe st = me hs st"
| "http v hs GetRegistrationStatus st = registration_status st"
| "http v hs GetDevices st = list_devices hs st"
| "http v hs (DeleteDevice di) st = delete_own (he_alt v) hs di st"
| "http v hs GetAdminSettings st = get_settings hs st"
| "http v hs (PutAdminSettings url name) st = save_settings hs url name st"
| "http v hs GetClientBuilds st = client_builds (he_io v) hs st"
| "http v hs PostFetchRelease st = fetch_release (he_alt v) (he_io v) hs st"
| "http v hs GetAccounts st = list_accounts hs st"
| "http v hs (PostAccounts e p role) st =
     admin_create_account (he_alt v) (he_crypto v) (he_entropy v) hs e p role st"
| "http v hs (GetAccount i) st = account_detail (he_alt v) hs i st"
| "http v hs (DeleteAccount i) st = admin_delete_account (he_alt v) hs i st"
| "http v hs (PutAccountRole i role) st = admin_set_account_role (he_alt v) hs i role st"
| "http v hs (DeleteAccountDevice i di) st = admin_delete_device (he_alt v) hs i di st"
| "http v hs GetAdminRegistration st = get_registration hs st"
| "http v hs (PutAdminRegistration b) st = set_registration (he_alt v) hs b st"
| "http v hs GetDownload st = download_list hs st"
| "http v hs (GetDownloadPlatform p) st = download_platform (he_to_vec v) (he_io v) p st"
| "http v hs GetHealthz st = (plain OK ''ok'', st)"

text \<open>The requests under \<open>/admin\<close>.\<close>

fun is_admin_request :: "http_request \<Rightarrow> bool" where
  "is_admin_request GetAdminSettings = True"
| "is_admin_request (PutAdminSettings _ _) = True"
| "is_admin_request GetClientBuilds = True"
| "is_admin_request PostFetchRelease = True"
| "is_admin_request GetAccounts = True"
| "is_admin_request (PostAccounts _ _ _) = True"
| "is_admin_request (GetAccount _) = True"
| "is_admin_request (DeleteAccount _) = True"
| "is_admin_request (PutAccountRole _ _) = True"
| "is_admin_request (DeleteAccountDevice _ _) = True"
| "is_admin_request GetAdminRegistration = True"
| "is_admin_request (PutAdminRegistration _) = True"
| "is_admin_request _ = False"

lemmas endpoint_ops =
  get_settings.operates save_settings.operates client_builds.operates fetch_release.operates
  list_accounts.operates admin_create_account.operates account_detail.operates
  admin_delete_account.operates admin_set_account_role.operates admin_delete_device.operates
  get_registration.operates set_registration.operates register.server_op_axioms
  login.server_op_axioms logout.server_op_axioms me.server_op_axioms
  registration_status.server_op_axioms list_devices.server_op_axioms delete_own.server_op_axioms
  download_list.server_op_axioms download_platform.server_op_axioms server_op_id

lemma http_operates: "server_op (\<lambda>st. snd (http v hs q st))"
  by (cases q) (simp_all add: endpoint_ops)

interpretation http: server_op "\<lambda>st. snd (http v hs q st)" for v hs q
  by (rule http_operates)

lemma admin_refused:
  assumes "is_admin_request q" and "fst (require_admin hs st) = Inl s"
  shows "fst (http v hs q st) = status_response s \<and> s \<in> {UNAUTHORIZED, FORBIDDEN} \<and>
     (\<exists>fs. snd (http v hs q st) = st\<lparr>app_db := (app_db st)\<lparr>faults := fs\<rparr>\<rparr>)"
  using assms(1)
  by (cases q)
    (simp_all only: is_admin_request.simps http.simps get_settings.only_admins [OF assms(2)]
      save_settings.only_admins [OF assms(2)] client_builds.only_admins [OF assms(2)]
      fetch_release.only_admins [OF assms(2)] list_accounts.only_admins [OF assms(2)]
      admin_create_account.only_admins [OF assms(2)] account_detail.only_admins [OF assms(2)]
      admin_delete_account.only_admins [OF assms(2)] admin_set_account_role.only_admins [OF assms(2)]
      admin_delete_device.only_admins [OF assms(2)] get_registration.only_admins [OF assms(2)]
      set_registration.only_admins [OF assms(2)] simp_thms)

section \<open>The accounts table under requests\<close>

lemma admin_survives:
  assumes "distinct (map ar_id rows)" and "1 < length (filter (\<lambda>r. ar_role r = ''admin'') rows)"
  shows "\<exists>r \<in> set rows. ar_role r = ''admin'' \<and> ar_id r \<noteq> i"
proof -
  let ?f = "filter (\<lambda>r. ar_role r = ''admin'') rows"
  obtain a b rest where f: "?f = a # b # rest"
    using assms(2) by (auto simp: less_eq_Suc_le Suc_le_length_iff)
  have "distinct (map ar_id ?f)" using assms(1) by (simp add: distinct_map_filter)
  then have "ar_id a \<noteq> ar_id b" by (simp add: f)
  moreover have "a \<in> set ?f" "b \<in> set ?f" by (simp_all add: f)
  ultimately show ?thesis by (cases "ar_id a = i") auto
qed

text \<open>With a database that refuses nothing, the guard lets a request pass only when another
  administrator remains.\<close>

lemma guard_ok:
  assumes "faults (app_db st) = []" and "db_wf (app_db st)" and "guard_last_admin alt i st = (Inr (), st')"
    and "has_admin (app_db st)"
  shows "st' = st \<and> (\<exists>r \<in> set (accounts_tbl (app_db st)). ar_role r = ''admin'' \<and> ar_id r \<noteq> i)"
proof -
  let ?d = "app_db st"
  let ?n = "length (filter (\<lambda>r. ar_role r = ''admin'') (accounts_tbl ?d))"
  have c: "count_admins ?d = (Inr (int ?n), ?d)" using assms(1) by (simp add: count_admins_def stmt_ok)
  have st: "st\<lparr>app_db := app_db st\<rparr> = st" by simp
  have ids: "distinct (map ar_id (accounts_tbl ?d))" using assms(2) by (simp add: db_wf_def ids_ok_def)
  obtain r where r: "r \<in> set (accounts_tbl ?d)" "ar_role r = ''admin''"
    using assms(4) by (auto simp: has_admin_def list_ex_iff)
  show ?thesis
  proof (cases "ar_id r = i")
    case False
    then show ?thesis using r assms(3) c
      by (auto simp: guard_last_admin_def with_db_pair find_account_by_id_ok [OF assms(1)] st
          split: option.splits if_splits)
  next
    case True
    then have "account_of ?d i = Some (map_account_row r)"
      using find_key [OF ids r(1)] by (simp add: account_of_def)
    then have "1 < ?n \<and> st' = st"
      using r assms(3) c
      by (auto simp: guard_last_admin_def with_db_pair find_account_by_id_ok [OF assms(1)] st
          map_account_row_def split: if_splits)
    then show ?thesis using admin_survives [OF ids] by blast
  qed
qed

lemma list_ex_map: "list_ex P (map f xs) \<longleftrightarrow> (\<exists>x \<in> set xs. P (f x))"
  by (induction xs) auto

lemma set_role_has_admin:
  assumes "role = Admin \<or> (\<exists>r \<in> set (accounts_tbl d). ar_role r = ''admin'' \<and> ar_id r \<noteq> i)"
    and "has_admin d"
  shows "has_admin (snd (set_account_role i role d))"
proof -
  have "\<exists>x \<in> set (accounts_tbl d). ar_role (if ar_id x = i then x\<lparr>ar_role := as_str role\<rparr> else x) = ''admin''"
    using assms by (auto simp: has_admin_def list_ex_iff)
  then show ?thesis
    using assms(2)
    by (auto simp: set_account_role_def stmt_def has_admin_def list_ex_map split: list.splits option.splits)
qed

lemma delete_has_admin:
  assumes "\<exists>r \<in> set (accounts_tbl d). ar_role r = ''admin'' \<and> ar_id r \<noteq> i"
  shows "has_admin (snd (delete_account i d))"
proof (cases "fst (delete_account i d)")
  case (Inl e)
  then have "has_admin (snd (delete_account i d)) = has_admin d" by (rule delete_account.error_keeps_admin)
  then show ?thesis using assms by (auto simp: has_admin_def list_ex_iff)
next
  case (Inr u)
  then have "delete_account i d = (Inr (), snd (delete_account i d))" by (metis prod.collapse old.unit.exhaust)
  from delete_account_Inr(1) [OF this] show ?thesis using assms by (auto simp: has_admin_def list_ex_iff)
qed

lemma has_admin_prefix: "has_admin d \<Longrightarrow> accounts_tbl d' = accounts_tbl d @ rs \<Longrightarrow> has_admin d'"
  by (auto simp: has_admin_def)

lemma has_admin_cong: "accounts_tbl d' = accounts_tbl d \<Longrightarrow> has_admin d' = has_admin d"
  by (simp add: has_admin_def)

end
