(* ===== verification/Http_Properties.thy ===== *)
theory Http_Properties
  imports Http_Router
begin

text \<open>
  The properties of the HTTP interface, stated for requests through the route table of
  \<open>Http_Router\<close>.
\<close>

section \<open>Which requests touch the accounts\<close>

lemma fetch_release_accounts [simp]:
  "accounts_tbl (app_db (snd (fetch_and_store alt io repo st))) = accounts_tbl (app_db st)"
  by (simp add: fetch_and_store_snd split: sum.split)

fun changes_accounts :: "http_request \<Rightarrow> bool" where
  "changes_accounts (PostRegister _ _) = True"
| "changes_accounts (PostAccounts _ _ _) = True"
| "changes_accounts (DeleteAccount _) = True"
| "changes_accounts (PutAccountRole _ _) = True"
| "changes_accounts _ = False"

lemma http_accounts:
  "\<not> changes_accounts q \<Longrightarrow> accounts_tbl (app_db (snd (http v hs q st))) = accounts_tbl (app_db st)"
  by (cases q)
    (simp_all add: login_def start_session_def logout_def me_def registration_status_def list_devices_def
      delete_own_def get_settings_def save_settings_def client_builds_def fetch_release_def
      list_accounts_def account_detail_def admin_delete_device_def get_registration_def
      set_registration_def download_list_def download_platform_def http_eval
      split: sum.split option.split)

lemma register_accounts:
  "\<exists>rs. accounts_tbl (app_db (snd (register alt c r e p st))) = accounts_tbl (app_db st) @ rs"
  using bootstrap_prefix [of "trim e" _ "snd (registration_enabled (app_db st))"]
  by (simp add: register_def start_session_def http_eval split: sum.split bool.split)

lemma admin_create_accounts:
  "\<exists>rs. accounts_tbl (app_db (snd (admin_create_account alt c r hs e p role st))) = accounts_tbl (app_db st) @ rs"
  using create_account_prefix [of "trim e" _ _ "app_db (snd (current_account hs st))"]
  by (simp add: admin_create_account_def http_eval split: sum.split)

lemma register_keeps_admin:
  "has_admin (app_db st) \<Longrightarrow> has_admin (app_db (snd (register alt c r e p st)))"
  using register_accounts has_admin_prefix by metis

lemma create_keeps_admin:
  "has_admin (app_db st) \<Longrightarrow> has_admin (app_db (snd (admin_create_account alt c r hs e p role st)))"
  using admin_create_accounts has_admin_prefix by metis

lemma delete_account_keeps_admin:
  assumes "faults (app_db st) = []" and "db_wf (app_db st)" and "has_admin (app_db st)"
  shows "has_admin (app_db (snd (admin_delete_account alt hs i st)))"
proof (cases "fst (guard_last_admin alt i st)")
  case (Inl e)
  then show ?thesis using assms
    by (simp add: admin_delete_account_def http_eval guard_faults has_admin_def split: sum.split)
next
  case (Inr u)
  have "guard_last_admin alt i st = (Inr (), snd (guard_last_admin alt i st))"
    using Inr by (metis prod.collapse old.unit.exhaust)
  from guard_ok [OF assms(1,2) this assms(3)] show ?thesis
    using assms Inr delete_has_admin [of "app_db st" i]
    by (simp add: admin_delete_account_def http_eval guard_faults split: sum.split)
qed

lemma set_role_keeps_admin:
  assumes "faults (app_db st) = []" and "db_wf (app_db st)" and "has_admin (app_db st)"
  shows "has_admin (app_db (snd (admin_set_account_role alt hs i role st)))"
proof (cases "role = Admin")
  case True
  then show ?thesis using assms set_role_has_admin [of Admin "app_db st" i]
    by (simp add: admin_set_account_role_def http_eval guard_faults split: sum.split)
next
  case False
  show ?thesis
  proof (cases "fst (guard_last_admin alt i st)")
    case (Inl e)
    then show ?thesis using assms False
      by (simp add: admin_set_account_role_def http_eval guard_faults has_admin_def split: sum.split)
  next
    case (Inr u)
    have "guard_last_admin alt i st = (Inr (), snd (guard_last_admin alt i st))"
      using Inr by (metis prod.collapse old.unit.exhaust)
    from guard_ok [OF assms(1,2) this assms(3)] show ?thesis
      using assms Inr False set_role_has_admin [of role "app_db st" i]
      by (simp add: admin_set_account_role_def http_eval guard_faults split: sum.split)
  qed
qed

lemma http_has_admin:
  assumes "faults (app_db st) = []" and "db_wf (app_db st)" and "has_admin (app_db st)"
  shows "has_admin (app_db (snd (http v hs q st)))"
proof (cases "changes_accounts q")
  case False
  then show ?thesis using http_accounts [OF False, of v hs st] assms(3) by (simp add: has_admin_def)
next
  case True
  then show ?thesis
    using assms
    by (cases q)
      (simp_all add: set_role_keeps_admin delete_account_keeps_admin register_keeps_admin create_keeps_admin)
qed

section \<open>Sessions\<close>

lemma account_by_email_of:
  assumes "db_wf d" and "account_by_email d e = Some a"
  shows "account_of d (acc_id a) = Some a"
proof -
  from assms(2) obtain row where row: "find (\<lambda>r. ar_email r = e) (accounts_tbl d) = Some row"
    "a = map_account_row row" by (auto simp: account_by_email_def)
  then have "row \<in> set (accounts_tbl d)" by (auto simp: find_Some_iff)
  from find_key [OF _ this, of ar_id] show ?thesis
    using assms(1) row(2) by (simp add: db_wf_def ids_ok_def account_of_def map_account_row_def)
qed

lemma create_session_Inr:
  assumes "create_session t i d = (Inr u, d')"
  shows "t \<notin> set (map sr_token (sessions_tbl d))"
    and "sessions_tbl d' = sessions_tbl d @ [\<lparr>sr_token = t, sr_account_id = i, sr_created_at = wall_clock d\<rparr>]"
    and "accounts_tbl d' = accounts_tbl d"
  using assms unfolding create_session_def
  by (elim stmt_Inr; auto simp: same_tables_iff list_ex_key_iff split: if_splits)+

lemma find_append: "find P (xs @ ys) = (case find P xs of Some x \<Rightarrow> Some x | None \<Rightarrow> find P ys)"
  by (induction xs) auto

lemma session_of_created:
  assumes "create_session t i d = (Inr u, d')"
  shows "session_of d' t = account_of d i"
    and "t' \<noteq> t \<Longrightarrow> session_of d' t' = session_of d t'"
proof -
  note c = create_session_Inr [OF assms]
  have "find (\<lambda>s. sr_token s = t) (sessions_tbl d) = None" using c(1) by (simp add: find_key_None)
  then show "session_of d' t = account_of d i"
    by (simp add: session_of_def c(2,3) account_of_def find_append)
  show "session_of d' t' = session_of d t'" if "t' \<noteq> t"
    using that by (auto simp: session_of_def c(2,3) account_of_def find_append split: option.split)
qed

lemma find_filter_key:
  "find (\<lambda>s. f s = k) (filter (\<lambda>s. f s \<noteq> t) xs) = (if k = t then None else find (\<lambda>s. f s = k) xs)"
  by (induction xs) auto

lemma session_of_deleted:
  "faults d = [] \<Longrightarrow> session_of (snd (delete_session t d)) t' = (if t' = t then None else session_of d t')"
  by (simp add: delete_session_def stmt_ok session_of_def account_of_def find_filter_key)

lemma me_response:
  assumes "db_wf (app_db st)" and "faults (app_db st) = []" and "cookie_value hs SESSION_COOKIE = Some t"
  shows "fst (me hs st) = (case session_of (app_db st) t of
     None \<Rightarrow> status_response UNAUTHORIZED
   | Some a \<Rightarrow> ok_response (AccountBody \<lparr>av_id = acc_id a, av_email = acc_email a, av_role = acc_role a\<rparr>))"
  using assms by (simp add: me_def current_account_def with_db_pair find_session_ok split: option.split)

text \<open>A request that carries the given cookies.\<close>

definition with_cookies :: "(string \<times> string) list \<Rightarrow> headers" where
  "with_cookies kvs = \<lparr>cookie_header = Some (Text (print_cookies kvs)), user_agent_header = None\<rparr>"

lemma session_cookie_read:
  assumes "entropy_ok r" and "list_all cookie_pair_ok kvs" and "SESSION_COOKIE \<notin> set (map fst kvs)"
  shows "cookie_value (with_cookies (kvs @ [(SESSION_COOKIE, generate_session_token r)])) SESSION_COOKIE =
           Some (generate_session_token r)"
proof -
  let ?all = "kvs @ [(SESSION_COOKIE, generate_session_token r)]"
  have "cookie_pair_ok (SESSION_COOKIE, generate_session_token r)"
    using token_alnum [OF assms(1)] alnum_facts
    by (auto simp: cookie_pair_ok_def SESSION_COOKIE_def is_whitespace_def)
  then have "list_all cookie_pair_ok ?all" using assms(2) by simp
  from cookie_parts [OF _ this, of "[]" SESSION_COOKIE]
  have "cookie_value (with_cookies ?all) SESSION_COOKIE = map_of ?all SESSION_COOKIE"
    by (simp add: cookie_value_def with_cookies_def)
  also have "\<dots> = Some (generate_session_token r)"
    using assms(3) by (simp add: map_add_dom_app_simps map_add_Some_iff map_of_eq_None_iff)
  finally show ?thesis .
qed

lemma login_OK:
  assumes "login alt c r e p st = (resp, st')" and "status resp = OK"
  shows "\<exists>a d1. account_by_email (app_db st) (trim e) = Some a \<and> verify_password c p (acc_password_hash a) \<and>
     same_tables (app_db st) d1 \<and> create_session (generate_session_token r) (acc_id a) d1 = (Inr (), app_db st') \<and>
     set_cookie resp = Some (set_session_cookie (generate_session_token r))"
proof -
  let ?d = "app_db st"
  let ?d1 = "snd (find_account_by_email (trim e) ?d)"
  from assms obtain res where r: "fst (find_account_by_email (trim e) ?d) = Inr res"
    by (cases "fst (find_account_by_email (trim e) ?d)")
      (auto simp: login_def http_eval error_response_def)
  from find_account_by_email_fst [OF r] have res: "res = account_by_email ?d (trim e)" .
  obtain a where a: "account_by_email ?d (trim e) = Some a" "verify_password c p (acc_password_hash a)"
    and s: "start_session alt r (acc_id a) (acc_email a) (acc_role a) (st\<lparr>app_db := ?d1\<rparr>) = (resp, st')"
    using assms r res
    by (auto simp: login_def http_eval error_response_def split: option.splits if_splits)
  obtain u where u: "create_session (generate_session_token r) (acc_id a) ?d1 = (Inr u, app_db st')"
    and k: "set_cookie resp = Some (set_session_cookie (generate_session_token r))"
    using s assms(2)
    by (auto simp: start_session_def http_eval error_response_def prod_eq_iff split: sum.splits)
  show ?thesis using a u k find_account_by_email.read_only by (intro exI [of _ a] exI [of _ ?d1]) auto
qed

text \<open>A request without a stored session of an administrator is refused before its handler starts.\<close>

lemma not_admin_refused:
  assumes "db_wf (app_db st)"
    and "\<And>token acc. cookie_value hs SESSION_COOKIE = Some token \<Longrightarrow>
           session_of (app_db st) token = Some acc \<Longrightarrow> acc_role acc \<noteq> Admin"
  shows "\<exists>s. fst (require_admin hs st) = Inl s"
proof (cases "require_admin hs st")
  case (Pair res st1)
  show ?thesis
  proof (cases res)
    case (Inr a)
    then have acc: "require_account hs st = (Inr a, st1)" and ad: "aa_role a = Admin"
      using Pair by (simp_all add: require_admin_Inr)
    from require_account_Inr [OF assms(1) acc] ad assms(2) show ?thesis by metis
  qed (simp add: Pair)
qed

section \<open>Properties\<close>

text \<open>
  The administrator's endpoints are closed to everyone else: a request to any of them whose cookie
  does not resolve to a stored session of an account with the admin role is answered 401 or 403 with
  an empty body, whatever the fault schedule, and leaves every table and all shared state unchanged.
\<close>

theorem admin_endpoints_guarded:
  assumes "db_wf (app_db st)" and "is_admin_request q"
    and "\<And>token acc. cookie_value hs SESSION_COOKIE = Some token \<Longrightarrow>
           session_of (app_db st) token = Some acc \<Longrightarrow> acc_role acc \<noteq> Admin"
  shows "\<exists>s fs. fst (http v hs q st) = status_response s \<and> s \<in> {UNAUTHORIZED, FORBIDDEN} \<and>
     snd (http v hs q st) = st\<lparr>app_db := (app_db st)\<lparr>faults := fs\<rparr>\<rparr>"
proof -
  have "\<exists>s. fst (require_admin hs st) = Inl s" by (rule not_admin_refused [OF assms(1)]) (rule assms(3))
  then obtain s where "fst (require_admin hs st) = Inl s" by blast
  from admin_refused [OF assms(2) this, of v] show ?thesis by blast
qed

definition wit_http :: http_env where
  "wit_http = \<lparr>he_alt = (\<lambda>e. e), he_crypto = wit_crypto, he_entropy = wit_entropy,
     he_to_vec = wit_to_vec, he_io = wit_io\<rparr>"

theorem admin_endpoints_guarded_witness:
  "\<exists>s fs. fst (http wit_http (with_cookies [(''a'', ''b'')]) (DeleteAccount 1) wit_app) = status_response s \<and>
     s \<in> {UNAUTHORIZED, FORBIDDEN} \<and>
     snd (http wit_http (with_cookies [(''a'', ''b'')]) (DeleteAccount 1) wit_app) =
       wit_app\<lparr>app_db := (app_db wit_app)\<lparr>faults := fs\<rparr>\<rparr>"
  using admin_endpoints_guarded [of wit_app "DeleteAccount 1" "with_cookies [(''a'', ''b'')]" wit_http] wit_admin_wf
  by (simp add: wit_app_def with_cookies_def cookie_value_def cookie_part_def trim_def trim_start_def
      is_whitespace_def SESSION_COOKIE_def)

text \<open>
  Removing one's own device: if the request is answered 204, the device belonged to the account of
  the request's session, the device is no longer shown as online and has no one-time password, so no
  connection can be opened to it, and its host, if any, has been told.  The row itself is gone unless
  the engine refused to delete it, which the answer does not show; and the host's connection is still
  registered.
\<close>

theorem delete_own_effects:
  assumes "db_wf (app_db st)" and "delete_own alt hs di st = (resp, st')" and "status resp = NO_CONTENT"
  shows "\<exists>token acc dev. cookie_value hs SESSION_COOKIE = Some token \<and>
     session_of (app_db st) token = Some acc \<and> device_of (app_db st) di = Some dev \<and>
     dev_account_id dev = acc_id acc \<and>
     device_online st' di = None \<and> otp st' di = None \<and>
     (\<forall>c cn cred host. \<not> may_connect c cn st' di cred host) \<and>
     (\<forall>host tx. device_online st di = Some host \<and> connections st host = Some tx \<and> rx_alive (channels st tx) \<longrightarrow>
        inbox st' tx = inbox st tx @ [ServerError ''This device was removed.'']) \<and>
     (faults (app_db st) = [] \<longrightarrow> device_of (app_db st') di = None) \<and>
     connections st' = connections st"
proof -
  let ?st1 = "snd (require_account hs st)"
  obtain a where a: "fst (require_account hs st) = Inr a"
    using assms(2,3) by (cases "fst (require_account hs st)")
      (auto simp: delete_own_def case_prod_beta status_response_def require_account_def split: option.splits)
  have ra: "require_account hs st = (Inr a, ?st1)" using a by (metis prod.collapse)
  from require_account_Inr [OF assms(1) ra] obtain token acc where
    acc: "cookie_value hs SESSION_COOKIE = Some token" "session_of (app_db st) token = Some acc" "aa_id a = acc_id acc"
    by auto
  let ?d1 = "app_db ?st1"
  obtain res where r: "fst (find_device di ?d1) = Inr res"
    using assms(2,3) a by (cases "fst (find_device di ?d1)")
      (auto simp: delete_own_def http_eval error_response_def)
  have res: "res = device_of (app_db st) di"
    using find_device_fst [OF r] by (simp add: device_of_def require_account_state)
  obtain dev where dev: "device_of (app_db st) di = Some dev" "dev_account_id dev = aa_id a"
    and st': "st' = kick_device di ''This device was removed.''
        (?st1\<lparr>app_db := snd (delete_device di (snd (find_device di ?d1)))\<rparr>)"
    using assms(2,3) a r res
    by (auto simp: delete_own_def http_eval error_response_def split: option.splits if_splits)
  have off: "device_online st' di = None" "otp st' di = None" by (simp_all add: st')
  have conn: "connections st' = connections st" by (simp add: st' require_account_state)
  have told: "inbox st' tx = inbox st tx @ [ServerError ''This device was removed.'']"
    if "device_online st di = Some host" "connections st host = Some tx" "rx_alive (channels st tx)" for host tx
    using that by (simp add: st' kick_device_def Let_def send_inbox require_account_state) (simp add: inbox_def)
  have gone: "device_of (app_db st') di = None" if "faults (app_db st) = []"
    using that
    by (simp add: st' require_account_state guard_faults find_device_def delete_device_def stmt_ok
        device_of_def find_filter_key)
  show ?thesis using acc dev off conn told gone by (fastforce simp: may_connect_def)
qed

theorem delete_own_effects_witness:
  "\<exists>resp st'. delete_own (\<lambda>e. e) wit_headers ''012 345 006'' wit_live = (resp, st') \<and>
     device_of (app_db st') ''012 345 006'' = None \<and> device_online st' ''012 345 006'' = None \<and>
     inbox st' ''host'' = [ServerError ''This device was removed.''] \<and> connections st' ''host'' \<noteq> None"
proof -
  have wf: "db_wf (app_db wit_live)" by (simp add: db_wf_defs wit_defs)
  have s: "status (fst (delete_own (\<lambda>e. e) wit_headers ''012 345 006'' wit_live)) = NO_CONTENT"
    using wit_cookie
    by (simp add: delete_own_def require_account_def current_account_def with_db_def find_session_def db_eval
        wit_defs status_response_def)
  from delete_own_effects [OF wf surjective_pairing s]
  have "device_of (app_db (snd (delete_own (\<lambda>e. e) wit_headers ''012 345 006'' wit_live))) ''012 345 006'' = None \<and>
     device_online (snd (delete_own (\<lambda>e. e) wit_headers ''012 345 006'' wit_live)) ''012 345 006'' = None \<and>
     inbox (snd (delete_own (\<lambda>e. e) wit_headers ''012 345 006'' wit_live)) ''host'' =
       [ServerError ''This device was removed.''] \<and>
     connections (snd (delete_own (\<lambda>e. e) wit_headers ''012 345 006'' wit_live)) ''host'' \<noteq> None"
    by (auto simp: wit_defs inbox_def)
  then show ?thesis by (metis prod.collapse)
qed

text \<open>
  The guard fails open: when the engine refuses the statement that looks the account up, the only
  administrator is deleted, and the request is answered 204.
\<close>

theorem last_admin_guard_fails_open:
  assumes "db_wf (app_db st)" and "cookie_value hs SESSION_COOKIE = Some token"
    and "session_of (app_db st) token = Some acc" and "acc_role acc = Admin"
    and "\<forall>r \<in> set (accounts_tbl (app_db st)). ar_role r = ''admin'' \<longrightarrow> ar_id r = acc_id acc"
    and "faults (app_db st) = [None, Some e]"
  shows "fst (http v hs (DeleteAccount (acc_id acc)) st) = status_response NO_CONTENT \<and>
     \<not> has_admin (app_db (snd (http v hs (DeleteAccount (acc_id acc)) st)))"
proof -
  let ?d = "app_db st"
  have q: "find_session token ?d = (Inr (Some acc), ?d\<lparr>faults := [Some e]\<rparr>)"
    using assms(1,3,6) find_session_Inr [of ?d token]
    by (simp add: find_session_def stmt_def)
  let ?d1 = "?d\<lparr>faults := []\<rparr>"
  have r: "require_admin hs st = (Inr \<lparr>aa_id = acc_id acc, aa_email = acc_email acc, aa_role = Admin\<rparr>,
      st\<lparr>app_db := ?d\<lparr>faults := [Some e]\<rparr>\<rparr>)"
    using assms(2,4) q by (simp add: require_admin_def require_account_def current_account_def with_db_pair)
  have g: "guard_last_admin (he_alt v) (acc_id acc) (st\<lparr>app_db := ?d\<lparr>faults := [Some e]\<rparr>\<rparr>) =
      (Inr (), st\<lparr>app_db := ?d1\<rparr>)"
    by (simp add: guard_last_admin_def with_db_pair find_account_by_id_def stmt_def)
  have ok: "fst (delete_account (acc_id acc) ?d1) = Inr ()" by (rule delete_account_succeeds) simp
  from ok have del: "delete_account (acc_id acc) ?d1 = (Inr (), snd (delete_account (acc_id acc) ?d1))"
    by (metis prod.collapse)
  have "\<not> has_admin (snd (delete_account (acc_id acc) ?d1))"
    using assms(5) delete_account_Inr(1) [OF del] by (auto simp: has_admin_def list_ex_iff)
  moreover have "http v hs (DeleteAccount (acc_id acc)) st =
      (status_response NO_CONTENT, st\<lparr>app_db := snd (delete_account (acc_id acc) ?d1)\<rparr>)"
    using r g ok by (simp add: admin_delete_account_def with_db_pair)
  ultimately show ?thesis by simp
qed

theorem last_admin_guard_fails_open_witness:
  "fst (http wit_http wit_headers (DeleteAccount 1)
      (wit_app\<lparr>app_db := wit_admin_db\<lparr>faults := [None, Some ''database is locked'']\<rparr>\<rparr>)) = status_response NO_CONTENT \<and>
   \<not> has_admin (app_db (snd (http wit_http wit_headers (DeleteAccount 1)
      (wit_app\<lparr>app_db := wit_admin_db\<lparr>faults := [None, Some ''database is locked'']\<rparr>\<rparr>))))"
  using last_admin_guard_fails_open [of
      "wit_app\<lparr>app_db := wit_admin_db\<lparr>faults := [None, Some ''database is locked'']\<rparr>\<rparr>" wit_headers "''tok''"
      "\<lparr>acc_id = 1, acc_email = ''a@b'', acc_password_hash = ''salt$pw'', acc_role = Admin\<rparr>"
      "''database is locked''" wit_http] wit_cookie wit_admin_wf
  by (simp add: wit_admin_db_def session_of_def account_of_def map_account_row_def from_column_def)

text \<open>
  Two administrators, demoted at the same time: each handler's guard and its write are separate
  statements, so when both guards run before either write, both pass and no administrator is left.
\<close>

theorem last_admin_race:
  assumes "faults (app_db st) = []" and "db_wf (app_db st)"
    and "filter (\<lambda>r. ar_role r = ''admin'') (accounts_tbl (app_db st)) = [a, b]"
  shows "guard_last_admin alt (ar_id a) st = (Inr (), st) \<and> guard_last_admin alt (ar_id b) st = (Inr (), st) \<and>
     \<not> has_admin (snd (set_account_role (ar_id b) User (snd (set_account_role (ar_id a) User (app_db st)))))"
proof -
  let ?d = "app_db st"
  let ?adm = "\<lambda>r. ar_role r = ''admin''"
  have c: "count_admins ?d = (Inr 2, ?d)" using assms(1,3) by (simp add: count_admins_def stmt_ok)
  have g: "guard_last_admin alt i st = (Inr (), st)" for i
    using c by (simp add: guard_last_admin_def with_db_pair find_account_by_id_ok [OF assms(1)] split: option.split)
  have only: "r = a \<or> r = b" if "r \<in> set (accounts_tbl ?d)" "?adm r" for r
  proof -
    from that have "r \<in> set (filter ?adm (accounts_tbl ?d))" by simp
    then show ?thesis unfolding assms(3) by simp
  qed
  have "\<not> has_admin (snd (set_account_role (ar_id b) User (snd (set_account_role (ar_id a) User ?d))))"
    using assms(1) only by (auto simp: set_account_role_def stmt_ok has_admin_def list_ex_map)
  then show ?thesis using g by blast
qed

definition wit_two_admins :: app_state where
  "wit_two_admins = wit_app\<lparr>app_db := wit_db\<lparr>accounts_seq := 2, accounts_tbl :=
     [\<lparr>ar_id = 1, ar_email = ''a'', ar_password_hash = ''h'', ar_created_at = 5, ar_role = ''admin''\<rparr>,
      \<lparr>ar_id = 2, ar_email = ''b'', ar_password_hash = ''h'', ar_created_at = 6, ar_role = ''admin''\<rparr>]\<rparr>\<rparr>"

theorem last_admin_race_witness:
  "guard_last_admin (\<lambda>e. e) 1 wit_two_admins = (Inr (), wit_two_admins) \<and>
   guard_last_admin (\<lambda>e. e) 2 wit_two_admins = (Inr (), wit_two_admins) \<and>
   \<not> has_admin (snd (set_account_role 2 User (snd (set_account_role 1 User (app_db wit_two_admins)))))"
  using last_admin_race [of wit_two_admins
      "\<lparr>ar_id = 1, ar_email = ''a'', ar_password_hash = ''h'', ar_created_at = 5, ar_role = ''admin''\<rparr>"
      "\<lparr>ar_id = 2, ar_email = ''b'', ar_password_hash = ''h'', ar_created_at = 6, ar_role = ''admin''\<rparr>" "\<lambda>e. e"]
  by (simp add: wit_two_admins_def wit_db_def db_wf_defs)

end
