(* ===== verification/Server_System.thy ===== *)
theory Server_System
  imports Http_Properties
begin

text \<open>
  The running server: the shared state of \<open>App_State\<close> together with the local state of every open
  WebSocket connection, and the events that change it.  Events are atomic: each WebSocket message, each
  HTTP request, the opening and closing of a connection, one turn of a send task.  (The interleaving of
  handlers between their accesses to the shared state is the subject of \<open>Handler_Steps\<close> and \<open>Interleaving\<close>.)  Connection ids are version 4 UUIDs; the step that opens a connection relies on
  the new one not being in use.
\<close>

section \<open>States and events\<close>

record server =
  shared :: app_state
  tasks :: "conn_id \<rightharpoonup> conn"

datatype event =
  Open conn_id
| TextMessage crypto entropy client_message conn_id
| MalformedMessage string conn_id
| SendTaskSends conn_id
| SendTaskBreaks conn_id
| Close conn_id
| Request http_env headers http_request
| Environment int "string option list"

inductive server_step :: "event \<Rightarrow> server \<Rightarrow> server \<Rightarrow> bool" where
  step_open: "tasks s cid = None \<Longrightarrow> ws_open cid (shared s) = (cn, st') \<Longrightarrow>
    server_step (Open cid) s (s\<lparr>shared := st', tasks := (tasks s)(cid \<mapsto> cn)\<rparr>)"
| step_text: "tasks s cid = Some cn \<Longrightarrow> ws_text c r m cid cn (shared s) = (cn', st') \<Longrightarrow>
    server_step (TextMessage c r m cid) s (s\<lparr>shared := st', tasks := (tasks s)(cid \<mapsto> cn')\<rparr>)"
| step_malformed: "tasks s cid = Some cn \<Longrightarrow>
    server_step (MalformedMessage e cid) s (s\<lparr>shared := ws_malformed e cid (shared s)\<rparr>)"
| step_sends: "tasks s cid = Some cn \<Longrightarrow> rx_alive (channels (shared s) cid) \<Longrightarrow> inbox (shared s) cid \<noteq> [] \<Longrightarrow>
    server_step (SendTaskSends cid) s (s\<lparr>shared := send_task_sends cid (shared s)\<rparr>)"
| step_breaks: "tasks s cid = Some cn \<Longrightarrow> rx_alive (channels (shared s) cid) \<Longrightarrow> inbox (shared s) cid \<noteq> [] \<Longrightarrow>
    server_step (SendTaskBreaks cid) s (s\<lparr>shared := send_task_breaks cid (shared s)\<rparr>)"
| step_close: "tasks s cid = Some cn \<Longrightarrow>
    server_step (Close cid) s (s\<lparr>shared := ws_close cid cn (shared s), tasks := (tasks s)(cid := None)\<rparr>)"
| step_request: "http v hs q (shared s) = (resp, st') \<Longrightarrow>
    server_step (Request v hs q) s (s\<lparr>shared := st'\<rparr>)"
| step_environment:
    "server_step (Environment now fs) s
       (s\<lparr>shared := (shared s)\<lparr>app_db := (app_db (shared s))\<lparr>wall_clock := now, faults := fs\<rparr>\<rparr>\<rparr>)"

inductive_cases server_stepE: "server_step e s t"

text \<open>The state \<open>main\<close> builds: empty maps over a database file that \<open>Db::open\<close> accepted.\<close>

definition server_start :: "server \<Rightarrow> bool" where
  "server_start s \<longleftrightarrow> db_wf (app_db (shared s)) \<and> connections (shared s) = Map.empty \<and>
     device_online (shared s) = Map.empty \<and> otp (shared s) = Map.empty \<and>
     sessions (shared s) = Map.empty \<and> tasks s = Map.empty \<and> (\<forall>c. \<not> rx_alive (channels (shared s) c))"

section \<open>The invariant\<close>

text \<open>The registry of connections is exactly the set of running connection tasks.\<close>

definition registry_ok :: "server \<Rightarrow> bool" where
  "registry_ok s \<longleftrightarrow>
     (\<forall>cid. connections (shared s) cid = (if tasks s cid = None then None else Some cid)) \<and>
     (\<forall>cid. rx_alive (channels (shared s) cid) \<longrightarrow> tasks s cid \<noteq> None)"

text \<open>A device is online only at a running connection that registered it, and has a one-time
  password exactly while it is online.\<close>

definition presence_ok :: "server \<Rightarrow> bool" where
  "presence_ok s \<longleftrightarrow> dom (otp (shared s)) = dom (device_online (shared s)) \<and>
     (\<forall>di cid. device_online (shared s) di = Some cid \<longrightarrow>
        (\<exists>cn. tasks s cid = Some cn \<and> my_device_id cn = Some di))"

definition server_inv :: "server \<Rightarrow> bool" where
  "server_inv s \<longleftrightarrow> db_wf (app_db (shared s)) \<and> registry_ok s \<and> presence_ok s"

lemma server_inv_start: "server_start s \<Longrightarrow> server_inv s"
  by (simp add: server_start_def server_inv_def registry_ok_def presence_ok_def)

text \<open>An operation on the shared state that creates no presence keeps the invariant.\<close>

lemma op_keeps_inv:
  assumes "server_op f" and "server_inv s"
    and "\<And>di cid. device_online (f (shared s)) di = Some cid \<Longrightarrow> device_online (shared s) di = Some cid"
  shows "server_inv (s\<lparr>shared := f (shared s)\<rparr>)"
  using assms(2,3) server_op.keeps_wf [OF assms(1)] server_op.keeps_connections [OF assms(1), of "shared s"]
    server_op.keeps_alive [OF assms(1), of "shared s"] server_op.keeps_presence [OF assms(1), of "shared s"]
  unfolding server_inv_def registry_ok_def presence_ok_def by (auto simp del: map_upd_eqD1)

lemma http_online:
  "device_online (snd (http v hs q st)) di = Some cid \<Longrightarrow> device_online st di = Some cid"
  by (cases q)
    (simp_all add: register_def login_def start_session_def logout_def me_def registration_status_def
      list_devices_def delete_own_def get_settings_def save_settings_def client_builds_def
      fetch_release_def list_accounts_def account_detail_def admin_delete_device_def
      get_registration_def set_registration_def download_list_def download_platform_def
      admin_create_account_def admin_delete_account_def admin_set_account_role_def http_eval
      fetch_and_store_snd split: sum.splits option.splits bool.splits if_splits)

lemma text_keeps_inv:
  assumes "server_inv s" and "tasks s cid = Some cn" and "ws_text c r m cid cn (shared s) = (cn', st')"
  shows "server_inv (s\<lparr>shared := st', tasks := (tasks s)(cid \<mapsto> cn')\<rparr>)"
proof -
  have st': "st' = snd (ws_text c r m cid cn (shared s))" using assms(3) by simp
  have wf: "db_wf (app_db st')" using assms(1) text_op.keeps_wf by (simp add: st' server_inv_def)
  have reg: "connections st' = connections (shared s)" "\<And>x. rx_alive (channels st' x) = rx_alive (channels (shared s) x)"
    by (simp_all add: st' text_op.keeps_connections text_op.keeps_alive)
  have dm: "dom (otp st') = dom (device_online st')"
    using assms(1) text_op.keeps_presence by (simp add: st' server_inv_def presence_ok_def)
  have pres: "\<exists>cn2. ((tasks s)(cid \<mapsto> cn')) x = Some cn2 \<and> my_device_id cn2 = Some di"
    if on: "device_online st' di = Some x" for di x
  proof -
    have old: "\<exists>cn2. tasks s x = Some cn2 \<and> my_device_id cn2 = Some di"
      if "device_online (shared s) di = Some x"
      using that assms(1) by (simp add: server_inv_def presence_ok_def)
    from ws_text_presence [OF assms(3)] show ?thesis
    proof
      assume "same_presence cn (shared s) cn' st'"
      then show ?thesis using old on assms(2) by (auto simp: same_presence_def)
    next
      assume "announces (generate_one_time_password r) cid cn (shared s) cn' st'"
      then obtain di2 where d: "device_online st' = (device_online (shared s))(di2 \<mapsto> cid)"
        "my_device_id cn' = Some di2" "my_device_id cn = None \<or> my_device_id cn = Some di2"
        by (auto simp: announces_def)
      then show ?thesis using old on assms(2) by (cases "di = di2") auto
    qed
  qed
  show ?thesis
    using wf reg dm pres assms(1,2) unfolding server_inv_def registry_ok_def presence_ok_def by auto
qed

lemma open_keeps_inv:
  assumes "server_inv s" and "tasks s cid = None" and "ws_open cid (shared s) = (cn, st')"
  shows "server_inv (s\<lparr>shared := st', tasks := (tasks s)(cid \<mapsto> cn)\<rparr>)"
proof -
  have e: "cn = \<lparr>conn_state = Unauthenticated, my_device_id = None\<rparr>"
    "st' = (shared s)\<lparr>connections := (connections (shared s))(cid \<mapsto> cid),
       channels := (channels (shared s))(cid := \<lparr>rx_alive = True, queue = []\<rparr>)\<rparr>"
    using assms(3) by (auto simp: ws_open_def)
  have "registry_ok (s\<lparr>shared := st', tasks := (tasks s)(cid \<mapsto> cn)\<rparr>)"
    using assms(1) by (simp add: server_inv_def registry_ok_def e)
  moreover have "\<exists>cn2. ((tasks s)(cid \<mapsto> cn)) x = Some cn2 \<and> my_device_id cn2 = Some di"
    if "device_online (shared s) di = Some x" for di x
  proof -
    from that assms(1) obtain cn2 where "tasks s x = Some cn2" "my_device_id cn2 = Some di"
      unfolding server_inv_def presence_ok_def by blast
    then show ?thesis using assms(2) by auto
  qed
  ultimately show ?thesis using assms(1) by (simp add: server_inv_def presence_ok_def e)
qed

lemma close_keeps_inv:
  assumes "server_inv s" and "tasks s cid = Some cn"
  shows "server_inv (s\<lparr>shared := ws_close cid cn (shared s), tasks := (tasks s)(cid := None)\<rparr>)"
proof -
  have p: "device_online (shared s) di = Some cid \<Longrightarrow> my_device_id cn = Some di" for di
    using assms unfolding server_inv_def presence_ok_def by (metis option.inject)
  show ?thesis
    using assms p unfolding server_inv_def registry_ok_def presence_ok_def
    by (cases "my_device_id cn") (auto simp: ws_close_def drop_receiver_def Let_def split: if_splits)
qed

lemma server_step_inv: "server_inv s \<Longrightarrow> server_step e s t \<Longrightarrow> server_inv t"
proof (erule server_stepE)
  fix v hs q resp st'
  assume "server_inv s" and h: "http v hs q (shared s) = (resp, st')" and t: "t = s\<lparr>shared := st'\<rparr>"
  then have "server_inv (s\<lparr>shared := snd (http v hs q (shared s))\<rparr>)"
    by (intro op_keeps_inv [OF http_operates]) (blast intro: http_online)+
  then show "server_inv t" by (simp add: h t)
next
  fix e' cid
  assume "server_inv s" and t: "t = s\<lparr>shared := ws_malformed e' cid (shared s)\<rparr>"
  then show "server_inv t" unfolding t
    by (intro op_keeps_inv [OF malformed.server_op_axioms]) (auto simp: ws_malformed_def)
qed (auto simp: open_keeps_inv text_keeps_inv close_keeps_inv,
    auto simp: server_inv_def registry_ok_def presence_ok_def send_task_sends_def send_task_breaks_def
      drop_receiver_def db_wf_defs)

interpretation server_machine: machine server_start server_step server_inv
  by unfold_locales (auto intro: server_inv_start server_step_inv)


section \<open>An administrator exists\<close>

text \<open>Either there is no account yet, or one of them is an administrator.\<close>

definition admin_ok :: "db \<Rightarrow> bool" where
  "admin_ok d \<longleftrightarrow> accounts_tbl d = [] \<or> has_admin d"

lemma bootstrap_admin_ok:
  assumes "admin_ok d" and "faults d = []"
  shows "admin_ok (snd (create_account_and_maybe_bootstrap_admin e h d))"
proof (cases "accounts_tbl d = []")
  case True
  have n: "count_accounts d = (Inr 0, d)" using True assms(2) by (simp add: count_accounts_def stmt_ok)
  obtain res d2 where c: "create_account e h Admin d = (res, d2)" by fastforce
  show ?thesis
  proof (cases res)
    case (Inl x)
    then have "accounts_tbl d2 = []" using create_account.atomic [of e h Admin d x] c True
      by (simp add: same_tables_iff)
    then show ?thesis using c Inl
      by (simp add: create_account_and_maybe_bootstrap_admin_def n admin_ok_def)
  next
    case (Inr i)
    then have "has_admin d2" using create_account_Inr(3) [of e h Admin d i d2] c by (simp add: has_admin_def)
    then have "has_admin (snd (set_registration_enabled False d2))" by (simp add: has_admin_def)
    then show ?thesis using c Inr
      by (simp add: create_account_and_maybe_bootstrap_admin_def n admin_ok_def case_prod_beta split: sum.split)
  qed
next
  case False
  then have "has_admin d" using assms(1) by (simp add: admin_ok_def)
  then show ?thesis using bootstrap_prefix [of e h d] by (auto simp: admin_ok_def has_admin_def)
qed

lemma message_accounts_same:
  assumes "\<forall>e p. m \<noteq> Register e p"
  shows "accounts_tbl (app_db (snd (snd (handle_message c r m cid cn st)))) = accounts_tbl (app_db st)"
  using assms by (cases m) (simp_all add: ws_arms ws_eval split: sum.split option.split conn_state.split)

lemma admin_ok_cong: "accounts_tbl d' = accounts_tbl d \<Longrightarrow> admin_ok d' = admin_ok d"
  by (simp add: admin_ok_def has_admin_def)

lemma register_admin_ok:
  assumes "admin_ok (app_db st)" and "faults (app_db st) = []"
  shows "admin_ok (app_db (snd (snd (ws_register c r cid e p cn st))))"
    and "admin_ok (app_db (snd (register alt c r e p st)))"
proof -
  have q: "snd (registration_enabled (app_db st)) = app_db st"
    by (simp add: registration_enabled_ok [OF assms(2)])
  note b = bootstrap_admin_ok [OF assms]
  show "admin_ok (app_db (snd (snd (ws_register c r cid e p cn st))))"
    using assms(1) b by (simp add: ws_register_def ws_eval q split: sum.split)
  have "admin_ok (app_db (snd (start_session alt r i e' role (st\<lparr>app_db := d\<rparr>)))) = admin_ok d" for i e' role d
    by (rule admin_ok_cong) (simp add: start_session_def http_eval split: sum.split)
  then show "admin_ok (app_db (snd (register alt c r e p st)))"
    using assms(1) b by (simp add: register_def http_eval q split: sum.split bool.split)
qed

lemma message_admin_ok:
  assumes "admin_ok (app_db st)" and "faults (app_db st) = []"
  shows "admin_ok (app_db (snd (ws_text c r m cid cn st)))"
proof -
  have "admin_ok (app_db (snd (snd (handle_message c r m cid cn st))))"
  proof (cases "\<exists>e p. m = Register e p")
    case True
    then show ?thesis using register_admin_ok(1) [OF assms] by auto
  next
    case False
    then have "accounts_tbl (app_db (snd (snd (handle_message c r m cid cn st)))) = accounts_tbl (app_db st)"
      by (intro message_accounts_same) blast
    then show ?thesis using assms(1) admin_ok_cong by blast
  qed
  then show ?thesis by (simp add: ws_text_eq split: sum.split)
qed

lemma no_accounts_no_admin:
  assumes "db_wf (app_db st)" and "accounts_tbl (app_db st) = []"
  shows "\<exists>s. fst (require_admin hs st) = Inl s"
proof (cases "fst (require_admin hs st)")
  case (Inr a)
  then have "require_admin hs st = (Inr a, snd (require_admin hs st))" by (metis prod.collapse)
  then have "require_account hs st = (Inr a, snd (require_admin hs st))" by (simp add: require_admin_Inr)
  from require_account_Inr [OF assms(1) this] obtain t acc where "session_of (app_db st) t = Some acc" by blast
  then show ?thesis using assms(2) by (auto simp: session_of_def account_of_def bind_eq_Some_conv)
qed blast

lemma http_admin_ok:
  assumes "admin_ok (app_db st)" and "db_wf (app_db st)" and "faults (app_db st) = []"
  shows "admin_ok (app_db (snd (http v hs q st)))"
proof (cases "accounts_tbl (app_db st) = []")
  case False
  then show ?thesis using assms http_has_admin by (simp add: admin_ok_def)
next
  case True
  from no_accounts_no_admin [OF assms(2) True] obtain s where s: "fst (require_admin hs st) = Inl s" by blast
  consider "is_admin_request q" | "\<not> changes_accounts q" | e p where "q = PostRegister e p"
    by (cases q) auto
  then show ?thesis
  proof cases
    case 1
    from admin_refused [OF 1 s, of v] obtain fs where
      "snd (http v hs q st) = st\<lparr>app_db := (app_db st)\<lparr>faults := fs\<rparr>\<rparr>" by blast
    then show ?thesis using assms(1) by (simp add: admin_ok_def has_admin_def)
  next
    case 2
    then show ?thesis using http_accounts [OF 2, of v hs st] assms(1) admin_ok_cong by blast
  next
    case 3
    then show ?thesis using register_admin_ok(2) [OF assms(1,3)] by simp
  qed
qed

text \<open>Steps from states in which the engine has no refusal pending.\<close>

definition healthy_step :: "event \<Rightarrow> server \<Rightarrow> server \<Rightarrow> bool" where
  "healthy_step e s t \<longleftrightarrow> server_step e s t \<and> faults (app_db (shared s)) = []"

definition fresh_start :: "server \<Rightarrow> bool" where
  "fresh_start s \<longleftrightarrow> server_start s \<and> admin_ok (app_db (shared s))"

lemma healthy_admin_ok:
  assumes "server_inv s" and "admin_ok (app_db (shared s))" and "healthy_step e s t"
  shows "admin_ok (app_db (shared t))"
proof -
  have ff: "faults (app_db (shared s)) = []" and st: "server_step e s t"
    using assms(3) by (simp_all add: healthy_step_def)
  have wf: "db_wf (app_db (shared s))" using assms(1) by (simp add: server_inv_def)
  from st show ?thesis
  proof cases
    case (step_text cid cn c r m cn' st')
    then show ?thesis using message_admin_ok [OF assms(2) ff, of c r m cid cn] by simp
  next
    case (step_request v hs q resp st')
    then show ?thesis using http_admin_ok [OF assms(2) wf ff, of v hs q] by simp
  qed (use assms(2) in \<open>auto simp: ws_open_def ws_malformed_def send_task_sends_def send_task_breaks_def
      drop_receiver_def ws_close_def Let_def admin_ok_def has_admin_def split: option.split\<close>)
qed

interpretation healthy_machine: machine fresh_start healthy_step
  "\<lambda>s. server_inv s \<and> admin_ok (app_db (shared s))"
  by unfold_locales
    (auto simp: fresh_start_def server_inv_start healthy_admin_ok,
     auto simp: healthy_step_def intro: server_step_inv)

end
