(* ===== verification/Server_Main.thy ===== *)
theory Server_Main
  imports Server_System
begin

text \<open>
  \<^verbatim>\<open>visuara-signaling/src/main.rs\<close>: the state the server starts with, from its environment variables and an
  opened database.  A missing TURN secret stops it.
\<close>

type_synonym environment = "string \<rightharpoonup> string"

definition env_or :: "environment \<Rightarrow> string \<Rightarrow> string \<Rightarrow> string" where
  "env_or env name d = (case env name of Some v \<Rightarrow> v | None \<Rightarrow> d)"

definition turn_urls_from :: "environment \<Rightarrow> string list" where
  "turn_urls_from env = map trim (split_on (CHR '','') (env_or env ''TURN_URLS'' ''turn:localhost:3478''))"

definition main_state :: "environment \<Rightarrow> db \<Rightarrow> (string \<rightharpoonup> bytes) \<Rightarrow> (string, app_state) result" where
  "main_state env d fs =
     (case env ''TURN_SHARED_SECRET'' of
        None \<Rightarrow> Inl ''TURN_SHARED_SECRET must be set (shared with coturn's static-auth-secret)''
      | Some secret \<Rightarrow>
          Inr \<lparr>app_db = d, turn = \<lparr>turn_urls = turn_urls_from env, turn_secret = secret\<rparr>,
               connections = Map.empty, device_online = Map.empty, otp = Map.empty, sessions = Map.empty,
               client_templates_dir = env_or env ''CLIENT_TEMPLATES_DIR'' ''client-templates'',
               fetched_templates_dir = env_or env ''FETCHED_TEMPLATES_DIR'' ''fetched-client-templates'',
               channels = (\<lambda>_. \<lparr>rx_alive = False, queue = []\<rparr>), files = fs\<rparr>)"

text \<open>\<open>str::parse::<u16>()\<close>: an optional plus sign, digits, and a value in range.\<close>

definition parse_u16 :: "string \<Rightarrow> nat option" where
  "parse_u16 s =
     (let ds = (case s of c # t \<Rightarrow> if c = CHR ''+'' then t else s | [] \<Rightarrow> s)
      in if ds \<noteq> [] \<and> list_all is_digit ds \<and> undec ds < 65536 then Some (undec ds) else None)"

definition main_port :: "environment \<Rightarrow> nat" where
  "main_port env = (case Option.bind (env ''PORT'') parse_u16 of Some p \<Rightarrow> p | None \<Rightarrow> 8080)"

lemma main_state_starts:
  "main_state env d fs = Inr st \<Longrightarrow> db_wf d \<Longrightarrow> server_start \<lparr>shared = st, tasks = Map.empty\<rparr>"
  by (auto simp: main_state_def server_start_def split: option.splits)

lemma main_port_bound: "main_port env < 65536"
  by (auto simp: main_port_def parse_u16_def Let_def bind_eq_Some_conv split: option.split if_splits)

lemma turn_urls_nonempty: "turn_urls_from env \<noteq> []"
  by (simp add: turn_urls_from_def)

end
