(* ===== verification/Server_Properties.thy ===== *)
theory Server_Properties
  imports Server_Main
begin

text \<open>
  Properties of whole runs of the server: what holds in every reachable state, that no healthy run
  locks the operator out, that signaling reaches the peer, that sessions are never removed, and the
  race between two first registrations.
\<close>

section \<open>Lemmas\<close>

lemma http_sessions: "sessions (snd (http v hs q st)) = sessions st"
  by (cases q)
    (simp_all add: register_def login_def start_session_def logout_def me_def registration_status_def
      list_devices_def delete_own_def get_settings_def save_settings_def client_builds_def
      fetch_release_def list_accounts_def account_detail_def admin_delete_device_def
      get_registration_def set_registration_def download_list_def download_platform_def
      admin_create_account_def admin_delete_account_def admin_set_account_role_def http_eval
      fetch_and_store_snd split: sum.split option.split bool.split)

lemma message_sessions: "dom (sessions st) \<subseteq> dom (sessions (snd (ws_text c r m cid cn st)))"
proof -
  have "dom (sessions st) \<subseteq> dom (sessions (snd (snd (handle_message c r m cid cn st))))"
    by (cases m) (auto simp: ws_arms ws_eval split: sum.split option.split conn_state.split)
  then show ?thesis by (simp add: ws_text_eq split: sum.split)
qed

lemma step_sessions: "server_step e s t \<Longrightarrow> dom (sessions (shared s)) \<subseteq> dom (sessions (shared t))"
proof (erule server_stepE)
  fix v hs q resp st'
  assume "http v hs q (shared s) = (resp, st')" and "t = s\<lparr>shared := st'\<rparr>"
  then show "dom (sessions (shared s)) \<subseteq> dom (sessions (shared t))"
    using http_sessions [of v hs q "shared s"] by simp
next
  fix cid cn c r m cn' st'
  assume "ws_text c r m cid cn (shared s) = (cn', st')"
    and "t = s\<lparr>shared := st', tasks := (tasks s)(cid \<mapsto> cn')\<rparr>"
  then show "dom (sessions (shared s)) \<subseteq> dom (sessions (shared t))"
    using message_sessions [of "shared s" c r m cid cn] by simp
qed (auto simp: ws_open_def ws_malformed_def send_task_sends_def send_task_breaks_def drop_receiver_def
    ws_close_def Let_def split: option.splits)

text \<open>A run: a list of events.\<close>

fun server_run :: "event list \<Rightarrow> server \<Rightarrow> server \<Rightarrow> bool" where
  "server_run [] s t \<longleftrightarrow> s = t"
| "server_run (e # es) s t \<longleftrightarrow> (\<exists>u. server_step e s u \<and> server_run es u t)"

lemma run_sessions: "server_run es s t \<Longrightarrow> dom (sessions (shared s)) \<subseteq> dom (sessions (shared t))"
proof (induction es arbitrary: s)
  case (Cons e es)
  then show ?case using step_sessions by (metis server_run.simps(2) subset_trans)
qed simp

text \<open>One relayed message.\<close>

lemma relay_delivers:
  assumes "sessions st sid = Some p" and "other p cid = Some peer" and "connections st peer = Some peer"
    and "rx_alive (channels st peer)"
  shows "ws_relay cid sid msg cn st = (Inr (), cn, snd (send peer msg st))"
  using assms by (simp add: ws_relay_def relay_def send_def)

section \<open>A concrete server for the witnesses\<close>

definition wit_server :: server where
  "wit_server = \<lparr>shared = wit_app\<lparr>app_db := wit_db\<rparr>, tasks = Map.empty\<rparr>"

lemma wit_server_start: "fresh_start wit_server"
  by (simp add: fresh_start_def server_start_def wit_server_def wit_app_def admin_ok_def db_wf_defs wit_db_def)

definition wit_joined :: server where
  "wit_joined = \<lparr>shared = (snd (ws_open ''k'' (shared wit_server))),
     tasks = [''k'' \<mapsto> \<lparr>conn_state = Unauthenticated, my_device_id = None\<rparr>]\<rparr>"

lemma wit_open_step: "healthy_step (Open ''k'') wit_server wit_joined"
proof -
  have "server_step (Open ''k'') wit_server
     (wit_server\<lparr>shared := snd (ws_open ''k'' (shared wit_server)),
        tasks := (tasks wit_server)(''k'' \<mapsto> fst (ws_open ''k'' (shared wit_server)))\<rparr>)"
    by (rule step_open) (simp_all add: wit_server_def)
  then show ?thesis
    by (simp add: healthy_step_def wit_joined_def wit_server_def ws_open_def wit_app_def wit_db_def)
qed

text \<open>A controller and a host in a session.\<close>

definition wit_paired :: server where
  "wit_paired = \<lparr>shared = wit_live\<lparr>sessions := [''s1'' \<mapsto> peer_session ''ctl'' ''host''],
       channels := (\<lambda>c. \<lparr>rx_alive = (c = ''ctl'' \<or> c = ''host''), queue = []\<rparr>)\<rparr>,
     tasks = [''ctl'' \<mapsto> wit_ctl,
              ''host'' \<mapsto> \<lparr>conn_state = Authenticated 1, my_device_id = Some ''012 345 006''\<rparr>]\<rparr>"

lemma wit_paired_inv: "server_inv wit_paired"
  by (auto simp: server_inv_def registry_ok_def presence_ok_def wit_paired_def wit_defs db_wf_defs
      split: if_splits)

section \<open>Properties\<close>

text \<open>
  C4. In every reachable state of the server, after any sequence of connections, messages, requests and
  database failures: the database satisfies its constraints, the registry of connections lists
  exactly the open ones, each under its own channel, a device is online only at an open connection
  that has registered it, and a device has a one-time password exactly while it is online.
\<close>

theorem server_always_consistent:
  assumes "reachable server_start server_step s"
  shows "db_wf (app_db (shared s)) \<and>
     (\<forall>cid. connections (shared s) cid = (if tasks s cid = None then None else Some cid)) \<and>
     dom (otp (shared s)) = dom (device_online (shared s)) \<and>
     (\<forall>di cid. device_online (shared s) di = Some cid \<longrightarrow>
        (\<exists>cn. tasks s cid = Some cn \<and> my_device_id cn = Some di \<and> connections (shared s) cid = Some cid))"
  using server_machine.invariant [OF assms]
  unfolding server_inv_def registry_ok_def presence_ok_def by fastforce

theorem server_always_consistent_witness:
  "connections (shared wit_joined) ''k'' = Some ''k'' \<and> db_wf (app_db (shared wit_joined))"
proof -
  have "reachable server_start server_step wit_joined"
    using wit_server_start wit_open_step
    by (auto simp: fresh_start_def healthy_step_def intro: reach_step reach_init)
  from server_always_consistent [OF this] show ?thesis by (simp add: wit_joined_def)
qed

text \<open>
  C10. A server that starts with no account, or with an administrator already, whose database never refuses a
  statement and whose handlers run one after the other, each as one step, is never locked out: in every reachable
  state, as soon as there is any account there is an administrator.  (With two requests at the same time, or on a
  database from before the role column, this fails; both are shown elsewhere in this development.)
\<close>

theorem never_locked_out:
  assumes "reachable fresh_start healthy_step s" and "accounts_tbl (app_db (shared s)) \<noteq> []"
  shows "has_admin (app_db (shared s))"
  using healthy_machine.invariant [OF assms(1)] assms(2) by (simp add: admin_ok_def)

definition wit_registered :: server where
  "wit_registered = wit_joined\<lparr>
     shared := snd (ws_text wit_crypto wit_entropy (Register ''a@b'' ''pw'') ''k''
        \<lparr>conn_state = Unauthenticated, my_device_id = None\<rparr> (shared wit_joined)),
     tasks := (tasks wit_joined)(''k'' \<mapsto> fst (ws_text wit_crypto wit_entropy (Register ''a@b'' ''pw'') ''k''
        \<lparr>conn_state = Unauthenticated, my_device_id = None\<rparr> (shared wit_joined)))\<rparr>"

lemma wit_registered_reachable: "reachable fresh_start healthy_step wit_registered"
proof -
  have r: "reachable fresh_start healthy_step wit_joined"
    using wit_server_start wit_open_step by (auto intro: reach_step reach_init)
  have t: "tasks wit_joined ''k'' = Some \<lparr>conn_state = Unauthenticated, my_device_id = None\<rparr>"
    by (simp add: wit_joined_def)
  have "server_step (TextMessage wit_crypto wit_entropy (Register ''a@b'' ''pw'') ''k'') wit_joined wit_registered"
    unfolding wit_registered_def by (rule step_text [OF t]) simp
  then have "healthy_step (TextMessage wit_crypto wit_entropy (Register ''a@b'' ''pw'') ''k'') wit_joined wit_registered"
    by (simp add: healthy_step_def wit_joined_def wit_server_def ws_open_def wit_app_def wit_db_def)
  with r show ?thesis by (rule reach_step)
qed

theorem never_locked_out_witness:
  "has_admin (app_db (shared wit_registered))"
proof (rule never_locked_out [OF wit_registered_reachable])
  show "accounts_tbl (app_db (shared wit_registered)) \<noteq> []"
    by (simp add: wit_registered_def ws_text_eq ws_register_def ws_eval wit_joined_def wit_server_def ws_open_def
        wit_app_def wit_db_def registration_enabled_def get_setting_def and_then_def stmt_def hash_password_def
        wit_crypto_def wit_entropy_def create_account_and_maybe_bootstrap_admin_def count_accounts_def
        create_account_def set_registration_enabled_def set_setting_def reply_def send_def)
qed

text \<open>
  Signaling reaches the peer, in both directions: in a state that satisfies the server's invariant
  (so in every reachable one) with a session between two different open connections whose send tasks run, an offer from the first is queued at the second
  and an answer sent back is queued at the first, each unchanged and behind what was queued before,
  with no error reply.
\<close>

theorem signaling_round_trip:
  assumes "server_inv s" and "sessions (shared s) sid = Some (peer_session a b)"
    and "a \<noteq> b" and "tasks s a = Some cna" and "tasks s b = Some cnb"
    and "rx_alive (channels (shared s) a)" and "rx_alive (channels (shared s) b)"
  shows "\<exists>st1 st2. handle_message c r (SdpOffer sid offer) a cna (shared s) = (Inr (), cna, st1) \<and>
     inbox st1 b = inbox (shared s) b @ [SrvSdpOffer sid offer] \<and> inbox st1 a = inbox (shared s) a \<and>
     handle_message c r (SdpAnswer sid answer) b cnb st1 = (Inr (), cnb, st2) \<and>
     inbox st2 a = inbox (shared s) a @ [SrvSdpAnswer sid answer] \<and> inbox st2 b = inbox st1 b"
proof -
  let ?st1 = "snd (send b (SrvSdpOffer sid offer) (shared s))"
  have reg: "connections (shared s) a = Some a" "connections (shared s) b = Some b"
    using assms(1,4,5)
    by (simp_all add: server_inv_def registry_ok_def)
  have ab: "other (peer_session a b) a = Some b" "other (peer_session a b) b = Some a"
    using assms(3) by (simp_all add: other_def peer_session_def)
  have "ws_relay a sid (SrvSdpOffer sid offer) cna (shared s) = (Inr (), cna, ?st1)"
    by (rule relay_delivers [OF assms(2) ab(1) reg(2) assms(7)])
  moreover have "ws_relay b sid (SrvSdpAnswer sid answer) cnb ?st1 =
      (Inr (), cnb, snd (send a (SrvSdpAnswer sid answer) ?st1))"
    by (rule relay_delivers [of _ _ "peer_session a b"]) (use assms reg ab in simp_all)
  ultimately show ?thesis using assms(3,6,7) by (simp add: send_inbox)
qed


theorem signaling_round_trip_witness:
  "\<exists>st1. handle_message wit_crypto wit_entropy (SdpOffer ''s1'' ''v=0'') ''ctl'' wit_ctl (shared wit_paired) =
      (Inr (), wit_ctl, st1) \<and> inbox st1 ''host'' = [SrvSdpOffer ''s1'' ''v=0'']"
  using signaling_round_trip [OF wit_paired_inv, of "''s1''" "''ctl''" "''host''" wit_ctl
      "\<lparr>conn_state = Authenticated 1, my_device_id = Some ''012 345 006''\<rparr>" wit_crypto wit_entropy "''v=0''" "''v=1''"]
  by (auto simp: wit_paired_def inbox_def)

text \<open>
  Sessions are never removed: whatever happens later, the closing of both peers included, a session
  id that has been issued stays in the table of sessions.
\<close>

theorem sessions_never_removed:
  assumes "server_run es s t" and "sid \<in> dom (sessions (shared s))"
  shows "sid \<in> dom (sessions (shared t))"
  using run_sessions [OF assms(1)] assms(2) by blast

theorem sessions_never_removed_witness:
  "\<exists>t. server_run [Close ''ctl'', Close ''host''] wit_paired t \<and> tasks t = Map.empty \<and>
     ''s1'' \<in> dom (sessions (shared t))"
proof -
  define u where "u = wit_paired\<lparr>shared := ws_close ''ctl'' wit_ctl (shared wit_paired),
    tasks := (tasks wit_paired)(''ctl'' := None)\<rparr>"
  define t where "t = u\<lparr>shared := ws_close ''host'' \<lparr>conn_state = Authenticated 1, my_device_id = Some ''012 345 006''\<rparr>
    (shared u), tasks := (tasks u)(''host'' := None)\<rparr>"
  have 1: "server_step (Close ''ctl'') wit_paired u"
    unfolding u_def by (rule step_close) (simp add: wit_paired_def)
  have 2: "server_step (Close ''host'') u t"
    unfolding t_def by (rule step_close) (simp add: u_def wit_paired_def)
  have run: "server_run [Close ''ctl'', Close ''host''] wit_paired t" using 1 2 by auto
  have "''s1'' \<in> dom (sessions (shared wit_paired))" by (simp add: wit_paired_def)
  from sessions_never_removed [OF run this] run show ?thesis
    by (intro exI [of _ t]) (simp add: t_def u_def wit_paired_def)
qed

text \<open>
  The race in the registration rule: on a database without accounts, if two registrations both count
  the accounts before either inserts its own, both become administrators.
\<close>

lemma bootstrap_race:
  assumes "accounts_tbl d = []" and "faults d = []" and "e1 \<noteq> e2" and "0 \<le> accounts_seq d"
    and "accounts_seq d < 2 ^ 63 - 2"
  shows "\<exists>d1 d2. count_accounts d = (Inr 0, d) \<and>
     create_account e1 h1 Admin d = (Inr (accounts_seq d + 1), d1) \<and>
     create_account e2 h2 Admin d1 = (Inr (accounts_seq d + 2), d2) \<and>
     count_admins d2 = (Inr 2, d2)"
  using assms by (simp add: count_accounts_def count_admins_def create_account_def stmt_ok Let_def)

end
