(* ===== verification/Server_Upgrade.thy ===== *)
theory Server_Upgrade
  imports Database_Schema Server_Properties
begin

text \<open>
  The server on a database from before the role column: what \<open>Db::open\<close> makes of the accounts, and that
  no request or message ever gives such an instance an administrator.  The repository's README says
  that one has to be made by hand; this theory shows that there is no other way.
\<close>

section \<open>Starting\<close>

text \<open>\<open>main\<close>: open the database, read the configuration (a missing secret is a panic), create the
  directory of fetched builds.  \<open>mkdir\<close> is what creating a directory fails with.\<close>

definition server_boot ::
  "environment \<Rightarrow> string option list \<Rightarrow> int \<Rightarrow> (string \<Rightarrow> string option) \<Rightarrow> db_file \<Rightarrow> (string \<rightharpoonup> bytes) \<Rightarrow>
   (string, app_state) result \<times> db_file" where
  "server_boot env fs now mkdir f fls =
     (case db_open fs f of
        (Inl e, _, f') \<Rightarrow> (Inl e, f')
      | (Inr _, _, f') \<Rightarrow>
          (case main_state env (read_db now f') fls of
             Inl e \<Rightarrow> (Inl e, f')
           | Inr st \<Rightarrow>
               (case mkdir (fetched_templates_dir st) of
                  Some e \<Rightarrow> (Inl e, f')
                | None \<Rightarrow> (Inr st, f'))))"

lemma server_boot_Inr:
  assumes "server_boot env fs now mkdir f fls = (Inr st, f')"
  shows "f' = upgraded f" and "main_state env (read_db now f') fls = Inr st" and "app_db st = read_db now f'"
  using assms
  by (auto simp: server_boot_def main_state_def dest: db_open_Inr split: prod.splits sum.splits option.splits)

section \<open>Without an administrator\<close>

definition admin_free :: "db \<Rightarrow> bool" where
  "admin_free d \<longleftrightarrow> accounts_tbl d \<noteq> [] \<and> \<not> has_admin d"

lemma admin_free_cong: "accounts_tbl d' = accounts_tbl d \<Longrightarrow> admin_free d' = admin_free d"
  by (simp add: admin_free_def has_admin_def)

lemma no_admin_refused:
  assumes "db_wf (app_db st)" and "\<not> has_admin (app_db st)"
  shows "\<exists>s. fst (require_admin hs st) = Inl s"
proof (cases "fst (require_admin hs st)")
  case (Inr a)
  then have r: "require_admin hs st = (Inr a, snd (require_admin hs st))" by (metis prod.collapse)
  then have q: "require_account hs st = (Inr a, snd (require_admin hs st))" and role: "aa_role a = Admin"
    by (simp_all add: require_admin_Inr)
  from require_account_Inr [OF assms(1) q] show ?thesis
    using assms(2) role
    by (auto simp: session_of_def account_of_def bind_eq_Some_conv find_Some_iff has_admin_def list_ex_iff
        map_account_row_def from_column_def split: if_splits dest!: nth_mem)
qed blast

text \<open>Once there is an account, registering makes users.\<close>

lemma create_user_admin_free: "admin_free d \<Longrightarrow> admin_free (snd (create_account e h User d))"
  by (auto simp: create_account_def stmt_def admin_free_def has_admin_def Let_def split: list.split option.split)

lemma bootstrap_admin_free:
  assumes "admin_free d"
  shows "admin_free (snd (create_account_and_maybe_bootstrap_admin e h d))"
proof -
  have c: "accounts_tbl (snd (count_accounts d)) = accounts_tbl d"
    by (simp add: count_accounts_def stmt_def split: list.split option.split)
  then have f: "admin_free (snd (count_accounts d))" using assms admin_free_cong by blast
  have n: "fst (count_accounts d) = Inr n \<Longrightarrow> n \<noteq> 0" for n
    using assms by (auto simp: count_accounts_def stmt_def admin_free_def split: list.splits option.splits)
  show ?thesis
    using f n create_user_admin_free [OF f, of e h]
    by (simp add: create_account_and_maybe_bootstrap_admin_def case_prod_beta Let_def split: sum.split)
qed

lemma register_admin_free:
  assumes "admin_free (app_db st)"
  shows "admin_free (app_db (snd (snd (ws_register c r cid e p cn st))))"
    and "admin_free (app_db (snd (register alt c r e p st)))"
proof -
  have "accounts_tbl (snd (registration_enabled (app_db st))) = accounts_tbl (app_db st)"
    by simp
  then have f: "admin_free (snd (registration_enabled (app_db st)))" using assms admin_free_cong by blast
  note b = bootstrap_admin_free [OF f]
  show "admin_free (app_db (snd (snd (ws_register c r cid e p cn st))))"
    using assms f b by (simp add: ws_register_def ws_eval split: sum.split)
  have "admin_free (app_db (snd (start_session alt r i e' role (st\<lparr>app_db := d\<rparr>)))) = admin_free d" for i e' role d
    by (rule admin_free_cong) (simp add: start_session_def http_eval split: sum.split)
  then show "admin_free (app_db (snd (register alt c r e p st)))"
    using assms f b by (simp add: register_def http_eval split: sum.split bool.split)
qed

lemma message_admin_free:
  assumes "admin_free (app_db st)"
  shows "admin_free (app_db (snd (ws_text c r m cid cn st)))"
proof -
  have "admin_free (app_db (snd (snd (handle_message c r m cid cn st))))"
  proof (cases "\<exists>e p. m = Register e p")
    case True
    then show ?thesis using register_admin_free(1) [OF assms] by auto
  next
    case False
    then have "accounts_tbl (app_db (snd (snd (handle_message c r m cid cn st)))) = accounts_tbl (app_db st)"
      by (intro message_accounts_same) blast
    then show ?thesis using assms admin_free_cong by blast
  qed
  then show ?thesis by (simp add: ws_text_eq split: sum.split)
qed

lemma http_admin_free:
  assumes "admin_free (app_db st)" and "db_wf (app_db st)"
  shows "admin_free (app_db (snd (http v hs q st)))"
proof -
  obtain s where s: "fst (require_admin hs st) = Inl s"
    using no_admin_refused [OF assms(2)] assms(1) by (auto simp: admin_free_def)
  consider "is_admin_request q" | "\<not> changes_accounts q" | e p where "q = PostRegister e p"
    by (cases q) auto
  then show ?thesis
  proof cases
    case 1
    from admin_refused [OF 1 s, of v] obtain fs where
      "snd (http v hs q st) = st\<lparr>app_db := (app_db st)\<lparr>faults := fs\<rparr>\<rparr>" by blast
    then show ?thesis using assms(1) by (simp add: admin_free_def has_admin_def)
  next
    case 2
    then show ?thesis using http_accounts [OF 2, of v hs st] assms(1) admin_free_cong by blast
  next
    case 3
    then show ?thesis using register_admin_free(2) [OF assms(1)] by simp
  qed
qed

lemma step_admin_free:
  assumes "server_inv s" and "admin_free (app_db (shared s))" and "server_step e s t"
  shows "admin_free (app_db (shared t))"
  using assms(3)
proof cases
  case (step_text cid cn c r m cn' st')
  then show ?thesis using message_admin_free [OF assms(2), of c r m cid cn] by simp
next
  case (step_request v hs q resp st')
  then show ?thesis using http_admin_free [OF assms(2), of v hs q] assms(1) by (simp add: server_inv_def)
qed (use assms(2) in \<open>auto simp: ws_open_def ws_malformed_def send_task_sends_def send_task_breaks_def
    drop_receiver_def ws_close_def Let_def admin_free_def has_admin_def split: option.split\<close>)

definition admin_free_start :: "server \<Rightarrow> bool" where
  "admin_free_start s \<longleftrightarrow> server_start s \<and> admin_free (app_db (shared s))"

interpretation admin_free_machine: machine admin_free_start server_step
  "\<lambda>s. server_inv s \<and> admin_free (app_db (shared s))"
  by unfold_locales
    (auto simp: admin_free_start_def server_inv_start step_admin_free, auto intro: server_step_inv)

section \<open>Properties\<close>

lemma upgraded_admin_free:
  assumes "catalog f ''accounts'' \<noteq> None" and "\<not> has_column ''accounts'' ''role'' f"
    and "table_rows f ''accounts'' \<noteq> []"
  shows "admin_free (read_db now (upgraded f))"
  using upgraded_rows [OF assms(1)] assms(2,3)
  by (auto simp: admin_free_def has_admin_def read_db_def role_rows_def list_ex_iff read_account_def sql_text_def)

text \<open>
  C29. An instance upgraded from before the role column has no administrator and never gets one through the
  program: after opening such a file with at least one account, in every state the server reaches by
  any messages, requests and database failures there is no administrator, and every request to an
  administrator's endpoint is refused.
\<close>

theorem upgraded_instance_stays_without_admin:
  assumes "catalog f ''accounts'' \<noteq> None" and "\<not> has_column ''accounts'' ''role'' f"
    and "table_rows f ''accounts'' \<noteq> []" and "server_boot env fs now mkdir f fls = (Inr st, f')"
    and "db_wf (read_db now f')"
    and "reachable ((=) \<lparr>shared = st, tasks = Map.empty\<rparr>) server_step s"
  shows "\<not> has_admin (app_db (shared s)) \<and> accounts_tbl (app_db (shared s)) \<noteq> [] \<and>
     (is_admin_request q \<longrightarrow> status (fst (http v hs q (shared s))) \<in> {UNAUTHORIZED, FORBIDDEN})"
proof -
  note boot = server_boot_Inr [OF assms(4)]
  have "admin_free (read_db now f')" using upgraded_admin_free [OF assms(1-3)] boot(1) by simp
  then have i: "admin_free_start \<lparr>shared = st, tasks = Map.empty\<rparr>"
    using main_state_starts [OF boot(2) assms(5)] boot(3) by (simp add: admin_free_start_def)
  have "reachable admin_free_start server_step s"
    using assms(6) i by (induction rule: reachable.induct) (auto intro: reach_init reach_step)
  then have inv: "server_inv s" and free: "admin_free (app_db (shared s))"
    using admin_free_machine.invariant by blast+
  have "\<exists>x. fst (require_admin hs (shared s)) = Inl x"
    by (rule no_admin_refused) (use inv free in \<open>simp_all add: server_inv_def admin_free_def\<close>)
  then obtain x where x: "fst (require_admin hs (shared s)) = Inl x" by blast
  have "is_admin_request q \<Longrightarrow> status (fst (http v hs q (shared s))) \<in> {UNAUTHORIZED, FORBIDDEN}"
    using admin_refused [OF _ x, of q v] by (auto simp: status_response_def)
  then show ?thesis using free by (simp add: admin_free_def)
qed

theorem upgraded_instance_stays_without_admin_witness:
  "\<exists>st f'. server_boot [''TURN_SHARED_SECRET'' \<mapsto> ''s''] [] 7 (\<lambda>_. None) wit_old_file Map.empty = (Inr st, f') \<and>
     \<not> has_admin (app_db st) \<and> status (fst (http wit_http (with_cookies []) GetAccounts st)) \<in> {UNAUTHORIZED, FORBIDDEN}"
proof -
  let ?boot = "server_boot [''TURN_SHARED_SECRET'' \<mapsto> ''s''] [] 7 (\<lambda>_. None) wit_old_file Map.empty"
  obtain st where b: "?boot = (Inr st, upgraded wit_old_file)"
    using db_open_no_faults [of wit_old_file] db_open_Inr [of "[]" wit_old_file "()" "[]"]
    by (auto simp: server_boot_def main_state_def)
  have c: "catalog wit_old_file ''accounts'' \<noteq> None" "\<not> has_column ''accounts'' ''role'' wit_old_file"
    "table_rows wit_old_file ''accounts'' \<noteq> []"
    by (simp_all add: wit_old_file_def has_column_def)
  have d: "catalog wit_old_file ''devices'' = None" "catalog wit_old_file ''sessions'' = None"
    by (simp_all add: wit_old_file_def)
  have "table_rows (upgraded wit_old_file) ''accounts'' = role_rows wit_old_file ''accounts''"
    by (rule upgraded_rows [OF c(1)])
  then have w: "db_wf (read_db 7 (upgraded wit_old_file))"
    using upgraded_new_rows [OF d(1)] upgraded_new_rows [OF d(2)] c(2)
    by (simp add: read_db_def db_wf_defs role_rows_def wit_old_file_def read_account_def sql_int_def upgraded_sequence)
  have r: "reachable ((=) \<lparr>shared = st, tasks = Map.empty\<rparr>) server_step \<lparr>shared = st, tasks = Map.empty\<rparr>"
    by (rule reach_init) simp
  from upgraded_instance_stays_without_admin [OF c b w r, of GetAccounts wit_http "with_cookies []"] b
  show ?thesis by auto
qed

end
