(* ===== verification/Database_Spec.thy ===== *)
theory Database_Spec
  imports Database_Laws "HOL-Library.Sublist"
begin

text \<open>
  What the database promises the rest of the server, without rows, order or statements: four finite maps
  and a counter.  Every method of \<open>Db\<close> refines its operation on the maps: whatever the engine refuses, the
  maps are unchanged or changed exactly as specified.
\<close>

section \<open>The abstract store\<close>

record store =
  st_accounts :: "int \<rightharpoonup> string \<times> string \<times> account_role"
  st_counter :: int
  st_devices :: "string \<rightharpoonup> int \<times> string \<times> string option"
  st_sessions :: "string \<rightharpoonup> int"
  st_settings :: "string \<rightharpoonup> string"
  st_enforced :: bool  \<comment> \<open>references to accounts are enforced\<close>

definition table :: "('r \<Rightarrow> 'k) \<Rightarrow> ('r \<Rightarrow> 'v) \<Rightarrow> 'r list \<Rightarrow> 'k \<rightharpoonup> 'v" where
  "table key val rows = map_of (map (\<lambda>r. (key r, val r)) rows)"

definition account_val :: "account_row \<Rightarrow> string \<times> string \<times> account_role" where
  "account_val r = (ar_email r, ar_password_hash r, from_column (ar_role r))"

definition device_val :: "device_row \<Rightarrow> int \<times> string \<times> string option" where
  "device_val r = (dr_account_id r, dr_name r, dr_unattended_password_hash r)"

definition store_of :: "db \<Rightarrow> store" where
  "store_of d = \<lparr>st_accounts = table ar_id account_val (accounts_tbl d), st_counter = accounts_seq d,
     st_devices = table dr_id device_val (devices_tbl d),
     st_sessions = table sr_token sr_account_id (sessions_tbl d), st_settings = settings_tbl d,
     st_enforced = foreign_keys d\<rparr>"

section \<open>The operations on it\<close>

definition spec_create_account :: "string \<Rightarrow> string \<Rightarrow> account_role \<Rightarrow> store \<Rightarrow> store" where
  "spec_create_account e h r s =
     (if e \<in> fst ` ran (st_accounts s) \<or> 2 ^ 63 - 1 \<le> st_counter s then s
      else s\<lparr>st_accounts := (st_accounts s)(st_counter s + 1 \<mapsto> (e, h, r)), st_counter := st_counter s + 1\<rparr>)"

definition spec_set_role :: "int \<Rightarrow> account_role \<Rightarrow> store \<Rightarrow> store" where
  "spec_set_role i r s =
     s\<lparr>st_accounts := (st_accounts s)(i := map_option (\<lambda>(e, h, _). (e, h, r)) (st_accounts s i))\<rparr>"

definition without :: "('v \<Rightarrow> bool) \<Rightarrow> ('k \<rightharpoonup> 'v) \<Rightarrow> 'k \<rightharpoonup> 'v" where
  "without P m k = (case m k of Some v \<Rightarrow> if P v then None else Some v | None \<Rightarrow> None)"

definition spec_delete_account :: "int \<Rightarrow> store \<Rightarrow> store" where
  "spec_delete_account i s =
     s\<lparr>st_accounts := (st_accounts s)(i := None), st_devices := without (\<lambda>v. fst v = i) (st_devices s),
       st_sessions := without (\<lambda>a. a = i) (st_sessions s)\<rparr>"

definition spec_create_session :: "string \<Rightarrow> int \<Rightarrow> store \<Rightarrow> store" where
  "spec_create_session t i s =
     (if st_sessions s t \<noteq> None \<or> st_enforced s \<and> st_accounts s i = None then s
      else s\<lparr>st_sessions := (st_sessions s)(t \<mapsto> i)\<rparr>)"

definition spec_create_device :: "string \<Rightarrow> int \<Rightarrow> string \<Rightarrow> store \<Rightarrow> store" where
  "spec_create_device di i n s =
     (if st_devices s di \<noteq> None \<or> st_enforced s \<and> st_accounts s i = None then s
      else s\<lparr>st_devices := (st_devices s)(di \<mapsto> (i, n, None))\<rparr>)"

definition spec_set_unattended :: "string \<Rightarrow> string \<Rightarrow> store \<Rightarrow> store" where
  "spec_set_unattended di h s =
     s\<lparr>st_devices := (st_devices s)(di := map_option (\<lambda>(i, n, _). (i, n, Some h)) (st_devices s di))\<rparr>"

fun spec_exec :: "db_call \<Rightarrow> store \<Rightarrow> store" where
  "spec_exec (CSetSetting k v) s = s\<lparr>st_settings := (st_settings s)(k \<mapsto> v)\<rparr>"
| "spec_exec (CSetRegistrationEnabled b) s =
     s\<lparr>st_settings := (st_settings s)(''registration_enabled'' \<mapsto> (if b then ''true'' else ''false''))\<rparr>"
| "spec_exec (CCreateAccount e h r) s = spec_create_account e h r s"
| "spec_exec (CSetAccountRole i r) s = spec_set_role i r s"
| "spec_exec (CDeleteAccount i) s = spec_delete_account i s"
| "spec_exec (CCreateSession t i) s = spec_create_session t i s"
| "spec_exec (CDeleteSession t) s = s\<lparr>st_sessions := (st_sessions s)(t := None)\<rparr>"
| "spec_exec (CCreateDevice di i n) s = spec_create_device di i n s"
| "spec_exec (CSetUnattendedPasswordHash di h) s = spec_set_unattended di h s"
| "spec_exec (CDeleteDevice di) s = s\<lparr>st_devices := (st_devices s)(di := None)\<rparr>"
| "spec_exec _ s = s"

section \<open>Tables as maps\<close>

lemma table_None: "table key val rows k = None \<longleftrightarrow> k \<notin> set (map key rows)"
  by (force simp: table_def map_of_eq_None_iff)

lemma table_append:
  assumes "key r \<notin> set (map key rows)"
  shows "table key val (rows @ [r]) = (table key val rows)(key r \<mapsto> val r)"
proof
  fix x
  have "table key val rows (key r) = None" using assms by (simp only: table_None) simp
  then show "table key val (rows @ [r]) x = ((table key val rows)(key r \<mapsto> val r)) x"
    by (auto simp: table_def map_add_def split: option.split)
qed

lemma table_delete: "table key val (filter (\<lambda>r. key r \<noteq> k) rows) = (table key val rows)(k := None)"
  unfolding table_def by (induction rows) (auto simp: fun_eq_iff)

lemma table_without:
  assumes "distinct (map key rows)" and "\<And>r. P (val r) \<longleftrightarrow> Q r"
  shows "table key val (filter (\<lambda>r. \<not> Q r) rows) = without P (table key val rows)"
  using assms(1)
proof (induction rows)
  case (Cons r rows)
  have "table key val rows (key r) = None" using Cons.prems by (simp add: table_None)
  then show ?case using Cons assms(2) [of r]
    by (auto simp: fun_eq_iff table_def without_def split: option.split)
qed (simp add: table_def without_def fun_eq_iff)

lemma table_update:
  assumes "distinct (map key rows)" and "\<And>r. key (g r) = key r" and "\<And>r. val (g r) = f (val r)"
  shows "table key val (map (\<lambda>r. if key r = k then g r else r) rows) =
     (table key val rows)(k := map_option f (table key val rows k))"
  using assms(1)
proof (induction rows)
  case (Cons r rows)
  have "key r = k \<Longrightarrow> table key val rows k = None" using Cons.prems by (auto simp: table_None)
  then show ?case using Cons assms(2,3) by (auto simp: fun_eq_iff table_def)
qed (simp add: table_def)

lemma ran_table: "distinct (map key rows) \<Longrightarrow> ran (table key val rows) = val ` set rows"
  by (simp add: table_def ran_distinct comp_def image_image)

section \<open>The contract of a method\<close>

locale db_refines =
  fixes op :: "'a db_op" and spec :: "store \<Rightarrow> store"
  assumes refines: "db_wf d \<Longrightarrow> store_of (snd (op d)) \<in> {store_of d, spec (store_of d)}"
    and performs: "db_wf d \<Longrightarrow> faults d = [] \<Longrightarrow> store_of (snd (op d)) = spec (store_of d)"

lemma store_of_same: "same_tables d d' \<Longrightarrow> store_of d' = store_of d"
  by (simp add: store_of_def same_tables_iff)

lemma query_refines: "db_query op \<Longrightarrow> db_refines op (\<lambda>s. s)"
  by unfold_locales (simp_all add: store_of_same [OF db_query.read_only])

lemma stmt_refines:
  assumes "\<And>d. db_wf d \<Longrightarrow> store_of (snd (b d)) = spec (store_of d)"
  shows "db_refines (stmt b) spec"
proof
  fix d assume wf: "db_wf d"
  show "store_of (snd (stmt b d)) \<in> {store_of d, spec (store_of d)}"
  proof (cases rule: stmt_cases [of d b])
    case (fault e fs)
    then show ?thesis using store_of_same [OF same_tables_faults] by simp
  next
    case (run d' k)
    then show ?thesis using assms [of d'] wf store_of_same [OF run(1)] same_tables_wf [OF run(1)] by simp
  qed
next
  fix d assume "db_wf d" "faults d = []"
  then show "store_of (snd (stmt b d)) = spec (store_of d)" using assms by (simp add: stmt_ok)
qed

section \<open>The methods refine the operations\<close>

lemmas wf_parts = db_wf_def ids_ok_def keys_ok_def

interpretation set_setting_r: db_refines "set_setting k v" "spec_exec (CSetSetting k v)" for k v
  unfolding set_setting_def by (rule stmt_refines) (simp add: store_of_def)

interpretation create_account_r: db_refines "create_account e h r" "spec_exec (CCreateAccount e h r)" for e h r
  unfolding create_account_def
proof (rule stmt_refines)
  fix d assume wf: "db_wf d"
  have u: "e \<in> fst ` ran (st_accounts (store_of d)) \<longleftrightarrow> e \<in> set (map ar_email (accounts_tbl d))"
    using wf by (simp add: store_of_def wf_parts ran_table account_val_def image_image)
  have n: "accounts_seq d + 1 \<notin> set (map ar_id (accounts_tbl d))" using wf by (auto simp: wf_parts)
  show "store_of (snd (if list_ex (\<lambda>r. ar_email r = e) (accounts_tbl d) then (Inl (unique_error ''accounts.email''), d)
      else if 2 ^ 63 - 1 \<le> accounts_seq d then (Inl ''database or disk is full'', d)
      else let i = accounts_seq d + 1;
               row = \<lparr>ar_id = i, ar_email = e, ar_password_hash = h, ar_created_at = wall_clock d, ar_role = as_str r\<rparr>
           in (Inr i, d\<lparr>accounts_tbl := accounts_tbl d @ [row], accounts_seq := i\<rparr>))) =
    spec_exec (CCreateAccount e h r) (store_of d)"
    using u n table_append [of ar_id "\<lparr>ar_id = accounts_seq d + 1, ar_email = e, ar_password_hash = h,
        ar_created_at = wall_clock d, ar_role = as_str r\<rparr>" "accounts_tbl d" account_val]
    by (simp add: spec_create_account_def list_ex_key_iff Let_def) (simp add: store_of_def account_val_def)
qed

interpretation set_role_r: db_refines "set_account_role i r" "spec_exec (CSetAccountRole i r)" for i r
  unfolding set_account_role_def
  by (rule stmt_refines)
    (simp add: store_of_def spec_set_role_def wf_parts table_update [where f = "\<lambda>(e, h, _). (e, h, r)"] account_val_def)

interpretation set_registration_r: db_refines "set_registration_enabled b" "spec_exec (CSetRegistrationEnabled b)"
  for b
  unfolding set_registration_enabled_def set_setting_def by (rule stmt_refines) (simp add: store_of_def)

lemma account_known: "st_accounts (store_of d) i = None \<longleftrightarrow> \<not> account_exists i d"
  by (simp add: store_of_def account_exists_iff table_None)

lemma key_known:
  "st_sessions (store_of d) t = None \<longleftrightarrow> t \<notin> set (map sr_token (sessions_tbl d))"
  "st_devices (store_of d) di = None \<longleftrightarrow> di \<notin> set (map dr_id (devices_tbl d))"
  by (simp_all add: store_of_def table_None)

interpretation create_session_r: db_refines "create_session t i" "spec_exec (CCreateSession t i)" for t i
  unfolding create_session_def
  by (rule stmt_refines)
    (simp add: spec_create_session_def account_known list_ex_key_iff key_known del: not_None_eq,
     auto simp: store_of_def table_append)

interpretation create_device_r: db_refines "create_device di i n" "spec_exec (CCreateDevice di i n)" for di i n
  unfolding create_device_def
  by (rule stmt_refines)
    (simp add: spec_create_device_def account_known list_ex_key_iff key_known del: not_None_eq,
     auto simp: store_of_def table_append device_val_def)

interpretation delete_session_r: db_refines "delete_session t" "spec_exec (CDeleteSession t)" for t
  unfolding delete_session_def by (rule stmt_refines) (simp add: store_of_def table_delete)

interpretation delete_device_r: db_refines "delete_device di" "spec_exec (CDeleteDevice di)" for di
  unfolding delete_device_def by (rule stmt_refines) (simp add: store_of_def table_delete)

interpretation set_unattended_r: db_refines "set_unattended_password_hash di h"
    "spec_exec (CSetUnattendedPasswordHash di h)" for di h
  unfolding set_unattended_password_hash_def
  by (rule stmt_refines)
    (simp add: store_of_def spec_set_unattended_def wf_parts
      table_update [where f = "\<lambda>(i, n, _). (i, n, Some h)"] device_val_def)

text \<open>The transaction: five statements, one abstract step.\<close>

lemma and_then_keeps:
  assumes "\<And>d. f (snd (m d)) = f d" and "\<And>x d. f (snd (g x d)) = f d"
  shows "f (snd (and_then m g d)) = f d"
proof (cases "m d")
  case (Pair r d1)
  then show ?thesis using assms(1) [of d] assms(2) by (cases r) (auto simp: and_then_def)
qed

lemma delete_account_fk: "foreign_keys (snd (delete_account i d)) = foreign_keys d"
proof -
  have "foreign_keys (snd (and_then begin_stmt (\<lambda>_. and_then (delete_account_sessions i) (\<lambda>_.
      and_then (delete_account_devices i) (\<lambda>_. and_then (delete_account_row i) (\<lambda>_. commit_stmt)))) d)) =
    foreign_keys d"
    unfolding begin_stmt_def delete_account_sessions_def delete_account_devices_def delete_account_row_def
      commit_stmt_def
    by (intro and_then_keeps stmt_keeps) simp_all
  then show ?thesis by (auto simp: delete_account_def transaction_def split: prod.splits sum.splits)
qed

lemma delete_account_store:
  assumes "db_wf d" and "delete_account i d = (Inr u, d')"
  shows "store_of d' = spec_delete_account i (store_of d)"
proof -
  have run: "delete_account i d = (Inr (), d')" using assms(2) by simp
  have fk: "foreign_keys d' = foreign_keys d" using delete_account_fk [of i d] run by simp
  show ?thesis using assms(1)
    by (simp add: store_of_def spec_delete_account_def delete_account_Inr [OF run] fk table_delete wf_parts
        table_without [where P = "\<lambda>v. fst v = i" and Q = "\<lambda>r. dr_account_id r = i"] device_val_def
        table_without [where P = "\<lambda>a. a = i" and Q = "\<lambda>s. sr_account_id s = i"])
qed

interpretation delete_account_r: db_refines "delete_account i" "spec_exec (CDeleteAccount i)" for i
proof
  fix d assume wf: "db_wf d"
  obtain res d' where run: "delete_account i d = (res, d')" by fastforce
  show "store_of (snd (delete_account i d)) \<in> {store_of d, spec_exec (CDeleteAccount i) (store_of d)}"
    using run delete_account.atomic [of i d] delete_account_store [OF wf, of i] by (cases res) (auto intro: store_of_same)
next
  fix d assume "db_wf d" "faults d = []"
  then show "store_of (snd (delete_account i d)) = spec_exec (CDeleteAccount i) (store_of d)"
    using delete_account_succeeds [of d i] delete_account_store [of d i "()" "snd (delete_account i d)"]
    by (simp add: prod_eq_iff)
qed

section \<open>What the queries answer\<close>

lemma query_row_key:
  "query_row (map f (filter (\<lambda>r. key r = k) rows)) = table key f rows k"
  by (induction rows) (auto simp: query_row_def table_def)

lemma table_comp: "table key (\<lambda>r. g (key r) (val r)) rows k = map_option (g k) (table key val rows k)"
  by (induction rows) (auto simp: table_def)

definition account_at :: "int \<Rightarrow> string \<times> string \<times> account_role \<Rightarrow> account" where
  "account_at i v = (case v of (e, h, r) \<Rightarrow> \<lparr>acc_id = i, acc_email = e, acc_password_hash = h, acc_role = r\<rparr>)"

definition device_at :: "string \<Rightarrow> int \<times> string \<times> string option \<Rightarrow> device" where
  "device_at di v = (case v of (i, n, u) \<Rightarrow>
     \<lparr>dev_id = di, dev_account_id = i, dev_name = n, dev_unattended_password_hash = u\<rparr>)"

lemma row_at:
  "map_account_row = (\<lambda>r. account_at (ar_id r) (account_val r))"
  "map_device_row = (\<lambda>r. device_at (dr_id r) (device_val r))"
  by (simp_all add: fun_eq_iff map_account_row_def account_at_def account_val_def map_device_row_def
      device_at_def device_val_def)

definition spec_find_account :: "int \<Rightarrow> store \<Rightarrow> account option" where
  "spec_find_account i s = map_option (account_at i) (st_accounts s i)"

definition spec_find_device :: "string \<Rightarrow> store \<Rightarrow> device option" where
  "spec_find_device di s = map_option (device_at di) (st_devices s di)"

definition spec_find_session :: "string \<Rightarrow> store \<Rightarrow> account option" where
  "spec_find_session t s = Option.bind (st_sessions s t) (\<lambda>i. spec_find_account i s)"

lemma find_account_answers:
  "faults d = [] \<Longrightarrow> fst (find_account_by_id i d) = Inr (spec_find_account i (store_of d))"
  unfolding find_account_by_id_def
  by (simp add: stmt_ok query_row_key spec_find_account_def store_of_def row_at table_comp)

lemma find_device_answers:
  "faults d = [] \<Longrightarrow> fst (find_device di d) = Inr (spec_find_device di (store_of d))"
  unfolding find_device_def
  by (simp add: stmt_ok query_row_key spec_find_device_def store_of_def row_at table_comp)

lemma find_key_table: "map_option val (find (\<lambda>r. key r = k) rows) = table key val rows k"
  by (induction rows) (auto simp: table_def)

lemma find_session_answers:
  assumes "db_wf d" and "faults d = []"
  shows "fst (find_session t d) = Inr (spec_find_session t (store_of d))"
proof -
  have "account_of d i = spec_find_account i (store_of d)" for i
    using find_account_answers [OF assms(2), of i] by (simp add: assms(2) find_account_by_id_ok)
  moreover have "st_sessions (store_of d) t = map_option sr_account_id (find (\<lambda>s. sr_token s = t) (sessions_tbl d))"
    by (simp add: store_of_def find_key_table)
  ultimately have "session_of d t = spec_find_session t (store_of d)"
    by (cases "find (\<lambda>s. sr_token s = t) (sessions_tbl d)") (auto simp: session_of_def spec_find_session_def)
  then show ?thesis using find_session_ok [OF assms] by simp
qed

section \<open>Single calls and sequences\<close>

lemmas all_refine = set_setting_r.refines set_registration_r.refines create_account_r.refines
  set_role_r.refines delete_account_r.refines create_session_r.refines delete_session_r.refines
  create_device_r.refines set_unattended_r.refines delete_device_r.refines

lemmas all_perform = set_setting_r.performs set_registration_r.performs create_account_r.performs
  set_role_r.performs delete_account_r.performs create_session_r.performs delete_session_r.performs
  create_device_r.performs set_unattended_r.performs delete_device_r.performs

lemmas queries_refine = all_queries [THEN query_refines]

lemma store_of_clock: "store_of (d\<lparr>wall_clock := t\<rparr>) = store_of d"
  by (simp add: store_of_def)

lemma exec_refines: "db_wf d \<Longrightarrow> store_of (db_exec c d) \<in> {store_of d, spec_exec c (store_of d)}"
  by (cases c; simp only: db_exec.simps)
    (use all_refine queries_refine [THEN db_refines.refines] store_of_clock in \<open>simp_all\<close>)

lemma exec_performs: "db_wf d \<Longrightarrow> faults d = [] \<Longrightarrow> store_of (db_exec c d) = spec_exec c (store_of d)"
  by (cases c; simp only: db_exec.simps)
    (use all_perform queries_refine [THEN db_refines.performs] store_of_clock in \<open>simp_all\<close>)

lemma exec_no_faults: "faults d = [] \<Longrightarrow> faults (db_exec c d) = []"
  by (cases c)
    (simp_all add: get_setting_ok registration_enabled_ok find_account_by_id_ok find_account_by_email_ok
      find_device_ok count_admins_def count_accounts_def list_devices_for_account_def list_all_accounts_def
      find_session_def set_setting_def set_registration_enabled_def create_account_def set_account_role_def
      delete_account_def transaction_def and_then_def begin_stmt_def commit_stmt_def delete_account_sessions_def
      delete_account_devices_def delete_account_row_def create_session_def delete_session_def create_device_def
      set_unattended_password_hash_def delete_device_def stmt_ok Let_def)

lemma run_refines:
  "db_wf d \<Longrightarrow> \<exists>cs'. subseq cs' cs \<and> store_of (db_run cs d) = fold spec_exec cs' (store_of d)"
proof (induction cs arbitrary: d)
  case (Cons c cs)
  obtain cs' where cs': "subseq cs' cs" "store_of (db_run cs (db_exec c d)) = fold spec_exec cs' (store_of (db_exec c d))"
    using Cons.IH [OF db_exec_wf [OF Cons.prems]] by blast
  from exec_refines [OF Cons.prems, of c] consider
    "store_of (db_exec c d) = store_of d" | "store_of (db_exec c d) = spec_exec c (store_of d)" by auto
  then show ?case
  proof cases
    case 1
    then show ?thesis using cs' by (intro exI [of _ cs']) auto
  next
    case 2
    then show ?thesis using cs' by (intro exI [of _ "c # cs'"]) simp
  qed
qed (intro exI [of _ "[]"], simp)

lemma run_performs:
  "db_wf d \<Longrightarrow> faults d = [] \<Longrightarrow> store_of (db_run cs d) = fold spec_exec cs (store_of d)"
  by (induction cs arbitrary: d) (simp_all add: db_exec_wf exec_no_faults exec_performs)

section \<open>Properties\<close>

text \<open>
  C18. The tables refine the maps.  Of any sequence of calls to \<open>Db\<close>, whatever the engine refuses, the maps
  see a subsequence, each call whole or not at all; when the engine refuses nothing they see every call, and
  the lookups by account id, device id and session token answer what the maps hold.
\<close>

theorem database_refines_maps:
  assumes "db_wf d"
  shows "(\<exists>cs'. subseq cs' cs \<and> store_of (db_run cs d) = fold spec_exec cs' (store_of d)) \<and>
    (faults d = [] \<longrightarrow> store_of (db_run cs d) = fold spec_exec cs (store_of d) \<and>
       fst (find_account_by_id i d) = Inr (spec_find_account i (store_of d)) \<and>
       fst (find_device di d) = Inr (spec_find_device di (store_of d)) \<and>
       fst (find_session t d) = Inr (spec_find_session t (store_of d)))"
  using assms run_refines run_performs find_account_answers find_device_answers find_session_answers by blast

theorem database_refines_maps_witness:
  "store_of (db_run [CCreateAccount ''a@b'' ''h'' Admin, CCreateSession ''tok'' 1, CDeleteAccount 1] wit_db) =
     \<lparr>st_accounts = Map.empty, st_counter = 1, st_devices = Map.empty, st_sessions = Map.empty,
      st_settings = Map.empty, st_enforced = True\<rparr>"
proof -
  have wf: "db_wf wit_db" by (rule fresh_db_wf) (simp add: fresh_db_def wit_db_def)
  have e: "store_of wit_db = \<lparr>st_accounts = Map.empty, st_counter = 0, st_devices = Map.empty,
      st_sessions = Map.empty, st_settings = Map.empty, st_enforced = True\<rparr>"
    by (simp add: store_of_def wit_db_def table_def)
  have "faults wit_db = []" by (simp add: wit_db_def)
  with database_refines_maps [OF wf] have
    "store_of (db_run [CCreateAccount ''a@b'' ''h'' Admin, CCreateSession ''tok'' 1, CDeleteAccount 1] wit_db) =
     fold spec_exec [CCreateAccount ''a@b'' ''h'' Admin, CCreateSession ''tok'' 1, CDeleteAccount 1] (store_of wit_db)"
    by blast
  then show ?thesis
    by (simp add: e spec_create_account_def spec_create_session_def spec_delete_account_def)
      (simp add: fun_eq_iff without_def)
qed

end
