(* ===== verification/Static_Assets.thy ===== *)
theory Static_Assets
  imports Http_Router
begin

text \<open>
  \<^verbatim>\<open>visuara-signaling/src/assets.rs\<close>: the fallback of the router, which serves the web interface embedded at
  compile time.  \<open>Assets::get\<close> (generated by rust-embed from \<^verbatim>\<open>web/dist\<close>) is the parameter \<open>assets\<close>.
\<close>

record embedded_file =
  mimetype :: string
  file_data :: bytes

record asset_response =
  asset_status :: status_code
  asset_content_type :: string
  asset_data :: bytes

type_synonym assets = "string \<rightharpoonup> embedded_file"

definition serve :: "embedded_file \<Rightarrow> asset_response" where
  "serve f = \<lparr>asset_status = OK, asset_content_type = mimetype f, asset_data = file_data f\<rparr>"

text \<open>The message has a dash outside ASCII, three bytes in UTF-8.\<close>

definition not_built :: bytes where
  "not_built = map (\<lambda>c. of_char c) ''frontend not built '' @ [0xE2, 0x80, 0x94] @
     map (\<lambda>c. of_char c) '' run `npm --prefix web run build`''"

definition static_handler :: "assets \<Rightarrow> string \<Rightarrow> asset_response" where
  "static_handler assets uri_path =
     (let path = dropWhile (\<lambda>c. c = CHR ''/'') uri_path in
      case assets path of
        Some file \<Rightarrow> serve file
      | None \<Rightarrow>
          (case assets ''index.html'' of
             Some file \<Rightarrow> serve file
           | None \<Rightarrow> \<lparr>asset_status = NOT_FOUND, asset_content_type = ''text/plain; charset=utf-8'', asset_data = not_built\<rparr>))"

text \<open>With the interface built in, no path is answered 404: an asset is served under its own name, whatever
  slashes come first, and every other path gets the page of the single-page application.\<close>

lemma static_handler_built:
  assumes "assets ''index.html'' = Some index"
  shows "static_handler assets p = serve (case assets (dropWhile (\<lambda>c. c = CHR ''/'') p) of Some f \<Rightarrow> f | None \<Rightarrow> index)"
  using assms by (simp add: static_handler_def Let_def split: option.split)

lemma static_handler_status:
  "asset_status (static_handler assets p) = NOT_FOUND \<longleftrightarrow>
     assets ''index.html'' = None \<and> assets (dropWhile (\<lambda>c. c = CHR ''/'') p) = None"
  by (simp add: static_handler_def serve_def Let_def split: option.split)

lemma static_handler_slashes: "static_handler assets (CHR ''/'' # p) = static_handler assets p"
  by (simp add: static_handler_def)

end
