(* ===== verification/Http_Routes.thy ===== *)
theory Http_Routes
  imports Static_Assets Http_Properties
begin

text \<open>
  From a request line to its handler: the route tables of \<^verbatim>\<open>visuara-signaling/src/lib.rs\<close> and \<^verbatim>\<open>api/mod.rs\<close> with their
  methods and path patterns, the extractors in the handlers' signatures, and the fallback.  The router's matching
  of a pattern and the extractors belong to axum: the first is a parameter with the law \<open>matcher_ok\<close> (a literal
  segment matches itself, a parameter one non-empty segment), the second a record of parsers.  \<open>get\<close> accepts
  HEAD as well, and a nested router without a fallback of its own uses the outer one.
\<close>

section \<open>The tables\<close>

datatype http_method = GET | HEAD | POST | PUT | DELETE | OtherMethod string

datatype segment = Lit string | Param string

datatype endpoint =
  EpRegister | EpLogin | EpLogout | EpMe | EpRegistrationStatus | EpDevices | EpDeleteOwn | EpGetSettings
| EpSaveSettings | EpClientBuilds | EpFetchRelease | EpListAccounts | EpCreateAccount | EpAccountDetail
| EpDeleteAccount | EpSetAccountRole | EpDeleteDevice | EpGetRegistration | EpSetRegistration | EpDownload
| EpDownloadPlatform | EpHealthz | EpWs

type_synonym route = "segment list \<times> (http_method \<times> endpoint) list"

definition get_route :: "endpoint \<Rightarrow> (http_method \<times> endpoint) list" where
  "get_route e = [(GET, e), (HEAD, e)]"

definition api_router :: "route list" where
  "api_router =
     [([Lit ''auth'', Lit ''register''], [(POST, EpRegister)]),
      ([Lit ''auth'', Lit ''login''], [(POST, EpLogin)]),
      ([Lit ''auth'', Lit ''logout''], [(POST, EpLogout)]),
      ([Lit ''auth'', Lit ''me''], get_route EpMe),
      ([Lit ''registration-status''], get_route EpRegistrationStatus),
      ([Lit ''devices''], get_route EpDevices),
      ([Lit ''devices'', Param ''device_id''], [(DELETE, EpDeleteOwn)]),
      ([Lit ''admin'', Lit ''settings''], get_route EpGetSettings @ [(PUT, EpSaveSettings)]),
      ([Lit ''admin'', Lit ''client-builds''], get_route EpClientBuilds),
      ([Lit ''admin'', Lit ''client-builds'', Lit ''fetch''], [(POST, EpFetchRelease)]),
      ([Lit ''admin'', Lit ''accounts''], get_route EpListAccounts @ [(POST, EpCreateAccount)]),
      ([Lit ''admin'', Lit ''accounts'', Param ''id''], get_route EpAccountDetail @ [(DELETE, EpDeleteAccount)]),
      ([Lit ''admin'', Lit ''accounts'', Param ''id'', Lit ''role''], [(PUT, EpSetAccountRole)]),
      ([Lit ''admin'', Lit ''accounts'', Param ''id'', Lit ''devices'', Param ''device_id''], [(DELETE, EpDeleteDevice)]),
      ([Lit ''admin'', Lit ''registration''], get_route EpGetRegistration @ [(PUT, EpSetRegistration)]),
      ([Lit ''download''], get_route EpDownload),
      ([Lit ''download'', Param ''platform''], get_route EpDownloadPlatform)]"

definition build_router :: "route list" where
  "build_router = map (\<lambda>(pat, ms). (Lit ''api'' # Lit ''v1'' # pat, ms)) api_router @
     [([Lit ''healthz''], get_route EpHealthz), ([Lit ''ws''], get_route EpWs)]"

section \<open>Matching\<close>

text \<open>The path that a pattern stands for when its parameters are filled in.\<close>

fun path_text :: "segment list \<Rightarrow> string list \<Rightarrow> string option" where
  "path_text [] [] = Some []"
| "path_text (Lit s # pat) cs = map_option (\<lambda>r. CHR ''/'' # s @ r) (path_text pat cs)"
| "path_text (Param n # pat) (c # cs) =
     (if c \<noteq> [] \<and> CHR ''/'' \<notin> set c then map_option (\<lambda>r. CHR ''/'' # c @ r) (path_text pat cs) else None)"
| "path_text _ _ = None"

type_synonym matcher = "segment list \<Rightarrow> string \<Rightarrow> string list option"

definition matcher_ok :: "matcher \<Rightarrow> bool" where
  "matcher_ok pm \<longleftrightarrow> (\<forall>pat p cs. pm pat p = Some cs \<longleftrightarrow> path_text pat cs = Some p)"

fun find_route :: "matcher \<Rightarrow> route list \<Rightarrow> string \<Rightarrow> ((http_method \<times> endpoint) list \<times> string list) option" where
  "find_route pm [] p = None"
| "find_route pm ((pat, ms) # rs) p = (case pm pat p of Some cs \<Rightarrow> Some (ms, cs) | None \<Rightarrow> find_route pm rs p)"

section \<open>Extractors\<close>

text \<open>\<open>Path\<close> decodes its segments and parses them; \<open>Json\<close> parses the request's content;
  \<open>WebSocketUpgrade\<close> looks at the method and the headers.\<close>

record extractors =
  x_text :: "string \<Rightarrow> string option"
  x_i64 :: "string \<Rightarrow> int option"
  x_register :: "bytes \<Rightarrow> (string \<times> string) option"
  x_login :: "bytes \<Rightarrow> (string \<times> string) option"
  x_settings :: "bytes \<Rightarrow> (string \<times> string) option"
  x_account :: "bytes \<Rightarrow> (string \<times> string \<times> account_role option) option"
  x_role :: "bytes \<Rightarrow> account_role option"
  x_enabled :: "bytes \<Rightarrow> bool option"
  x_upgrade :: "http_method \<Rightarrow> headers \<Rightarrow> bool"

fun request_of :: "extractors \<Rightarrow> endpoint \<Rightarrow> string list \<Rightarrow> bytes \<Rightarrow> http_request option" where
  "request_of x EpRegister [] b = map_option (\<lambda>(e, p). PostRegister e p) (x_register x b)"
| "request_of x EpLogin [] b = map_option (\<lambda>(e, p). PostLogin e p) (x_login x b)"
| "request_of x EpLogout [] b = Some PostLogout"
| "request_of x EpMe [] b = Some GetMe"
| "request_of x EpRegistrationStatus [] b = Some GetRegistrationStatus"
| "request_of x EpDevices [] b = Some GetDevices"
| "request_of x EpDeleteOwn [d] b = map_option DeleteDevice (x_text x d)"
| "request_of x EpGetSettings [] b = Some GetAdminSettings"
| "request_of x EpSaveSettings [] b = map_option (\<lambda>(u, n). PutAdminSettings u n) (x_settings x b)"
| "request_of x EpClientBuilds [] b = Some GetClientBuilds"
| "request_of x EpFetchRelease [] b = Some PostFetchRelease"
| "request_of x EpListAccounts [] b = Some GetAccounts"
| "request_of x EpCreateAccount [] b = map_option (\<lambda>(e, p, r). PostAccounts e p r) (x_account x b)"
| "request_of x EpAccountDetail [i] b = map_option GetAccount (x_i64 x i)"
| "request_of x EpDeleteAccount [i] b = map_option DeleteAccount (x_i64 x i)"
| "request_of x EpSetAccountRole [i] b =
     Option.bind (x_i64 x i) (\<lambda>i. map_option (PutAccountRole i) (x_role x b))"
| "request_of x EpDeleteDevice [i, d] b =
     Option.bind (x_i64 x i) (\<lambda>i. map_option (DeleteAccountDevice i) (x_text x d))"
| "request_of x EpGetRegistration [] b = Some GetAdminRegistration"
| "request_of x EpSetRegistration [] b = map_option PutAdminRegistration (x_enabled x b)"
| "request_of x EpDownload [] b = Some GetDownload"
| "request_of x EpDownloadPlatform [p] b = map_option GetDownloadPlatform (x_text x p)"
| "request_of x EpHealthz [] b = Some GetHealthz"
| "request_of x _ _ b = None"

section \<open>The server's answer to a request line\<close>

datatype outcome =
  Handled response
| Upgrade  \<comment> \<open>the WebSocket takes over\<close>
| Rejected  \<comment> \<open>an extractor has refused the request, in a form of its own\<close>
| MethodNotAllowed
| Page asset_response

record line =
  ln_method :: http_method
  ln_path :: string
  ln_headers :: headers
  ln_content :: bytes

definition respond :: "matcher \<Rightarrow> extractors \<Rightarrow> assets \<Rightarrow> http_env \<Rightarrow> line \<Rightarrow> app_state \<Rightarrow> outcome \<times> app_state" where
  "respond pm x assets v l st =
     (case find_route pm build_router (ln_path l) of
        None \<Rightarrow> (Page (static_handler assets (ln_path l)), st)
      | Some (ms, cs) \<Rightarrow>
          (case map_of ms (ln_method l) of
             None \<Rightarrow> (MethodNotAllowed, st)
           | Some e \<Rightarrow>
               if e = EpWs
               then (if x_upgrade x (ln_method l) (ln_headers l) then (Upgrade, st) else (Rejected, st))
               else (case request_of x e cs (ln_content l) of
                       None \<Rightarrow> (Rejected, st)
                     | Some q \<Rightarrow> (case http v (ln_headers l) q st of (r, st') \<Rightarrow> (Handled r, st')))))"

section \<open>One matcher\<close>

text \<open>The law leaves one function, which computes.\<close>

fun match_path :: matcher where
  "match_path [] p = (if p = [] then Some [] else None)"
| "match_path (Lit s # pat) p =
     (if take (Suc (length s)) p = CHR ''/'' # s then match_path pat (drop (Suc (length s)) p) else None)"
| "match_path (Param n # pat) p =
     (case p of
        [] \<Rightarrow> None
      | c # r \<Rightarrow>
          if c = CHR ''/'' \<and> takeWhile (\<lambda>c. c \<noteq> CHR ''/'') r \<noteq> []
          then map_option (Cons (takeWhile (\<lambda>c. c \<noteq> CHR ''/'') r)) (match_path pat (dropWhile (\<lambda>c. c \<noteq> CHR ''/'') r))
          else None)"

lemma path_text_shape: "path_text pat cs = Some p \<Longrightarrow> p = [] \<or> hd p = CHR ''/''"
  by (induction pat cs rule: path_text.induct) (auto split: if_splits)

lemma segment_split:
  assumes "CHR ''/'' \<notin> set c" and "r = [] \<or> hd r = CHR ''/''"
  shows "takeWhile (\<lambda>c. c \<noteq> CHR ''/'') (c @ r) = c" "dropWhile (\<lambda>c. c \<noteq> CHR ''/'') (c @ r) = r"
proof -
  have "\<forall>x \<in> set c. x \<noteq> CHR ''/''" using assms(1) by auto
  then show "takeWhile (\<lambda>c. c \<noteq> CHR ''/'') (c @ r) = c" "dropWhile (\<lambda>c. c \<noteq> CHR ''/'') (c @ r) = r"
    using assms(2) by (cases r; simp add: takeWhile_append2 dropWhile_append2)+
qed

lemma match_path_sound: "match_path pat p = Some cs \<Longrightarrow> path_text pat cs = Some p"
proof (induction pat p arbitrary: cs rule: match_path.induct)
  case (2 s pat p)
  then have "take (Suc (length s)) p = CHR ''/'' # s" "path_text pat cs = Some (drop (Suc (length s)) p)"
    by (auto split: if_splits)
  moreover have "p = take (Suc (length s)) p @ drop (Suc (length s)) p" by (rule append_take_drop_id [symmetric])
  ultimately show ?case by (simp del: append_take_drop_id)
next
  case (3 n pat p)
  from 3(2) obtain r cs' where r: "p = CHR ''/'' # r" "takeWhile (\<lambda>c. c \<noteq> CHR ''/'') r \<noteq> []"
    "match_path pat (dropWhile (\<lambda>c. c \<noteq> CHR ''/'') r) = Some cs'" "cs = takeWhile (\<lambda>c. c \<noteq> CHR ''/'') r # cs'"
    by (auto split: list.splits if_splits)
  moreover have "path_text pat cs' = Some (dropWhile (\<lambda>c. c \<noteq> CHR ''/'') r)" using 3(1) r by simp
  moreover have "CHR ''/'' \<notin> set (takeWhile (\<lambda>c. c \<noteq> CHR ''/'') r)" by (auto dest: set_takeWhileD)
  ultimately show ?case by simp
qed (auto split: if_splits)

lemma match_path_complete: "path_text pat cs = Some p \<Longrightarrow> match_path pat p = Some cs"
proof (induction pat cs arbitrary: p rule: path_text.induct)
  case (3 n pat c cs)
  then obtain r where "p = CHR ''/'' # c @ r" "path_text pat cs = Some r" "c \<noteq> []" "CHR ''/'' \<notin> set c"
    by (auto split: if_splits)
  with 3 segment_split [OF _ path_text_shape [of pat cs r], of c] show ?case by simp
qed auto

lemma match_path_ok: "matcher_ok match_path"
  unfolding matcher_ok_def by (blast intro: match_path_sound match_path_complete)

lemma matcher_unique: "matcher_ok pm \<Longrightarrow> pm = match_path"
proof -
  assume "matcher_ok pm"
  then have "pm pat p = Some cs \<longleftrightarrow> match_path pat p = Some cs" for pat p cs
    using match_path_ok by (simp add: matcher_ok_def)
  then have "pm pat p = match_path pat p" for pat p by (metis option.exhaust)
  then show ?thesis by blast
qed

section \<open>The client's side of a request\<close>

text \<open>How a client writes a request down: the texts of its parameters and its content.\<close>

record client_writes =
  w_text :: "string \<Rightarrow> string"
  w_i64 :: "int \<Rightarrow> string"
  w_register :: "string \<times> string \<Rightarrow> bytes"
  w_login :: "string \<times> string \<Rightarrow> bytes"
  w_settings :: "string \<times> string \<Rightarrow> bytes"
  w_account :: "string \<times> string \<times> account_role option \<Rightarrow> bytes"
  w_role :: "account_role \<Rightarrow> bytes"
  w_enabled :: "bool \<Rightarrow> bytes"

definition path_segment :: "string \<Rightarrow> bool" where
  "path_segment s \<longleftrightarrow> s \<noteq> [] \<and> CHR ''/'' \<notin> set s"

text \<open>The extractors read what the client has written for a request; a parameter is one segment of a path, so it
  is not empty.\<close>

definition text_read :: "client_writes \<Rightarrow> extractors \<Rightarrow> string \<Rightarrow> bool" where
  "text_read w x t \<longleftrightarrow> x_text x (w_text w t) = Some t \<and> path_segment (w_text w t)"

definition i64_read :: "client_writes \<Rightarrow> extractors \<Rightarrow> int \<Rightarrow> bool" where
  "i64_read w x i \<longleftrightarrow> x_i64 x (w_i64 w i) = Some i \<and> path_segment (w_i64 w i)"

fun reads_back :: "client_writes \<Rightarrow> extractors \<Rightarrow> http_request \<Rightarrow> bool" where
  "reads_back w x (PostRegister e p) = (x_register x (w_register w (e, p)) = Some (e, p))"
| "reads_back w x (PostLogin e p) = (x_login x (w_login w (e, p)) = Some (e, p))"
| "reads_back w x (DeleteDevice d) = text_read w x d"
| "reads_back w x (PutAdminSettings u n) = (x_settings x (w_settings w (u, n)) = Some (u, n))"
| "reads_back w x (PostAccounts e p r) = (x_account x (w_account w (e, p, r)) = Some (e, p, r))"
| "reads_back w x (GetAccount i) = i64_read w x i"
| "reads_back w x (DeleteAccount i) = i64_read w x i"
| "reads_back w x (PutAccountRole i r) = (i64_read w x i \<and> x_role x (w_role w r) = Some r)"
| "reads_back w x (DeleteAccountDevice i d) = (i64_read w x i \<and> text_read w x d)"
| "reads_back w x (PutAdminRegistration b) = (x_enabled x (w_enabled w b) = Some b)"
| "reads_back w x (GetDownloadPlatform p) = text_read w x p"
| "reads_back w x _ = True"

fun line_of :: "client_writes \<Rightarrow> headers \<Rightarrow> http_request \<Rightarrow> line" where
  "line_of w hs (PostRegister e p) = \<lparr>ln_method = POST, ln_path = ''/api/v1/auth/register'', ln_headers = hs, ln_content = w_register w (e, p)\<rparr>"
| "line_of w hs (PostLogin e p) = \<lparr>ln_method = POST, ln_path = ''/api/v1/auth/login'', ln_headers = hs, ln_content = w_login w (e, p)\<rparr>"
| "line_of w hs PostLogout = \<lparr>ln_method = POST, ln_path = ''/api/v1/auth/logout'', ln_headers = hs, ln_content = []\<rparr>"
| "line_of w hs GetMe = \<lparr>ln_method = GET, ln_path = ''/api/v1/auth/me'', ln_headers = hs, ln_content = []\<rparr>"
| "line_of w hs GetRegistrationStatus = \<lparr>ln_method = GET, ln_path = ''/api/v1/registration-status'', ln_headers = hs, ln_content = []\<rparr>"
| "line_of w hs GetDevices = \<lparr>ln_method = GET, ln_path = ''/api/v1/devices'', ln_headers = hs, ln_content = []\<rparr>"
| "line_of w hs (DeleteDevice d) = \<lparr>ln_method = DELETE, ln_path = ''/api/v1/devices/'' @ w_text w d, ln_headers = hs, ln_content = []\<rparr>"
| "line_of w hs GetAdminSettings = \<lparr>ln_method = GET, ln_path = ''/api/v1/admin/settings'', ln_headers = hs, ln_content = []\<rparr>"
| "line_of w hs (PutAdminSettings u n) = \<lparr>ln_method = PUT, ln_path = ''/api/v1/admin/settings'', ln_headers = hs, ln_content = w_settings w (u, n)\<rparr>"
| "line_of w hs GetClientBuilds = \<lparr>ln_method = GET, ln_path = ''/api/v1/admin/client-builds'', ln_headers = hs, ln_content = []\<rparr>"
| "line_of w hs PostFetchRelease = \<lparr>ln_method = POST, ln_path = ''/api/v1/admin/client-builds/fetch'', ln_headers = hs, ln_content = []\<rparr>"
| "line_of w hs GetAccounts = \<lparr>ln_method = GET, ln_path = ''/api/v1/admin/accounts'', ln_headers = hs, ln_content = []\<rparr>"
| "line_of w hs (PostAccounts e p r) = \<lparr>ln_method = POST, ln_path = ''/api/v1/admin/accounts'', ln_headers = hs, ln_content = w_account w (e, p, r)\<rparr>"
| "line_of w hs (GetAccount i) = \<lparr>ln_method = GET, ln_path = ''/api/v1/admin/accounts/'' @ w_i64 w i, ln_headers = hs, ln_content = []\<rparr>"
| "line_of w hs (DeleteAccount i) = \<lparr>ln_method = DELETE, ln_path = ''/api/v1/admin/accounts/'' @ w_i64 w i, ln_headers = hs, ln_content = []\<rparr>"
| "line_of w hs (PutAccountRole i r) = \<lparr>ln_method = PUT, ln_path = ''/api/v1/admin/accounts/'' @ w_i64 w i @ ''/role'', ln_headers = hs, ln_content = w_role w r\<rparr>"
| "line_of w hs (DeleteAccountDevice i d) = \<lparr>ln_method = DELETE, ln_path = ''/api/v1/admin/accounts/'' @ w_i64 w i @ ''/devices/'' @ w_text w d, ln_headers = hs, ln_content = []\<rparr>"
| "line_of w hs GetAdminRegistration = \<lparr>ln_method = GET, ln_path = ''/api/v1/admin/registration'', ln_headers = hs, ln_content = []\<rparr>"
| "line_of w hs (PutAdminRegistration b) = \<lparr>ln_method = PUT, ln_path = ''/api/v1/admin/registration'', ln_headers = hs, ln_content = w_enabled w b\<rparr>"
| "line_of w hs GetDownload = \<lparr>ln_method = GET, ln_path = ''/api/v1/download'', ln_headers = hs, ln_content = []\<rparr>"
| "line_of w hs (GetDownloadPlatform p) = \<lparr>ln_method = GET, ln_path = ''/api/v1/download/'' @ w_text w p, ln_headers = hs, ln_content = []\<rparr>"
| "line_of w hs GetHealthz = \<lparr>ln_method = GET, ln_path = ''/healthz'', ln_headers = hs, ln_content = []\<rparr>"

lemma segment_walk:
  assumes "path_segment c"
  shows "takeWhile (\<lambda>c. c \<noteq> CHR ''/'') c = c" "dropWhile (\<lambda>c. c \<noteq> CHR ''/'') c = []"
    "takeWhile (\<lambda>c. c \<noteq> CHR ''/'') (c @ CHR ''/'' # r) = c" "dropWhile (\<lambda>c. c \<noteq> CHR ''/'') (c @ CHR ''/'' # r) = CHR ''/'' # r"
    "c \<noteq> []"
  using assms segment_split [of c "[]"] segment_split [of c "CHR ''/'' # r"] by (simp_all add: path_segment_def)

text \<open>Where a path goes, for the paths a client writes.\<close>

lemmas route_tables = build_router_def api_router_def get_route_def

lemma addressed:
  assumes "reads_back w x q"
  shows "\<exists>ms cs e. find_route match_path build_router (ln_path (line_of w hs q)) = Some (ms, cs) \<and>
     map_of ms (ln_method (line_of w hs q)) = Some e \<and> e \<noteq> EpWs \<and>
     request_of x e cs (ln_content (line_of w hs q)) = Some q \<and> ln_headers (line_of w hs q) = hs"
  using assms
  by (cases q) (simp_all add: route_tables text_read_def i64_read_def segment_walk)

text \<open>No two entries of the table compete for such a path.\<close>

lemma addressed_once:
  assumes "reads_back w x q"
  shows "length (filter (\<lambda>(pat, ms). match_path pat (ln_path (line_of w hs q)) \<noteq> None) build_router) = 1"
  using assms
  by (cases q) (simp_all add: route_tables text_read_def i64_read_def segment_walk)

section \<open>The paths of the administrator\<close>

definition admin_endpoints :: "endpoint list" where
  "admin_endpoints = [EpGetSettings, EpSaveSettings, EpClientBuilds, EpFetchRelease, EpListAccounts, EpCreateAccount,
     EpAccountDetail, EpDeleteAccount, EpSetAccountRole, EpDeleteDevice, EpGetRegistration, EpSetRegistration]"

lemma find_route_in: "find_route pm rs p = Some (ms, cs) \<Longrightarrow> \<exists>pat. (pat, ms) \<in> set rs \<and> pm pat p = Some cs"
  by (induction rs) (auto split: option.splits)

lemma under_admin:
  "list_all (\<lambda>(pat, ms). match_path pat (''/api/v1/admin/'' @ rest) = None \<or> set (map snd ms) \<subseteq> set admin_endpoints) build_router"
  by (simp add: route_tables admin_endpoints_def)

lemma admin_endpoint_requests:
  "e \<in> set admin_endpoints \<Longrightarrow> request_of x e cs b = Some q \<Longrightarrow> is_admin_request q"
  by (cases "(x, e, cs, b)" rule: request_of.cases) (auto simp: admin_endpoints_def bind_eq_Some_conv)

lemma admin_line:
  assumes "find_route match_path build_router (''/api/v1/admin/'' @ rest) = Some (ms, cs)" and "map_of ms m = Some e"
  shows "e \<in> set admin_endpoints"
proof -
  from find_route_in [OF assms(1)] obtain pat where "(pat, ms) \<in> set build_router"
    "match_path pat (''/api/v1/admin/'' @ rest) = Some cs" by blast
  moreover have "e \<in> set (map snd ms)" using assms(2) by (force dest: map_of_SomeD)
  ultimately show ?thesis using under_admin [of rest] by (force simp: list_all_iff)
qed

section \<open>Properties\<close>

text \<open>
  C34. Every request reaches its handler: a client that writes a request with its method, its path and its content,
  which the extractors read back, is answered by exactly the handler of that request with exactly its
  arguments, and the server's state afterwards is what the handler leaves.  Exactly one entry of the whole table
  matches the path, whatever the parameters are, so the order of the entries does not matter.
\<close>

theorem every_request_reaches_its_handler:
  assumes "matcher_ok pm" and "reads_back w x q"
  shows "respond pm x assets v (line_of w hs q) st = (Handled (fst (http v hs q st)), snd (http v hs q st)) \<and>
    length (filter (\<lambda>(pat, ms). pm pat (ln_path (line_of w hs q)) \<noteq> None) build_router) = 1"
proof -
  obtain ms cs e where "find_route match_path build_router (ln_path (line_of w hs q)) = Some (ms, cs)"
    "map_of ms (ln_method (line_of w hs q)) = Some e" "e \<noteq> EpWs"
    "request_of x e cs (ln_content (line_of w hs q)) = Some q" "ln_headers (line_of w hs q) = hs"
    using addressed [OF assms(2)] by blast
  then show ?thesis using addressed_once [OF assms(2), of hs] unfolding matcher_unique [OF assms(1)]
    by (simp add: respond_def case_prod_beta)
qed

text \<open>
  C8. The administrator's part of the path space is closed to everyone else: for any method, any path below
  \<open>/api/v1/admin/\<close> and any content, a client that is not an administrator gets a refusal, the answer of the
  router or the public page, and leaves the server as it was, but for database errors that were used up.
\<close>

theorem admin_paths_guarded:
  assumes "matcher_ok pm" and "ln_path l = ''/api/v1/admin/'' @ rest" and "db_wf (app_db st)"
    and "\<And>token acc. cookie_value (ln_headers l) SESSION_COOKIE = Some token \<Longrightarrow>
           session_of (app_db st) token = Some acc \<Longrightarrow> acc_role acc \<noteq> Admin"
  shows "(\<exists>fs. snd (respond pm x assets v l st) = st\<lparr>app_db := (app_db st)\<lparr>faults := fs\<rparr>\<rparr>) \<and>
    fst (respond pm x assets v l st) \<in> {Handled (status_response UNAUTHORIZED), Handled (status_response FORBIDDEN),
       MethodNotAllowed, Rejected, Page (static_handler assets (ln_path l))}"
proof -
  have "\<exists>s. fst (require_admin (ln_headers l) st) = Inl s" by (rule not_admin_refused [OF assms(3)]) (rule assms(4))
  then obtain s where refused: "fst (require_admin (ln_headers l) st) = Inl s" by blast
  have same: "\<exists>fs. st = st\<lparr>app_db := (app_db st)\<lparr>faults := fs\<rparr>\<rparr>" by (rule exI [of _ "faults (app_db st)"]) simp
  show ?thesis
  proof (cases "find_route match_path build_router (ln_path l)")
    case None
    then show ?thesis using same by (simp add: respond_def matcher_unique [OF assms(1)])
  next
    case (Some r)
    obtain ms cs where r: "r = (ms, cs)" by fastforce
    show ?thesis
    proof (cases "map_of ms (ln_method l)")
      case None
      then show ?thesis using Some r same by (simp add: respond_def matcher_unique [OF assms(1)])
    next
      case e: (Some e)
      have ad: "e \<in> set admin_endpoints" using admin_line e Some r assms(2) by simp
      then have nws: "e \<noteq> EpWs" by (auto simp: admin_endpoints_def)
      show ?thesis
      proof (cases "request_of x e cs (ln_content l)")
        case None
        then show ?thesis using Some r e nws same by (simp add: respond_def matcher_unique [OF assms(1)])
      next
        case q: (Some q)
        have "is_admin_request q" using admin_endpoint_requests [OF ad q] .
        from admin_refused [OF this refused, of v] show ?thesis
          using Some r e q nws by (auto simp: respond_def matcher_unique [OF assms(1)] case_prod_beta)
      qed
    qed
  qed
qed

text \<open>
  Every path outside the tables gets the web interface's answer and changes nothing: with the interface
  built in this is a page with status 200, also for a mistyped path below \<open>/api/v1\<close>, which the API never
  answers with an error of its own.
\<close>

theorem unknown_paths_get_the_page:
  assumes "matcher_ok pm" and "assets ''index.html'' = Some index"
    and "list_all (\<lambda>(pat, ms). \<forall>cs. path_text pat cs \<noteq> Some (ln_path l)) build_router"
  shows "\<exists>f. respond pm x assets v l st = (Page (serve f), st) \<and> asset_status (serve f) = OK \<and>
    (assets (dropWhile (\<lambda>c. c = CHR ''/'') (ln_path l)) = None \<longrightarrow> f = index)"
proof -
  have "find_route pm rs (ln_path l) = None"
    if "list_all (\<lambda>(pat, ms). \<forall>cs. path_text pat cs \<noteq> Some (ln_path l)) rs" for rs
    using that
  proof (induction rs)
    case (Cons r rs)
    have "pm (fst r) (ln_path l) = None"
      using assms(1) Cons.prems by (cases "pm (fst r) (ln_path l)") (auto simp: matcher_ok_def)
    then show ?case using Cons by (cases r) simp
  qed simp
  then have "respond pm x assets v l st = (Page (static_handler assets (ln_path l)), st)"
    using assms(3) by (simp add: respond_def)
  then show ?thesis using static_handler_built [where assets = assets and index = index, OF assms(2)]
    by (auto simp: serve_def split: option.split)
qed

section \<open>Witnesses\<close>

text \<open>Parameters without characters to escape, and contents that are not looked at.\<close>

definition wit_writes :: client_writes where
  "wit_writes = \<lparr>w_text = (\<lambda>t. t), w_i64 = (\<lambda>_. ''7''), w_register = (\<lambda>_. []), w_login = (\<lambda>_. []),
     w_settings = (\<lambda>_. []), w_account = (\<lambda>_. []), w_role = (\<lambda>_. [1]), w_enabled = (\<lambda>_. [])\<rparr>"

definition wit_extractors :: extractors where
  "wit_extractors = \<lparr>x_text = Some, x_i64 = (\<lambda>s. if s = ''7'' then Some 7 else None), x_register = (\<lambda>_. None), x_login = (\<lambda>_. None),
     x_settings = (\<lambda>_. None), x_account = (\<lambda>_. None), x_role = (\<lambda>b. if b = [1] then Some Admin else None),
     x_enabled = (\<lambda>_. None), x_upgrade = (\<lambda>_ _. False)\<rparr>"

theorem every_request_reaches_its_handler_witness:
  "respond match_path wit_extractors Map.empty wit_http \<lparr>ln_method = PUT, ln_path = ''/api/v1/admin/accounts/7/role'',
     ln_headers = with_cookies [], ln_content = [1]\<rparr> wit_app =
   (Handled (fst (http wit_http (with_cookies []) (PutAccountRole 7 Admin) wit_app)),
    snd (http wit_http (with_cookies []) (PutAccountRole 7 Admin) wit_app))"
proof -
  have "reads_back wit_writes wit_extractors (PutAccountRole 7 Admin)"
    by (simp add: wit_writes_def wit_extractors_def i64_read_def path_segment_def)
  from every_request_reaches_its_handler [OF match_path_ok this, of Map.empty wit_http "with_cookies []" wit_app]
  show ?thesis by (simp add: wit_writes_def del: http.simps)
qed

theorem admin_paths_guarded_witness:
  "\<exists>fs. snd (respond match_path wit_extractors Map.empty wit_http \<lparr>ln_method = DELETE, ln_path = ''/api/v1/admin/accounts/1'',
     ln_headers = with_cookies [], ln_content = []\<rparr> wit_app) = wit_app\<lparr>app_db := (app_db wit_app)\<lparr>faults := fs\<rparr>\<rparr>"
proof -
  let ?l = "\<lparr>ln_method = DELETE, ln_path = ''/api/v1/admin/accounts/1'', ln_headers = with_cookies [], ln_content = []\<rparr>"
  have "ln_path ?l = ''/api/v1/admin/'' @ ''accounts/1''" by simp
  moreover have "db_wf (app_db wit_app)" using wit_admin_wf by (simp add: wit_app_def)
  moreover have "cookie_value (ln_headers ?l) SESSION_COOKIE = None" by (simp add: cookie_value_def with_cookies_def cookie_part_def trim_def trim_start_def SESSION_COOKIE_def)
  ultimately show ?thesis using admin_paths_guarded [OF match_path_ok, of ?l "''accounts/1''" wit_app] by simp
qed

theorem unknown_paths_get_the_page_witness:
  "\<exists>f. respond match_path wit_extractors [''index.html'' \<mapsto> \<lparr>mimetype = ''text/html'', file_data = [60]\<rparr>] wit_http
     \<lparr>ln_method = GET, ln_path = ''/api/v1/device'', ln_headers = with_cookies [], ln_content = []\<rparr> wit_app =
     (Page (serve f), wit_app) \<and> asset_status (serve f) = OK"
proof -
  let ?l = "\<lparr>ln_method = GET, ln_path = ''/api/v1/device'', ln_headers = with_cookies [], ln_content = []\<rparr>"
  have "list_all (\<lambda>(pat, ms). match_path pat (ln_path ?l) = None) build_router"
    by (simp add: route_tables)
  then have "list_all (\<lambda>(pat, ms). \<forall>cs. path_text pat cs \<noteq> Some (ln_path ?l)) build_router"
    by (rule list.pred_mono_strong) (auto dest: match_path_complete)
  from unknown_paths_get_the_page [OF match_path_ok _ this, of "[''index.html'' \<mapsto> \<lparr>mimetype = ''text/html'', file_data = [60]\<rparr>]"]
  show ?thesis by auto
qed

end
