(* ===== verification/Stored_Types.thy ===== *)
theory Stored_Types
  imports Server_Properties
begin

text \<open>
  The shape of the server's data in every reachable state: the role column holds one of the two texts that
  \<open>as_str\<close> writes, although the schema would take any and \<open>from_column\<close> reads any, and device ids and one-time
  passwords have the shape that the generators print and the web interface shows.
\<close>

section \<open>Shapes\<close>

definition role_typed :: "account_row \<Rightarrow> bool" where
  "role_typed r \<longleftrightarrow> as_str (from_column (ar_role r)) = ar_role r"

text \<open>Groups of digits of the given lengths, with a space between them.\<close>

definition digit_groups :: "nat list \<Rightarrow> string \<Rightarrow> bool" where
  "digit_groups ns s \<longleftrightarrow> map length (split_on (CHR '' '') s) = ns \<and> list_all (list_all is_digit) (split_on (CHR '' '') s)"

abbreviation device_number :: "string \<Rightarrow> bool" where
  "device_number \<equiv> digit_groups [3, 3, 3]"

abbreviation access_code :: "string \<Rightarrow> bool" where
  "access_code \<equiv> digit_groups [4, 4]"

lemma digits_no_space: "list_all is_digit s \<Longrightarrow> CHR '' '' \<notin> set s"
  by (auto simp: list_all_iff is_digit_def)

lemmas padded = pad0_digits length_pad0 digits_no_space [OF pad0_digits] split_on_append_sep split_on_no_sep

lemma generated_device: "entropy_ok r \<Longrightarrow> device_number (generate_device_id r)"
  by (cases "rnd_device r") (simp add: digit_groups_def generate_device_id_def entropy_ok_def padded)

lemma generated_code: "entropy_ok r \<Longrightarrow> access_code (generate_one_time_password r)"
  by (cases "rnd_otp r") (simp add: digit_groups_def generate_one_time_password_def entropy_ok_def padded)

section \<open>The tables\<close>

definition db_typed :: "db \<Rightarrow> bool" where
  "db_typed d \<longleftrightarrow> (\<forall>r \<in> set (accounts_tbl d). role_typed r) \<and> (\<forall>r \<in> set (devices_tbl d). device_number (dr_id r))"

definition keeps_types :: "'a db_op \<Rightarrow> bool" where
  "keeps_types op \<longleftrightarrow> (\<forall>d. db_typed d \<longrightarrow> db_typed (snd (op d)))"

lemma keeps_typesD: "keeps_types op \<Longrightarrow> db_typed d \<Longrightarrow> db_typed (snd (op d))"
  by (simp add: keeps_types_def)

lemma db_typed_faults [simp]: "db_typed (d\<lparr>faults := fs\<rparr>) = db_typed d"
  by (simp add: db_typed_def)

lemma stmt_keeps_types: "(\<And>d. db_typed d \<Longrightarrow> db_typed (snd (b d))) \<Longrightarrow> keeps_types (stmt b)"
  by (simp add: keeps_types_def stmt_def split: list.split option.split)

lemma role_typed_as_str [simp]: "role_typed (r\<lparr>ar_role := as_str x\<rparr>)"
  by (cases x) (simp_all add: role_typed_def from_column_def)

lemma new_role_typed: "ar_role r = as_str x \<Longrightarrow> role_typed r"
  by (cases x) (simp_all add: role_typed_def from_column_def)

lemma account_ops_keep_types:
  "keeps_types (create_account e h role)" "keeps_types (set_account_role i role)"
  "keeps_types (delete_account i)"
proof -
  show "keeps_types (create_account e h role)" unfolding create_account_def
    by (rule stmt_keeps_types) (auto simp: db_typed_def Let_def intro: new_role_typed)
  show "keeps_types (set_account_role i role)" unfolding set_account_role_def
    by (rule stmt_keeps_types) (auto simp: db_typed_def)
  show "keeps_types (delete_account i)"
    unfolding keeps_types_def
  proof (intro allI impI)
    fix d
    assume t: "db_typed d"
    show "db_typed (snd (delete_account i d))"
    proof (cases "fst (delete_account i d)")
      case (Inl e)
      then show ?thesis using t delete_account.atomic [of i d e] by (simp add: db_typed_def same_tables_iff)
    next
      case (Inr u)
      then have "delete_account i d = (Inr (), snd (delete_account i d))" by (metis prod.collapse old.unit.exhaust)
      from delete_account_Inr [OF this] show ?thesis using t by (auto simp: db_typed_def)
    qed
  qed
qed

lemma device_ops_keep_types:
  "device_number di \<Longrightarrow> keeps_types (create_device di i name)" "keeps_types (set_unattended_password_hash dj h)"
  "keeps_types (delete_device dj)"
  unfolding create_device_def set_unattended_password_hash_def delete_device_def
  by (rule stmt_keeps_types, force simp: db_typed_def)+

lemma bootstrap_keeps_types: "keeps_types (create_account_and_maybe_bootstrap_admin e h)"
  unfolding keeps_types_def
proof (intro allI impI)
  fix d
  assume "db_typed d"
  then have c: "db_typed (snd (count_accounts d))" by (simp add: db_typed_def)
  then have "db_typed (snd (create_account e h role (snd (count_accounts d))))" for role
    using account_ops_keep_types(1) keeps_typesD by blast
  then show "db_typed (snd (create_account_and_maybe_bootstrap_admin e h d))" using c
    by (simp add: create_account_and_maybe_bootstrap_admin_def case_prod_beta Let_def db_typed_def split: sum.split)
qed

section \<open>Messages and requests\<close>

lemma session_ops_keep_types:
  "keeps_types (create_session t i)" "keeps_types (delete_session t)" "keeps_types (set_setting k v)"
  "keeps_types (set_registration_enabled b)"
  by (simp_all add: keeps_types_def db_typed_def)

lemma queries_keep_types: "db_query op \<Longrightarrow> db_typed (snd (op d)) = db_typed d"
  by (simp add: db_typed_def)

lemmas typed_ops = account_ops_keep_types [THEN keeps_typesD] device_ops_keep_types [THEN keeps_typesD]
  bootstrap_keeps_types [THEN keeps_typesD] session_ops_keep_types [THEN keeps_typesD] queries_keep_types generated_device

lemma message_keeps_types:
  "entropy_ok r \<Longrightarrow> db_typed (app_db st) \<Longrightarrow> db_typed (app_db (snd (snd (handle_message c r m cid cn st))))"
  by (cases m) (simp_all add: ws_arms ws_eval typed_ops Let_def split: sum.split option.split conn_state.split)

lemma release_devices [simp]:
  "devices_tbl (app_db (snd (setting_or_none k st))) = devices_tbl (app_db st)"
  "devices_tbl (app_db (snd (fetch_one_platform alt io rel p st))) = devices_tbl (app_db st)"
  by (simp_all add: setting_or_none_snd fetch_one_platform_def http_eval split: option.split sum.split)

lemma entry_devices [simp]:
  "devices_tbl (app_db (snd (client_build_status io p st))) = devices_tbl (app_db st)"
  "devices_tbl (app_db (snd (download_entry detected p st))) = devices_tbl (app_db st)"
  by (simp_all add: client_build_status_def download_entry_def Let_def case_prod_beta split: option.split template_source.split)

lemma listing_devices [simp]:
  "devices_tbl (app_db (snd (fetch_platforms alt io rel ps st))) = devices_tbl (app_db st)"
  "devices_tbl (app_db (snd (client_build_statuses io ps st))) = devices_tbl (app_db st)"
  "devices_tbl (app_db (snd (download_entries detected ps st))) = devices_tbl (app_db st)"
  by (induction ps arbitrary: st) (simp_all add: case_prod_beta)

lemma reads_typed [simp]:
  "db_typed (app_db (snd (setting_or_none k st))) = db_typed (app_db st)"
  "db_typed (app_db (snd (current_account hs st))) = db_typed (app_db st)"
  "db_typed (app_db (snd (guard_last_admin alt i st))) = db_typed (app_db st)"
  "db_typed (app_db (snd (fetch_and_store alt io repo st))) = db_typed (app_db st)"
  "db_typed (app_db (snd (client_build_statuses io ps st))) = db_typed (app_db st)"
  "db_typed (app_db (snd (download_entries detected ps st))) = db_typed (app_db st)"
  by (simp_all add: db_typed_def guard_last_admin_def http_eval fetch_and_store_snd split: sum.split option.split)

lemma request_keeps_types:
  "db_typed (app_db st) \<Longrightarrow> db_typed (app_db (snd (http v hs q st)))"
  by (cases q)
    (simp_all add: login_def start_session_def logout_def me_def registration_status_def list_devices_def
      delete_own_def get_settings_def save_settings_def client_builds_def fetch_release_def register_def
      list_accounts_def account_detail_def admin_delete_device_def get_registration_def admin_create_account_def
      admin_delete_account_def admin_set_account_role_def set_registration_def download_list_def download_platform_def
      http_eval typed_ops split: sum.split option.split bool.split)

lemma message_device_id:
  "my_device_id (fst (snd (handle_message c r m cid cn st))) \<in> {my_device_id cn, Some (generate_device_id r)}"
  by (cases m) (simp_all add: ws_arms ws_eval announce_device_def Let_def split: sum.split option.split conn_state.split)

lemma request_otp:
  "otp (snd (http v hs q st)) di = Some code \<Longrightarrow> otp st di = Some code"
  by (cases q)
    (simp_all add: register_def login_def start_session_def logout_def me_def registration_status_def
      list_devices_def delete_own_def get_settings_def save_settings_def client_builds_def
      fetch_release_def list_accounts_def account_detail_def admin_delete_device_def
      get_registration_def set_registration_def download_list_def download_platform_def
      admin_create_account_def admin_delete_account_def admin_set_account_role_def http_eval
      fetch_and_store_snd split: sum.splits option.splits bool.splits if_splits)

section \<open>The invariant\<close>

definition server_typed :: "server \<Rightarrow> bool" where
  "server_typed s \<longleftrightarrow> db_typed (app_db (shared s)) \<and> (\<forall>code \<in> ran (otp (shared s)). access_code code) \<and>
     (\<forall>cn \<in> ran (tasks s). \<forall>di. my_device_id cn = Some di \<longrightarrow> device_number di)"

text \<open>Steps whose random draws are in the ranges that \<open>gen_range\<close> gives.\<close>

fun draws_ok :: "event \<Rightarrow> bool" where
  "draws_ok (TextMessage c r m cid) = entropy_ok r"
| "draws_ok _ = True"

definition typed_start :: "server \<Rightarrow> bool" where
  "typed_start s \<longleftrightarrow> server_start s \<and> db_typed (app_db (shared s))"

definition typed_step :: "event \<Rightarrow> server \<Rightarrow> server \<Rightarrow> bool" where
  "typed_step e s t \<longleftrightarrow> server_step e s t \<and> draws_ok e"

lemma text_keeps_typed:
  assumes "server_typed s" and "tasks s cid = Some cn" and "ws_text c r m cid cn (shared s) = (cn', st')" and "entropy_ok r"
  shows "server_typed (s\<lparr>shared := st', tasks := (tasks s)(cid \<mapsto> cn')\<rparr>)"
proof -
  have t: "cn' = fst (snd (handle_message c r m cid cn (shared s)))"
    "app_db st' = app_db (snd (snd (handle_message c r m cid cn (shared s))))"
    using assms(3) by (auto simp: ws_text_eq split: sum.splits)
  have cn: "my_device_id cn = Some di \<Longrightarrow> device_number di" for di
    using assms(1,2) by (auto simp: server_typed_def ran_def)
  have "db_typed (app_db st')"
    using message_keeps_types [OF assms(4)] assms(1) by (simp add: t(2) server_typed_def)
  moreover have "device_number di" if "my_device_id cn' = Some di" for di
    using message_device_id [of c r m cid cn "shared s"] cn generated_device [OF assms(4)] that t(1) by auto
  moreover have "access_code code" if new: "otp st' di = Some code" for di code
  proof -
    have "otp (shared s) di = Some code \<Longrightarrow> access_code code"
      using assms(1) by (auto simp: server_typed_def ran_def)
    then show ?thesis using ws_text_presence [OF assms(3)] generated_code [OF assms(4)] new
      by (auto simp: same_presence_def announces_def split: if_splits)
  qed
  ultimately show ?thesis using assms(1) by (auto simp: server_typed_def ran_def split: if_splits)
qed

lemma typed_step_typed: "server_typed s \<Longrightarrow> typed_step e s t \<Longrightarrow> server_typed t"
  unfolding typed_step_def
proof (elim conjE server_stepE)
  fix v hs q resp st'
  assume "server_typed s" and "http v hs q (shared s) = (resp, st')" and t: "t = s\<lparr>shared := st'\<rparr>"
  then show "server_typed t"
    using request_keeps_types [of "shared s" v hs q] request_otp [of v hs q "shared s"]
    by (auto simp: server_typed_def ran_def)
qed (auto simp: text_keeps_typed,
    auto simp: server_typed_def ran_def ws_open_def ws_malformed_def ws_close_def send_task_sends_def send_task_breaks_def
      drop_receiver_def db_typed_def Let_def split: option.splits if_splits)

lemma typed_start_typed: "typed_start s \<Longrightarrow> server_inv s \<and> server_typed s"
  by (simp add: typed_start_def server_inv_start, simp add: server_typed_def server_start_def)

lemma typed_step_inv: "server_inv s \<Longrightarrow> typed_step e s t \<Longrightarrow> server_inv t"
  unfolding typed_step_def using server_step_inv by blast

interpretation typed_machine: machine typed_start typed_step "\<lambda>s. server_inv s \<and> server_typed s"
  by unfold_locales (blast intro: typed_start_typed [THEN conjunct1] typed_start_typed [THEN conjunct2]
      typed_step_inv typed_step_typed)+

section \<open>Properties\<close>

text \<open>
  C35. What the server stores has its type, in every reachable state and whatever clients send and the engine
  refuses: a role is stored as one of the two texts of \<open>as_str\<close>, so reading it back loses nothing; ids of
  stored and of online devices are three groups of three digits, and one-time passwords two groups of four.
\<close>

theorem stored_values_typed:
  assumes "reachable typed_start typed_step s"
  shows "(\<forall>r \<in> set (accounts_tbl (app_db (shared s))). as_str (acc_role (map_account_row r)) = ar_role r) \<and>
    (\<forall>r \<in> set (devices_tbl (app_db (shared s))). device_number (dr_id r)) \<and>
    (\<forall>di \<in> dom (device_online (shared s)). device_number di) \<and>
    (\<forall>di code. otp (shared s) di = Some code \<longrightarrow> device_number di \<and> access_code code)"
proof -
  have i: "server_inv s" "server_typed s" using typed_machine.invariant [OF assms] by blast+
  have "device_number di" if "di \<in> dom (device_online (shared s))" for di
    using i that unfolding server_inv_def presence_ok_def server_typed_def by (fastforce simp: ran_def)
  moreover have "di \<in> dom (device_online (shared s))" if "otp (shared s) di = Some code" for di code
    using i(1) that unfolding server_inv_def presence_ok_def by blast
  ultimately show ?thesis using i
    by (auto simp: server_typed_def db_typed_def role_typed_def map_account_row_def ran_def)
qed

theorem stored_values_typed_witness:
  "list_all (\<lambda>r. as_str (acc_role (map_account_row r)) = ar_role r) (accounts_tbl (app_db (shared wit_registered)))"
proof -
  have "typed_start wit_server"
    using wit_server_start by (simp add: typed_start_def fresh_start_def db_typed_def wit_server_def wit_db_def)
  moreover have "typed_step (Open ''k'') wit_server wit_joined"
    using wit_open_step by (simp add: typed_step_def healthy_step_def)
  ultimately have r: "reachable typed_start typed_step wit_joined" by (blast intro: reach_step reach_init)
  have "server_step (TextMessage wit_crypto wit_entropy (Register ''a@b'' ''pw'') ''k'') wit_joined wit_registered"
    unfolding wit_registered_def by (rule step_text) (simp_all add: wit_joined_def)
  moreover have "entropy_ok wit_entropy" by (simp add: entropy_ok_def wit_entropy_def is_alnum_def)
  ultimately have "typed_step (TextMessage wit_crypto wit_entropy (Register ''a@b'' ''pw'') ''k'') wit_joined wit_registered"
    by (simp add: typed_step_def)
  with r have "reachable typed_start typed_step wit_registered" by (rule reach_step)
  from stored_values_typed [OF this] show ?thesis by (simp add: list_all_iff)
qed

end
