(* ===== verification/Device_Life.thy ===== *)
theory Device_Life
  imports Server_Properties
begin

text \<open>
  The life of a device id.  \<open>RegisterDevice\<close> (\<^verbatim>\<open>visuara-signaling/src/ws.rs\<close>) draws a new id the first
  time a connection uses it and keeps the id in the state of that connection only.  So a device is
  online exactly as long as the connection that created it: every online device is traced back to the
  message that created it, and once that connection is closed the device, its one-time password and its
  fixed password are of no use to anybody, although its row stays.
\<close>

section \<open>Runs\<close>

lemma server_run_append [simp]:
  "server_run (es @ fs) s t \<longleftrightarrow> (\<exists>u. server_run es s u \<and> server_run fs u t)"
  by (induction es arbitrary: s) auto

lemma server_run_inv: "server_run es s t \<Longrightarrow> server_inv s \<Longrightarrow> server_inv t"
  by (induction es arbitrary: s) (auto dest: server_step_inv)

section \<open>Where an id comes from\<close>

text \<open>The event is a \<open>RegisterDevice\<close> of the connection for which the generator gives the id.\<close>

fun registers :: "device_id \<Rightarrow> conn_id \<Rightarrow> event \<Rightarrow> bool" where
  "registers di cid (TextMessage c r (RegisterDevice name) k) \<longleftrightarrow> k = cid \<and> generate_device_id r = di"
| "registers di cid _ \<longleftrightarrow> False"

text \<open>Before the event the connection is signed in and has no device; the event adds the row of the
  device, without a fixed password.\<close>

definition creates_device :: "device_id \<Rightarrow> conn_id \<Rightarrow> server \<Rightarrow> server \<Rightarrow> bool" where
  "creates_device di cid u v \<longleftrightarrow>
     (\<exists>i name now. tasks u cid = Some \<lparr>conn_state = Authenticated i, my_device_id = None\<rparr> \<and>
        devices_tbl (app_db (shared v)) = devices_tbl (app_db (shared u)) @
          [\<lparr>dr_id = di, dr_account_id = i, dr_name = name, dr_unattended_password_hash = None, dr_created_at = now\<rparr>])"

lemma create_device_row:
  "fst (create_device di i name d) = Inr u \<Longrightarrow>
   devices_tbl (snd (create_device di i name d)) = devices_tbl d @
     [\<lparr>dr_id = di, dr_account_id = i, dr_name = name, dr_unattended_password_hash = None, dr_created_at = wall_clock d\<rparr>]"
  by (auto simp: create_device_def stmt_def split: list.splits option.splits if_splits)

lemma announce_frame [simp]:
  "fst (snd (announce_device r cid di cn st)) = cn"
  "app_db (snd (snd (announce_device r cid di cn st))) = app_db st"
  by (simp_all add: announce_device_def Let_def)

lemma other_messages_keep_device:
  "\<forall>name. m \<noteq> RegisterDevice name \<Longrightarrow> my_device_id (fst (snd (handle_message c r m cid cn st))) = my_device_id cn"
  by (cases m) (simp_all add: ws_arms ws_eval Let_def split: sum.split option.split conn_state.split)

lemma new_device:
  assumes "my_device_id (fst (snd (ws_register_device r cid name cn st))) = Some di" and "my_device_id cn \<noteq> Some di"
  shows "\<exists>i. cn = \<lparr>conn_state = Authenticated i, my_device_id = None\<rparr> \<and> di = generate_device_id r \<and>
    devices_tbl (app_db (snd (snd (ws_register_device r cid name cn st)))) = devices_tbl (app_db st) @
      [\<lparr>dr_id = di, dr_account_id = i, dr_name = name, dr_unattended_password_hash = None,
        dr_created_at = wall_clock (app_db st)\<rparr>]"
proof (cases "conn_state cn")
  case Unauthenticated
  then show ?thesis using assms by (simp add: ws_register_device_def require_auth_def)
next
  case (Authenticated i)
  show ?thesis
  proof (cases "my_device_id cn")
    case (Some dj)
    then show ?thesis using assms Authenticated by (simp add: ws_register_device_def require_auth_def)
  next
    case None
    show ?thesis
    proof (cases "fst (create_device (generate_device_id r) i name (app_db st))")
      case (Inl e)
      then show ?thesis using assms Authenticated None by (simp add: ws_register_device_def ws_eval)
    next
      case (Inr u)
      then show ?thesis
        using assms Authenticated None create_device_row [OF Inr] by (cases cn) (simp add: ws_register_device_def ws_eval)
    qed
  qed
qed

lemma text_new_device:
  assumes "tasks s cid = Some cn" and "ws_text c r m cid cn (shared s) = (cn', st')"
    and "my_device_id cn' = Some di" and "my_device_id cn \<noteq> Some di"
  shows "registers di cid (TextMessage c r m cid) \<and>
    creates_device di cid s (s\<lparr>shared := st', tasks := (tasks s)(cid \<mapsto> cn')\<rparr>)"
proof -
  have t: "cn' = fst (snd (handle_message c r m cid cn (shared s)))"
    "app_db st' = app_db (snd (snd (handle_message c r m cid cn (shared s))))"
    using assms(2) by (auto simp: ws_text_eq split: sum.splits)
  with assms(3,4) obtain name where m: "m = RegisterDevice name"
    using other_messages_keep_device [of m c r cid cn "shared s"] by metis
  have "my_device_id (fst (snd (ws_register_device r cid name cn (shared s)))) = Some di"
    using assms(3) t(1) m by simp
  from new_device [OF this assms(4)] show ?thesis
    using assms(1) t m by (auto simp: creates_device_def)
qed

section \<open>One step\<close>

text \<open>A connection that has a device after a step had it before, or has just created it; and it was
  not the one that closed.\<close>

lemma step_owner:
  assumes "server_step e s t" and "tasks t cid = Some cn'" and "my_device_id cn' = Some di"
  shows "e \<noteq> Close cid \<and>
    ((\<exists>cn. tasks s cid = Some cn \<and> my_device_id cn = Some di) \<or> registers di cid e \<and> creates_device di cid s t)"
  using assms(1)
proof cases
  case (step_text k cn c r m cn2 st')
  show ?thesis
  proof (cases "k = cid")
    case True
    then have "cn2 = cn'" using assms(2) step_text(2) by simp
    then show ?thesis using step_text True assms(3) text_new_device [of s cid cn c r m cn2 st' di] by auto
  next
    case False
    then show ?thesis using assms(2,3) step_text(1,2) by auto
  qed
qed (use assms(2,3) in \<open>auto simp: ws_open_def split: if_splits\<close>)

text \<open>No connection has the device.\<close>

definition unowned :: "device_id \<Rightarrow> server \<Rightarrow> bool" where
  "unowned di s \<longleftrightarrow> (\<forall>cid cn. tasks s cid = Some cn \<longrightarrow> my_device_id cn \<noteq> Some di)"

lemma run_unowned:
  "server_run es s t \<Longrightarrow> unowned di s \<Longrightarrow> \<forall>e \<in> set es. \<forall>cid. \<not> registers di cid e \<Longrightarrow> unowned di t"
proof (induction es arbitrary: s)
  case (Cons e es)
  then obtain u where u: "server_step e s u" "server_run es u t" by auto
  have "unowned di u"
    unfolding unowned_def using step_owner [OF u(1)] Cons.prems(2,3) by (fastforce simp: unowned_def)
  then show ?case using Cons u(2) by auto
qed simp

lemma unowned_offline:
  assumes "server_inv s" and "unowned di s"
  shows "device_online (shared s) di = None \<and> otp (shared s) di = None"
proof -
  have "device_online (shared s) di = None"
    using assms unfolding server_inv_def presence_ok_def unowned_def by (meson not_None_eq)
  then show ?thesis using assms(1) unfolding server_inv_def presence_ok_def by (metis domIff)
qed

lemma close_unowns:
  assumes "server_step (Close cid) s t" and "\<forall>k cn. tasks s k = Some cn \<and> my_device_id cn = Some di \<longrightarrow> k = cid"
  shows "unowned di t"
  using assms(1) by cases (use assms(2) in \<open>auto simp: unowned_def split: if_splits\<close>)

text \<open>A connection to a device that is offline: refused, whatever the credential, with no session.\<close>

lemma offline_refused:
  assumes "device_online st di = None"
  shows "sessions (snd (snd (ws_request_connection c r k di cred cn st))) = sessions st"
    and "conn_state cn = Authenticated i \<Longrightarrow> find_device di (app_db st) = (Inr (Some dev), d) \<Longrightarrow>
      credential_ok c st di dev cred \<Longrightarrow> fst (ws_request_connection c r k di cred cn st) = Inl ''device is offline''"
proof -
  show "sessions (snd (snd (ws_request_connection c r k di cred cn st))) = sessions st"
    using assms by (simp add: ws_request_connection_def ws_eval split: sum.split option.split conn_state.split)
  assume a: "conn_state cn = Authenticated i" "find_device di (app_db st) = (Inr (Some dev), d)" "credential_ok c st di dev cred"
  have "credential_ok c (st\<lparr>app_db := d\<rparr>) di dev cred"
    using a(3) by (simp add: credential_ok_def split: connect_credential.splits)
  then show "fst (ws_request_connection c r k di cred cn st) = Inl ''device is offline''"
    using assms a(1,2) by (simp add: ws_request_connection_def ws_eval)
qed

section \<open>Properties\<close>

lemma run_owner:
  assumes "server_run es s0 t" and "server_start s0" and "tasks t cid = Some cn" and "my_device_id cn = Some di"
  shows "\<exists>es1 e es2 u v. es = es1 @ e # es2 \<and> server_run es1 s0 u \<and> server_step e u v \<and> server_run es2 v t \<and>
    registers di cid e \<and> creates_device di cid u v \<and> Close cid \<notin> set es2"
  using assms
proof (induction es arbitrary: t cn rule: rev_induct)
  case Nil
  then show ?case by (simp add: server_start_def)
next
  case (snoc e es)
  then obtain w where w: "server_run es s0 w" "server_step e w t" by auto
  note o = step_owner [OF w(2) snoc.prems(3,4)]
  show ?case
  proof (cases "\<exists>cn. tasks w cid = Some cn \<and> my_device_id cn = Some di")
    case True
    then obtain es1 e1 es2 u v where i: "es = es1 @ e1 # es2" "server_run es1 s0 u" "server_step e1 u v"
      "server_run es2 v w" "registers di cid e1" "creates_device di cid u v" "Close cid \<notin> set es2"
      using snoc.IH [OF w(1) snoc.prems(2)] by blast
    have "server_run (es2 @ [e]) v t" using i(4) w(2) by auto
    moreover have "Close cid \<notin> set (es2 @ [e])" using i(7) o by auto
    ultimately show ?thesis using i(1-3,5,6) by (metis append.assoc append_Cons)
  next
    case False
    then have "registers di cid e \<and> creates_device di cid w t" using o by blast
    then show ?thesis using w by (intro exI [of _ es] exI [of _ e] exI [of _ "[]"] exI [of _ w] exI [of _ t]) simp
  qed
qed

text \<open>
  C14. Every device that is online is traced back to the message that created it: in any run of the server
  from its start, a device that is online at a connection was created by a \<open>RegisterDevice\<close> of that
  same connection, which was signed in and had no device before; the message drew the id and added
  its row, without a fixed password; and the connection has not been closed since.
\<close>

theorem online_device_traced:
  assumes "server_start s0" and "server_run es s0 t" and "device_online (shared t) di = Some cid"
  shows "\<exists>es1 e es2 u v. es = es1 @ e # es2 \<and> server_run es1 s0 u \<and> server_step e u v \<and> server_run es2 v t \<and>
    registers di cid e \<and> creates_device di cid u v \<and> Close cid \<notin> set es2"
proof -
  from assms(3) server_run_inv [OF assms(2) server_inv_start [OF assms(1)]]
  obtain cn where "tasks t cid = Some cn" "my_device_id cn = Some di"
    unfolding server_inv_def presence_ok_def by blast
  then show ?thesis by (rule run_owner [OF assms(2,1)])
qed

text \<open>The first connection of a fresh server signs up and registers a device.\<close>

definition wit_hosting :: server where
  "wit_hosting = wit_registered\<lparr>
     shared := snd (ws_text wit_crypto wit_entropy (RegisterDevice ''pc'') ''k''
        \<lparr>conn_state = Authenticated 1, my_device_id = None\<rparr> (shared wit_registered)),
     tasks := (tasks wit_registered)(''k'' \<mapsto> fst (ws_text wit_crypto wit_entropy (RegisterDevice ''pc'') ''k''
        \<lparr>conn_state = Authenticated 1, my_device_id = None\<rparr> (shared wit_registered)))\<rparr>"

abbreviation wit_hosting_events :: "event list" where
  "wit_hosting_events \<equiv> [Open ''k'', TextMessage wit_crypto wit_entropy (Register ''a@b'' ''pw'') ''k'',
     TextMessage wit_crypto wit_entropy (RegisterDevice ''pc'') ''k'']"

lemmas wit_signup_eval = ws_text_eq ws_register_def ws_eval wit_joined_def wit_server_def ws_open_def
  wit_app_def wit_db_def registration_enabled_def get_setting_def and_then_def stmt_def hash_password_def
  wit_crypto_def wit_entropy_def create_account_and_maybe_bootstrap_admin_def count_accounts_def
  create_account_def set_registration_enabled_def set_setting_def reply_def send_def

lemma wit_registered_conn: "tasks wit_registered ''k'' = Some \<lparr>conn_state = Authenticated 1, my_device_id = None\<rparr>"
  by (simp add: wit_registered_def wit_signup_eval)

lemma wit_registered_db: "list_ex (\<lambda>r. ar_id r = 1) (accounts_tbl (app_db (shared wit_registered))) \<and>
    devices_tbl (app_db (shared wit_registered)) = [] \<and> faults (app_db (shared wit_registered)) = []"
  by (simp add: wit_registered_def wit_signup_eval)

lemma wit_hosting_run: "server_run wit_hosting_events wit_server wit_hosting"
proof -
  have "server_step (TextMessage wit_crypto wit_entropy (Register ''a@b'' ''pw'') ''k'') wit_joined wit_registered"
    unfolding wit_registered_def by (rule step_text) (simp_all add: wit_joined_def)
  moreover have "server_step (TextMessage wit_crypto wit_entropy (RegisterDevice ''pc'') ''k'') wit_registered wit_hosting"
    unfolding wit_hosting_def by (rule step_text [OF wit_registered_conn]) simp
  ultimately show ?thesis using wit_open_step by (auto simp: healthy_step_def)
qed

lemma wit_device_id: "generate_device_id wit_entropy = ''012 345 006''"
  by code_simp

lemma wit_hosting_online: "device_online (shared wit_hosting) ''012 345 006'' = Some ''k''"
  using wit_registered_db
  by (simp add: wit_hosting_def ws_text_eq ws_register_device_def ws_eval announce_device_def create_device_def
      stmt_def account_exists_def wit_device_id split: sum.split)

theorem online_device_traced_witness:
  "\<exists>e \<in> set wit_hosting_events. registers ''012 345 006'' ''k'' e"
proof -
  have "server_start wit_server" using wit_server_start by (simp add: fresh_start_def)
  from online_device_traced [OF this wit_hosting_run wit_hosting_online]
  obtain es1 e es2 where "wit_hosting_events = es1 @ e # es2" "registers ''012 345 006'' ''k'' e" by blast
  then show ?thesis by (metis in_set_conv_decomp)
qed

text \<open>
  C13. A device does not survive the connection that registered it.  After that connection is closed, in every
  state that any events can lead to in which no later \<open>RegisterDevice\<close> happens to draw the same id, the
  device is offline and has no one-time password; a request for a connection to it opens no session,
  whatever the credential; and with the right one, so with the fixed password set for unattended
  access, the answer is \<^verbatim>\<open>device is offline\<close>.
\<close>

theorem fixed_password_dies_with_connection:
  assumes "server_inv s" and "\<forall>k cn. tasks s k = Some cn \<and> my_device_id cn = Some di \<longrightarrow> k = cid"
    and "server_run (Close cid # es) s t" and "\<forall>e \<in> set es. \<forall>k. \<not> registers di k e"
  shows "device_online (shared t) di = None \<and> otp (shared t) di = None \<and>
    sessions (snd (snd (handle_message c r (RequestConnection di cred) k cn (shared t)))) = sessions (shared t) \<and>
    (\<forall>i dev d. conn_state cn = Authenticated i \<and> find_device di (app_db (shared t)) = (Inr (Some dev), d) \<and>
       credential_ok c (shared t) di dev cred \<longrightarrow>
       fst (handle_message c r (RequestConnection di cred) k cn (shared t)) = Inl ''device is offline'')"
proof -
  from assms(3) obtain u where u: "server_step (Close cid) s u" "server_run es u t" by auto
  have "unowned di t" by (rule run_unowned [OF u(2) close_unowns [OF u(1) assms(2)] assms(4)])
  with server_run_inv [OF assms(3,1)] have off: "device_online (shared t) di = None" "otp (shared t) di = None"
    using unowned_offline by blast+
  then show ?thesis using offline_refused by simp
qed

text \<open>The host of a device with a fixed password restarts: it signs in on a new connection, and the
  controller knows the password.\<close>

definition wit_unattended :: server where
  "wit_unattended = wit_paired\<lparr>shared := (shared wit_paired)\<lparr>app_db := (app_db (shared wit_paired))\<lparr>devices_tbl :=
     [\<lparr>dr_id = ''012 345 006'', dr_account_id = 1, dr_name = ''pc'',
       dr_unattended_password_hash = Some ''salt$pw'', dr_created_at = 7\<rparr>]\<rparr>\<rparr>\<rparr>"

definition wit_restarted :: server where
  "wit_restarted = (let u = ws_close ''host'' \<lparr>conn_state = Authenticated 1, my_device_id = Some ''012 345 006''\<rparr> (shared wit_unattended) in
     \<lparr>shared = snd (ws_open ''host2'' u),
      tasks = [''ctl'' \<mapsto> wit_ctl, ''host2'' \<mapsto> \<lparr>conn_state = Unauthenticated, my_device_id = None\<rparr>]\<rparr>)"

lemma wit_restart_run: "server_run [Close ''host'', Open ''host2''] wit_unattended wit_restarted"
proof -
  define h where "h = \<lparr>conn_state = Authenticated 1, my_device_id = Some ''012 345 006''\<rparr>"
  define u where "u = wit_unattended\<lparr>shared := ws_close ''host'' h (shared wit_unattended),
    tasks := (tasks wit_unattended)(''host'' := None)\<rparr>"
  have 1: "server_step (Close ''host'') wit_unattended u"
    unfolding u_def by (rule step_close) (simp add: wit_unattended_def wit_paired_def h_def)
  have "server_step (Open ''host2'') u (u\<lparr>shared := snd (ws_open ''host2'' (shared u)),
      tasks := (tasks u)(''host2'' \<mapsto> fst (ws_open ''host2'' (shared u)))\<rparr>)"
    by (rule step_open) (simp_all add: u_def wit_unattended_def wit_paired_def)
  also have "u\<lparr>shared := snd (ws_open ''host2'' (shared u)),
      tasks := (tasks u)(''host2'' \<mapsto> fst (ws_open ''host2'' (shared u)))\<rparr> = wit_restarted"
    by (simp add: wit_restarted_def u_def wit_unattended_def wit_paired_def h_def ws_open_def Let_def fun_eq_iff)
  finally show ?thesis using 1 by auto
qed

theorem fixed_password_dies_with_connection_witness:
  "(\<exists>dev d. find_device ''012 345 006'' (app_db (shared wit_restarted)) = (Inr (Some dev), d) \<and>
      credential_ok wit_crypto (shared wit_restarted) ''012 345 006'' dev (UnattendedPassword ''pw'')) \<and>
   fst (handle_message wit_crypto wit_entropy (RequestConnection ''012 345 006'' (UnattendedPassword ''pw''))
      ''ctl'' wit_ctl (shared wit_restarted)) = Inl ''device is offline''"
proof -
  have i: "server_inv wit_unattended"
    using wit_paired_inv by (auto simp: server_inv_def registry_ok_def presence_ok_def wit_unattended_def db_wf_defs
        wit_paired_def wit_defs)
  have o: "\<forall>k cn. tasks wit_unattended k = Some cn \<and> my_device_id cn = Some ''012 345 006'' \<longrightarrow> k = ''host''"
    by (auto simp: wit_unattended_def wit_paired_def wit_ctl_def split: if_splits)
  have d: "devices_tbl (app_db (shared wit_restarted)) = devices_tbl (app_db (shared wit_unattended))"
    "faults (app_db (shared wit_restarted)) = []"
    by (simp_all add: wit_restarted_def ws_open_def ws_close_def drop_receiver_def Let_def wit_unattended_def wit_paired_def wit_defs)
  have f: "find_device ''012 345 006'' (app_db (shared wit_restarted)) =
      (Inr (Some (map_device_row \<lparr>dr_id = ''012 345 006'', dr_account_id = 1, dr_name = ''pc'',
       dr_unattended_password_hash = Some ''salt$pw'', dr_created_at = 7\<rparr>)), app_db (shared wit_restarted))"
    by (simp add: find_device_def stmt_def d query_row_def, simp add: wit_unattended_def)
  moreover have "credential_ok wit_crypto (shared wit_restarted) ''012 345 006'' (map_device_row \<lparr>dr_id = ''012 345 006'',
      dr_account_id = 1, dr_name = ''pc'', dr_unattended_password_hash = Some ''salt$pw'', dr_created_at = 7\<rparr>)
      (UnattendedPassword ''pw'')"
    by (simp add: credential_ok_def map_device_row_def verify_password_def wit_crypto_def)
  moreover note fixed_password_dies_with_connection [OF i o wit_restart_run, of wit_crypto wit_entropy
      "UnattendedPassword ''pw''" "''ctl''" wit_ctl]
  ultimately show ?thesis by (simp add: wit_ctl_def)
qed

end
