(* ===== verification/Session_Life.thy ===== *)
theory Session_Life
  imports Device_Life
begin

text \<open>
  The life of a web session: from the login that draws its token (\<^verbatim>\<open>api/auth.rs\<close>), through anything else that happens
  at the server, to the logout that ends it.  Only two kinds of requests can end a session, and only a
  login or registration that draws the same token can start it again.
\<close>

section \<open>What happens to a session\<close>

text \<open>The session is there and so is its account, under the address it had.\<close>

definition signed_in :: "string \<Rightarrow> int \<Rightarrow> string \<Rightarrow> db \<Rightarrow> bool" where
  "signed_in token i email d \<longleftrightarrow>
     (\<exists>s \<in> set (sessions_tbl d). sr_token s = token \<and> sr_account_id s = i) \<and>
     (\<exists>r \<in> set (accounts_tbl d). ar_id r = i \<and> ar_email r = email)"

definition has_token :: "string \<Rightarrow> db \<Rightarrow> bool" where
  "has_token token d \<longleftrightarrow> token \<in> set (map sr_token (sessions_tbl d))"

fun ends_session :: "string \<Rightarrow> int \<Rightarrow> event \<Rightarrow> bool" where
  "ends_session token i (Request v hs PostLogout) \<longleftrightarrow> cookie_value hs SESSION_COOKIE = Some token"
| "ends_session token i (Request v hs (DeleteAccount j)) \<longleftrightarrow> j = i"
| "ends_session token i _ \<longleftrightarrow> False"

fun draws_token :: "string \<Rightarrow> event \<Rightarrow> bool" where
  "draws_token token (Request v hs (PostLogin e p)) \<longleftrightarrow> generate_session_token (he_entropy v) = token"
| "draws_token token (Request v hs (PostRegister e p)) \<longleftrightarrow> generate_session_token (he_entropy v) = token"
| "draws_token token _ \<longleftrightarrow> False"

lemma signed_in_cong:
  "sessions_tbl d' = sessions_tbl d \<Longrightarrow> accounts_tbl d' = accounts_tbl d \<Longrightarrow> signed_in token i email d' = signed_in token i email d"
  by (simp add: signed_in_def)

lemma signed_in_session:
  assumes "signed_in token i email d" and "db_wf d"
  shows "\<exists>a. session_of d token = Some a \<and> account_of d i = Some a \<and> acc_id a = i \<and> acc_email a = email"
proof -
  from assms(1) obtain s r where s: "s \<in> set (sessions_tbl d)" "sr_token s = token" "sr_account_id s = i"
    and r: "r \<in> set (accounts_tbl d)" "ar_id r = i" "ar_email r = email"
    unfolding signed_in_def by blast
  have "find (\<lambda>s. sr_token s = token) (sessions_tbl d) = Some s"
    using find_key [OF _ s(1), of sr_token] assms(2) s(2) by (simp add: db_wf_defs)
  moreover have "find (\<lambda>r. ar_id r = i) (accounts_tbl d) = Some r"
    using find_key [OF _ r(1), of ar_id] assms(2) r(2) by (simp add: db_wf_defs)
  ultimately show ?thesis using s(3) r(2,3) by (simp add: session_of_def account_of_def map_account_row_def)
qed

lemma session_signed_in:
  assumes "session_of d token = Some a" and "db_wf d"
  shows "signed_in token (acc_id a) (acc_email a) d"
  using assms
  by (auto simp: session_of_def account_of_def bind_eq_Some_conv find_Some_iff signed_in_def map_account_row_def)

lemma no_token_no_session: "\<not> has_token token d \<Longrightarrow> session_of d token = None"
  unfolding has_token_def session_of_def find_key_None [symmetric] by simp

section \<open>Requests\<close>

text \<open>The table of sessions under a request that is about something else.\<close>

fun about_sessions :: "http_request \<Rightarrow> bool" where
  "about_sessions (PostRegister e p) = True"
| "about_sessions (PostLogin e p) = True"
| "about_sessions PostLogout = True"
| "about_sessions (DeleteAccount i) = True"
| "about_sessions _ = False"

lemma setting_sessions [simp]:
  "sessions_tbl (app_db (snd (setting_or_none k st))) = sessions_tbl (app_db st)"
  by (simp add: setting_or_none_snd)

lemma platform_sessions [simp]:
  "sessions_tbl (app_db (snd (fetch_one_platform alt io rel p st))) = sessions_tbl (app_db st)"
  by (simp add: fetch_one_platform_def Let_def case_prod_beta split: option.split sum.split)

lemma platforms_sessions [simp]:
  "sessions_tbl (app_db (snd (fetch_platforms alt io rel ps st))) = sessions_tbl (app_db st)"
  by (induction ps arbitrary: st) (simp_all add: case_prod_beta)

lemma entry_sessions [simp]:
  "sessions_tbl (app_db (snd (download_entry det p st))) = sessions_tbl (app_db st)"
  by (simp add: download_entry_def Let_def case_prod_beta split: option.split template_source.split)

lemma entries_sessions [simp]:
  "sessions_tbl (app_db (snd (download_entries det ps st))) = sessions_tbl (app_db st)"
  by (induction ps arbitrary: st) (simp_all add: case_prod_beta)

lemma status_sessions [simp]:
  "sessions_tbl (app_db (snd (client_build_status io p st))) = sessions_tbl (app_db st)"
  by (simp add: client_build_status_def Let_def case_prod_beta split: option.split template_source.split)

lemma statuses_sessions [simp]:
  "sessions_tbl (app_db (snd (client_build_statuses io ps st))) = sessions_tbl (app_db st)"
  by (induction ps arbitrary: st) (simp_all add: case_prod_beta)

lemma fetch_sessions [simp]:
  "sessions_tbl (app_db (snd (fetch_and_store alt io repo st))) = sessions_tbl (app_db st)"
  by (simp add: fetch_and_store_snd split: sum.split)

lemma create_account_sessions: "sessions_tbl (snd (create_account e h role d)) = sessions_tbl d"
  by (simp add: create_account_def stmt_def Let_def split: list.split option.split)

lemma role_sessions: "sessions_tbl (snd (set_account_role i role d)) = sessions_tbl d"
  by (simp add: set_account_role_def stmt_def split: list.split option.split)

lemma guard_sessions: "sessions_tbl (app_db (snd (guard_last_admin alt i st))) = sessions_tbl (app_db st)"
  by (simp add: guard_last_admin_def http_eval split: sum.split option.split)

lemma other_requests_sessions:
  "\<not> about_sessions q \<Longrightarrow> sessions_tbl (app_db (snd (http v hs q st))) = sessions_tbl (app_db st)"
  by (cases q)
    (simp_all add: me_def registration_status_def list_devices_def
      delete_own_def get_settings_def save_settings_def client_builds_def fetch_release_def
      list_accounts_def account_detail_def admin_delete_device_def get_registration_def admin_create_account_def
      admin_set_account_role_def create_account_sessions role_sessions guard_sessions
      set_registration_def download_list_def download_platform_def http_eval
      split: sum.split option.split)

text \<open>A login or registration adds at most the session with the token it draws.\<close>

definition adds_token :: "string \<Rightarrow> db \<Rightarrow> db \<Rightarrow> bool" where
  "adds_token token d d' \<longleftrightarrow> (\<exists>xs. sessions_tbl d' = sessions_tbl d @ xs \<and> set (map sr_token xs) \<subseteq> {token})"

lemma adds_token_refl: "sessions_tbl d' = sessions_tbl d \<Longrightarrow> adds_token token d d'"
  by (simp add: adds_token_def)

lemma adds_token_out: "adds_token t d d' \<Longrightarrow> t \<noteq> token \<Longrightarrow> \<not> has_token token d \<Longrightarrow> \<not> has_token token d'"
  by (auto simp: adds_token_def has_token_def subset_iff simp del: set_map)

lemma create_session_adds: "adds_token token d (snd (create_session token i d))"
  by (auto simp: adds_token_def create_session_def stmt_def split: list.split option.split)

lemma start_session_adds: "adds_token (generate_session_token r) (app_db st) (app_db (snd (start_session alt r i e role st)))"
  using create_session_adds [of "generate_session_token r" "app_db st" i]
  by (simp add: start_session_def http_eval split: sum.split)

lemma login_adds: "adds_token (generate_session_token r) (app_db st) (app_db (snd (login alt c r e p st)))"
proof -
  have d: "sessions_tbl (snd (find_account_by_email x d)) = sessions_tbl d" for x d
    using find_account_by_email.read_only [of d x] by (simp add: same_tables_iff)
  show ?thesis using start_session_adds [of r "st\<lparr>app_db := snd (find_account_by_email (trim e) (app_db st))\<rparr>" alt]
    by (auto simp: login_def http_eval adds_token_def d split: sum.split option.split)
qed

lemma register_adds: "adds_token (generate_session_token r) (app_db st) (app_db (snd (register alt c r e p st)))"
proof -
  have d: "sessions_tbl (snd (registration_enabled d)) = sessions_tbl d" for d
    using registration_enabled.read_only [of d] by (simp add: same_tables_iff)
  show ?thesis
    using start_session_adds [of r "st\<lparr>app_db := snd (create_account_and_maybe_bootstrap_admin (trim e) h (snd (registration_enabled (app_db st))))\<rparr>" alt for h]
    by (auto simp: register_def http_eval adds_token_def d split: sum.split bool.split)
qed

text \<open>A logout removes at most the session of its cookie.\<close>

lemma logout_removes:
  "sessions_tbl (app_db (snd (logout hs st))) \<in>
     {sessions_tbl (app_db st), filter (\<lambda>s. Some (sr_token s) \<noteq> cookie_value hs SESSION_COOKIE) (sessions_tbl (app_db st))}"
  by (simp add: logout_def http_eval delete_session_def stmt_def split: option.split list.split)

text \<open>Removing an account removes its sessions, or nothing at all.\<close>

lemma delete_account_removes:
  "same_tables d (snd (delete_account i d)) \<or>
   sessions_tbl (snd (delete_account i d)) = filter (\<lambda>s. sr_account_id s \<noteq> i) (sessions_tbl d) \<and>
   accounts_tbl (snd (delete_account i d)) = filter (\<lambda>r. ar_id r \<noteq> i) (accounts_tbl d)"
proof (cases "delete_account i d")
  case (Pair res d')
  then show ?thesis using delete_account.atomic [of i d] delete_account_Inr [of i d d']
    by (cases res) auto
qed

lemma admin_delete_removes:
  fixes st :: app_state and alt :: alt and hs :: headers and i :: int
  defines "d \<equiv> app_db st" and "d' \<equiv> app_db (snd (admin_delete_account alt hs i st))"
  shows "sessions_tbl d' = sessions_tbl d \<and> accounts_tbl d' = accounts_tbl d \<or>
    sessions_tbl d' = filter (\<lambda>s. sr_account_id s \<noteq> i) (sessions_tbl d) \<and>
    accounts_tbl d' = filter (\<lambda>r. ar_id r \<noteq> i) (accounts_tbl d)"
  using delete_account_removes [of "app_db (snd (guard_last_admin alt i (snd (current_account hs st))))" i]
  by (auto simp: d_def d'_def admin_delete_account_def http_eval guard_sessions same_tables_iff split: sum.split)

text \<open>Changing a role changes no address.\<close>

lemma admin_role_accounts:
  "accounts_tbl (app_db (snd (admin_set_account_role alt hs i role st))) \<in>
     {accounts_tbl (app_db st), map (\<lambda>r. if ar_id r = i then r\<lparr>ar_role := as_str role\<rparr> else r) (accounts_tbl (app_db st))}"
  by (simp add: admin_set_account_role_def set_account_role_def stmt_def http_eval split: sum.split list.split option.split)

lemma http_keeps_signed_in:
  assumes "signed_in token i email (app_db st)" and "\<not> ends_session token i (Request v hs q)"
  shows "signed_in token i email (app_db (snd (http v hs q st)))"
proof -
  let ?d = "app_db st" and ?d' = "app_db (snd (http v hs q st))"
  have grows: ?thesis if "\<exists>xs. sessions_tbl ?d' = sessions_tbl ?d @ xs" "\<exists>rs. accounts_tbl ?d' = accounts_tbl ?d @ rs"
    using that assms(1) by (auto simp: signed_in_def)
  show ?thesis
  proof (cases q)
    case (PostRegister e p)
    then show ?thesis using register_adds [of "he_entropy v" st "he_alt v" "he_crypto v" e p]
      register_accounts [of "he_alt v" "he_crypto v" "he_entropy v" e p st]
      by (intro grows) (simp_all add: adds_token_def, blast)
  next
    case (PostLogin e p)
    then have "accounts_tbl ?d' = accounts_tbl ?d" using http_accounts [of q v hs st] by simp
    then show ?thesis using PostLogin login_adds [of "he_entropy v" st "he_alt v" "he_crypto v" e p]
      by (intro grows) (simp_all add: adds_token_def, blast)
  next
    case PostLogout
    then have "accounts_tbl ?d' = accounts_tbl ?d" using http_accounts [of q v hs st] by simp
    then show ?thesis using PostLogout assms logout_removes [of hs st] by (auto simp: signed_in_def)
  next
    case (DeleteAccount j)
    then show ?thesis using assms admin_delete_removes [of "he_alt v" hs j st]
      by (auto simp: signed_in_def)
  next
    case (PutAccountRole j role)
    then have "sessions_tbl ?d' = sessions_tbl ?d" using other_requests_sessions [of q v hs st] by simp
    moreover obtain r where r: "r \<in> set (accounts_tbl ?d)" "ar_id r = i" "ar_email r = email"
      using assms(1) unfolding signed_in_def by blast
    let ?r = "if ar_id r = j then r\<lparr>ar_role := as_str role\<rparr> else r"
    have "r \<in> set (accounts_tbl ?d') \<or> ?r \<in> set (accounts_tbl ?d')"
      using PutAccountRole admin_role_accounts [of "he_alt v" hs j role st] r(1) by auto
    moreover have "ar_id ?r = i \<and> ar_email ?r = email" using r by simp
    ultimately have "\<exists>x \<in> set (accounts_tbl ?d'). ar_id x = i \<and> ar_email x = email" using r(2,3) by blast
    then show ?thesis using assms(1) \<open>sessions_tbl ?d' = _\<close> by (simp add: signed_in_def)
  next
    case (PostAccounts e p role)
    then have "sessions_tbl ?d' = sessions_tbl ?d" using other_requests_sessions [of q v hs st] by simp
    then show ?thesis using PostAccounts admin_create_accounts by (intro grows) auto
  qed (rule signed_in_cong [THEN iffD2, OF _ _ assms(1)], rule other_requests_sessions, simp, rule http_accounts, simp)+
qed

lemma http_keeps_out:
  assumes "\<not> has_token token (app_db st)" and "\<not> draws_token token (Request v hs q)"
  shows "\<not> has_token token (app_db (snd (http v hs q st)))"
proof -
  consider e p where "q = PostRegister e p" | e p where "q = PostLogin e p" | "q = PostLogout" | i where "q = DeleteAccount i"
    | "\<not> about_sessions q"
    by (cases q) auto
  then show ?thesis
  proof cases
    case 1
    then show ?thesis using assms adds_token_out [OF register_adds [of "he_entropy v" st "he_alt v" "he_crypto v" e p]] by simp
  next
    case 2
    then show ?thesis using assms adds_token_out [OF login_adds [of "he_entropy v" st "he_alt v" "he_crypto v" e p]] by simp
  next
    case 3
    then show ?thesis using assms(1) logout_removes [of hs st] by (auto simp: has_token_def)
  next
    case 4
    then show ?thesis using assms(1) admin_delete_removes [of "he_alt v" hs i st] by (auto simp: has_token_def)
  next
    case 5
    then show ?thesis using assms(1) other_requests_sessions [of q v hs st] by (simp add: has_token_def)
  qed
qed

section \<open>Events and runs\<close>

lemma message_accounts:
  "\<exists>rs. accounts_tbl (app_db (snd (ws_text c r m cid cn st))) = accounts_tbl (app_db st) @ rs"
proof -
  have d: "accounts_tbl (snd (registration_enabled d)) = accounts_tbl d" for d
    using registration_enabled.read_only [of d] by (simp add: same_tables_iff)
  have "\<exists>rs. accounts_tbl (app_db (snd (snd (handle_message c r m cid cn st)))) = accounts_tbl (app_db st) @ rs"
  proof (cases "\<exists>e p. m = Register e p")
    case True
    then obtain e p where "m = Register e p" by blast
    then show ?thesis using bootstrap_prefix [of e _ "snd (registration_enabled (app_db st))"]
      by (simp add: ws_register_def ws_eval d split: sum.split)
  next
    case False
    then show ?thesis using message_accounts_same [of m c r cid cn st] by simp
  qed
  then show ?thesis by (simp add: ws_text_eq split: sum.split)
qed

lemma message_session_rows:
  "sessions_tbl (app_db (snd (ws_text c r m cid cn st))) = sessions_tbl (app_db st)"
  by (simp add: ws_text_eq handle_message_sessions_tbl split: sum.split)

lemma step_keeps_signed_in:
  assumes "server_step e s t" and "signed_in token i email (app_db (shared s))" and "\<not> ends_session token i e"
  shows "signed_in token i email (app_db (shared t))"
  using assms(1)
proof cases
  case (step_text cid cn c r m cn' st')
  then have "st' = snd (ws_text c r m cid cn (shared s))" by simp
  then show ?thesis using message_accounts [of c r m cid cn "shared s"] message_session_rows [of c r m cid cn "shared s"] step_text assms(2)
    by (auto simp: signed_in_def)
next
  case (step_request v hs q resp st')
  then have "st' = snd (http v hs q (shared s))" by simp
  then show ?thesis using http_keeps_signed_in [OF assms(2), of v hs q] assms(3) step_request by simp
qed (use assms(2) in \<open>auto simp: ws_open_def ws_malformed_def send_task_sends_def send_task_breaks_def drop_receiver_def ws_close_def
    Let_def signed_in_def split: option.split\<close>)

lemma step_keeps_out:
  assumes "server_step e s t" and "\<not> has_token token (app_db (shared s))" and "\<not> draws_token token e"
  shows "\<not> has_token token (app_db (shared t))"
  using assms(1)
proof cases
  case (step_text cid cn c r m cn' st')
  then have "st' = snd (ws_text c r m cid cn (shared s))" by simp
  then show ?thesis using message_session_rows [of c r m cid cn "shared s"] step_text assms(2) by (simp add: has_token_def)
next
  case (step_request v hs q resp st')
  then have "st' = snd (http v hs q (shared s))" by simp
  then show ?thesis using http_keeps_out [OF assms(2), of v hs q] assms(3) step_request by simp
qed (use assms(2) in \<open>auto simp: ws_open_def ws_malformed_def send_task_sends_def send_task_breaks_def drop_receiver_def ws_close_def
    Let_def has_token_def split: option.split\<close>)

lemma run_keeps_signed_in:
  "server_run es s t \<Longrightarrow> signed_in token i email (app_db (shared s)) \<Longrightarrow> list_all (\<lambda>e. \<not> ends_session token i e) es \<Longrightarrow>
   signed_in token i email (app_db (shared t))"
  by (induction es arbitrary: s) (auto dest: step_keeps_signed_in)

lemma run_keeps_out:
  "server_run es s t \<Longrightarrow> \<not> has_token token (app_db (shared s)) \<Longrightarrow> list_all (\<lambda>e. \<not> draws_token token e) es \<Longrightarrow>
   \<not> has_token token (app_db (shared t))"
  by (induction es arbitrary: s) (auto dest: step_keeps_out)

text \<open>A logout with the cookie of a session ends it, unless the engine refuses to delete its row.\<close>

lemma logout_ends:
  assumes "cookie_value hs SESSION_COOKIE = Some token" and "faults (app_db st) = []"
  shows "\<not> has_token token (app_db (snd (logout hs st)))"
  using assms by (auto simp: logout_def http_eval delete_session_def stmt_ok has_token_def)

lemma logout_others:
  assumes "cookie_value hs SESSION_COOKIE = Some token" and "k \<noteq> token"
  shows "session_of (app_db (snd (logout hs st))) k = session_of (app_db st) k"
proof -
  have "accounts_tbl (app_db (snd (logout hs st))) = accounts_tbl (app_db st)"
    by (simp add: logout_def http_eval delete_session_def stmt_def split: option.split list.split)
  then show ?thesis using logout_removes [of hs st] assms
    by (auto simp: session_of_def account_of_def find_filter_key)
qed

section \<open>Properties\<close>

text \<open>
  C11. A session lives from its login to its logout, whatever happens at the server in between.  A login answered 200 was for an existing
  account whose stored hash the password verifies, and sets a cookie.  In every state that any messages, connections,
  requests and refusals of the engine lead to, among which is no logout with this cookie and no request to
  delete this account, a request with the cookie, among any other well-formed cookies, is recognised as that account with its address
  and its current role.  After a logout with the cookie, in every state that follows without a login or registration that happens to draw
  the same token, it is answered 401.  Neither the login nor the logout affects a session of another
  token.  The engine must not refuse a statement of the request at hand, nor of the logout.
\<close>

theorem login_me_logout:
  assumes "server_inv s" and "entropy_ok (he_entropy v)" and "http v hs0 (PostLogin e p) (shared s) = (resp, st')"
    and "status resp = OK" and "list_all cookie_pair_ok kvs" and "SESSION_COOKIE \<notin> set (map fst kvs)"
  defines "token \<equiv> generate_session_token (he_entropy v)"
  defines "hs \<equiv> with_cookies (kvs @ [(SESSION_COOKIE, token)])" and "s1 \<equiv> s\<lparr>shared := st'\<rparr>"
  shows "\<exists>a. account_by_email (app_db (shared s)) (trim e) = Some a \<and> verify_password (he_crypto v) p (acc_password_hash a) \<and>
     set_cookie resp = Some (set_session_cookie token) \<and>
     (\<forall>es t. server_run es s1 t \<and> list_all (\<lambda>x. \<not> ends_session token (acc_id a) x) es \<and> faults (app_db (shared t)) = [] \<longrightarrow>
        (\<exists>b. account_of (app_db (shared t)) (acc_id a) = Some b \<and> acc_id b = acc_id a \<and> acc_email b = acc_email a \<and>
           fst (me hs (shared t)) = ok_response (AccountBody \<lparr>av_id = acc_id b, av_email = acc_email b, av_role = acc_role b\<rparr>))) \<and>
     (\<forall>es t es2 u. server_run es s1 t \<and> faults (app_db (shared t)) = [] \<and>
        server_run es2 (t\<lparr>shared := snd (logout hs (shared t))\<rparr>) u \<and> list_all (\<lambda>x. \<not> draws_token token x) es2 \<and>
        faults (app_db (shared u)) = [] \<longrightarrow> fst (me hs (shared u)) = status_response UNAUTHORIZED) \<and>
     (\<forall>k. k \<noteq> token \<longrightarrow> session_of (app_db st') k = session_of (app_db (shared s)) k \<and>
        (\<forall>st. session_of (app_db (snd (logout hs st))) k = session_of (app_db st) k))"
proof -
  have wf: "db_wf (app_db (shared s))" using assms(1) by (simp add: server_inv_def)
  have inv: "server_inv s1" unfolding s1_def by (rule server_step_inv [OF assms(1) step_request [OF assms(3)]])
  then have wf1: "db_wf (app_db st')" by (simp add: server_inv_def s1_def)
  have "login (he_alt v) (he_crypto v) (he_entropy v) e p (shared s) = (resp, st')" using assms(3) by simp
  from login_OK [OF this assms(4), folded token_def] obtain a d1 where
    a: "account_by_email (app_db (shared s)) (trim e) = Some a" "verify_password (he_crypto v) p (acc_password_hash a)" and
    d1: "same_tables (app_db (shared s)) d1" "create_session token (acc_id a) d1 = (Inr (), app_db st')" and
    k: "set_cookie resp = Some (set_session_cookie token)" by blast
  have ck: "cookie_value hs SESSION_COOKIE = Some token"
    unfolding hs_def token_def by (rule session_cookie_read [OF assms(2,5,6)])
  have "session_of (app_db st') token = Some a"
    using session_of_created(1) [OF d1(2)] account_by_email_of [OF wf a(1)] query_fst_same(1) [OF d1(1)] by simp
  from session_signed_in [OF this wf1] have "signed_in token (acc_id a) (acc_email a) (app_db (shared s1))" by (simp add: s1_def)
  then have on: "\<exists>b. account_of (app_db (shared t)) (acc_id a) = Some b \<and> acc_id b = acc_id a \<and> acc_email b = acc_email a \<and>
      fst (me hs (shared t)) = ok_response (AccountBody \<lparr>av_id = acc_id b, av_email = acc_email b, av_role = acc_role b\<rparr>)"
    if "server_run es s1 t" "list_all (\<lambda>x. \<not> ends_session token (acc_id a) x) es" "faults (app_db (shared t)) = []" for es t
    using signed_in_session [OF run_keeps_signed_in [OF that(1) _ that(2)]] server_run_inv [OF that(1) inv] me_response [OF _ that(3) ck]
    by (fastforce simp: server_inv_def)
  have out: "fst (me hs (shared u)) = status_response UNAUTHORIZED"
    if "server_run es s1 t" "faults (app_db (shared t)) = []" "server_run es2 (t\<lparr>shared := snd (logout hs (shared t))\<rparr>) u"
      "list_all (\<lambda>x. \<not> draws_token token x) es2" "faults (app_db (shared u)) = []" for es t es2 u
  proof -
    have "server_step (Request v hs PostLogout) t (t\<lparr>shared := snd (logout hs (shared t))\<rparr>)"
      by (rule step_request [where resp = "fst (logout hs (shared t))"]) simp
    then have "server_inv u" using server_run_inv that(1,3) inv server_step_inv by blast
    moreover have "\<not> has_token token (app_db (shared u))"
      using run_keeps_out [OF that(3) _ that(4)] logout_ends [OF ck that(2)] by simp
    ultimately show ?thesis using me_response [OF _ that(5) ck] no_token_no_session by (simp add: server_inv_def)
  qed
  have "session_of (app_db st') k = session_of (app_db (shared s)) k" if "k \<noteq> token" for k
    using session_of_created(2) [OF d1(2) that] session_of_same [OF d1(1)] by simp
  then show ?thesis using a k on out logout_others [OF ck] by blast
qed

lemma signed_in_part:
  "\<exists>a. P a \<and> V a \<and> k \<and> (\<forall>es t. Q a es t) \<and> R \<Longrightarrow> \<exists>a. P a \<and> (\<forall>es t. Q a es t)"
  by blast

text \<open>An administrator signs in, a stranger connects, and the administrator's page asks who it is.\<close>

theorem login_me_logout_witness:
  "\<exists>resp st' b. login (\<lambda>e. e) wit_crypto wit_entropy '' a@b '' ''pw'' wit_app = (resp, st') \<and>
     fst (me (with_cookies [(SESSION_COOKIE, replicate 32 (CHR ''x''))]) (snd (ws_open ''k'' st'))) =
       ok_response (AccountBody \<lparr>av_id = 1, av_email = ''a@b'', av_role = b\<rparr>)"
proof -
  let ?s = "\<lparr>shared = wit_app, tasks = Map.empty\<rparr>"
  have t: "generate_session_token wit_entropy = replicate 32 (CHR ''x'')"
    by (simp add: generate_session_token_def random_alnum_def wit_entropy_def map_replicate_const)
  have tr: "trim '' a@b '' = ''a@b''" by (simp add: trim_def trim_start_def is_whitespace_def)
  have inv: "server_inv ?s"
    using wit_admin_wf by (simp add: server_inv_def registry_ok_def presence_ok_def wit_app_def)
  obtain resp st' where l: "login (\<lambda>e. e) wit_crypto wit_entropy '' a@b '' ''pw'' wit_app = (resp, st')" by fastforce
  then have lh: "http wit_http (with_cookies []) (PostLogin '' a@b '' ''pw'') (shared ?s) = (resp, st')"
    by (simp add: wit_http_def)
  have "status (fst (login (\<lambda>e. e) wit_crypto wit_entropy '' a@b '' ''pw'' wit_app)) = OK \<and>
      faults (app_db (snd (login (\<lambda>e. e) wit_crypto wit_entropy '' a@b '' ''pw'' wit_app))) = []"
    by (simp add: login_def tr http_eval wit_app_def wit_admin_db_def wit_db_def find_account_by_email_def stmt_def
        query_row_def map_account_row_def verify_password_def wit_crypto_def start_session_def t
        create_session_def account_exists_def ok_response_def numeral_eq_Suc)
  then have ok: "status resp = OK \<and> faults (app_db st') = []" by (simp add: l)
  have e: "entropy_ok (he_entropy wit_http)" using wit_entropy_ok by (simp add: wit_http_def)
  let ?token = "generate_session_token (he_entropy wit_http)"
  have tk: "?token = replicate 32 (CHR ''x'')" using t by (simp add: wit_http_def)
  have "\<exists>a. account_by_email (app_db (shared ?s)) (trim '' a@b '') = Some a \<and>
      (\<forall>es u. server_run es (?s\<lparr>shared := st'\<rparr>) u \<and> list_all (\<lambda>x. \<not> ends_session ?token (acc_id a) x) es \<and> faults (app_db (shared u)) = [] \<longrightarrow>
      (\<exists>b. account_of (app_db (shared u)) (acc_id a) = Some b \<and> acc_id b = acc_id a \<and> acc_email b = acc_email a \<and>
         fst (me (with_cookies ([] @ [(SESSION_COOKIE, ?token)])) (shared u)) =
           ok_response (AccountBody \<lparr>av_id = acc_id b, av_email = acc_email b, av_role = acc_role b\<rparr>)))"
    by (rule signed_in_part [OF login_me_logout [OF inv e lh conjunct1 [OF ok], of "[]"]]) simp_all
  then obtain a where "account_by_email (app_db (shared ?s)) (trim '' a@b '') = Some a"
    and m: "\<And>es u. server_run es (?s\<lparr>shared := st'\<rparr>) u \<Longrightarrow> list_all (\<lambda>x. \<not> ends_session ?token (acc_id a) x) es \<Longrightarrow>
        faults (app_db (shared u)) = [] \<Longrightarrow>
      \<exists>b. account_of (app_db (shared u)) (acc_id a) = Some b \<and> acc_id b = acc_id a \<and> acc_email b = acc_email a \<and>
        fst (me (with_cookies ([] @ [(SESSION_COOKIE, ?token)])) (shared u)) =
          ok_response (AccountBody \<lparr>av_id = acc_id b, av_email = acc_email b, av_role = acc_role b\<rparr>)"
    by blast
  then have a: "account_by_email (app_db wit_app) (trim '' a@b '') = Some a" by simp
  have ai: "a = \<lparr>acc_id = 1, acc_email = ''a@b'', acc_password_hash = ''salt$pw'', acc_role = Admin\<rparr>"
    using a by (simp add: tr account_by_email_def wit_app_def wit_admin_db_def map_account_row_def from_column_def)
  have "server_run [Open ''k''] (?s\<lparr>shared := st'\<rparr>)
      \<lparr>shared = snd (ws_open ''k'' st'), tasks = [''k'' \<mapsto> fst (ws_open ''k'' st')]\<rparr>"
    using step_open [of "?s\<lparr>shared := st'\<rparr>" "''k''" "fst (ws_open ''k'' st')" "snd (ws_open ''k'' st')"] by simp
  moreover have "faults (app_db (snd (ws_open ''k'' st'))) = []" using ok by (simp add: ws_open_def)
  moreover note m [OF calculation(1)]
  ultimately have "\<exists>b. account_of (app_db (snd (ws_open ''k'' st'))) (acc_id a) = Some b \<and> acc_id b = acc_id a \<and>
      acc_email b = acc_email a \<and> fst (me (with_cookies ([] @ [(SESSION_COOKIE, ?token)])) (snd (ws_open ''k'' st'))) =
        ok_response (AccountBody \<lparr>av_id = acc_id b, av_email = acc_email b, av_role = acc_role b\<rparr>)"
    by (simp only: server.simps list.pred_inject ends_session.simps) simp
  then obtain b :: account where "acc_id b = acc_id a" "acc_email b = acc_email a"
    "fst (me (with_cookies [(SESSION_COOKIE, replicate 32 (CHR ''x''))]) (snd (ws_open ''k'' st'))) =
      ok_response (AccountBody \<lparr>av_id = acc_id b, av_email = acc_email b, av_role = acc_role b\<rparr>)"
    unfolding tk append_Nil by blast
  then show ?thesis using l ai by auto
qed

end
