(* ===== verification/Device_Removal.thy ===== *)
theory Device_Removal
  imports Device_Life Stored_Types
begin

text \<open>
  Removing a device, by its owner (\<^verbatim>\<open>api/devices.rs\<close>) or by an administrator (\<^verbatim>\<open>api/admin.rs\<close>).  Both handlers delete
  the row and call \<open>kick_device\<close>.  The connection of the host goes on and can announce the id again with
  \<open>RegisterDevice\<close>; what keeps the device closed from then on is that no event but the creation of a new
  device adds a row.
\<close>

section \<open>The rows of devices\<close>

definition no_device :: "device_id \<Rightarrow> db \<Rightarrow> bool" where
  "no_device di d \<longleftrightarrow> (\<forall>r \<in> set (devices_tbl d). dr_id r \<noteq> di)"

lemma no_device_of: "no_device di d \<Longrightarrow> device_of d di = None"
  by (auto simp: device_of_def no_device_def find_None_iff)

lemma no_device_find: "no_device di d \<Longrightarrow> faults d = [] \<Longrightarrow> find_device di d = (Inr None, d)"
  by (simp add: find_device_ok no_device_of)

lemma query_no_device: "db_query op \<Longrightarrow> no_device di (snd (op d)) = no_device di d"
  by (simp add: no_device_def)

lemma device_ops_no_device:
  "no_device di d \<Longrightarrow> dj \<noteq> di \<Longrightarrow> no_device di (snd (create_device dj i name d))"
  "no_device di d \<Longrightarrow> no_device di (snd (set_unattended_password_hash dj h d))"
  "no_device di d \<Longrightarrow> no_device di (snd (delete_device dj d))"
  by (auto simp: no_device_def create_device_def set_unattended_password_hash_def delete_device_def stmt_def
      split: list.split option.split)

lemma account_ops_no_device:
  "no_device di d \<Longrightarrow> no_device di (snd (delete_account i d))"
  "no_device di (snd (create_account e h role d)) = no_device di d"
  "no_device di (snd (set_account_role i role d)) = no_device di d"
  "no_device di (snd (create_session t i d)) = no_device di d"
  "no_device di (snd (delete_session t d)) = no_device di d"
  "no_device di (snd (set_setting k v d)) = no_device di d"
  "no_device di (snd (set_registration_enabled b d)) = no_device di d"
  "no_device di (snd (create_account_and_maybe_bootstrap_admin e h d)) = no_device di d"
proof -
  assume n: "no_device di d"
  show "no_device di (snd (delete_account i d))"
  proof (cases "delete_account i d")
    case (Pair res d')
    then show ?thesis using n delete_account.atomic [of i d] delete_account_Inr [of i d d']
      by (cases res) (auto simp: no_device_def same_tables_iff)
  qed
qed (simp_all add: no_device_def)

lemmas no_device_ops = device_ops_no_device account_ops_no_device query_no_device

section \<open>Messages, requests, events\<close>

lemma message_no_device:
  "no_device di (app_db st) \<Longrightarrow> \<forall>name. m = RegisterDevice name \<longrightarrow> generate_device_id r \<noteq> di \<Longrightarrow>
   no_device di (app_db (snd (snd (handle_message c r m cid cn st))))"
  by (cases m) (simp_all add: ws_arms ws_eval no_device_ops Let_def split: sum.split option.split conn_state.split)

lemma reads_no_device [simp]:
  "no_device di (app_db (snd (setting_or_none k st))) = no_device di (app_db st)"
  "no_device di (app_db (snd (current_account hs st))) = no_device di (app_db st)"
  "no_device di (app_db (snd (guard_last_admin alt i st))) = no_device di (app_db st)"
  "no_device di (app_db (snd (fetch_and_store alt io repo st))) = no_device di (app_db st)"
  "no_device di (app_db (snd (client_build_statuses io ps st))) = no_device di (app_db st)"
  "no_device di (app_db (snd (download_entries detected ps st))) = no_device di (app_db st)"
  by (simp_all add: no_device_def guard_last_admin_def http_eval fetch_and_store_snd split: sum.split option.split)

lemma request_no_device:
  "no_device di (app_db st) \<Longrightarrow> no_device di (app_db (snd (http v hs q st)))"
  by (cases q)
    (simp_all add: login_def start_session_def logout_def me_def registration_status_def list_devices_def
      delete_own_def get_settings_def save_settings_def client_builds_def fetch_release_def register_def
      list_accounts_def account_detail_def admin_delete_device_def get_registration_def admin_create_account_def
      admin_delete_account_def admin_set_account_role_def set_registration_def download_list_def download_platform_def
      http_eval no_device_ops split: sum.split option.split bool.split)

lemma step_no_device:
  assumes "server_step e s t" and "no_device di (app_db (shared s))" and "\<forall>k. \<not> registers di k e"
  shows "no_device di (app_db (shared t))"
  using assms(1)
proof cases
  case (step_text cid cn c r m cn' st')
  then have "app_db st' = app_db (snd (snd (handle_message c r m cid cn (shared s))))"
    by (auto simp: ws_text_eq split: sum.splits)
  moreover have "\<forall>name. m = RegisterDevice name \<longrightarrow> generate_device_id r \<noteq> di"
    using assms(3) step_text(1) by auto
  ultimately show ?thesis using message_no_device [OF assms(2), of m r c cid cn] step_text by simp
next
  case (step_request v hs q resp st')
  then have "st' = snd (http v hs q (shared s))" by simp
  then show ?thesis using request_no_device [OF assms(2), of v hs q] step_request by simp
qed (use assms(2) in \<open>auto simp: ws_open_def ws_malformed_def send_task_sends_def send_task_breaks_def drop_receiver_def ws_close_def
    Let_def no_device_def split: option.split\<close>)

lemma run_no_device:
  "server_run es s t \<Longrightarrow> no_device di (app_db (shared s)) \<Longrightarrow> \<forall>e \<in> set es. \<forall>k. \<not> registers di k e \<Longrightarrow>
   no_device di (app_db (shared t))"
  by (induction es arbitrary: s) (auto dest: step_no_device)

section \<open>The two handlers\<close>

fun removes :: "device_id \<Rightarrow> http_request \<Rightarrow> bool" where
  "removes di (DeleteDevice dj) \<longleftrightarrow> dj = di"
| "removes di (DeleteAccountDevice i dj) \<longleftrightarrow> dj = di"
| "removes di _ \<longleftrightarrow> False"

text \<open>The account may remove the device: it is its own, or the account is an administrator's and the
  request names the owner.\<close>

fun may_remove :: "account \<Rightarrow> device \<Rightarrow> http_request \<Rightarrow> bool" where
  "may_remove acc dev (DeleteDevice dj) \<longleftrightarrow> dev_account_id dev = acc_id acc"
| "may_remove acc dev (DeleteAccountDevice i dj) \<longleftrightarrow> acc_role acc = Admin \<and> dev_account_id dev = i"
| "may_remove acc dev _ \<longleftrightarrow> False"

lemma removal:
  assumes "db_wf (app_db st)" and "faults (app_db st) = []" and "removes di q"
    and "http v hs q st = (resp, st')" and "status resp = NO_CONTENT"
  shows "\<exists>token acc dev m. cookie_value hs SESSION_COOKIE = Some token \<and> session_of (app_db st) token = Some acc \<and>
     device_of (app_db st) di = Some dev \<and> may_remove acc dev q \<and>
     st' = kick_device di m (st\<lparr>app_db := (app_db st)\<lparr>devices_tbl := filter (\<lambda>r. dr_id r \<noteq> di) (devices_tbl (app_db st))\<rparr>\<rparr>)"
proof -
  obtain i where q: "q = DeleteDevice di \<or> q = DeleteAccountDevice i di" using assms(3) by (cases q) auto
  have f: "find_device di (app_db st) = (Inr (device_of (app_db st) di), app_db st)" by (rule find_device_ok [OF assms(2)])
  have del: "delete_device di (app_db st) =
      (Inr (), (app_db st)\<lparr>devices_tbl := filter (\<lambda>r. dr_id r \<noteq> di) (devices_tbl (app_db st))\<rparr>)"
    by (simp add: delete_device_def stmt_ok [OF assms(2)])
  have g: "snd (require_account hs st) = st" by (simp add: require_account_state guard_faults [OF assms(2)])
  obtain a where a: "require_account hs st = (Inr a, st)" and ad: "q = DeleteAccountDevice i di \<Longrightarrow> aa_role a = Admin"
  proof (cases "fst (require_account hs st)")
    case (Inl e)
    then have "require_account hs st = (Inl e, st)" using g by (metis prod.collapse)
    then show ?thesis using q assms(4,5)
      by (auto simp: delete_own_def admin_delete_device_def require_admin_def status_response_def require_account_def
          split: prod.splits option.splits)
  next
    case (Inr b)
    then have b: "require_account hs st = (Inr b, st)" using g by (metis prod.collapse)
    have "aa_role b = Admin" if "q = DeleteAccountDevice i di"
      using that b assms(4,5) by (auto simp: admin_delete_device_def require_admin_def status_response_def split: if_splits)
    with b show ?thesis by (rule that)
  qed
  from require_account_Inr [OF assms(1) a] obtain token acc where acc: "cookie_value hs SESSION_COOKIE = Some token"
    "session_of (app_db st) token = Some acc" "aa_id a = acc_id acc" "aa_role a = acc_role acc" by auto
  have "\<exists>dev m. device_of (app_db st) di = Some dev \<and> may_remove acc dev q \<and> st' = kick_device di m (st\<lparr>app_db := snd (delete_device di (app_db st))\<rparr>)"
    using q
  proof
    assume q: "q = DeleteDevice di"
    show ?thesis using assms(4,5) a f acc(3)
      by (auto simp: q delete_own_def http_eval error_response_def split: option.splits if_splits)
  next
    assume q: "q = DeleteAccountDevice i di"
    have "require_admin hs st = (Inr a, st)" using a ad q by (simp add: require_admin_Inr)
    then show ?thesis using assms(4,5) f ad acc(4)
      by (auto simp: q admin_delete_device_def http_eval error_response_def split: option.splits if_splits)
  qed
  then show ?thesis using acc(1,2) by (auto simp: del)
qed

text \<open>A device without a row: no credential opens a session with it.\<close>

lemma unknown_device_refused:
  assumes "no_device di (app_db st)"
  shows "sessions (snd (snd (ws_request_connection c r k di cred cn st))) = sessions st"
    and "conn_state cn = Authenticated i \<Longrightarrow> faults (app_db st) = [] \<Longrightarrow>
      fst (ws_request_connection c r k di cred cn st) = Inl ''unknown device''"
proof -
  have "fst (find_device di (app_db st)) = Inr x \<Longrightarrow> x = None" for x
    using find_device_fst no_device_of [OF assms] by metis
  then show "sessions (snd (snd (ws_request_connection c r k di cred cn st))) = sessions st"
    by (auto simp: ws_request_connection_def ws_eval split: sum.split option.split conn_state.split)
qed (simp add: ws_request_connection_def ws_eval no_device_find [OF assms])

section \<open>Properties\<close>

text \<open>
  C16. A removed device stays out of reach.  A request to remove a device that is answered 204 comes from an account
  with a session that owns the device, or from an administrator that names the owner; the device is then not
  online and has no one-time password, its host, if any, has been sent a notice but stays connected.  In every state
  that any events lead to in which no \<open>RegisterDevice\<close> draws the id again, so also after the same host has announced
  it again, a request for a connection to it opens no session, whatever the credential, and is answered
  \<^verbatim>\<open>unknown device\<close>.  The engine must not refuse the statements of the removal, nor that of the last request for its answer.
\<close>

theorem removed_device_unreachable:
  assumes "server_inv s" and "faults (app_db (shared s)) = []" and "removes di q"
    and "http v hs q (shared s) = (resp, st')" and "status resp = NO_CONTENT"
    and "server_run es (s\<lparr>shared := st'\<rparr>) t" and "\<forall>e \<in> set es. \<forall>k. \<not> registers di k e"
  shows "(\<exists>token acc dev. cookie_value hs SESSION_COOKIE = Some token \<and> session_of (app_db (shared s)) token = Some acc \<and>
        device_of (app_db (shared s)) di = Some dev \<and> may_remove acc dev q) \<and>
     device_online st' di = None \<and> otp st' di = None \<and> connections st' = connections (shared s) \<and>
     (\<forall>host. device_online (shared s) di = Some host \<and> rx_alive (channels (shared s) host) \<longrightarrow>
        (\<exists>m. inbox st' host = inbox (shared s) host @ [ServerError m])) \<and>
     sessions (snd (snd (handle_message c r (RequestConnection di cred) k cn (shared t)))) = sessions (shared t) \<and>
     (\<forall>i. conn_state cn = Authenticated i \<and> faults (app_db (shared t)) = [] \<longrightarrow>
        fst (handle_message c r (RequestConnection di cred) k cn (shared t)) = Inl ''unknown device'')"
proof -
  have wf: "db_wf (app_db (shared s))" using assms(1) by (simp add: server_inv_def)
  from removal [OF wf assms(2-5)] obtain token acc dev m where
    by_whom: "cookie_value hs SESSION_COOKIE = Some token" "session_of (app_db (shared s)) token = Some acc"
      "device_of (app_db (shared s)) di = Some dev" "may_remove acc dev q" and
    st': "st' = kick_device di m ((shared s)\<lparr>app_db := (app_db (shared s))\<lparr>devices_tbl :=
        filter (\<lambda>r. dr_id r \<noteq> di) (devices_tbl (app_db (shared s)))\<rparr>\<rparr>)" by blast
  have told: "inbox st' host = inbox (shared s) host @ [ServerError m]"
    if "device_online (shared s) di = Some host" "rx_alive (channels (shared s) host)" for host
  proof -
    have "connections (shared s) host = Some host"
      using assms(1) that(2) unfolding server_inv_def registry_ok_def by simp
    then show ?thesis
      using that by (simp add: st' kick_device_def Let_def send_inbox)
  qed
  have "no_device di (app_db (shared (s\<lparr>shared := st'\<rparr>)))" by (simp add: st' no_device_def)
  note gone = unknown_device_refused [OF run_no_device [OF assms(6) this assms(7)]]
  show ?thesis using by_whom told gone by (auto simp: st')
qed

text \<open>The owner removes its device through the web page; the host announces it again, and the
  controller asks for it with the one-time password that the host now shows.\<close>

definition wit_redraw :: entropy where
  "wit_redraw = wit_entropy\<lparr>rnd_device := (1, 2, 3)\<rparr>"

lemma wit_redraw_id: "generate_device_id wit_redraw \<noteq> ''012 345 006''"
  by code_simp

theorem removed_device_unreachable_witness:
  "\<exists>t :: server. device_online (shared t) ''012 345 006'' = Some ''host'' \<and>
     otp (shared t) ''012 345 006'' = Some (generate_one_time_password wit_redraw) \<and>
     fst (handle_message wit_crypto wit_entropy
       (RequestConnection ''012 345 006'' (OneTimePassword (generate_one_time_password wit_redraw))) ''ctl'' wit_ctl (shared t)) =
       Inl ''unknown device''"
proof -
  let ?q = "DeleteDevice ''012 345 006''"
  define resp st' where "resp = fst (http wit_http wit_headers ?q (shared wit_paired))"
    and "st' = snd (http wit_http wit_headers ?q (shared wit_paired))"
  have f: "faults (app_db (shared wit_paired)) = []" by (simp add: wit_paired_def wit_defs)
  have h: "http wit_http wit_headers ?q (shared wit_paired) = (resp, st')" by (simp add: resp_def st'_def)
  have "status resp = NO_CONTENT \<and> faults (app_db st') = []"
    using wit_cookie
    by (simp add: resp_def st'_def delete_own_def require_account_def current_account_def with_db_def find_session_def db_eval
        delete_device_def wit_paired_def wit_defs status_response_def)
  then have ok: "status resp = NO_CONTENT" "faults (app_db st') = []" by simp_all
  let ?host = "\<lparr>conn_state = Authenticated 1, my_device_id = Some ''012 345 006''\<rparr>"
  define x where "x = ws_text wit_crypto wit_redraw (RegisterDevice ''pc'') ''host'' ?host st'"
  define t where "t = wit_paired\<lparr>shared := st'\<rparr>\<lparr>shared := snd x, tasks := (tasks wit_paired)(''host'' \<mapsto> fst x)\<rparr>"
  have "server_step (TextMessage wit_crypto wit_redraw (RegisterDevice ''pc'') ''host'') (wit_paired\<lparr>shared := st'\<rparr>) t"
    using step_text [of "wit_paired\<lparr>shared := st'\<rparr>" "''host''" ?host wit_crypto wit_redraw "RegisterDevice ''pc''" "fst x" "snd x"]
    by (simp add: x_def t_def) (simp add: wit_paired_def)
  then have run: "server_run [TextMessage wit_crypto wit_redraw (RegisterDevice ''pc'') ''host''] (wit_paired\<lparr>shared := st'\<rparr>) t"
    by simp
  have on: "device_online (snd x) ''012 345 006'' = Some ''host'' \<and>
      otp (snd x) ''012 345 006'' = Some (generate_one_time_password wit_redraw) \<and> app_db (snd x) = app_db st'"
    by (simp add: x_def ws_text_eq ws_register_device_def require_auth_def announce_device_def Let_def ws_eval split: sum.split)
  have sh: "shared t = snd x" by (simp add: t_def)
  have "\<forall>i. conn_state wit_ctl = Authenticated i \<and> faults (app_db (shared t)) = [] \<longrightarrow>
      fst (handle_message wit_crypto wit_entropy (RequestConnection ''012 345 006'' (OneTimePassword (generate_one_time_password wit_redraw)))
         ''ctl'' wit_ctl (shared t)) = Inl ''unknown device''"
    using removed_device_unreachable [OF wit_paired_inv f _ h ok(1) run] wit_redraw_id by (simp del: handle_message.simps)
  then show ?thesis using on ok(2) unfolding sh by (intro exI [of _ t]) (simp add: sh wit_ctl_def del: handle_message.simps)
qed

end
