(* ===== verification/Handler_Steps.thy ===== *)
theory Handler_Steps
  imports Server_Properties
begin

text \<open>
  The handlers of \<^verbatim>\<open>visuara-signaling/src\<close> as programs of atomic steps.  Elsewhere in this development a
  handler is one step; in the code it runs on a multi-threaded runtime and what is atomic is one call of a
  \<open>Db\<close> method (a lock on the connection), one access to a \<open>DashMap\<close> (the guards that the code keeps over
  a send included) or one send.  A program is a value or an access to the shared state that gives the rest of the
  program; \<open>exec\<close> runs it without interruption.  Each handler is written here a second time, access by
  access, and shown to have the model used elsewhere as its uninterrupted run.
\<close>

section \<open>Programs\<close>

datatype 'a prog = Finished 'a | Access "app_state \<Rightarrow> 'a prog \<times> app_state"

primrec exec :: "'a prog \<Rightarrow> app_state \<Rightarrow> 'a \<times> app_state" where
  "exec (Finished x) = (\<lambda>st. (x, st))"
| "exec (Access f) = (\<lambda>st. case (map_prod exec id \<circ> f) st of (g, st') \<Rightarrow> g st')"

primrec bind_prog :: "'a prog \<Rightarrow> ('a \<Rightarrow> 'b prog) \<Rightarrow> 'b prog" where
  "bind_prog (Finished x) k = k x"
| "bind_prog (Access f) k = Access (map_prod (\<lambda>p. bind_prog p k) id \<circ> f)"

lemma exec_Access [simp]: "exec (Access f) st = exec (fst (f st)) (snd (f st))"
  by (simp add: case_prod_beta)

declare exec.simps(2) [simp del]

lemma prog_induct [case_names Finished Access, induct type: prog]:
  assumes "\<And>x. P (Finished x)" and "\<And>f. (\<And>st. P (fst (f st))) \<Longrightarrow> P (Access f)"
  shows "P p"
proof (induction p rule: prog.induct)
  case (Access f)
  show ?case by (rule assms(2), rule Access [OF rangeI fsts.intros])
qed (rule assms(1))

lemma bind_Access [simp]: "bind_prog (Access f) k = Access (\<lambda>st. (bind_prog (fst (f st)) k, snd (f st)))"
  by (simp add: fun_eq_iff prod_eq_iff)

declare bind_prog.simps(2) [simp del]

lemma exec_bind [simp]: "exec (bind_prog p k) st = exec (k (fst (exec p st))) (snd (exec p st))"
  by (induction p arbitrary: st) simp_all

text \<open>The accesses: a method of the database, reading, changing, sending.\<close>

definition call :: "'a db_op \<Rightarrow> (string, 'a) result prog" where
  "call op = Access (\<lambda>st. apfst Finished (with_db op st))"

definition look :: "(app_state \<Rightarrow> 'a) \<Rightarrow> 'a prog" where
  "look f = Access (\<lambda>st. (Finished (f st), st))"

definition change :: "(app_state \<Rightarrow> app_state) \<Rightarrow> unit prog" where
  "change f = Access (\<lambda>st. (Finished (), f st))"

definition act :: "(app_state \<Rightarrow> 'a \<times> app_state) \<Rightarrow> 'a prog" where
  "act f = Access (\<lambda>st. apfst Finished (f st))"

lemma exec_accesses [simp]:
  "exec (call op) st = with_db op st" "exec (look f) st = (f st, st)" "exec (change g) st = ((), g st)"
  "exec (act h) st = h st"
  by (simp_all add: call_def look_def change_def act_def prod_eq_iff)

section \<open>ws.rs, access by access\<close>

type_synonym reply_prog = "((string, unit) result \<times> conn) prog"

definition reply_prog :: "conn_id \<Rightarrow> server_message \<Rightarrow> conn \<Rightarrow> reply_prog" where
  "reply_prog tx msg cn = bind_prog (act (send tx msg)) (\<lambda>res. Finished (res, cn))"

text \<open>\<open>create_account_and_maybe_bootstrap_admin\<close> of \<open>session.rs\<close>: three calls.\<close>

definition bootstrap_prog :: "string \<Rightarrow> string \<Rightarrow> (string, int \<times> account_role) result prog" where
  "bootstrap_prog email hash = bind_prog (call count_accounts) (\<lambda>n. case n of
       Inl e \<Rightarrow> Finished (Inl e)
     | Inr n \<Rightarrow>
         let is_first = (n = 0); role = (if is_first then Admin else User) in
         bind_prog (call (create_account email hash role)) (\<lambda>i. case i of
             Inl e \<Rightarrow> Finished (Inl e)
           | Inr i \<Rightarrow>
               if is_first
               then bind_prog (call (set_registration_enabled False)) (\<lambda>u. case u of
                      Inl e \<Rightarrow> Finished (Inl e) | Inr _ \<Rightarrow> Finished (Inr (i, role)))
               else Finished (Inr (i, role))))"

definition register_prog :: "crypto \<Rightarrow> entropy \<Rightarrow> conn_id \<Rightarrow> string \<Rightarrow> string \<Rightarrow> conn \<Rightarrow> reply_prog" where
  "register_prog c r cid email password cn = bind_prog (call registration_enabled) (\<lambda>en.
     if \<not> (case en of Inr b \<Rightarrow> b | Inl _ \<Rightarrow> True)
     then reply_prog cid (AuthError ''registration is currently disabled'') cn
     else case hash_password c r password of
            Inl e \<Rightarrow> Finished (Inl e, cn)
          | Inr hash \<Rightarrow> bind_prog (bootstrap_prog email hash) (\<lambda>res. case res of
                Inr (i, _) \<Rightarrow> reply_prog cid (AuthOk (generate_session_token r)) (cn\<lparr>conn_state := Authenticated i\<rparr>)
              | Inl e \<Rightarrow> reply_prog cid (AuthError (''registration failed: '' @ e)) cn))"

definition login_prog :: "crypto \<Rightarrow> entropy \<Rightarrow> conn_id \<Rightarrow> string \<Rightarrow> string \<Rightarrow> conn \<Rightarrow> reply_prog" where
  "login_prog c r cid email password cn = bind_prog (call (find_account_by_email email)) (\<lambda>res. case res of
       Inl e \<Rightarrow> Finished (Inl e, cn)
     | Inr (Some a) \<Rightarrow>
         if verify_password c password (acc_password_hash a)
         then reply_prog cid (AuthOk (generate_session_token r)) (cn\<lparr>conn_state := Authenticated (acc_id a)\<rparr>)
         else reply_prog cid (AuthError ''invalid email or password'') cn
     | Inr None \<Rightarrow> reply_prog cid (AuthError ''invalid email or password'') cn)"

definition announce_prog :: "entropy \<Rightarrow> conn_id \<Rightarrow> device_id \<Rightarrow> conn \<Rightarrow> reply_prog" where
  "announce_prog r cid di cn =
     bind_prog (change (\<lambda>st. st\<lparr>device_online := (device_online st)(di \<mapsto> cid)\<rparr>)) (\<lambda>_.
       let code = generate_one_time_password r in
       bind_prog (change (\<lambda>st. st\<lparr>otp := (otp st)(di \<mapsto> code)\<rparr>)) (\<lambda>_.
         reply_prog cid (DeviceRegistered di code) cn))"

definition register_device_prog :: "entropy \<Rightarrow> conn_id \<Rightarrow> string \<Rightarrow> conn \<Rightarrow> reply_prog" where
  "register_device_prog r cid name cn =
     (case require_auth (conn_state cn) of
        Inl e \<Rightarrow> Finished (Inl e, cn)
      | Inr i \<Rightarrow>
          (case my_device_id cn of
             Some di \<Rightarrow> announce_prog r cid di cn
           | None \<Rightarrow>
               let di = generate_device_id r in
               bind_prog (call (create_device di i name)) (\<lambda>res. case res of
                   Inl e \<Rightarrow> Finished (Inl e, cn)
                 | Inr _ \<Rightarrow> announce_prog r cid di (cn\<lparr>my_device_id := Some di\<rparr>))))"

fun summaries_prog :: "device list \<Rightarrow> device_summary list prog" where
  "summaries_prog [] = Finished []"
| "summaries_prog (d # ds) = bind_prog (look (\<lambda>st. summarize st d)) (\<lambda>s.
     bind_prog (summaries_prog ds) (\<lambda>ss. Finished (s # ss)))"

definition list_devices_prog :: "conn_id \<Rightarrow> conn \<Rightarrow> reply_prog" where
  "list_devices_prog cid cn =
     (case require_auth (conn_state cn) of
        Inl e \<Rightarrow> Finished (Inl e, cn)
      | Inr i \<Rightarrow> bind_prog (call (list_devices_for_account i)) (\<lambda>res. case res of
            Inl e \<Rightarrow> Finished (Inl e, cn)
          | Inr ds \<Rightarrow> bind_prog (summaries_prog ds) (\<lambda>ss. reply_prog cid (DeviceList ss) cn)))"

text \<open>The check of the credential looks at \<open>otp\<close> for a one-time password and at nothing for a fixed one.\<close>

definition credential_prog :: "crypto \<Rightarrow> device_id \<Rightarrow> device \<Rightarrow> connect_credential \<Rightarrow> bool prog" where
  "credential_prog c target dev cred =
     (case cred of
        OneTimePassword code \<Rightarrow>
          look (\<lambda>st. case otp st target of Some current \<Rightarrow> current = code | None \<Rightarrow> False)
      | UnattendedPassword pw \<Rightarrow>
          Finished (case dev_unattended_password_hash dev of Some h \<Rightarrow> verify_password c pw h | None \<Rightarrow> False))"

definition request_prog ::
  "crypto \<Rightarrow> entropy \<Rightarrow> conn_id \<Rightarrow> device_id \<Rightarrow> connect_credential \<Rightarrow> conn \<Rightarrow> reply_prog" where
  "request_prog c r cid target cred cn =
     (case require_auth (conn_state cn) of
        Inl e \<Rightarrow> Finished (Inl e, cn)
      | Inr _ \<Rightarrow> bind_prog (call (find_device target)) (\<lambda>res. case res of
            Inl e \<Rightarrow> Finished (Inl e, cn)
          | Inr None \<Rightarrow> Finished (Inl ''unknown device'', cn)
          | Inr (Some dev) \<Rightarrow> bind_prog (credential_prog c target dev cred) (\<lambda>ok.
              if \<not> ok then reply_prog cid (ServerError ''invalid credential'') cn
              else bind_prog (look (\<lambda>st. device_online st target)) (\<lambda>host. case host of
                     None \<Rightarrow> Finished (Inl ''device is offline'', cn)
                   | Some host \<Rightarrow>
                       let sid = rnd_uuid r in
                       bind_prog (change (\<lambda>st. st\<lparr>sessions := (sessions st)(sid \<mapsto> \<lparr>peer_a = cid, peer_b = host\<rparr>)\<rparr>)) (\<lambda>_.
                         bind_prog (act (\<lambda>st. case connections st host of
                             Some host_tx \<Rightarrow> send host_tx (IncomingConnection sid None) st
                           | None \<Rightarrow> (Inr (), st))) (\<lambda>sent. case sent of
                               Inl e \<Rightarrow> Finished (Inl e, cn)
                             | Inr _ \<Rightarrow> reply_prog cid (ConnectionEstablished sid target) cn))))))"

text \<open>The guards of \<open>relay\<close> on \<open>sessions\<close> and \<open>connections\<close> live until the send.\<close>

definition relay_prog :: "conn_id \<Rightarrow> session_id \<Rightarrow> server_message \<Rightarrow> conn \<Rightarrow> reply_prog" where
  "relay_prog cid sid msg cn = bind_prog (act (relay cid sid msg)) (\<lambda>res. Finished (res, cn))"

definition turn_prog :: "crypto \<Rightarrow> entropy \<Rightarrow> conn_id \<Rightarrow> conn \<Rightarrow> reply_prog" where
  "turn_prog c r cid cn = bind_prog (look turn) (\<lambda>t.
     case mint_credentials c r t cid 300 of (username, password) \<Rightarrow>
       reply_prog cid (TurnCredentials (turn_urls t) username password 300) cn)"

definition set_unattended_prog ::
  "crypto \<Rightarrow> entropy \<Rightarrow> device_id \<Rightarrow> string \<Rightarrow> conn \<Rightarrow> reply_prog" where
  "set_unattended_prog c r target password cn =
     (case require_auth (conn_state cn) of
        Inl e \<Rightarrow> Finished (Inl e, cn)
      | Inr i \<Rightarrow> bind_prog (call (find_device target)) (\<lambda>res. case res of
            Inl e \<Rightarrow> Finished (Inl e, cn)
          | Inr None \<Rightarrow> Finished (Inl ''unknown device'', cn)
          | Inr (Some dev) \<Rightarrow>
              if dev_account_id dev \<noteq> i then Finished (Inl ''not your device'', cn)
              else (case hash_password c r password of
                      Inl e \<Rightarrow> Finished (Inl e, cn)
                    | Inr hash \<Rightarrow> bind_prog (call (set_unattended_password_hash target hash)) (\<lambda>res. case res of
                          Inl e \<Rightarrow> Finished (Inl e, cn)
                        | Inr _ \<Rightarrow> bind_prog (act (\<lambda>st. case Option.bind (device_online st target) (connections st) of
                              Some host_tx \<Rightarrow> send host_tx (UnattendedPasswordUpdated password) st
                            | None \<Rightarrow> (Inr (), st))) (\<lambda>res. Finished (res, cn))))))"

fun message_prog :: "crypto \<Rightarrow> entropy \<Rightarrow> client_message \<Rightarrow> conn_id \<Rightarrow> conn \<Rightarrow> reply_prog" where
  "message_prog c r (Register email password) cid cn = register_prog c r cid email password cn"
| "message_prog c r (Login email password) cid cn = login_prog c r cid email password cn"
| "message_prog c r (RegisterDevice name) cid cn = register_device_prog r cid name cn"
| "message_prog c r ListDevices cid cn = list_devices_prog cid cn"
| "message_prog c r (RequestConnection target cred) cid cn = request_prog c r cid target cred cn"
| "message_prog c r (SdpOffer sid sdp) cid cn = relay_prog cid sid (SrvSdpOffer sid sdp) cn"
| "message_prog c r (SdpAnswer sid sdp) cid cn = relay_prog cid sid (SrvSdpAnswer sid sdp) cn"
| "message_prog c r (IceCandidate sid cand) cid cn = relay_prog cid sid (SrvIceCandidate sid cand) cn"
| "message_prog c r RequestTurnCredentials cid cn = turn_prog c r cid cn"
| "message_prog c r (SetUnattendedPassword target password) cid cn = set_unattended_prog c r target password cn"

text \<open>\<open>handle_socket\<close>: the insertion into the registry, the loop over the frames of the socket until it ends, and
  the clean-up.  A frame is a message that parses, with the randomness of its handler, or a text that does not.\<close>

datatype frame = Parsed entropy client_message | Unparsable string

definition text_prog :: "crypto \<Rightarrow> entropy \<Rightarrow> client_message \<Rightarrow> conn_id \<Rightarrow> conn \<Rightarrow> conn prog" where
  "text_prog c r msg cid cn = bind_prog (message_prog c r msg cid cn) (\<lambda>(res, cn'). case res of
       Inr _ \<Rightarrow> Finished cn'
     | Inl e \<Rightarrow> bind_prog (act (send cid (ServerError e))) (\<lambda>_. Finished cn'))"

fun frames_prog :: "crypto \<Rightarrow> conn_id \<Rightarrow> frame list \<Rightarrow> conn \<Rightarrow> conn prog" where
  "frames_prog c cid [] cn = Finished cn"
| "frames_prog c cid (Parsed r msg # fs) cn = bind_prog (text_prog c r msg cid cn) (\<lambda>cn'. frames_prog c cid fs cn')"
| "frames_prog c cid (Unparsable e # fs) cn =
     bind_prog (act (send cid (ServerError (''malformed message: '' @ e)))) (\<lambda>_. frames_prog c cid fs cn)"

definition close_prog :: "conn_id \<Rightarrow> conn \<Rightarrow> unit prog" where
  "close_prog cid cn =
     bind_prog (change (\<lambda>st. st\<lparr>connections := (connections st)(cid := None)\<rparr>)) (\<lambda>_.
       bind_prog (case my_device_id cn of
           Some di \<Rightarrow> bind_prog (change (\<lambda>st. st\<lparr>device_online := (device_online st)(di := None)\<rparr>)) (\<lambda>_.
                        change (\<lambda>st. st\<lparr>otp := (otp st)(di := None)\<rparr>))
         | None \<Rightarrow> Finished ()) (\<lambda>_. change (drop_receiver cid)))"

definition socket_prog :: "crypto \<Rightarrow> conn_id \<Rightarrow> frame list \<Rightarrow> unit prog" where
  "socket_prog c cid fs = bind_prog (act (ws_open cid)) (\<lambda>cn.
     bind_prog (frames_prog c cid fs cn) (\<lambda>cn'. close_prog cid cn'))"

section \<open>The uninterrupted runs\<close>

lemma exec_reply [simp]:
  "exec (reply_prog tx m cn) st = ((fst (send tx m st), cn), snd (send tx m st))"
  by (simp add: reply_prog_def)

lemma exec_bootstrap [simp]:
  "exec (bootstrap_prog e h) st = with_db (create_account_and_maybe_bootstrap_admin e h) st"
  by (simp add: bootstrap_prog_def create_account_and_maybe_bootstrap_admin_def with_db_pair case_prod_beta Let_def
      split: sum.split)

lemma exec_announce: "exec (announce_prog r cid di cn) st =
    (case announce_device r cid di cn st of (res, cn', st') \<Rightarrow> ((res, cn'), st'))"
  by (simp add: announce_prog_def announce_device_def Let_def reply_def case_prod_beta)

lemma exec_summaries [simp]: "exec (summaries_prog ds) st = (map (summarize st) ds, st)"
  by (induction ds) simp_all

lemma exec_credential [simp]: "exec (credential_prog c target dev cred) st = (credential_ok c st target dev cred, st)"
  by (simp add: credential_prog_def credential_ok_def split: connect_credential.split)


lemmas step_progs = register_prog_def login_prog_def register_device_prog_def list_devices_prog_def
  request_prog_def relay_prog_def turn_prog_def set_unattended_prog_def

definition flat :: "('a \<times> 'b) \<times> 'c \<Rightarrow> 'a \<times> 'b \<times> 'c" where
  "flat x = (fst (fst x), snd (fst x), snd x)"

lemma flat_simps [simp]: "flat ((a, b), s) = (a, b, s)"
  by (simp add: flat_def)

lemma exec_message: "flat (exec (message_prog c r m cid cn) st) = handle_message c r m cid cn st"
  by (cases m) (simp_all add: step_progs ws_arms ws_eval exec_announce reply_def flat_def
      split: sum.split option.split conn_state.split)

lemma exec_text: "exec (text_prog c r m cid cn) st = ws_text c r m cid cn st"
  using exec_message [of c r m cid cn st, symmetric]
  by (simp add: text_prog_def ws_text_def flat_def case_prod_beta split: sum.split)

lemma exec_close: "exec (close_prog cid cn) st = ((), ws_close cid cn st)"
  by (simp add: close_prog_def ws_close_def Let_def drop_receiver_def split: option.split)

section \<open>The HTTP handlers\<close>

definition current_account_prog :: "headers \<Rightarrow> authed_account option prog" where
  "current_account_prog hs =
     (case cookie_value hs SESSION_COOKIE of
        None \<Rightarrow> Finished None
      | Some token \<Rightarrow> bind_prog (call (find_session token)) (\<lambda>res. case res of
            Inr (Some a) \<Rightarrow> Finished (Some \<lparr>aa_id = acc_id a, aa_email = acc_email a, aa_role = acc_role a\<rparr>)
          | _ \<Rightarrow> Finished None))"

text \<open>The guards at the head of a handler: \<open>require_account\<close>, \<open>require_admin\<close>.\<close>

definition with_account :: "headers \<Rightarrow> (authed_account \<Rightarrow> response prog) \<Rightarrow> response prog" where
  "with_account hs k = bind_prog (current_account_prog hs) (\<lambda>a. case a of
       None \<Rightarrow> Finished (status_response UNAUTHORIZED) | Some account \<Rightarrow> k account)"

definition with_admin :: "headers \<Rightarrow> (authed_account \<Rightarrow> response prog) \<Rightarrow> response prog" where
  "with_admin hs k = with_account hs (\<lambda>account.
     if aa_role account = Admin then k account else Finished (status_response FORBIDDEN))"

definition start_session_prog :: "alt \<Rightarrow> entropy \<Rightarrow> int \<Rightarrow> string \<Rightarrow> account_role \<Rightarrow> response prog" where
  "start_session_prog alt r account_id email role =
     (let token = generate_session_token r in
      bind_prog (call (create_session token account_id)) (\<lambda>res. case res of
        Inl e \<Rightarrow> Finished (error_response INTERNAL_SERVER_ERROR (''failed to create session: '' @ alt e))
      | Inr _ \<Rightarrow> Finished ((ok_response (AccountBody \<lparr>av_id = account_id, av_email = email, av_role = role\<rparr>))
             \<lparr>set_cookie := Some (set_session_cookie token)\<rparr>)))"

definition http_register_prog :: "alt \<Rightarrow> crypto \<Rightarrow> entropy \<Rightarrow> string \<Rightarrow> string \<Rightarrow> response prog" where
  "http_register_prog alt c r body_email password =
     (let email = trim body_email in
      if email = [] \<or> password = []
      then Finished (error_response BAD_REQUEST ''email and password are required'')
      else bind_prog (call registration_enabled) (\<lambda>en. case en of
             Inr False \<Rightarrow> Finished (error_response FORBIDDEN ''registration is currently disabled'')
           | Inl e \<Rightarrow> Finished (error_response INTERNAL_SERVER_ERROR (alt e))
           | Inr True \<Rightarrow>
               (case hash_password c r password of
                  Inl e \<Rightarrow> Finished (error_response INTERNAL_SERVER_ERROR (''failed to hash password: '' @ e))
                | Inr hash \<Rightarrow> bind_prog (bootstrap_prog email hash) (\<lambda>res. case res of
                      Inr (account_id, role) \<Rightarrow> start_session_prog alt r account_id email role
                    | Inl e \<Rightarrow> Finished (error_response CONFLICT
                            (if contains e ''UNIQUE'' then already_registered
                             else ''registration failed: '' @ alt e))))))"

definition http_login_prog :: "alt \<Rightarrow> crypto \<Rightarrow> entropy \<Rightarrow> string \<Rightarrow> string \<Rightarrow> response prog" where
  "http_login_prog alt c r body_email password =
     (let email = trim body_email in
      bind_prog (call (find_account_by_email email)) (\<lambda>res. case res of
        Inr (Some account) \<Rightarrow>
          if verify_password c password (acc_password_hash account)
          then start_session_prog alt r (acc_id account) (acc_email account) (acc_role account)
          else Finished (error_response UNAUTHORIZED ''incorrect email or password'')
      | Inr None \<Rightarrow> Finished (error_response UNAUTHORIZED ''incorrect email or password'')
      | Inl e \<Rightarrow> Finished (error_response INTERNAL_SERVER_ERROR (alt e))))"

definition logout_prog :: "headers \<Rightarrow> response prog" where
  "logout_prog hs =
     bind_prog (case cookie_value hs SESSION_COOKIE of
         Some token \<Rightarrow> bind_prog (call (delete_session token)) (\<lambda>_. Finished ())
       | None \<Rightarrow> Finished ())
       (\<lambda>_. Finished ((status_response NO_CONTENT)\<lparr>set_cookie := Some clear_session_cookie\<rparr>))"

definition kick_prog :: "device_id \<Rightarrow> string \<Rightarrow> unit prog" where
  "kick_prog di message =
     bind_prog (act (\<lambda>st. (device_online st di, st\<lparr>device_online := (device_online st)(di := None)\<rparr>))) (\<lambda>live_conn.
       bind_prog (change (\<lambda>st. st\<lparr>otp := (otp st)(di := None)\<rparr>)) (\<lambda>_.
         case live_conn of
           None \<Rightarrow> Finished ()
         | Some conn_id \<Rightarrow> change (\<lambda>st. case connections st conn_id of
             Some tx \<Rightarrow> snd (send tx (ServerError message) st) | None \<Rightarrow> st)))"

definition delete_own_prog :: "alt \<Rightarrow> headers \<Rightarrow> device_id \<Rightarrow> response prog" where
  "delete_own_prog alt hs di = with_account hs (\<lambda>account.
     bind_prog (call (find_device di)) (\<lambda>res. case res of
         Inl e \<Rightarrow> Finished (error_response INTERNAL_SERVER_ERROR (alt e))
       | Inr None \<Rightarrow> Finished (error_response NOT_FOUND ''device not found'')
       | Inr (Some dev) \<Rightarrow>
           if dev_account_id dev = aa_id account
           then bind_prog (call (delete_device di)) (\<lambda>_. bind_prog (kick_prog di ''This device was removed.'') (\<lambda>_.
                  Finished (status_response NO_CONTENT)))
           else Finished (error_response FORBIDDEN ''not your device'')))"

definition save_settings_prog :: "headers \<Rightarrow> string \<Rightarrow> string \<Rightarrow> response prog" where
  "save_settings_prog hs body_url body_name = with_admin hs (\<lambda>_.
     let server_url = trim body_url; default_device_name = trim body_name in
     bind_prog (call (set_setting ''server_url'' server_url)) (\<lambda>_.
       bind_prog (call (set_setting ''default_device_name'' default_device_name)) (\<lambda>_.
         Finished (ok_response (SettingsBody \<lparr>sv_server_url = server_url,
                sv_default_device_name = default_device_name\<rparr>)))))"

definition set_registration_prog :: "alt \<Rightarrow> headers \<Rightarrow> bool \<Rightarrow> response prog" where
  "set_registration_prog alt hs enabled = with_admin hs (\<lambda>_.
     bind_prog (call (set_registration_enabled enabled)) (\<lambda>res. case res of
         Inr _ \<Rightarrow> Finished (ok_response (EnabledBody enabled))
       | Inl e \<Rightarrow> Finished (error_response INTERNAL_SERVER_ERROR (alt e))))"

definition create_account_prog ::
  "alt \<Rightarrow> crypto \<Rightarrow> entropy \<Rightarrow> headers \<Rightarrow> string \<Rightarrow> string \<Rightarrow> account_role option \<Rightarrow> response prog" where
  "create_account_prog alt c r hs body_email password body_role = with_admin hs (\<lambda>_.
     let email = trim body_email in
     if email = [] \<or> password = []
     then Finished (error_response BAD_REQUEST ''email and password are required'')
     else case hash_password c r password of
            Inl e \<Rightarrow> Finished (error_response INTERNAL_SERVER_ERROR (''failed to hash password: '' @ e))
          | Inr hash \<Rightarrow>
              let role = (case body_role of Some x \<Rightarrow> x | None \<Rightarrow> User) in
              bind_prog (call (create_account email hash role)) (\<lambda>res. case res of
                  Inr i \<Rightarrow> Finished ((ok_response (AccountBody \<lparr>av_id = i, av_email = email, av_role = role\<rparr>))
                      \<lparr>status := CREATED\<rparr>)
                | Inl e \<Rightarrow> Finished (error_response CONFLICT
                    (if contains e ''UNIQUE'' then ''That email is already registered.''
                     else ''failed to create account: '' @ alt e))))"

definition guard_last_admin_prog :: "alt \<Rightarrow> int \<Rightarrow> (response, unit) result prog" where
  "guard_last_admin_prog alt account_id = bind_prog (call (find_account_by_id account_id)) (\<lambda>res. case res of
       Inr (Some account) \<Rightarrow>
         if acc_role account \<noteq> Admin then Finished (Inr ())
         else bind_prog (call count_admins) (\<lambda>n. case n of
                Inr n \<Rightarrow> Finished (if n \<le> 1
                   then Inl (error_response CONFLICT ''cannot remove the last remaining admin account'') else Inr ())
              | Inl e \<Rightarrow> Finished (Inl (error_response INTERNAL_SERVER_ERROR (alt e))))
     | _ \<Rightarrow> Finished (Inr ()))"

text \<open>The end that the two guarded writes share.\<close>

definition write_prog :: "alt \<Rightarrow> unit db_op \<Rightarrow> response prog" where
  "write_prog alt op = bind_prog (call op) (\<lambda>res. case res of
       Inr _ \<Rightarrow> Finished (status_response NO_CONTENT)
     | Inl e \<Rightarrow> Finished (error_response INTERNAL_SERVER_ERROR (alt e)))"

definition set_role_prog :: "alt \<Rightarrow> headers \<Rightarrow> int \<Rightarrow> account_role \<Rightarrow> response prog" where
  "set_role_prog alt hs account_id role = with_admin hs (\<lambda>_.
     bind_prog (if role \<noteq> Admin then guard_last_admin_prog alt account_id else Finished (Inr ())) (\<lambda>g. case g of
         Inl resp \<Rightarrow> Finished resp
       | Inr _ \<Rightarrow> write_prog alt (set_account_role account_id role)))"

definition delete_account_prog :: "alt \<Rightarrow> headers \<Rightarrow> int \<Rightarrow> response prog" where
  "delete_account_prog alt hs account_id = with_admin hs (\<lambda>_.
     bind_prog (guard_last_admin_prog alt account_id) (\<lambda>g. case g of
         Inl resp \<Rightarrow> Finished resp
       | Inr _ \<Rightarrow> write_prog alt (delete_account account_id)))"

definition admin_delete_device_prog :: "alt \<Rightarrow> headers \<Rightarrow> int \<Rightarrow> device_id \<Rightarrow> response prog" where
  "admin_delete_device_prog alt hs account_id di = with_admin hs (\<lambda>_.
     bind_prog (call (find_device di)) (\<lambda>res. case res of
         Inl e \<Rightarrow> Finished (error_response INTERNAL_SERVER_ERROR (alt e))
       | Inr None \<Rightarrow> Finished (error_response NOT_FOUND ''device not found for this account'')
       | Inr (Some dev) \<Rightarrow>
           if dev_account_id dev = account_id
           then bind_prog (call (delete_device di)) (\<lambda>_.
                  bind_prog (kick_prog di ''This device was removed by an administrator.'') (\<lambda>_.
                    Finished (status_response NO_CONTENT)))
           else Finished (error_response NOT_FOUND ''device not found for this account'')))"

text \<open>Requests that change nothing but the fetched builds, one step each.\<close>

fun request_steps :: "http_env \<Rightarrow> headers \<Rightarrow> http_request \<Rightarrow> response prog" where
  "request_steps v hs (PostRegister e p) = http_register_prog (he_alt v) (he_crypto v) (he_entropy v) e p"
| "request_steps v hs (PostLogin e p) = http_login_prog (he_alt v) (he_crypto v) (he_entropy v) e p"
| "request_steps v hs PostLogout = logout_prog hs"
| "request_steps v hs (DeleteDevice di) = delete_own_prog (he_alt v) hs di"
| "request_steps v hs (PutAdminSettings url name) = save_settings_prog hs url name"
| "request_steps v hs (PostAccounts e p role) =
     create_account_prog (he_alt v) (he_crypto v) (he_entropy v) hs e p role"
| "request_steps v hs (DeleteAccount i) = delete_account_prog (he_alt v) hs i"
| "request_steps v hs (PutAccountRole i role) = set_role_prog (he_alt v) hs i role"
| "request_steps v hs (DeleteAccountDevice i di) = admin_delete_device_prog (he_alt v) hs i di"
| "request_steps v hs (PutAdminRegistration b) = set_registration_prog (he_alt v) hs b"
| "request_steps v hs q = act (http v hs q)"

lemma exec_current [simp]: "exec (current_account_prog hs) st = current_account hs st"
  by (simp add: current_account_prog_def current_account_def case_prod_beta split: option.split sum.split)

lemma exec_with_account [simp]: "exec (with_account hs k) st = (case require_account hs st of
    (Inl s, st') \<Rightarrow> (status_response s, st') | (Inr a, st') \<Rightarrow> exec (k a) st')"
  by (simp add: with_account_def require_account_def case_prod_beta split: option.split)

lemma exec_with_admin [simp]: "exec (with_admin hs k) st = (case require_admin hs st of
    (Inl s, st') \<Rightarrow> (status_response s, st') | (Inr a, st') \<Rightarrow> exec (k a) st')"
  by (simp add: with_admin_def require_admin_def case_prod_beta split: sum.split)

lemma exec_start_session [simp]: "exec (start_session_prog alt r i e role) st = start_session alt r i e role st"
  by (simp add: start_session_prog_def start_session_def Let_def case_prod_beta split: sum.split)

lemma exec_kick [simp]: "exec (kick_prog di m) st = ((), kick_device di m st)"
  by (simp add: kick_prog_def kick_device_def Let_def split: option.split)

lemma exec_guard [simp]: "exec (guard_last_admin_prog alt i) st = guard_last_admin alt i st"
  by (simp add: guard_last_admin_prog_def guard_last_admin_def case_prod_beta if_pair prod_eq_iff split: sum.split option.split)

lemma exec_write [simp]: "exec (write_prog alt op) st = (case with_db op st of
    (Inr _, st') \<Rightarrow> (status_response NO_CONTENT, st')
  | (Inl e, st') \<Rightarrow> (error_response INTERNAL_SERVER_ERROR (alt e), st'))"
  by (simp add: write_prog_def case_prod_beta split: sum.split)

lemmas request_progs = http_register_prog_def http_login_prog_def logout_prog_def delete_own_prog_def
  save_settings_prog_def create_account_prog_def delete_account_prog_def set_role_prog_def
  admin_delete_device_prog_def set_registration_prog_def

lemmas request_handlers = register_def login_def logout_def delete_own_def save_settings_def
  admin_create_account_def admin_delete_account_def admin_set_account_role_def admin_delete_device_def
  set_registration_def

lemma exec_request: "exec (request_steps v hs q) st = http v hs q st"
  by (cases q) (simp_all add: request_progs request_handlers Let_def case_prod_beta
      split: sum.split option.split bool.split)

section \<open>Programs and the events of the server\<close>

text \<open>The events of one connection.\<close>

fun frame_event :: "crypto \<Rightarrow> conn_id \<Rightarrow> frame \<Rightarrow> event" where
  "frame_event c cid (Parsed r m) = TextMessage c r m cid"
| "frame_event c cid (Unparsable e) = MalformedMessage e cid"

definition socket_events :: "crypto \<Rightarrow> conn_id \<Rightarrow> frame list \<Rightarrow> event list" where
  "socket_events c cid fs = Open cid # map (frame_event c cid) fs @ [Close cid]"

lemma frames_run:
  assumes "tasks s cid = Some cn"
  shows "server_run (map (frame_event c cid) fs @ [Close cid]) s
    (s\<lparr>shared := snd (exec (bind_prog (frames_prog c cid fs cn) (close_prog cid)) (shared s)), tasks := (tasks s)(cid := None)\<rparr>)"
  using assms
proof (induction fs arbitrary: s cn)
  case Nil
  then show ?case using step_close [OF Nil] by (simp add: exec_close fun_upd_def)
next
  case (Cons f fs)
  show ?case
  proof (cases f)
    case (Parsed r m)
    let ?x = "ws_text c r m cid cn (shared s)"
    let ?u = "s\<lparr>shared := snd ?x, tasks := (tasks s)(cid \<mapsto> fst ?x)\<rparr>"
    have "server_step (TextMessage c r m cid) s ?u" by (rule step_text [OF Cons.prems]) simp
    moreover have "tasks ?u cid = Some (fst ?x)" by simp
    from Cons.IH [OF this] have "server_run (map (frame_event c cid) fs @ [Close cid]) ?u
      (?u\<lparr>shared := snd (exec (bind_prog (frames_prog c cid fs (fst ?x)) (close_prog cid)) (shared ?u)), tasks := (tasks ?u)(cid := None)\<rparr>)" .
    moreover have "?u\<lparr>shared := X, tasks := (tasks ?u)(cid := None)\<rparr> = s\<lparr>shared := X, tasks := (tasks s)(cid := None)\<rparr>" for X
      by (rule server.equality) simp_all
    moreover have "exec (bind_prog (frames_prog c cid (f # fs) cn) (close_prog cid)) (shared s) =
        exec (bind_prog (frames_prog c cid fs (fst ?x)) (close_prog cid)) (shared ?u)"
      by (simp add: Parsed exec_text)
    ultimately show ?thesis unfolding Parsed list.map append_Cons frame_event.simps server_run.simps by metis
  next
    case (Unparsable e)
    let ?u = "s\<lparr>shared := ws_malformed e cid (shared s)\<rparr>"
    have "server_step (MalformedMessage e cid) s ?u" by (rule step_malformed [OF Cons.prems])
    moreover have "tasks ?u cid = Some cn" using Cons.prems by simp
    from Cons.IH [OF this] have "server_run (map (frame_event c cid) fs @ [Close cid]) ?u
      (?u\<lparr>shared := snd (exec (bind_prog (frames_prog c cid fs cn) (close_prog cid)) (shared ?u)), tasks := (tasks ?u)(cid := None)\<rparr>)" .
    moreover have "?u\<lparr>shared := X, tasks := (tasks ?u)(cid := None)\<rparr> = s\<lparr>shared := X, tasks := (tasks s)(cid := None)\<rparr>" for X
      by (rule server.equality) simp_all
    moreover have "exec (bind_prog (frames_prog c cid (f # fs) cn) (close_prog cid)) (shared s) =
        exec (bind_prog (frames_prog c cid fs cn) (close_prog cid)) (shared ?u)"
      by (simp add: Unparsable ws_malformed_def)
    ultimately show ?thesis unfolding Unparsable list.map append_Cons frame_event.simps server_run.simps by metis
  qed
qed

lemma socket_run:
  assumes "tasks s cid = None"
  shows "server_run (socket_events c cid fs) s (s\<lparr>shared := snd (exec (socket_prog c cid fs) (shared s))\<rparr>)"
proof -
  let ?x = "ws_open cid (shared s)"
  let ?u = "s\<lparr>shared := snd ?x, tasks := (tasks s)(cid \<mapsto> fst ?x)\<rparr>"
  have "server_step (Open cid) s ?u" by (rule step_open [OF assms]) simp
  moreover have "tasks ?u cid = Some (fst ?x)" by simp
  from frames_run [OF this] have "server_run (map (frame_event c cid) fs @ [Close cid]) ?u
      (?u\<lparr>shared := snd (exec (bind_prog (frames_prog c cid fs (fst ?x)) (close_prog cid)) (shared ?u)), tasks := (tasks ?u)(cid := None)\<rparr>)" .
  moreover have "?u\<lparr>shared := X, tasks := (tasks ?u)(cid := None)\<rparr> = s\<lparr>shared := X\<rparr>" for X
    by (rule server.equality) (use assms in \<open>simp_all add: fun_upd_idem\<close>)
  moreover have "exec (socket_prog c cid fs) (shared s) =
      exec (bind_prog (frames_prog c cid fs (fst ?x)) (close_prog cid)) (shared ?u)"
    by (simp add: socket_prog_def)
  ultimately show ?thesis unfolding socket_events_def server_run.simps by metis
qed

section \<open>Properties\<close>

text \<open>
  The programs and the handlers are the same code: run without interruption, the program of a message, of the
  clean-up and of a request is the handler used elsewhere in this development, and the program of a whole
  connection is a run of the server's events.
\<close>

theorem uninterrupted_programs_are_handlers:
  "exec (text_prog c r m cid cn) st = ws_text c r m cid cn st \<and>
   exec (close_prog cid cn) st = ((), ws_close cid cn st) \<and>
   exec (request_steps v hs q) st = http v hs q st \<and>
   (tasks s cid = None \<longrightarrow>
      server_run (socket_events c cid fs) s (s\<lparr>shared := snd (exec (socket_prog c cid fs) (shared s))\<rparr>))"
  by (simp add: exec_text exec_close exec_request socket_run)

theorem uninterrupted_programs_are_handlers_witness:
  "\<exists>t. server_run [Open ''k'', MalformedMessage ''?'' ''k'', Close ''k''] wit_server t"
proof -
  have "tasks wit_server ''k'' = None" by (simp add: wit_server_def)
  then show ?thesis
    using uninterrupted_programs_are_handlers [of wit_crypto wit_entropy ListDevices "''k''" wit_conn "shared wit_server"
        wit_env wit_headers GetMe wit_server "[Unparsable ''?'']" for wit_conn wit_env]
    by (auto simp: socket_events_def simp del: server_run.simps)
qed

end
