(* ===== verification/Interleaving.thy ===== *)
theory Interleaving
  imports Handler_Steps
begin

text \<open>
  Handlers that run at the same time.  A pool is a list of running programs over one shared state, a
  schedule says whose turn it is, and a turn is one access.  A small rely-guarantee logic (\<open>rg\<close>) reasons about one
  program against whatever the others may do; \<open>observe\<close> runs one program over the states it happens to find.
  A request that the client abandons is a program that gets no further turn.
\<close>

section \<open>Pools\<close>

type_synonym 'a pool = "'a prog list \<times> app_state"

fun turn_of :: "nat \<Rightarrow> 'a pool \<Rightarrow> 'a pool" where
  "turn_of i (ps, st) =
     (if i < length ps
      then case ps ! i of
             Finished x \<Rightarrow> (ps, st)
           | Access f \<Rightarrow> (case f st of (p, st') \<Rightarrow> (ps[i := p], st'))
      else (ps, st))"

definition run_schedule :: "nat list \<Rightarrow> 'a pool \<Rightarrow> 'a pool" where
  "run_schedule sch pool = fold turn_of sch pool"

section \<open>Rely and guarantee\<close>

type_synonym interference = "app_state \<Rightarrow> app_state \<Rightarrow> bool"

definition stable :: "interference \<Rightarrow> (app_state \<Rightarrow> bool) \<Rightarrow> bool" where
  "stable R P \<longleftrightarrow> (\<forall>s t. P s \<longrightarrow> R s t \<longrightarrow> P t)"

text \<open>\<open>rg R G Q P p\<close>: started in a state with \<open>P\<close> and with the steps of the others in \<open>R\<close>, all steps of \<open>p\<close> are in
  \<open>G\<close>, and when it returns \<open>x\<close> the state has \<open>Q x\<close>.\<close>

inductive rg :: "interference \<Rightarrow> interference \<Rightarrow> ('a \<Rightarrow> app_state \<Rightarrow> bool) \<Rightarrow> (app_state \<Rightarrow> bool) \<Rightarrow> 'a prog \<Rightarrow> bool"
  for R G :: interference and Q :: "'a \<Rightarrow> app_state \<Rightarrow> bool" where
  rg_finished: "(\<And>st. P st \<Longrightarrow> Q x st) \<Longrightarrow> rg R G Q P (Finished x)"
| rg_access: "(\<And>st. P st \<Longrightarrow> G st (snd (f st)) \<and>
      (\<exists>P'. P' (snd (f st)) \<and> stable R P' \<and> rg R G Q P' (fst (f st)))) \<Longrightarrow> rg R G Q P (Access f)"

inductive_cases rg_finishedE: "rg R G Q P (Finished x)"
inductive_cases rg_accessE: "rg R G Q P (Access f)"

lemma rg_pre:
  assumes "rg R G Q P p" and "\<And>st. P' st \<Longrightarrow> P st"
  shows "rg R G Q P' p"
  using assms(1)
proof cases
  case (rg_finished x)
  then show ?thesis using assms(2) by (simp add: rg.rg_finished)
next
  case (rg_access f)
  show ?thesis unfolding rg_access(1) by (rule rg.rg_access, rule rg_access(2), rule assms(2))
qed

lemma rg_bind:
  assumes "rg R G Q1 P p" and "\<And>x. rg R G Q (Q1 x) (k x)"
  shows "rg R G Q P (bind_prog p k)"
  using assms(1)
proof induction
  case (rg_finished P x)
  then show ?case using rg_pre [OF assms(2)] by simp
next
  case (rg_access P f)
  show ?case unfolding bind_Access
    by (rule rg.rg_access) (use rg_access in fastforce)
qed

lemma rg_act:
  assumes "\<And>st. P st \<Longrightarrow> G st (snd (f st)) \<and> Q (fst (f st)) (snd (f st))" and "\<And>x. stable R (Q x)"
  shows "rg R G Q P (act f)"
  unfolding act_def
proof (rule rg_access, intro conjI exI)
  fix st
  assume p: "P st"
  show "G st (snd (apfst Finished (f st)))" "Q (fst (f st)) (snd (apfst Finished (f st)))" "stable R (Q (fst (f st)))"
    using assms p by simp_all
  show "rg R G Q (Q (fst (f st))) (fst (apfst Finished (f st)))" by (simp add: rg_finished)
qed

lemma accesses_act: "call op = act (with_db op)" "look f = act (\<lambda>st. (f st, st))" "change g = act (\<lambda>st. ((), g st))"
  by (simp_all add: call_def look_def change_def act_def)

text \<open>Programs of a pool that respect one another.\<close>

definition pool_ok :: "(nat \<Rightarrow> interference) \<Rightarrow> (nat \<Rightarrow> interference) \<Rightarrow> (nat \<Rightarrow> 'a \<Rightarrow> app_state \<Rightarrow> bool) \<Rightarrow> 'a pool \<Rightarrow> bool" where
  "pool_ok R G Q pool \<longleftrightarrow> (\<forall>i < length (fst pool). \<exists>P. P (snd pool) \<and> stable (R i) P \<and> rg (R i) (G i) (Q i) P (fst pool ! i))"

lemma turn_ok:
  assumes "pool_ok R G Q (ps, st)" and "\<forall>i j s t. i \<noteq> j \<longrightarrow> G j s t \<longrightarrow> R i s t" and "turn_of i (ps, st) = (ps', st')"
  shows "pool_ok R G Q (ps', st') \<and> (st' = st \<and> ps' = ps \<or> i < length ps \<and> G i st st') \<and> length ps' = length ps"
proof (cases "i < length ps")
  case True
  show ?thesis
  proof (cases "ps ! i")
    case (Finished x)
    then show ?thesis using assms True by simp
  next
    case (Access f)
    from assms(1) True obtain P where "P st" "rg (R i) (G i) (Q i) P (Access f)"
      unfolding pool_ok_def by (auto simp: Access)
    then obtain P' where g: "G i st (snd (f st))" "P' (snd (f st))" "stable (R i) P'" "rg (R i) (G i) (Q i) P' (fst (f st))"
      by (auto elim!: rg_accessE)
    have e: "ps' = ps[i := fst (f st)]" "st' = snd (f st)" using assms(3) True Access by (auto simp: case_prod_beta)
    have "\<exists>P. P st' \<and> stable (R j) P \<and> rg (R j) (G j) (Q j) P (ps' ! j)" if j: "j < length ps" for j
    proof (cases "j = i")
      case True
      then show ?thesis using g j e by auto
    next
      case False
      from assms(1) j obtain Pj where "Pj st" "stable (R j) Pj" "rg (R j) (G j) (Q j) Pj (ps ! j)"
        unfolding pool_ok_def by auto
      moreover have "R j st st'" using assms(2) False g(1) e(2) by auto
      ultimately show ?thesis using False e by (auto simp: stable_def)
    qed
    then show ?thesis using True g(1) e by (auto simp: pool_ok_def)
  qed
qed (use assms in simp)

lemma schedule_ok:
  assumes "pool_ok R G Q pool" and "\<forall>i j s t. i \<noteq> j \<longrightarrow> G j s t \<longrightarrow> R i s t"
    and "\<And>i s t. i < length (fst pool) \<Longrightarrow> G i s t \<Longrightarrow> I s \<Longrightarrow> I t" and "I (snd pool)"
  shows "pool_ok R G Q (run_schedule sch pool) \<and> I (snd (run_schedule sch pool)) \<and>
    length (fst (run_schedule sch pool)) = length (fst pool)"
  using assms(1,3,4)
proof (induction sch arbitrary: pool)
  case (Cons i sch)
  obtain ps st ps' st' where e: "pool = (ps, st)" "turn_of i (ps, st) = (ps', st')" by (metis prod.collapse)
  note t = turn_ok [OF Cons.prems(1) [unfolded e(1)] assms(2) e(2)]
  have "I st'" using t Cons.prems(2,3) e(1) by auto
  then show ?case using Cons.IH [of "(ps', st')"] t Cons.prems(2) e by (simp add: run_schedule_def)
qed (simp add: run_schedule_def)

lemma pool_result:
  assumes "pool_ok R G Q (ps, st)" and "i < length ps" and "ps ! i = Finished x"
  shows "Q i x st"
  using assms unfolding pool_ok_def by (force elim: rg_finishedE)

section \<open>The server's programs\<close>

text \<open>What every program leaves to a connection that is not its own.\<close>

definition leaves_alone :: "conn_id \<Rightarrow> interference" where
  "leaves_alone cid s t \<longleftrightarrow>
     (\<forall>di. device_online t di = Some cid \<longrightarrow> device_online s di = Some cid) \<and> connections t cid = connections s cid"

definition works_for :: "conn_id option \<Rightarrow> interference" where
  "works_for who s t \<longleftrightarrow> (db_wf (app_db s) \<longrightarrow> db_wf (app_db t)) \<and> dom (sessions s) \<subseteq> dom (sessions t) \<and>
     (\<forall>k. connections t k \<in> {None, connections s k, Some k}) \<and> (\<forall>k. who \<noteq> Some k \<longrightarrow> leaves_alone k s t)"

text \<open>The connection is online at most as this device.\<close>

definition owns :: "conn_id \<Rightarrow> device_id option \<Rightarrow> app_state \<Rightarrow> bool" where
  "owns cid D st \<longleftrightarrow> (\<forall>di. device_online st di = Some cid \<longrightarrow> D = Some di)"

lemma owns_stable [simp]: "stable (leaves_alone cid) (owns cid D)"
  by (auto simp: stable_def leaves_alone_def owns_def)

abbreviation serves :: "conn_id \<Rightarrow> ('a \<Rightarrow> app_state \<Rightarrow> bool) \<Rightarrow> (app_state \<Rightarrow> bool) \<Rightarrow> 'a prog \<Rightarrow> bool" where
  "serves cid \<equiv> rg (leaves_alone cid) (works_for (Some cid))"

text \<open>Accesses that touch neither presence nor the registry of connections.\<close>

definition quiet :: interference where
  "quiet s t \<longleftrightarrow> (db_wf (app_db s) \<longrightarrow> db_wf (app_db t)) \<and> dom (sessions s) \<subseteq> dom (sessions t) \<and>
     device_online t = device_online s \<and> connections t = connections s"

lemma quiet_works: "quiet s t \<Longrightarrow> works_for who s t"
  by (auto simp: quiet_def works_for_def leaves_alone_def)

lemma quiet_owns: "quiet s t \<Longrightarrow> owns cid D s \<Longrightarrow> owns cid D t"
  by (simp add: quiet_def owns_def)

lemma quiet_bind:
  assumes "\<And>st. quiet st (snd (f st))" and "\<And>x. serves cid Q (owns cid D) (k x)"
  shows "serves cid Q (owns cid D) (bind_prog (act f) k)"
  by (rule rg_bind [OF rg_act assms(2)]) (auto intro: quiet_works [OF assms(1)] quiet_owns [OF assms(1)])

lemma quiet_accesses [simp]:
  "quiet st st" "quiet st (snd (send tx m st))" "quiet st (snd (relay cid sid m st))"
  by (simp_all add: quiet_def relay_def split: option.split)

lemma quiet_db: "(\<And>d. db_wf d \<Longrightarrow> db_wf (snd (op d))) \<Longrightarrow> quiet st (snd (with_db op st))"
  by (simp add: quiet_def)

lemmas quiet_calls [simp] = all_wf [THEN quiet_db]

section \<open>The WebSocket programs\<close>

definition conn_post :: "conn_id \<Rightarrow> (string, unit) result \<times> conn \<Rightarrow> app_state \<Rightarrow> bool" where
  "conn_post cid x = owns cid (my_device_id (snd x))"

lemma reply_serves: "serves cid (conn_post cid) (owns cid (my_device_id cn)) (reply_prog tx m cn)"
  unfolding reply_prog_def by (rule quiet_bind) (simp_all add: rg_finished conn_post_def)

lemma done_serves: "serves cid (conn_post cid) (owns cid (my_device_id cn)) (Finished (res, cn))"
  by (simp add: rg_finished conn_post_def)

lemma bootstrap_serves:
  assumes "\<And>x. serves cid Q (owns cid D) (k x)"
  shows "serves cid Q (owns cid D) (bind_prog (bootstrap_prog e h) k)"
proof -
  have "serves cid (\<lambda>_. owns cid D) (owns cid D) (bootstrap_prog e h)"
    unfolding bootstrap_prog_def Let_def accesses_act
    by (intro quiet_bind) (auto simp: rg_finished split: sum.split intro!: quiet_bind)
  then show ?thesis by (rule rg_bind) (rule assms)
qed

lemma register_serves: "serves cid (conn_post cid) (owns cid (my_device_id cn)) (register_prog c r cid e p cn)"
  using reply_serves [of cid "cn\<lparr>conn_state := cs\<rparr>" for cs]
  unfolding register_prog_def accesses_act
  by (intro quiet_bind) (auto simp: reply_serves done_serves split: sum.split intro!: bootstrap_serves)

lemma login_serves: "serves cid (conn_post cid) (owns cid (my_device_id cn)) (login_prog c r cid e p cn)"
  using reply_serves [of cid "cn\<lparr>conn_state := cs\<rparr>" for cs]
  unfolding login_prog_def accesses_act
  by (intro quiet_bind) (auto simp: reply_serves done_serves split: sum.split option.split)

lemma online_serves:
  assumes "\<And>x. serves cid Q (owns cid (Some di)) (k x)"
  shows "serves cid Q (owns cid (Some di)) (bind_prog (change (\<lambda>st. st\<lparr>device_online := (device_online st)(di \<mapsto> cid)\<rparr>)) k)"
  unfolding accesses_act
  by (rule rg_bind [OF rg_act assms]) (auto simp: works_for_def leaves_alone_def owns_def split: if_splits)

lemma announce_serves:
  assumes "my_device_id cn = Some di"
  shows "serves cid (conn_post cid) (owns cid (Some di)) (announce_prog r cid di cn)"
  unfolding announce_prog_def Let_def
proof (rule online_serves, unfold accesses_act, rule quiet_bind)
  show "quiet st (snd ((), st\<lparr>otp := (otp st)(di \<mapsto> generate_one_time_password r)\<rparr>))" for st
    by (simp add: quiet_def)
  show "serves cid (conn_post cid) (owns cid (Some di)) (reply_prog cid (DeviceRegistered di (generate_one_time_password r)) cn)"
    using reply_serves [of cid cn] assms by simp
qed

lemma register_device_serves:
  "serves cid (conn_post cid) (owns cid (my_device_id cn)) (register_device_prog r cid name cn)"
proof (cases "my_device_id cn")
  case (Some di)
  then show ?thesis using announce_serves [OF Some] done_serves [of cid cn]
    by (simp add: register_device_prog_def split: sum.split)
next
  case None
  have "serves cid (conn_post cid) (owns cid None) (announce_prog r cid di (cn\<lparr>my_device_id := Some di\<rparr>))" for di
    by (rule rg_pre [OF announce_serves]) (simp_all add: owns_def)
  moreover have "serves cid (conn_post cid) (owns cid None) (Finished (res, cn))" for res
    using done_serves [of cid cn] None by simp
  ultimately show ?thesis using None
    by (simp add: register_device_prog_def accesses_act Let_def quiet_bind split: sum.split)
qed

lemma summaries_serves:
  assumes "\<And>x. serves cid Q (owns cid D) (k x)"
  shows "serves cid Q (owns cid D) (bind_prog (summaries_prog ds) k)"
proof -
  have "serves cid (\<lambda>_. owns cid D) (owns cid D) (summaries_prog ds)"
  proof (induction ds)
    case (Cons d ds)
    then have "serves cid (\<lambda>_. owns cid D) (owns cid D) (bind_prog (summaries_prog ds) (\<lambda>ss. Finished (x # ss)))" for x
      by (rule rg_bind) (simp add: rg_finished)
    then show ?case unfolding summaries_prog.simps accesses_act by (intro quiet_bind) simp_all
  qed (simp add: rg_finished)
  then show ?thesis by (rule rg_bind) (rule assms)
qed

lemma list_devices_serves: "serves cid (conn_post cid) (owns cid (my_device_id cn)) (list_devices_prog cid cn)"
  unfolding list_devices_prog_def accesses_act
  by (auto simp: reply_serves done_serves split: sum.split intro!: quiet_bind summaries_serves)

lemma credential_serves:
  assumes "\<And>x. serves cid Q (owns cid D) (k x)"
  shows "serves cid Q (owns cid D) (bind_prog (credential_prog c target dev cred) k)"
  unfolding credential_prog_def accesses_act
  by (cases cred) (auto simp: assms intro!: quiet_bind)

lemma session_quiet: "quiet st (st\<lparr>sessions := (sessions st)(sid \<mapsto> p)\<rparr>)"
  by (auto simp: quiet_def)

lemma notify_quiet: "quiet st (snd (case x of Some tx \<Rightarrow> send tx m st | None \<Rightarrow> (Inr (), st)))"
  by (simp split: option.split)

lemma request_serves:
  "serves cid (conn_post cid) (owns cid (my_device_id cn)) (request_prog c r cid target cred cn)"
  unfolding request_prog_def accesses_act Let_def
  by (auto simp: reply_serves done_serves session_quiet notify_quiet split: sum.split option.split
      intro!: quiet_bind credential_serves)

lemma relay_serves: "serves cid (conn_post cid) (owns cid (my_device_id cn)) (relay_prog cid sid m cn)"
  unfolding relay_prog_def by (rule quiet_bind) (simp_all add: done_serves)

lemma turn_serves: "serves cid (conn_post cid) (owns cid (my_device_id cn)) (turn_prog c r cid cn)"
  unfolding turn_prog_def accesses_act by (rule quiet_bind) (simp_all add: reply_serves split: prod.split)

lemma set_unattended_serves:
  "serves cid (conn_post cid) (owns cid (my_device_id cn)) (set_unattended_prog c r target pw cn)"
  unfolding set_unattended_prog_def accesses_act
  by (auto simp: done_serves notify_quiet split: sum.split option.split intro!: quiet_bind)

lemma message_serves: "serves cid (conn_post cid) (owns cid (my_device_id cn)) (message_prog c r m cid cn)"
  by (cases m) (simp_all add: register_serves login_serves register_device_serves list_devices_serves request_serves
      relay_serves turn_serves set_unattended_serves)

lemma text_serves: "serves cid (\<lambda>cn'. owns cid (my_device_id cn')) (owns cid (my_device_id cn)) (text_prog c r m cid cn)"
  unfolding text_prog_def
  by (rule rg_bind [OF message_serves])
    (auto simp: conn_post_def rg_finished split: prod.split sum.split intro!: quiet_bind)

lemma frames_serve: "serves cid (\<lambda>cn'. owns cid (my_device_id cn')) (owns cid (my_device_id cn)) (frames_prog c cid fs cn)"
proof (induction c cid fs cn rule: frames_prog.induct)
  case (2 c cid r m fs cn)
  then show ?case by (auto intro: rg_bind [OF text_serves])
next
  case (3 c cid e fs cn)
  then show ?case by (auto intro: quiet_bind)
qed (simp add: rg_finished)

text \<open>Nothing is left of the connection.\<close>

definition unregistered :: "conn_id \<Rightarrow> device_id option \<Rightarrow> app_state \<Rightarrow> bool" where
  "unregistered cid D st \<longleftrightarrow> connections st cid = None \<and> owns cid D st"

lemma unregistered_stable: "stable (leaves_alone cid) (unregistered cid D)"
  by (auto simp: stable_def leaves_alone_def owns_def unregistered_def)

lemma change_serves:
  assumes "\<And>st. P st \<Longrightarrow> works_for (Some cid) st (f st) \<and> P' (f st)" and "stable (leaves_alone cid) P'"
    and "\<And>x. serves cid Q P' (k x)"
  shows "serves cid Q P (bind_prog (change f) k)"
  unfolding accesses_act by (rule rg_bind [OF rg_act assms(3)]) (use assms(1,2) in auto)

lemma close_serves:
  "serves cid (\<lambda>_. unregistered cid None) (owns cid (my_device_id cn)) (close_prog cid cn)"
  unfolding close_prog_def
proof (rule change_serves)
  let ?D = "my_device_id cn"
  show "owns cid ?D st \<Longrightarrow> works_for (Some cid) st (st\<lparr>connections := (connections st)(cid := None)\<rparr>) \<and>
      unregistered cid ?D (st\<lparr>connections := (connections st)(cid := None)\<rparr>)" for st
    by (auto simp: works_for_def leaves_alone_def unregistered_def owns_def)
  have last: "serves cid (\<lambda>_. unregistered cid None) (unregistered cid None) (change (drop_receiver cid))"
    unfolding accesses_act
    by (rule rg_act) (auto simp: works_for_def leaves_alone_def unregistered_def owns_def drop_receiver_def stable_def)
  have devs: "serves cid (\<lambda>_. unregistered cid None) (unregistered cid (Some di))
      (bind_prog (change (\<lambda>st. st\<lparr>device_online := (device_online st)(di := None)\<rparr>)) (\<lambda>_.
         change (\<lambda>st. st\<lparr>otp := (otp st)(di := None)\<rparr>)))" for di
  proof (rule change_serves [OF _ unregistered_stable])
    show "unregistered cid (Some di) st \<Longrightarrow>
        works_for (Some cid) st (st\<lparr>device_online := (device_online st)(di := None)\<rparr>) \<and>
        unregistered cid None (st\<lparr>device_online := (device_online st)(di := None)\<rparr>)" for st
      by (auto simp: works_for_def leaves_alone_def unregistered_def owns_def)
    show "serves cid (\<lambda>_. unregistered cid None) (unregistered cid None) (change (\<lambda>st. st\<lparr>otp := (otp st)(di := None)\<rparr>))"
      unfolding accesses_act
      by (rule rg_act) (auto simp: works_for_def leaves_alone_def unregistered_def owns_def stable_def)
  qed
  show "serves cid (\<lambda>_. unregistered cid None) (unregistered cid ?D)
      (bind_prog (case my_device_id cn of
           Some di \<Rightarrow> bind_prog (change (\<lambda>st. st\<lparr>device_online := (device_online st)(di := None)\<rparr>)) (\<lambda>_.
                        change (\<lambda>st. st\<lparr>otp := (otp st)(di := None)\<rparr>))
         | None \<Rightarrow> Finished ()) (\<lambda>_. change (drop_receiver cid)))"
    by (rule rg_bind [OF _ last]) (auto simp: devs rg_finished split: option.split)
qed (rule unregistered_stable)

lemma socket_serves: "serves cid (\<lambda>_. unregistered cid None) (owns cid None) (socket_prog c cid fs)"
  unfolding socket_prog_def
proof (rule rg_bind)
  show "serves cid (\<lambda>cn. owns cid (my_device_id cn)) (owns cid None) (act (ws_open cid))"
    by (rule rg_act) (auto simp: ws_open_def works_for_def leaves_alone_def owns_def)
  show "serves cid (\<lambda>_. unregistered cid None) (owns cid (my_device_id cn))
      (bind_prog (frames_prog c cid fs cn) (\<lambda>cn'. close_prog cid cn'))" for cn
    by (rule rg_bind [OF frames_serve close_serves])
qed

section \<open>The HTTP programs and the send task\<close>

lemma works_calls [simp]: "quiet st t \<Longrightarrow> works_for None st t"
  by (rule quiet_works)

text \<open>All steps of a program are of a kind, whatever the others do and whatever it returns.\<close>

abbreviation steps_in :: "interference \<Rightarrow> 'a prog \<Rightarrow> bool" where
  "steps_in G \<equiv> rg (\<lambda>_ _. True) G (\<lambda>_ _. True) (\<lambda>_. True)"

abbreviation part :: "'a prog \<Rightarrow> bool" where
  "part \<equiv> steps_in (works_for None)"

lemma part_bind: "steps_in G p \<Longrightarrow> (\<And>x. steps_in G (k x)) \<Longrightarrow> steps_in G (bind_prog p k)"
  by (rule rg_bind)

lemma part_act: "(\<And>st. G st (snd (f st))) \<Longrightarrow> steps_in G (act f)"
  by (rule rg_act) (auto simp: stable_def)

lemma part_done: "steps_in G (Finished x)"
  by (simp add: rg_finished)

lemmas parts = part_bind part_act part_done

lemma current_part: "(\<And>a. part (k a)) \<Longrightarrow> part (bind_prog (current_account_prog hs) k)"
  unfolding current_account_prog_def accesses_act
  by (rule rg_bind [where ?Q1.0 = "\<lambda>_ _. True"])
    (auto simp: rg_finished stable_def split: option.split sum.split intro!: rg_bind [where ?Q1.0 = "\<lambda>_ _. True"] rg_act)

lemma account_part: "(\<And>a. part (k a)) \<Longrightarrow> part (with_account hs k)"
  unfolding with_account_def by (rule current_part) (simp add: part_done split: option.split)

lemma admin_part: "(\<And>a. part (k a)) \<Longrightarrow> part (with_admin hs k)"
  unfolding with_admin_def by (rule account_part) (simp add: part_done)

lemma bootstrap_part: "part (bootstrap_prog e h)"
  unfolding bootstrap_prog_def Let_def accesses_act
  by (auto split: sum.split intro!: parts)

lemma guard_part: "part (guard_last_admin_prog alt i)"
  unfolding guard_last_admin_prog_def accesses_act
  by (auto split: sum.split option.split intro!: parts)

lemma kick_part: "part (kick_prog di m)"
  unfolding kick_prog_def accesses_act
  by (auto simp: works_for_def leaves_alone_def split: option.split intro!: parts)

lemma start_session_part: "part (start_session_prog alt r i e role)"
  unfolding start_session_prog_def Let_def accesses_act by (auto split: sum.split intro!: parts)

lemma write_part: "(\<And>d. db_wf d \<Longrightarrow> db_wf (snd (op d))) \<Longrightarrow> part (write_prog alt op)"
  unfolding write_prog_def accesses_act by (auto simp: quiet_db split: sum.split intro!: parts)

lemma logout_part: "part (logout_prog hs)"
  unfolding logout_prog_def accesses_act
  by (rule part_bind) (auto split: option.split intro!: parts)

lemma http_works: "works_for None st (snd (http v hs q st))"
  using server_op.keeps_wf [OF http_operates, of st v hs q] server_op.keeps_connections [OF http_operates, of v hs q st]
    http_online [of v hs q st] http_sessions [of v hs q st]
  by (auto simp: works_for_def leaves_alone_def)

lemma request_part: "part (request_steps v hs q)"
proof (cases q)
  case (PostRegister e p)
  then show ?thesis
    by (auto simp: http_register_prog_def accesses_act Let_def start_session_part
        split: sum.split bool.split prod.split intro!: parts bootstrap_part)
next
  case (PostLogin e p)
  then show ?thesis
    by (auto simp: http_login_prog_def accesses_act Let_def start_session_part split: sum.split option.split intro!: parts)
next
  case (DeleteDevice di)
  then show ?thesis
    by (auto simp: delete_own_prog_def accesses_act split: sum.split option.split intro!: account_part parts kick_part)
next
  case (PutAdminSettings url name)
  then show ?thesis by (auto simp: save_settings_prog_def accesses_act Let_def intro!: admin_part parts)
next
  case (PostAccounts e p role)
  then show ?thesis
    by (auto simp: create_account_prog_def accesses_act Let_def split: sum.split intro!: admin_part parts)
next
  case (DeleteAccount i)
  then show ?thesis
    by (auto simp: delete_account_prog_def delete_account.wf split: sum.split
        intro!: admin_part part_bind guard_part part_done write_part)
next
  case (PutAccountRole i role)
  then show ?thesis
    by (auto simp: set_role_prog_def set_account_role.wf split: sum.split
        intro!: admin_part part_bind guard_part part_done write_part)
next
  case (DeleteAccountDevice i di)
  then show ?thesis
    by (auto simp: admin_delete_device_prog_def accesses_act split: sum.split option.split
        intro!: admin_part parts kick_part)
next
  case (PutAdminRegistration b)
  then show ?thesis
    by (auto simp: set_registration_prog_def accesses_act split: sum.split intro!: admin_part parts)
qed (simp_all add: logout_part part_act http_works del: http.simps)

text \<open>The send task of a connection: each turn takes the next message of its channel, if there is one, and
  the socket accepts it or not; after a refusal the task has ended.\<close>

fun send_task_prog :: "conn_id \<Rightarrow> bool list \<Rightarrow> unit prog" where
  "send_task_prog cid [] = Finished ()"
| "send_task_prog cid (ok # oks) = bind_prog (change (\<lambda>st.
     if rx_alive (channels st cid) \<and> inbox st cid \<noteq> []
     then (if ok then send_task_sends cid st else send_task_breaks cid st) else st)) (\<lambda>_. send_task_prog cid oks)"

lemma send_task_part: "part (send_task_prog cid oks)"
proof (induction oks)
  case (Cons ok oks)
  have "works_for None st (snd ((), if rx_alive (channels st cid) \<and> inbox st cid \<noteq> []
     then (if ok then send_task_sends cid st else send_task_breaks cid st) else st))" for st
    by (simp add: quiet_def send_task_sends_def send_task_breaks_def drop_receiver_def)
  then show ?case unfolding send_task_prog.simps accesses_act by (intro part_bind part_act Cons.IH)
qed (simp add: part_done)

section \<open>The tasks of the server\<close>

datatype server_task =
  Socket crypto conn_id "frame list"
| SendTask conn_id "bool list"
| HttpRequest http_env headers http_request

datatype outcome = Ended | Responded response

fun task_prog :: "server_task \<Rightarrow> outcome prog" where
  "task_prog (Socket c cid fs) = bind_prog (socket_prog c cid fs) (\<lambda>_. Finished Ended)"
| "task_prog (SendTask cid oks) = bind_prog (send_task_prog cid oks) (\<lambda>_. Finished Ended)"
| "task_prog (HttpRequest v hs q) = bind_prog (request_steps v hs q) (\<lambda>resp. Finished (Responded resp))"

fun task_conn :: "server_task \<Rightarrow> conn_id option" where
  "task_conn (Socket c cid fs) = Some cid"
| "task_conn _ = None"

text \<open>Connection ids are random: no two sockets of the pool share one.\<close>

definition own_ids :: "server_task list \<Rightarrow> bool" where
  "own_ids ts \<longleftrightarrow> (\<forall>i < length ts. \<forall>j < length ts. i \<noteq> j \<longrightarrow>
     task_conn (ts ! i) = None \<or> task_conn (ts ! i) \<noteq> task_conn (ts ! j))"

definition task_rely :: "server_task \<Rightarrow> interference" where
  "task_rely t = (case task_conn t of Some cid \<Rightarrow> leaves_alone cid | None \<Rightarrow> \<lambda>_ _. True)"

definition task_post :: "server_task \<Rightarrow> outcome \<Rightarrow> app_state \<Rightarrow> bool" where
  "task_post t x st \<longleftrightarrow> (case task_conn t of Some cid \<Rightarrow> unregistered cid None st | None \<Rightarrow> True)"

lemma task_ok:
  assumes "\<And>cid. task_conn t = Some cid \<Longrightarrow> owns cid None st"
  shows "\<exists>P. P st \<and> stable (task_rely t) P \<and> rg (task_rely t) (works_for (task_conn t)) (task_post t) P (task_prog t)"
proof (cases t)
  case (Socket c cid fs)
  have "serves cid (task_post t) (owns cid None) (task_prog t)"
    unfolding Socket task_prog.simps by (rule rg_bind [OF socket_serves]) (simp add: rg_finished task_post_def)
  then show ?thesis using assms Socket by (intro exI [of _ "owns cid None"]) (simp add: task_rely_def)
next
  case (SendTask cid oks)
  have "rg (task_rely t) (works_for None) (task_post t) (\<lambda>_. True) (task_prog t)"
    unfolding SendTask task_prog.simps task_rely_def
    by (simp, rule rg_bind [OF send_task_part]) (simp add: rg_finished task_post_def)
  then show ?thesis using SendTask by (intro exI [of _ "\<lambda>_. True"]) (simp add: stable_def)
next
  case (HttpRequest v hs q)
  have "rg (task_rely t) (works_for None) (task_post t) (\<lambda>_. True) (task_prog t)"
    unfolding HttpRequest task_prog.simps task_rely_def
    by (simp, rule rg_bind [OF request_part]) (simp add: rg_finished task_post_def)
  then show ?thesis using HttpRequest by (intro exI [of _ "\<lambda>_. True"]) (simp add: stable_def)
qed

lemma works_leaves: "works_for who s t \<Longrightarrow> task_conn u = None \<or> task_conn u \<noteq> who \<Longrightarrow> task_rely u s t"
  by (auto simp: works_for_def task_rely_def split: option.split)

definition since_start :: "app_state \<Rightarrow> app_state \<Rightarrow> bool" where
  "since_start st0 st \<longleftrightarrow> db_wf (app_db st) \<and> dom (sessions st0) \<subseteq> dom (sessions st) \<and>
     (\<forall>k. connections st k \<in> {None, connections st0 k, Some k})"

lemma works_since: "works_for who s t \<Longrightarrow> since_start st0 s \<Longrightarrow> since_start st0 t"
  unfolding works_for_def since_start_def by (metis (no_types, lifting) insert_iff subset_trans singletonD)

section \<open>Properties\<close>

text \<open>
  C5. The handlers of the server under any interleaving: run any sockets, with any frames, send tasks and HTTP
  requests at the same time, one access at a time in any order, some of them never to the end.  The
  database keeps its constraints, no session is removed, a registered connection is registered under its own
  channel; and a connection whose handler has ended has left nothing behind: it is not registered, and no device
  is online at it.
\<close>

theorem consistent_under_interleaving:
  assumes "own_ids ts" and "db_wf (app_db st)" and "\<forall>cid. Some cid \<in> task_conn ` set ts \<longrightarrow> owns cid None st"
    and "run_schedule sch (map task_prog ts, st) = (ps, st')"
  shows "db_wf (app_db st') \<and> dom (sessions st) \<subseteq> dom (sessions st') \<and>
    (\<forall>k. connections st' k \<in> {None, connections st k, Some k}) \<and>
    (\<forall>i < length ts. \<forall>c cid fs. ts ! i = Socket c cid fs \<and> ps ! i = Finished Ended \<longrightarrow>
       connections st' cid = None \<and> (\<forall>di. device_online st' di \<noteq> Some cid))"
proof -
  let ?R = "\<lambda>i. if i < length ts then task_rely (ts ! i) else (\<lambda>_ _. True)"
  let ?G = "\<lambda>i. if i < length ts then works_for (task_conn (ts ! i)) else (\<lambda>_ _. False)"
  let ?Q = "\<lambda>i. task_post (ts ! i)"
  have ok: "pool_ok ?R ?G ?Q (map task_prog ts, st)"
    using assms(3) by (auto simp: pool_ok_def image_iff intro!: task_ok) (metis nth_mem)
  have compat: "\<forall>i j s t. i \<noteq> j \<longrightarrow> ?G j s t \<longrightarrow> ?R i s t"
  proof (intro allI impI)
    fix i j s t
    assume a: "i \<noteq> j" "?G j s t"
    then have j: "j < length ts" "works_for (task_conn (ts ! j)) s t" by (simp_all split: if_splits)
    show "?R i s t"
    proof (cases "i < length ts")
      case True
      then have "task_conn (ts ! i) = None \<or> task_conn (ts ! i) \<noteq> task_conn (ts ! j)"
        using assms(1) j(1) a(1) by (simp add: own_ids_def)
      then show ?thesis using works_leaves [OF j(2)] True by simp
    qed simp
  qed
  have r: "pool_ok ?R ?G ?Q (ps, st') \<and> since_start st st' \<and> length ps = length ts"
    using schedule_ok [OF ok compat, of "since_start st" sch] works_since assms(2,4)
    by (auto simp: since_start_def [of st st])
  have "connections st' cid = None \<and> (\<forall>di. device_online st' di \<noteq> Some cid)"
    if "i < length ts" "ts ! i = Socket c cid fs" "ps ! i = Finished Ended" for i c cid fs
  proof -
    have "task_post (ts ! i) Ended st'"
      using pool_result [of ?R ?G ?Q ps st' i Ended] r that by simp
    then show ?thesis using that(2) by (auto simp: task_post_def unregistered_def owns_def)
  qed
  then show ?thesis using r unfolding since_start_def by blast
qed

text \<open>Two connections at once: one signs in and registers a device, the other sends something unreadable.\<close>

definition wit_tasks :: "server_task list" where
  "wit_tasks = [Socket wit_crypto ''k1'' [Parsed wit_entropy (Login ''a@b'' ''pw''), Parsed wit_entropy (RegisterDevice ''pc'')],
     Socket wit_crypto ''k2'' [Unparsable ''?'']]"

lemmas access_defs = call_def look_def change_def act_def apfst_def

lemmas wit_schedule_eval = run_schedule_def socket_prog_def access_defs text_prog_def login_prog_def
  register_device_prog_def announce_prog_def reply_prog_def close_prog_def with_db_pair ws_open_def wit_app_def wit_db_def
  wit_admin_db_def find_account_by_email_def create_device_def stmt_def query_row_def map_account_row_def require_auth_def
  verify_password_def wit_crypto_def Let_def send_def account_exists_def wit_entropy_def

lemma wit_schedule_ends:
  "fst (run_schedule [0,1,0,0,1,0,0,0,0,0,1,0,0,0] (map task_prog wit_tasks, wit_app)) ! 0 = Finished Ended"
  by (simp add: wit_schedule_eval wit_tasks_def)

theorem consistent_under_interleaving_witness:
  "let st = snd (run_schedule [0,1,0,0,1,0,0,0,0,0,1,0,0,0] (map task_prog wit_tasks, wit_app)) in
     connections st ''k1'' = None \<and> device_online st ''012 345 006'' \<noteq> Some ''k1''"
proof -
  obtain ps st where r: "run_schedule [0,1,0,0,1,0,0,0,0,0,1,0,0,0] (map task_prog wit_tasks, wit_app) = (ps, st)"
    by fastforce
  have "own_ids wit_tasks" by (auto simp: own_ids_def wit_tasks_def less_Suc_eq)
  moreover have "db_wf (app_db wit_app)" by (auto simp: wit_app_def wit_admin_db_def wit_db_def db_wf_defs)
  moreover have "\<forall>cid. Some cid \<in> task_conn ` set wit_tasks \<longrightarrow> owns cid None wit_app"
    by (simp add: owns_def wit_app_def)
  ultimately have "\<forall>i < length wit_tasks. \<forall>c cid fs. wit_tasks ! i = Socket c cid fs \<and> ps ! i = Finished Ended \<longrightarrow>
       connections st cid = None \<and> (\<forall>di. device_online st di \<noteq> Some cid)"
    using consistent_under_interleaving [OF _ _ _ r] by blast
  then show ?thesis using wit_schedule_ends r by (force simp: wit_tasks_def)
qed

end
