(* ===== verification/Interference.thy ===== *)
theory Interference
  imports Interleaving
begin

text \<open>
  What one handler does among others, and the races of the server.  A new session needs a valid credential and
  an online host also when the reads, the check and the write are interleaved with anything else, but each at its own moment;
  so a session can be announced to the controller although its host has left, and two administrators that are
  demoted at the same time are both demoted.
\<close>

section \<open>One program and what it finds\<close>

text \<open>\<open>observe p sts\<close> gives the program the states \<open>sts\<close> at its turns, whatever has put them there, and records each
  access as the state before and after it.\<close>

fun observe :: "'a prog \<Rightarrow> app_state list \<Rightarrow> (app_state \<times> app_state) list \<times> 'a prog" where
  "observe (Finished x) sts = ([], Finished x)"
| "observe (Access f) [] = ([], Access f)"
| "observe (Access f) (st # sts) =
     (case f st of (p, st') \<Rightarrow> (case observe p sts of (tr, q) \<Rightarrow> ((st, st') # tr, q)))"

text \<open>Every program of a pool is, under every schedule, observed with the states at its turns.\<close>

lemma pool_observed:
  assumes "i < length (fst pool)"
  shows "\<exists>sts. snd (observe (fst pool ! i) sts) = fst (run_schedule sch pool) ! i"
  using assms
proof (induction sch arbitrary: pool)
  case Nil
  have "snd (observe (fst pool ! i) []) = fst pool ! i" by (cases "fst pool ! i") simp_all
  then show ?case by (auto simp: run_schedule_def)
next
  case (Cons j sch)
  obtain ps st where e: "pool = (ps, st)" by fastforce
  have l: "length (fst (turn_of j (ps, st))) = length ps" by (simp split: prog.split prod.split)
  then obtain sts where sts: "snd (observe (fst (turn_of j (ps, st)) ! i) sts) = fst (run_schedule sch (turn_of j (ps, st))) ! i"
    using Cons.IH [of "turn_of j (ps, st)"] Cons.prems e by auto
  show ?case
  proof (cases "j = i \<and> (\<exists>f. ps ! i = Access f)")
    case True
    then obtain f where f: "j = i" "ps ! i = Access f" by blast
    then have "snd (observe (ps ! i) (st # sts)) = fst (run_schedule (j # sch) pool) ! i"
      using sts Cons.prems e by (simp add: run_schedule_def case_prod_beta)
    then show ?thesis using e by (intro exI [of _ "st # sts"]) simp
  next
    case False
    then have "fst (turn_of j (ps, st)) ! i = ps ! i" by (cases "i = j") (auto split: prog.split prod.split)
    then show ?thesis using sts e by (auto simp: run_schedule_def)
  qed
qed

lemma observed_steps: "steps_in G p \<Longrightarrow> (s, s') \<in> set (fst (observe p sts)) \<Longrightarrow> G s s'"
proof (induction p sts rule: observe.induct)
  case (3 f st sts)
  from 3(2) obtain P' where "G st (snd (f st))" "rg (\<lambda>_ _. True) G (\<lambda>_ _. True) P' (fst (f st))" "P' (snd (f st))"
    "stable (\<lambda>_ _. True) P'"
    by (rule rg_accessE) blast
  moreover from this have "steps_in G (fst (f st))" by (auto simp: stable_def elim: rg_pre)
  ultimately show ?case using 3 by (cases "f st") (auto simp: case_prod_beta)
qed simp_all

lemma observe_act:
  "observe (bind_prog (act f) k) (st # sts) =
     ((st, snd (f st)) # fst (observe (k (fst (f st))) sts), snd (observe (k (fst (f st))) sts))"
  "observe (bind_prog (act f) k) [] = ([], bind_prog (act f) k)"
  by (simp_all add: act_def case_prod_beta)

section \<open>Sessions\<close>

definition same_sessions :: interference where
  "same_sessions s t \<longleftrightarrow> sessions t = sessions s"

lemma same_accesses [simp]:
  "same_sessions st st" "same_sessions st (snd (send tx m st))" "same_sessions st (snd (relay cid sid m st))"
  "same_sessions st (snd (with_db op st))" "same_sessions st (st\<lparr>device_online := x\<rparr>)" "same_sessions st (st\<lparr>otp := y\<rparr>)"
  "same_sessions st (snd (case w of Some tx \<Rightarrow> send tx m st | None \<Rightarrow> (Inr (), st)))"
  by (simp_all add: same_sessions_def relay_def split: option.split)

lemma reply_same: "steps_in same_sessions (reply_prog tx m cn)"
  unfolding reply_prog_def by (intro parts) simp

lemma bootstrap_same: "steps_in same_sessions (bootstrap_prog e h)"
  unfolding bootstrap_prog_def accesses_act Let_def by (auto split: sum.split intro!: parts)

lemma announce_same: "steps_in same_sessions (announce_prog r cid di cn)"
  unfolding announce_prog_def accesses_act Let_def by (auto intro!: parts reply_same)

lemma summaries_same: "steps_in same_sessions (summaries_prog ds)"
  by (induction ds) (auto simp: accesses_act intro!: parts)

lemma other_messages_same:
  assumes "\<forall>target cred. m \<noteq> RequestConnection target cred"
  shows "steps_in same_sessions (message_prog c r m cid cn)"
  using assms
  by (cases m) (auto simp: step_progs accesses_act Let_def split: sum.split option.split prod.split
      intro!: parts reply_same bootstrap_same announce_same summaries_same)

text \<open>The part of \<open>request_prog\<close> after the check of the credential.\<close>

definition open_session_prog :: "entropy \<Rightarrow> conn_id \<Rightarrow> device_id \<Rightarrow> conn \<Rightarrow> reply_prog" where
  "open_session_prog r cid target cn = bind_prog (act (\<lambda>st. (device_online st target, st))) (\<lambda>host. case host of
     None \<Rightarrow> Finished (Inl ''device is offline'', cn)
   | Some host \<Rightarrow>
       bind_prog (act (\<lambda>st. ((), st\<lparr>sessions := (sessions st)(rnd_uuid r \<mapsto> \<lparr>peer_a = cid, peer_b = host\<rparr>)\<rparr>))) (\<lambda>_.
         bind_prog (act (\<lambda>st. case connections st host of
             Some host_tx \<Rightarrow> send host_tx (IncomingConnection (rnd_uuid r) None) st
           | None \<Rightarrow> (Inr (), st))) (\<lambda>sent. case sent of
               Inl e \<Rightarrow> Finished (Inl e, cn)
             | Inr _ \<Rightarrow> reply_prog cid (ConnectionEstablished (rnd_uuid r) target) cn)))"

lemma request_prog_eq:
  "request_prog c r cid target cred cn =
     (case require_auth (conn_state cn) of
        Inl e \<Rightarrow> Finished (Inl e, cn)
      | Inr _ \<Rightarrow> bind_prog (act (with_db (find_device target))) (\<lambda>res. case res of
            Inl e \<Rightarrow> Finished (Inl e, cn)
          | Inr None \<Rightarrow> Finished (Inl ''unknown device'', cn)
          | Inr (Some dev) \<Rightarrow> bind_prog (credential_prog c target dev cred) (\<lambda>ok.
              if \<not> ok then reply_prog cid (ServerError ''invalid credential'') cn else open_session_prog r cid target cn)))"
  unfolding request_prog_def open_session_prog_def accesses_act Let_def by (rule refl)

lemma tail_same:
  "steps_in same_sessions (bind_prog (act (\<lambda>st. case connections st host of
       Some host_tx \<Rightarrow> send host_tx m st | None \<Rightarrow> (Inr (), st))) (\<lambda>sent. case sent of
         Inl e \<Rightarrow> Finished (Inl e, cn) | Inr _ \<Rightarrow> reply_prog cid m' cn))"
  by (auto split: sum.split intro!: parts reply_same)

lemma open_session_observed:
  assumes "(s, s') \<in> set (fst (observe (open_session_prog r cid target cn) sts))" and "sessions s' \<noteq> sessions s"
  shows "\<exists>host. 1 < length sts \<and> device_online (sts ! 0) target = Some host \<and> s = sts ! 1 \<and>
    s' = s\<lparr>sessions := (sessions s)(rnd_uuid r \<mapsto> \<lparr>peer_a = cid, peer_b = host\<rparr>)\<rparr>"
proof (cases sts)
  case Nil
  then show ?thesis using assms by (simp add: open_session_prog_def observe_act)
next
  case (Cons s3 rest)
  show ?thesis
  proof (cases "device_online s3 target")
    case None
    then show ?thesis using assms Cons by (auto simp: open_session_prog_def observe_act)
  next
    case (Some host)
    then show ?thesis using assms Cons observed_steps [OF tail_same]
      by (cases rest) (auto simp: open_session_prog_def observe_act same_sessions_def)
  qed
qed

lemma credential_observed:
  assumes "(s, s') \<in> set (fst (observe (bind_prog (credential_prog c target dev cred) (\<lambda>ok.
      if \<not> ok then reply_prog cid m cn else open_session_prog r cid target cn)) sts))" and "sessions s' \<noteq> sessions s"
  shows "\<exists>host n. n \<le> 1 \<and> n + 1 < length sts \<and> (\<forall>st0. credential_ok c ((st0 # sts) ! n) target dev cred) \<and>
    device_online (sts ! n) target = Some host \<and> s = sts ! (n + 1) \<and>
    s' = s\<lparr>sessions := (sessions s)(rnd_uuid r \<mapsto> \<lparr>peer_a = cid, peer_b = host\<rparr>)\<rparr>"
proof (cases cred)
  case (OneTimePassword code)
  let ?ok = "\<lambda>st. credential_ok c st target dev cred"
  have cp: "credential_prog c target dev cred = act (\<lambda>st. (?ok st, st))"
    by (simp add: OneTimePassword credential_prog_def credential_ok_def accesses_act)
  show ?thesis
  proof (cases sts)
    case Nil
    then show ?thesis using assms by (simp add: cp observe_act)
  next
    case (Cons s2 rest)
    have "?ok s2"
      using assms Cons observed_steps [OF reply_same] by (auto simp: cp observe_act same_sessions_def split: if_splits)
    then show ?thesis using assms Cons open_session_observed [of s s' r cid target cn rest]
      by (intro exI [of _ "the (device_online (rest ! 0) target)"] exI [of _ 1]) (auto simp: cp observe_act)
  qed
next
  case (UnattendedPassword pw)
  have cp: "credential_prog c target dev cred = Finished (credential_ok c st target dev cred)" for st
    by (simp add: UnattendedPassword credential_prog_def credential_ok_def)
  have ok: "credential_ok c st target dev cred" for st
    using assms observed_steps [OF reply_same] by (auto simp: cp [of st] same_sessions_def split: if_splits)
  then show ?thesis using assms open_session_observed [of s s' r cid target cn sts]
    by (intro exI [of _ "the (device_online (sts ! 0) target)"] exI [of _ 0]) (auto simp: cp [of undefined])
qed

section \<open>Properties\<close>

text \<open>
  C6. Handling one message while anything else happens to the shared state between its accesses: a step changes the table of
  sessions only if the message is a \<open>RequestConnection\<close> of a connection that is signed in, and then it adds
  exactly the session of the sender with a host; the device was found at the first access, the credential was
  valid for it at the first or the second, at the next access the device was online at that host, and the access
  after that is the step.
\<close>

theorem session_credential_under_interference:
  assumes "(s, s') \<in> set (fst (observe (message_prog c r m cid cn) sts))" and "sessions s' \<noteq> sessions s"
  shows "\<exists>i target cred dev host n. m = RequestConnection target cred \<and> conn_state cn = Authenticated i \<and>
    n \<le> 1 \<and> n + 2 < length sts \<and> fst (find_device target (app_db (sts ! 0))) = Inr (Some dev) \<and>
    credential_ok c (sts ! n) target dev cred \<and> device_online (sts ! (n + 1)) target = Some host \<and> s = sts ! (n + 2) \<and>
    s' = s\<lparr>sessions := (sessions s)(rnd_uuid r \<mapsto> \<lparr>peer_a = cid, peer_b = host\<rparr>)\<rparr>"
proof -
  have "\<exists>target cred. m = RequestConnection target cred"
    using assms observed_steps [OF other_messages_same] by (auto simp: same_sessions_def)
  then obtain target cred where m: "m = RequestConnection target cred" by blast
  obtain i where i: "conn_state cn = Authenticated i"
    using assms m by (cases "conn_state cn") (auto simp: request_prog_eq require_auth_def)
  obtain s1 rest where sts: "sts = s1 # rest"
    using assms m i by (cases sts) (auto simp: request_prog_eq require_auth_def observe_act)
  have same: "sessions (snd (with_db op st)) = sessions st" for op :: "device option db_op" and st by simp
  obtain dev where d: "fst (find_device target (app_db s1)) = Inr (Some dev)"
    using assms m i sts
    by (auto simp: request_prog_eq require_auth_def observe_act split: sum.splits option.splits)
  have "(s, s') \<in> set (fst (observe (bind_prog (credential_prog c target dev cred) (\<lambda>ok.
      if \<not> ok then reply_prog cid (ServerError ''invalid credential'') cn else open_session_prog r cid target cn)) rest))"
    using assms m i sts d by (auto simp: request_prog_eq require_auth_def observe_act)
  from credential_observed [OF this assms(2)] obtain host n where h: "n \<le> 1" "n + 1 < length rest"
    "\<forall>st0. credential_ok c ((st0 # rest) ! n) target dev cred" "device_online (rest ! n) target = Some host"
    "s = rest ! (n + 1)" "s' = s\<lparr>sessions := (sessions s)(rnd_uuid r \<mapsto> \<lparr>peer_a = cid, peer_b = host\<rparr>)\<rparr>" by blast
  then show ?thesis using m i sts d by (intro exI [of _ i]) force
qed

theorem session_credential_under_interference_witness:
  "\<exists>n. n \<le> 1 \<and> credential_ok wit_crypto ([wit_live, wit_live, wit_live, wit_live] ! n) ''012 345 006''
      (map_device_row (hd (devices_tbl (app_db wit_live)))) (OneTimePassword ''0042 9999'')"
proof -
  let ?m = "RequestConnection ''012 345 006'' (OneTimePassword ''0042 9999'')"
  let ?sts = "[wit_live, wit_live, wit_live, wit_live]"
  let ?t = "wit_live\<lparr>sessions := (sessions wit_live)(''uuid-1'' \<mapsto> \<lparr>peer_a = ''ctl'', peer_b = ''host''\<rparr>)\<rparr>"
  have f: "fst (find_device ''012 345 006'' (app_db wit_live)) = Inr (Some (map_device_row (hd (devices_tbl (app_db wit_live)))))"
    by (simp add: wit_defs find_device_def stmt_def query_row_def)
  have a: "conn_state wit_ctl = Authenticated 1" "rnd_uuid wit_entropy = ''uuid-1''"
    "otp wit_live ''012 345 006'' = Some ''0042 9999''" "device_online wit_live ''012 345 006'' = Some ''host''"
    by (simp_all add: wit_defs)
  have m: "(wit_live, ?t) \<in> set (fst (observe (message_prog wit_crypto wit_entropy ?m ''ctl'' wit_ctl) ?sts))"
    by (simp add: request_prog_eq open_session_prog_def credential_prog_def accesses_act require_auth_def observe_act f a)
  have "sessions ?t ''uuid-1'' \<noteq> sessions wit_live ''uuid-1''" by (simp add: wit_defs)
  then have d: "sessions ?t \<noteq> sessions wit_live" by metis
  obtain target cred dev n where o: "?m = RequestConnection target cred" "n \<le> 1"
    "fst (find_device target (app_db (?sts ! 0))) = Inr (Some dev)" "credential_ok wit_crypto (?sts ! n) target dev cred"
    using session_credential_under_interference [OF m d] by blast
  then have "target = ''012 345 006''" "cred = OneTimePassword ''0042 9999''" by simp_all
  then show ?thesis using o f by auto
qed

section \<open>The last administrator\<close>

text \<open>A request to make an account a user, in a state where its guards pass: four accesses, of which only the last
  changes anything.\<close>

definition demote :: "http_env \<Rightarrow> headers \<Rightarrow> int \<Rightarrow> outcome prog" where
  "demote v hs i = task_prog (HttpRequest v hs (PutAccountRole i User))"

lemma bind_assoc [simp]: "bind_prog (bind_prog p k) k' = bind_prog p (\<lambda>x. bind_prog (k x) k')"
  by (induction p) simp_all

lemma turn_act:
  "turn_of 0 ([bind_prog (act f) k, q], st) = ([k (fst (f st)), q], snd (f st))"
  "turn_of (Suc 0) ([q, bind_prog (act f) k], st) = ([q, k (fst (f st))], snd (f st))"
  by (simp_all add: act_def)

text \<open>What is left of the request after the session, after the account and after the count have been read.\<close>

definition demote_write :: "http_env \<Rightarrow> int \<Rightarrow> outcome prog" where
  "demote_write v i = bind_prog (act (with_db (set_account_role i User))) (\<lambda>res. case res of
     Inr _ \<Rightarrow> Finished (Responded (status_response NO_CONTENT))
   | Inl e \<Rightarrow> Finished (Responded (error_response INTERNAL_SERVER_ERROR (he_alt v e))))"

definition demote_count :: "http_env \<Rightarrow> int \<Rightarrow> outcome prog" where
  "demote_count v i = bind_prog (act (with_db count_admins)) (\<lambda>n. case n of
     Inr n \<Rightarrow> if n \<le> 1 then Finished (Responded (error_response CONFLICT ''cannot remove the last remaining admin account''))
               else demote_write v i
   | Inl e \<Rightarrow> Finished (Responded (error_response INTERNAL_SERVER_ERROR (he_alt v e))))"

definition demote_guard :: "http_env \<Rightarrow> int \<Rightarrow> outcome prog" where
  "demote_guard v i = bind_prog (act (with_db (find_account_by_id i))) (\<lambda>res. case res of
     Inr (Some account) \<Rightarrow> if acc_role account \<noteq> Admin then demote_write v i else demote_count v i
   | _ \<Rightarrow> demote_write v i)"

lemma bind_cases:
  "bind_prog (case r of Inl e \<Rightarrow> f e | Inr y \<Rightarrow> g y) k = (case r of Inl e \<Rightarrow> bind_prog (f e) k | Inr y \<Rightarrow> bind_prog (g y) k)"
  "bind_prog (case w of None \<Rightarrow> p | Some z \<Rightarrow> h z) k = (case w of None \<Rightarrow> bind_prog p k | Some z \<Rightarrow> bind_prog (h z) k)"
  "bind_prog (if b then p else q) k = (if b then bind_prog p k else bind_prog q k)"
  by (simp_all split: sum.split option.split)

definition set_role_rest :: "alt \<Rightarrow> int \<Rightarrow> response prog" where
  "set_role_rest alt i = bind_prog (guard_last_admin_prog alt i) (\<lambda>g. case g of
         Inl resp \<Rightarrow> Finished resp | Inr _ \<Rightarrow> write_prog alt (set_account_role i User))"

lemma demote_stages: "bind_prog (set_role_rest (he_alt v) i) (\<lambda>resp. Finished (Responded resp)) = demote_guard v i"
  unfolding set_role_rest_def guard_last_admin_prog_def write_prog_def demote_guard_def demote_count_def demote_write_def
    accesses_act bind_assoc bind_cases bind_prog.simps(1) sum.case
  by (intro arg_cong [where f = "bind_prog _"] ext)
    (simp add: if_distrib [of "case_sum a b" for a b] split: sum.split option.split)

text \<open>A first access that leaves the state alone.\<close>

definition reads_then :: "app_state \<Rightarrow> outcome prog \<Rightarrow> outcome prog \<Rightarrow> bool" where
  "reads_then st p q \<longleftrightarrow> (\<exists>f. p = Access f \<and> f st = (q, st))"

lemma reads_thenI:
  "p = bind_prog (act f) k \<Longrightarrow> snd (f st) = st \<Longrightarrow> k (fst (f st)) = q \<Longrightarrow> reads_then st p q"
  by (simp add: reads_then_def act_def)

lemma demote_session:
  assumes "faults (app_db st) = []" and "db_wf (app_db st)" and "require_admin hs st = (Inr x, st)"
  shows "reads_then st (demote v hs i) (demote_guard v i)"
proof -
  from assms(3) have ra: "require_account hs st = (Inr x, st)" "aa_role x = Admin" by (simp_all add: require_admin_Inr)
  obtain tok acc where t: "cookie_value hs SESSION_COOKIE = Some tok" "session_of (app_db st) tok = Some acc"
    "aa_role x = acc_role acc" using require_account_Inr [OF assms(2) ra(1)] by blast
  let ?k = "\<lambda>a. bind_prog (case a of None \<Rightarrow> Finished (status_response UNAUTHORIZED)
      | Some account \<Rightarrow> if aa_role account = Admin then set_role_rest (he_alt v) i else Finished (status_response FORBIDDEN))
      (\<lambda>resp. Finished (Responded resp))"
  let ?c = "\<lambda>res. case res of
      Inr (Some a) \<Rightarrow> Finished (Some \<lparr>aa_id = acc_id a, aa_email = acc_email a, aa_role = acc_role a\<rparr>) | _ \<Rightarrow> Finished None"
  have 1: "demote v hs i = bind_prog (act (with_db (find_session tok))) (\<lambda>res. bind_prog (?c res) ?k)"
    unfolding demote_def task_prog.simps request_steps.simps set_role_prog_def with_admin_def with_account_def
      current_account_prog_def t(1) option.case accesses_act bind_assoc set_role_rest_def by (simp add: bind_cases)
  have 2: "snd (with_db (find_session tok) st) = st"
    by (simp add: with_db_pair find_session_ok [OF assms(2,1)])
  have 3: "bind_prog (?c (fst (with_db (find_session tok) st))) ?k = demote_guard v i"
    using t ra(2) by (simp add: find_session_ok [OF assms(2,1)] demote_stages)
  show ?thesis by (rule reads_thenI [OF 1 2 3])
qed

lemma demote_account:
  assumes "faults (app_db st) = []" and "account_of (app_db st) i = Some a" and "acc_role a = Admin"
  shows "reads_then st (demote_guard v i) (demote_count v i)"
  unfolding demote_guard_def
  by (rule reads_thenI [OF refl]) (simp_all add: with_db_pair find_account_by_id_ok [OF assms(1)] assms(2,3))

lemma demote_counted:
  assumes "count_admins (app_db st) = (Inr n, app_db st)" and "1 < n"
  shows "reads_then st (demote_count v i) (demote_write v i)"
  unfolding demote_count_def by (rule reads_thenI [OF refl]) (use assms in \<open>simp_all add: with_db_pair\<close>)

lemma turn_reads:
  "reads_then st p q \<Longrightarrow> turn_of 0 ([p, p'], st) = ([q, p'], st)"
  "reads_then st p q \<Longrightarrow> turn_of (Suc 0) ([p', p], st) = ([p', q], st)"
  by (auto simp: reads_then_def)

lemma turn_write:
  assumes "faults (app_db st) = []"
  shows "turn_of 0 ([demote_write v i, p], st) =
      ([Finished (Responded (status_response NO_CONTENT)), p], snd (with_db (set_account_role i User) st))"
    and "turn_of (Suc 0) ([p, demote_write v i], st) =
      ([p, Finished (Responded (status_response NO_CONTENT))], snd (with_db (set_account_role i User) st))"
proof -
  have "fst (set_account_role i User (app_db st)) = Inr ()" using assms by (simp add: set_account_role_def stmt_ok)
  then show "turn_of 0 ([demote_write v i, p], st) =
      ([Finished (Responded (status_response NO_CONTENT)), p], snd (with_db (set_account_role i User) st))"
    "turn_of (Suc 0) ([p, demote_write v i], st) =
      ([p, Finished (Responded (status_response NO_CONTENT))], snd (with_db (set_account_role i User) st))"
    by (simp_all add: demote_write_def turn_act del: turn_of.simps)
qed

lemma set_role_faults: "faults d = [] \<Longrightarrow> faults (snd (set_account_role i role d)) = []"
  by (simp add: set_account_role_def stmt_ok)

text \<open>
  C15. Two administrators, demoted by two requests at the same time: when both have read everything before either writes, both
  are answered 204 and no administrator is left, although one request after the other would have left one.
\<close>

theorem admins_lost_in_a_race:
  assumes "faults (app_db st) = []" and "db_wf (app_db st)"
    and "filter (\<lambda>r. ar_role r = ''admin'') (accounts_tbl (app_db st)) = [a, b]"
    and "require_admin hs1 st = (Inr x, st)" and "require_admin hs2 st = (Inr y, st)"
  shows "\<exists>st'. run_schedule [0, 0, 0, 1, 1, 1, 0, 1]
      (map task_prog [HttpRequest v hs1 (PutAccountRole (ar_id a) User), HttpRequest w hs2 (PutAccountRole (ar_id b) User)], st) =
      ([Finished (Responded (status_response NO_CONTENT)), Finished (Responded (status_response NO_CONTENT))], st') \<and>
    \<not> has_admin (app_db st') \<and>
    has_admin (app_db (snd (http w hs2 (PutAccountRole (ar_id b) User) (snd (http v hs1 (PutAccountRole (ar_id a) User) st)))))"
proof -
  let ?d = "app_db st"
  let ?adm = "\<lambda>r. ar_role r = ''admin''"
  have c: "count_admins ?d = (Inr 2, ?d)" using assms(1,3) by (simp add: count_admins_def stmt_ok)
  have only: "r = a \<or> r = b" if "r \<in> set (accounts_tbl ?d)" "?adm r" for r
  proof -
    from that have "r \<in> set (filter ?adm (accounts_tbl ?d))" by simp
    then show ?thesis unfolding assms(3) by simp
  qed
  have row: "\<exists>acc. account_of ?d (ar_id r) = Some acc \<and> acc_role acc = Admin" if "r = a \<or> r = b" for r
  proof -
    have "r \<in> set (filter ?adm (accounts_tbl ?d))" using that unfolding assms(3) by auto
    then have r: "r \<in> set (accounts_tbl ?d)" "?adm r" by auto
    then have "find (\<lambda>x. ar_id x = ar_id r) (accounts_tbl ?d) = Some r"
      using assms(2) find_key [of ar_id "accounts_tbl ?d" r] by (simp add: db_wf_defs)
    then show ?thesis using r(2) by (simp add: account_of_def map_account_row_def from_column_def)
  qed
  obtain acca where ra: "account_of ?d (ar_id a) = Some acca" "acc_role acca = Admin" using row by blast
  obtain accb where rb: "account_of ?d (ar_id b) = Some accb" "acc_role accb = Admin" using row by blast
  let ?s1 = "snd (with_db (set_account_role (ar_id a) User) st)"
  let ?s2 = "snd (with_db (set_account_role (ar_id b) User) ?s1)"
  have f1: "faults (app_db ?s1) = []" using assms(1) by (simp add: set_role_faults)
  note reads = turn_reads [OF demote_session [OF assms(1,2,4)]] turn_reads [OF demote_session [OF assms(1,2,5)]]
    turn_reads [OF demote_account [OF assms(1) ra]] turn_reads [OF demote_account [OF assms(1) rb]]
    turn_reads [OF demote_counted [OF c]] turn_write [OF assms(1)] turn_write [OF f1]
  have run: "run_schedule [0, 0, 0, 1, 1, 1, 0, 1]
      (map task_prog [HttpRequest v hs1 (PutAccountRole (ar_id a) User), HttpRequest w hs2 (PutAccountRole (ar_id b) User)], st) =
      ([Finished (Responded (status_response NO_CONTENT)), Finished (Responded (status_response NO_CONTENT))], ?s2)"
    by (simp add: run_schedule_def demote_def [symmetric] reads del: turn_of.simps task_prog.simps)
  have gone: "\<not> has_admin (app_db ?s2)"
    using assms(1) only by (auto simp: set_account_role_def stmt_ok has_admin_def list_ex_map)
  have g: "guard_last_admin alt (ar_id a) st = (Inr (), st)" for alt
    using c by (simp add: guard_last_admin_def with_db_pair find_account_by_id_ok [OF assms(1)] ra)
  have h1: "snd (http v hs1 (PutAccountRole (ar_id a) User) st) = ?s1"
    using assms(1) by (simp add: admin_set_account_role_def assms(4) g with_db_pair set_account_role_def stmt_ok)
  have "has_admin ?d" using only row assms(3) by (metis (mono_tags, lifting) filter_empty_conv has_admin_def list.distinct(1) list_ex_iff)
  then have "has_admin (app_db ?s1)" using http_has_admin [OF assms(1,2), of v hs1 "PutAccountRole (ar_id a) User"] h1 by simp
  moreover have "db_wf (app_db ?s1)" using assms(2) by (simp add: set_account_role.wf)
  ultimately have "has_admin (app_db (snd (http w hs2 (PutAccountRole (ar_id b) User) ?s1)))"
    by (intro http_has_admin [OF f1])
  then show ?thesis using run gone h1 by (intro exI [of _ ?s2]) (simp del: http.simps)
qed

theorem admins_lost_in_a_race_witness:
  "\<exists>v hs st. has_admin (app_db st) \<and> \<not> has_admin (app_db (snd (run_schedule [0, 0, 0, 1, 1, 1, 0, 1]
      (map task_prog [HttpRequest v hs (PutAccountRole 1 User), HttpRequest v hs (PutAccountRole 2 User)], st))))"
proof -
  let ?st = "wit_two_admins\<lparr>app_db := (app_db wit_two_admins)\<lparr>sessions_tbl := [\<lparr>sr_token = ''tok'', sr_account_id = 1, sr_created_at = 6\<rparr>]\<rparr>\<rparr>"
  let ?a = "\<lparr>ar_id = 1, ar_email = ''a'', ar_password_hash = ''h'', ar_created_at = 5, ar_role = ''admin''\<rparr>"
  let ?b = "\<lparr>ar_id = 2, ar_email = ''b'', ar_password_hash = ''h'', ar_created_at = 6, ar_role = ''admin''\<rparr>"
  have "faults (app_db ?st) = []" "db_wf (app_db ?st)"
    "filter (\<lambda>r. ar_role r = ''admin'') (accounts_tbl (app_db ?st)) = [?a, ?b]"
    by (auto simp: wit_two_admins_def wit_db_def db_wf_defs)
  moreover have "require_admin wit_headers ?st = (Inr \<lparr>aa_id = 1, aa_email = ''a'', aa_role = Admin\<rparr>, ?st)"
    using wit_cookie
    by (simp add: require_admin_def require_account_def current_account_def with_db_def find_session_def stmt_def
        query_row_def map_account_row_def from_column_def wit_two_admins_def wit_db_def wit_app_def)
  ultimately have "\<not> has_admin (app_db (snd (run_schedule [0, 0, 0, 1, 1, 1, 0, 1]
      (map task_prog [HttpRequest wit_http wit_headers (PutAccountRole 1 User), HttpRequest wit_http wit_headers (PutAccountRole 2 User)], ?st))))"
    using admins_lost_in_a_race [of ?st ?a ?b wit_headers _ wit_headers _ wit_http wit_http] by force
  moreover have "has_admin (app_db ?st)" by (simp add: has_admin_def wit_two_admins_def)
  ultimately show ?thesis by blast
qed

section \<open>A session whose host has left\<close>

text \<open>
  If the host's connection ends between the look at \<open>device_online\<close> and the look at \<open>connections\<close>, nobody is told of
  the session and yet the controller receives \<open>ConnectionEstablished\<close>: the missing entry of \<open>connections\<close> is passed over.
\<close>

definition wit_leaving :: "outcome prog list" where
  "wit_leaving = [bind_prog (message_prog wit_crypto wit_entropy
       (RequestConnection ''012 345 006'' (OneTimePassword ''0042 9999'')) ''ctl'' wit_ctl) (\<lambda>_. Finished Ended),
     bind_prog (close_prog ''host'' \<lparr>conn_state = Authenticated 1, my_device_id = Some ''012 345 006''\<rparr>) (\<lambda>_. Finished Ended)]"

lemma established_without_host:
  "inbox (snd (run_schedule [0, 0, 0, 1, 1, 1, 1, 0, 0, 0] (wit_leaving, wit_live))) ''ctl'' =
     [ConnectionEstablished ''uuid-1'' ''012 345 006''] \<and>
   connections (snd (run_schedule [0, 0, 0, 1, 1, 1, 1, 0, 0, 0] (wit_leaving, wit_live))) ''host'' = None \<and>
   sessions (snd (run_schedule [0, 0, 0, 1, 1, 1, 1, 0, 0, 0] (wit_leaving, wit_live))) ''uuid-1'' =
     Some \<lparr>peer_a = ''ctl'', peer_b = ''host''\<rparr>"
  by (simp add: wit_leaving_def run_schedule_def request_prog_def credential_prog_def close_prog_def reply_prog_def
      access_defs with_db_pair find_device_def stmt_def query_row_def map_device_row_def require_auth_def Let_def
      drop_receiver_def send_def inbox_def wit_defs)

end
