(* ===== verification/Control_Messages.thy ===== *)
theory Control_Messages
  imports Visuara_Prelude
begin

text \<open>
  \<^verbatim>\<open>visuara-common/src/control.rs\<close>: the messages of the data channel between two peers, and
  \<^verbatim>\<open>visuara-agent/src/input.rs\<close> with the key and button tables of \<^verbatim>\<open>visuara-client/src/gui.rs\<close>: how an input event
  becomes calls of the operating system's input interface.  The \<open>bincode\<close> encoding of
  \<open>to_bytes\<close> and \<open>from_bytes\<close> and the injector (\<open>enigo\<close>) are third-party code: the injector is the
  list of calls made on it and a parameter that says which call fails.
\<close>

section \<open>control.rs\<close>

type_synonym i32 = "32 word"

datatype mouse_button = MouseLeft | MouseRight | MouseMiddle

datatype key_code =
  Backspace | Enter | Tab | Escape | Space | Delete | ArrowUp | ArrowDown | ArrowLeft | ArrowRight
| Shift | Control | Alt | Meta

datatype input_event =
  MouseMove i32 i32
| MouseButton mouse_button bool
| MouseScroll i32 i32
| KeyEvent key_code bool
| TypeText string

datatype clipboard_message = TextUpdated string

datatype file_transfer_message =
  Offer (ft_id: string) (ft_name: string) (ft_size: u64)
| Accept (ft_id: string)
| Reject (ft_id: string)
| Chunk (ft_id: string) (ft_sequence: u32) (ft_data: bytes)
| Complete (ft_id: string)
| Cancel (ft_id: string)

record monitor_info =
  mon_id :: u32
  mon_name :: string
  mon_width :: u32
  mon_height :: u32
  mon_is_primary :: bool

datatype monitor_message =
  ListRequest
| MonitorList "monitor_info list"
| SwitchRequest u32
| Switched u32

datatype control_message =
  Input input_event
| Clipboard clipboard_message
| FileMsg file_transfer_message
| Monitor monitor_message

section \<open>input.rs\<close>

datatype direction = Press | Release
datatype axis = Vertical | Horizontal
datatype enigo_button = BLeft | BRight | BMiddle
datatype enigo_key =
  KBackspace | KReturn | KTab | KEscape | KSpace | KDelete | KUpArrow | KDownArrow | KLeftArrow
| KRightArrow | KShift | KControl | KAlt | KMeta

datatype enigo_call =
  MoveMouseAbs i32 i32
| Button enigo_button direction
| Scroll i32 axis
| Key enigo_key direction
| EnigoText string

fun map_button :: "mouse_button \<Rightarrow> enigo_button" where
  "map_button MouseLeft = BLeft"
| "map_button MouseRight = BRight"
| "map_button MouseMiddle = BMiddle"

fun map_key :: "key_code \<Rightarrow> enigo_key" where
  "map_key Backspace = KBackspace"
| "map_key Enter = KReturn"
| "map_key Tab = KTab"
| "map_key Escape = KEscape"
| "map_key Space = KSpace"
| "map_key Delete = KDelete"
| "map_key ArrowUp = KUpArrow"
| "map_key ArrowDown = KDownArrow"
| "map_key ArrowLeft = KLeftArrow"
| "map_key ArrowRight = KRightArrow"
| "map_key Shift = KShift"
| "map_key Control = KControl"
| "map_key Alt = KAlt"
| "map_key Meta = KMeta"

text \<open>An injector: the calls it has carried out; \<open>fails\<close> says which call is refused, and why.\<close>

type_synonym injector = "enigo_call list"
type_synonym enigo = "enigo_call \<Rightarrow> string option"

definition call :: "enigo \<Rightarrow> string \<Rightarrow> enigo_call \<Rightarrow> injector \<Rightarrow> (string, unit) result \<times> injector" where
  "call fails ctx c made =
     (case fails c of Some e \<Rightarrow> (Inl (ctx @ '': '' @ e), made) | None \<Rightarrow> (Inr (), made @ [c]))"

fun apply_input :: "enigo \<Rightarrow> input_event \<Rightarrow> injector \<Rightarrow> (string, unit) result \<times> injector" where
  "apply_input fails (MouseMove x y) made = call fails ''move mouse'' (MoveMouseAbs x y) made"
| "apply_input fails (MouseButton b pressed) made =
     call fails ''send mouse button'' (Button (map_button b) (if pressed then Press else Release)) made"
| "apply_input fails (MouseScroll delta_x delta_y) made =
     (case if delta_y \<noteq> 0 then call fails ''scroll vertical'' (Scroll delta_y Vertical) made else (Inr (), made) of
        (Inl e, made1) \<Rightarrow> (Inl e, made1)
      | (Inr _, made1) \<Rightarrow>
          if delta_x \<noteq> 0 then call fails ''scroll horizontal'' (Scroll delta_x Horizontal) made1 else (Inr (), made1))"
| "apply_input fails (KeyEvent k pressed) made =
     call fails ''send key event'' (Key (map_key k) (if pressed then Press else Release)) made"
| "apply_input fails (TypeText t) made = call fails ''type text'' (EnigoText t) made"

section \<open>The tables of gui.rs\<close>

datatype egui_button = Primary | Secondary | MiddleButton | Extra nat

datatype egui_key =
  EKBackspace | EKEnter | EKTab | EKEscape | EKSpace | EKDelete | EKArrowUp | EKArrowDown
| EKArrowLeft | EKArrowRight | EKOther string

fun map_pointer_button :: "egui_button \<Rightarrow> mouse_button option" where
  "map_pointer_button Primary = Some MouseLeft"
| "map_pointer_button Secondary = Some MouseRight"
| "map_pointer_button MiddleButton = Some MouseMiddle"
| "map_pointer_button (Extra _) = None"

fun map_special_key :: "egui_key \<Rightarrow> key_code option" where
  "map_special_key EKBackspace = Some Backspace"
| "map_special_key EKEnter = Some Enter"
| "map_special_key EKTab = Some Tab"
| "map_special_key EKEscape = Some Escape"
| "map_special_key EKSpace = Some Space"
| "map_special_key EKDelete = Some Delete"
| "map_special_key EKArrowUp = Some ArrowUp"
| "map_special_key EKArrowDown = Some ArrowDown"
| "map_special_key EKArrowLeft = Some ArrowLeft"
| "map_special_key EKArrowRight = Some ArrowRight"
| "map_special_key (EKOther _) = None"

end
