(* ===== verification/Screen_Media.thy ===== *)
theory Screen_Media
  imports Control_Messages
begin

text \<open>
  The picture's way from one screen to the other: \<^verbatim>\<open>visuara-agent/src/capture.rs\<close>, \<^verbatim>\<open>encode.rs\<close> and \<^verbatim>\<open>decode.rs\<close>,
  the capture thread of \<^verbatim>\<open>visuara-client/src/host.rs\<close> and \<open>read_video_track\<close> of \<^verbatim>\<open>controller.rs\<close>.  The screen
  library (\<open>xcap\<close>), the codec (\<open>openh264\<close>), the image type and the RTP depacketizer are third-party
  code: what a monitor answers is data, codec and depacketizer are parameters with a state of their own.
\<close>

section \<open>capture.rs\<close>

text \<open>A monitor as the library lists it: a handle to capture from, and attributes that may fail to read.\<close>

record monitor =
  m_handle :: nat
  m_id :: "(string, u32) result"
  m_name :: "(string, string) result"
  m_width :: "(string, u32) result"
  m_height :: "(string, u32) result"
  m_is_primary :: "(string, bool) result"

type_synonym monitors = "(string, monitor list) result"

definition ctx :: "string \<Rightarrow> string \<Rightarrow> string" where
  "ctx c e = c @ '': '' @ e"

definition res_or :: "'a \<Rightarrow> (string, 'a) result \<Rightarrow> 'a" where
  "res_or d r = (case r of Inr x \<Rightarrow> x | Inl _ \<Rightarrow> d)"

definition capturer_primary :: "monitors \<Rightarrow> (string, monitor) result" where
  "capturer_primary all =
     (case all of
        Inl e \<Rightarrow> Inl (ctx ''enumerate monitors'' e)
      | Inr ms \<Rightarrow>
          (case find (\<lambda>m. res_or False (m_is_primary m)) ms of
             None \<Rightarrow> Inl ''no primary monitor found''
           | Some m \<Rightarrow> Inr m))"

definition capturer_for_monitor_id :: "monitors \<Rightarrow> u32 \<Rightarrow> (string, monitor) result" where
  "capturer_for_monitor_id all i =
     (case all of
        Inl e \<Rightarrow> Inl (ctx ''enumerate monitors'' e)
      | Inr ms \<Rightarrow>
          (case find (\<lambda>m. res_or 0 (m_id m) = i) ms of
             None \<Rightarrow> Inl (''no monitor with id '' @ dec (unat i))
           | Some m \<Rightarrow> Inr m))"

definition capturer_width :: "monitor \<Rightarrow> u32" where
  "capturer_width m = res_or 0 (m_width m)"

definition capturer_height :: "monitor \<Rightarrow> u32" where
  "capturer_height m = res_or 0 (m_height m)"

definition monitor_info_of :: "monitor \<Rightarrow> (string, monitor_info) result" where
  "monitor_info_of m =
     (case m_id m of
        Inl e \<Rightarrow> Inl (ctx ''monitor id'' e)
      | Inr i \<Rightarrow>
          (case m_width m of
             Inl e \<Rightarrow> Inl (ctx ''monitor width'' e)
           | Inr w \<Rightarrow>
               (case m_height m of
                  Inl e \<Rightarrow> Inl (ctx ''monitor height'' e)
                | Inr h \<Rightarrow>
                    Inr \<lparr>mon_id = i, mon_name = res_or ''unknown'' (m_name m), mon_width = w, mon_height = h,
                         mon_is_primary = res_or False (m_is_primary m)\<rparr>)))"

text \<open>\<open>collect\<close> into a \<open>Result\<close>: the first error, or all values.\<close>

fun collect :: "('a \<Rightarrow> (string, 'b) result) \<Rightarrow> 'a list \<Rightarrow> (string, 'b list) result" where
  "collect f [] = Inr []"
| "collect f (x # xs) =
     (case f x of
        Inl e \<Rightarrow> Inl e
      | Inr y \<Rightarrow> (case collect f xs of Inl e \<Rightarrow> Inl e | Inr ys \<Rightarrow> Inr (y # ys)))"

definition list_monitors :: "monitors \<Rightarrow> (string, monitor_info list) result" where
  "list_monitors all =
     (case all of
        Inl e \<Rightarrow> Inl (ctx ''enumerate monitors'' e)
      | Inr ms \<Rightarrow> collect monitor_info_of ms)"

section \<open>encode.rs and decode.rs\<close>

record rgba_image =
  img_width :: u32
  img_height :: u32
  img_raw :: bytes

text \<open>The codec library: building an encoder or decoder, one call of each on a state, the colour
  conversions between a picture and its planar form, and \<open>RgbaImage::from_raw\<close>.\<close>

record ('e, 'd, 'y) codec =
  encoder_new :: "(string, 'e) result"
  encoder_encode :: "'y \<Rightarrow> 'e \<Rightarrow> (string, bytes) result \<times> 'e"
  yuv_of_rgba :: "bytes \<Rightarrow> nat \<times> nat \<Rightarrow> 'y"
  decoder_new :: "(string, 'd) result"
  decoder_decode :: "bytes \<Rightarrow> 'd \<Rightarrow> (string, 'y option) result \<times> 'd"
  yuv_dimensions :: "'y \<Rightarrow> nat \<times> nat"
  rgba_of_yuv :: "'y \<Rightarrow> bytes"
  image_from_raw :: "u32 \<Rightarrow> u32 \<Rightarrow> bytes \<Rightarrow> rgba_image option"

definition video_encoder_new :: "('e, 'd, 'y) codec \<Rightarrow> (string, 'e) result" where
  "video_encoder_new lib =
     (case encoder_new lib of Inl e \<Rightarrow> Inl (ctx ''initialize H.264 encoder'' e) | Inr x \<Rightarrow> Inr x)"

definition encode_frame :: "('e, 'd, 'y) codec \<Rightarrow> rgba_image \<Rightarrow> 'e \<Rightarrow> (string, bytes) result \<times> 'e" where
  "encode_frame lib frame enc =
     (let yuv = yuv_of_rgba lib (img_raw frame) (unat (img_width frame), unat (img_height frame)) in
      (case encoder_encode lib yuv enc of
         (Inl e, enc') \<Rightarrow> (Inl (ctx ''encode frame'' e), enc')
       | (Inr bitstream, enc') \<Rightarrow> (Inr bitstream, enc')))"

definition video_decoder_new :: "('e, 'd, 'y) codec \<Rightarrow> (string, 'd) result" where
  "video_decoder_new lib =
     (case decoder_new lib of Inl e \<Rightarrow> Inl (ctx ''initialize H.264 decoder'' e) | Inr x \<Rightarrow> Inr x)"

definition decode :: "('e, 'd, 'y) codec \<Rightarrow> bytes \<Rightarrow> 'd \<Rightarrow> (string, rgba_image option) result \<times> 'd" where
  "decode lib packet d =
     (case decoder_decode lib packet d of
        (Inl e, d') \<Rightarrow> (Inl (ctx ''decode H.264 packet'' e), d')
      | (Inr None, d') \<Rightarrow> (Inr None, d')
      | (Inr (Some yuv), d') \<Rightarrow>
          (case yuv_dimensions lib yuv of (width, height) \<Rightarrow>
             (case image_from_raw lib (of_nat width) (of_nat height) (rgba_of_yuv lib yuv) of
                None \<Rightarrow> (Inl ''assemble decoded RGBA image'', d')
              | Some img \<Rightarrow> (Inr (Some img), d'))))"

section \<open>The capture thread of the host\<close>

text \<open>
  What one turn of the loop meets: the switch requests that have come in since the last turn, what the
  screen library lists, what capturing from a handle gives, and whether the receiver of the encoded
  frames has been dropped.
\<close>

record turn_env =
  te_requests :: "u32 list"
  te_monitors :: monitors
  te_shot :: "nat \<Rightarrow> (string, rgba_image) result"
  te_receiver_gone :: bool

record 'e capture_state =
  cs_capturer :: monitor
  cs_encoder :: 'e
  cs_switches :: "u32 list"  \<comment> \<open>the channel of monitor switches\<close>

definition take_switch :: "monitors \<Rightarrow> 'e capture_state \<Rightarrow> 'e capture_state" where
  "take_switch all s =
     (case cs_switches s of
        [] \<Rightarrow> s
      | i # rest \<Rightarrow>
          (case capturer_for_monitor_id all i of
             Inr c \<Rightarrow> s\<lparr>cs_capturer := c, cs_switches := rest\<rparr>
           | Inl _ \<Rightarrow> s\<lparr>cs_switches := rest\<rparr>))"

definition capture_frame :: "(nat \<Rightarrow> (string, rgba_image) result) \<Rightarrow> monitor \<Rightarrow> (string, rgba_image) result" where
  "capture_frame shot m =
     (case shot (m_handle m) of Inl e \<Rightarrow> Inl (ctx ''capture frame'' e) | Inr x \<Rightarrow> Inr x)"

definition grab ::
  "('e, 'd, 'y) codec \<Rightarrow> (nat \<Rightarrow> (string, rgba_image) result) \<Rightarrow> 'e capture_state \<Rightarrow>
   (string, bytes) result \<times> 'e capture_state" where
  "grab lib shot s =
     (case capture_frame shot (cs_capturer s) of
        Inl e \<Rightarrow> (Inl e, s)
      | Inr frame \<Rightarrow>
          (case encode_frame lib frame (cs_encoder s) of (res, enc) \<Rightarrow> (res, s\<lparr>cs_encoder := enc\<rparr>)))"

fun capture_loop ::
  "('e, 'd, 'y) codec \<Rightarrow> turn_env list \<Rightarrow> 'e capture_state \<Rightarrow> bytes list \<times> 'e capture_state" where
  "capture_loop lib [] s = ([], s)"
| "capture_loop lib (t # ts) s =
     (let s1 = take_switch (te_monitors t) (s\<lparr>cs_switches := cs_switches s @ te_requests t\<rparr>) in
      (case grab lib (te_shot t) s1 of
         (Inl _, s2) \<Rightarrow> capture_loop lib ts s2
       | (Inr data, s2) \<Rightarrow>
           if te_receiver_gone t then ([], s2)
           else (case capture_loop lib ts s2 of (out, s3) \<Rightarrow> (data # out, s3))))"

definition capture_thread ::
  "('e, 'd, 'y) codec \<Rightarrow> monitors \<Rightarrow> turn_env list \<Rightarrow> bytes list" where
  "capture_thread lib all ts =
     (case capturer_primary all of
        Inl _ \<Rightarrow> []
      | Inr c \<Rightarrow>
          (case video_encoder_new lib of
             Inl _ \<Rightarrow> []
           | Inr enc \<Rightarrow> fst (capture_loop lib ts \<lparr>cs_capturer = c, cs_encoder = enc, cs_switches = []\<rparr>)))"

section \<open>The video track at the controller\<close>

text \<open>A read of the track: a payload or an error, and whether the receiver of frames is still there.\<close>

record 'p depacketizer =
  depacketize :: "bytes \<Rightarrow> 'p \<Rightarrow> (string, bytes) result \<times> 'p"
  depacketizer_default :: 'p

fun read_loop ::
  "('e, 'd, 'y) codec \<Rightarrow> 'p depacketizer \<Rightarrow> ((string, bytes) result \<times> bool) list \<Rightarrow> 'p \<Rightarrow> 'd \<Rightarrow>
   (string, unit) result option \<times> rgba_image list" where
  "read_loop lib dp [] p d = (None, [])"
| "read_loop lib dp ((Inl e, alive) # rs) p d = (Some (Inl (ctx ''read RTP packet'' e)), [])"
| "read_loop lib dp ((Inr payload, alive) # rs) p d =
     (case depacketize dp payload p of
        (Inl _, p') \<Rightarrow> read_loop lib dp rs p' d
      | (Inr nal, p') \<Rightarrow>
          if nal = [] then read_loop lib dp rs p' d
          else (case decode lib nal d of
                  (Inl _, d') \<Rightarrow> read_loop lib dp rs p' d'
                | (Inr None, d') \<Rightarrow> read_loop lib dp rs p' d'
                | (Inr (Some frame), d') \<Rightarrow>
                    if \<not> alive then (Some (Inr ()), [])
                    else (case read_loop lib dp rs p' d' of (res, out) \<Rightarrow> (res, frame # out))))"

text \<open>\<open>read_video_track\<close>; no result means that it is still waiting for the next packet.\<close>

definition read_video_track ::
  "('e, 'd, 'y) codec \<Rightarrow> 'p depacketizer \<Rightarrow> ((string, bytes) result \<times> bool) list \<Rightarrow>
   (string, unit) result option \<times> rgba_image list" where
  "read_video_track lib dp rs =
     (case video_decoder_new lib of
        Inl e \<Rightarrow> (Some (Inl (ctx ''create video decoder'' e)), [])
      | Inr d \<Rightarrow> read_loop lib dp rs (depacketizer_default dp) d)"

section \<open>Lemmas\<close>

lemma collect_Inr: "collect f xs = Inr ys \<Longrightarrow> list_all2 (\<lambda>x y. f x = Inr y) xs ys"
  by (induction xs arbitrary: ys) (auto split: sum.splits)

lemma monitor_info_id: "monitor_info_of m = Inr info \<Longrightarrow> m_id m = Inr (mon_id info)"
  by (auto simp: monitor_info_of_def split: sum.splits)

text \<open>When every monitor can be listed, the ids of the list are those the capturer searches by.\<close>

lemma listed_ids:
  assumes "list_monitors (Inr ms) = Inr infos"
  shows "map (\<lambda>m. res_or 0 (m_id m)) ms = map mon_id infos"
proof -
  have "list_all2 (\<lambda>m info. monitor_info_of m = Inr info) ms infos"
    using assms by (simp add: list_monitors_def collect_Inr)
  then show ?thesis
    by (induction rule: list_all2_induct) (auto simp: res_or_def dest: monitor_info_id)
qed

lemma listed_readable:
  assumes "list_monitors (Inr ms) = Inr infos" and "m \<in> set ms"
  shows "\<exists>i. m_id m = Inr i"
proof -
  have "list_all2 (\<lambda>m info. monitor_info_of m = Inr info) ms infos"
    using assms(1) by (simp add: list_monitors_def collect_Inr)
  then show ?thesis
    using assms(2) monitor_info_id by (fastforce simp: list_all2_conv_all_nth in_set_conv_nth)
qed

lemma for_monitor_id_iff:
  "(\<exists>c. capturer_for_monitor_id (Inr ms) i = Inr c) \<longleftrightarrow> i \<in> set (map (\<lambda>m. res_or 0 (m_id m)) ms)"
  by (auto simp: capturer_for_monitor_id_def find_None_iff find_Some_iff split: option.splits)

lemma for_monitor_id_Inr:
  "capturer_for_monitor_id (Inr ms) i = Inr c \<Longrightarrow> c \<in> set ms \<and> res_or 0 (m_id c) = i"
  by (auto simp: capturer_for_monitor_id_def find_Some_iff split: option.splits)

section \<open>The reference of the video track\<close>

text \<open>A stateful stage applied to a whole list: what fails is dropped, and every item keeps its mark.\<close>

fun run_stage :: "('a \<Rightarrow> 's \<Rightarrow> (string, 'b) result \<times> 's) \<Rightarrow> 's \<Rightarrow> ('a \<times> 't) list \<Rightarrow> ('b \<times> 't) list" where
  "run_stage f s [] = []"
| "run_stage f s ((x, t) # xs) =
     (case f x s of (Inl _, s') \<Rightarrow> run_stage f s' xs | (Inr y, s') \<Rightarrow> (y, t) # run_stage f s' xs)"

text \<open>The payloads up to the first read error, marked with whether the window still takes frames, and that error.\<close>

fun payloads :: "((string, bytes) result \<times> bool) list \<Rightarrow> (bytes \<times> bool) list" where
  "payloads ((Inr x, alive) # rs) = (x, alive) # payloads rs"
| "payloads _ = []"

fun read_error :: "((string, bytes) result \<times> bool) list \<Rightarrow> string option" where
  "read_error [] = None"
| "read_error ((Inl e, _) # rs) = Some e"
| "read_error ((Inr _, _) # rs) = read_error rs"

text \<open>Depacketize everything up to the first read error, drop what is malformed or empty, decode
  what is left, keep the pictures.\<close>

definition video_reference ::
  "('e, 'd, 'y) codec \<Rightarrow> 'p depacketizer \<Rightarrow> 'p \<Rightarrow> 'd \<Rightarrow> ((string, bytes) result \<times> bool) list \<Rightarrow> (rgba_image \<times> bool) list" where
  "video_reference lib dp p d rs =
     List.map_filter (\<lambda>(picture, alive). map_option (\<lambda>frame. (frame, alive)) picture)
       (run_stage (decode lib) d (filter (\<lambda>(nal, alive). nal \<noteq> []) (run_stage (depacketize dp) p (payloads rs))))"

text \<open>Every picture is handed over until the first that the window does not take; that one ends the loop well, and without
  it the first read error ends it.\<close>

definition handed_over ::
  "((string, bytes) result \<times> bool) list \<Rightarrow> (rgba_image \<times> bool) list \<Rightarrow> (string, unit) result option \<times> rgba_image list" where
  "handed_over rs pictures =
     (if list_all snd pictures then map_option (\<lambda>e. Inl (ctx ''read RTP packet'' e)) (read_error rs) else Some (Inr ()),
      map fst (takeWhile snd pictures))"

lemma read_loop_reference: "read_loop lib dp rs p d = handed_over rs (video_reference lib dp p d rs)"
proof (induction lib dp rs p d rule: read_loop.induct)
  case (3 lib dp payload alive rs p d)
  then show ?case
    by (auto simp: video_reference_def handed_over_def List.map_filter_simps
        split: prod.split sum.split option.split)
qed (simp_all add: video_reference_def handed_over_def List.map_filter_simps)

section \<open>Properties\<close>

text \<open>
  C20. Reading the video track is the pipeline it stands for.  If the decoder does not open, the track ends with that
  error.  Otherwise the frames handed to the window are, in order, those of decoding all well-formed
  non-empty units of all packets up to the first read error, up to the first frame that the window no longer takes.
  That frame ends the loop without an error; if there is none, the read error ends it with that
  error, and if there is none either the loop goes on: a malformed packet or a unit that does not decode
  loses nothing else and ends nothing.
\<close>

theorem video_track_pipeline:
  "read_video_track lib dp rs =
     (case video_decoder_new lib of
        Inl e \<Rightarrow> (Some (Inl (ctx ''create video decoder'' e)), [])
      | Inr d \<Rightarrow> handed_over rs (video_reference lib dp (depacketizer_default dp) d rs))"
  by (simp add: read_video_track_def read_loop_reference split: sum.split)

definition wit_codec :: "(unit, unit, bytes) codec" where
  "wit_codec = \<lparr>encoder_new = Inr (), encoder_encode = (\<lambda>y e. (Inr y, e)), yuv_of_rgba = (\<lambda>raw _. raw),
     decoder_new = Inr (), decoder_decode = (\<lambda>b d. (if b = [0] then Inl ''Native:16'' else Inr (Some b), d)),
     yuv_dimensions = (\<lambda>y. (1, 1)), rgba_of_yuv = (\<lambda>y. y),
     image_from_raw = (\<lambda>w h raw. if 4 \<le> length raw then Some \<lparr>img_width = w, img_height = h, img_raw = raw\<rparr> else None)\<rparr>"

definition wit_depacketizer :: "unit depacketizer" where
  "wit_depacketizer = \<lparr>depacketize = (\<lambda>b p. (if b = [] then Inl ''short packet'' else Inr (tl b), p)),
     depacketizer_default = ()\<rparr>"

theorem video_track_pipeline_witness:
  "read_video_track wit_codec wit_depacketizer
     [(Inr [], True), (Inr [9, 1, 2, 3, 4], True), (Inr [9, 0], True), (Inr [9], False), (Inl ''closed'', True)] =
   (Some (Inl ''read RTP packet: closed''), [\<lparr>img_width = 1, img_height = 1, img_raw = [1, 2, 3, 4]\<rparr>]) \<and>
   read_video_track wit_codec wit_depacketizer [(Inr [9, 1, 2, 3, 4], True), (Inr [9, 5, 6, 7, 8], False), (Inl ''closed'', True)] =
   (Some (Inr ()), [\<lparr>img_width = 1, img_height = 1, img_raw = [1, 2, 3, 4]\<rparr>])"
  unfolding video_track_pipeline
  by (simp add: video_decoder_new_def wit_codec_def wit_depacketizer_def video_reference_def handed_over_def decode_def
      ctx_def List.map_filter_simps)

end
