(* ===== verification/Client_Protocol.thy ===== *)
theory Client_Protocol
  imports Signaling_Messages Screen_Media
begin

text \<open>
  The client's side of the signaling protocol: \<^verbatim>\<open>visuara-client/src/signaling_client.rs\<close>, \<^verbatim>\<open>session.rs\<close>, and
  the flows of \<^verbatim>\<open>host.rs\<close>, \<^verbatim>\<open>controller.rs\<close> and \<^verbatim>\<open>dashboard.rs\<close>.  A flow reads the frames of its WebSocket in
  order and writes messages; when the list of incoming frames ends the connection is closed.  What the
  WebRTC library answers is in the record \<open>webrtc\<close>; the derived debug text of a message is the
  parameter \<open>dbg\<close>.  Serialising a client message cannot fail and is left out.
\<close>

section \<open>The connection\<close>

text \<open>A frame of the WebSocket: a text with what parsing it gives, another kind of frame, or an error.\<close>

datatype ws_frame = WsText "(string, server_message) result" | WsOther | WsError string

record wire =
  incoming :: "ws_frame list"
  sent :: "client_message list"
  sends_left :: "nat option"  \<comment> \<open>how many sends succeed before the connection breaks, if it does\<close>

type_synonym 'a flow = "wire \<Rightarrow> (string, 'a) result \<times> wire"

definition signaling_connect :: "string \<Rightarrow> (string, wire) result \<Rightarrow> (string, wire) result" where
  "signaling_connect url net =
     (case net of Inl e \<Rightarrow> Inl (ctx (''connect to signaling server at '' @ url) e) | Inr w \<Rightarrow> Inr w)"

definition csend :: "client_message \<Rightarrow> unit flow" where
  "csend m w =
     (case sends_left w of
        Some 0 \<Rightarrow> (Inl ''send signaling message'', w)
      | Some (Suc n) \<Rightarrow> (Inr (), w\<lparr>sent := sent w @ [m], sends_left := Some n\<rparr>)
      | None \<Rightarrow> (Inr (), w\<lparr>sent := sent w @ [m]\<rparr>))"

text \<open>The loop of \<open>recv\<close>: frames that are not text are skipped.\<close>

fun recv_frames :: "ws_frame list \<Rightarrow> (string, server_message) result \<times> ws_frame list" where
  "recv_frames [] = (Inl ''signaling connection closed'', [])"
| "recv_frames (WsOther # fs) = recv_frames fs"
| "recv_frames (WsError e # fs) = (Inl (ctx ''websocket error'' e), fs)"
| "recv_frames (WsText (Inl e) # fs) = (Inl (ctx ''parse server message'' e), fs)"
| "recv_frames (WsText (Inr m) # fs) = (Inr m, fs)"

definition crecv :: "server_message flow" where
  "crecv w = (case recv_frames (incoming w) of (r, fs) \<Rightarrow> (r, w\<lparr>incoming := fs\<rparr>))"

lemma recv_shorter: "recv_frames fs = (Inr m, fs') \<Longrightarrow> length fs' < length fs"
  by (induction fs rule: recv_frames.induct) auto

definition authenticate :: "(server_message \<Rightarrow> string) \<Rightarrow> string \<Rightarrow> string \<Rightarrow> unit flow" where
  "authenticate dbg email password w =
     (case csend (Register email password) w of
        (Inl e, w1) \<Rightarrow> (Inl e, w1)
      | (Inr _, w1) \<Rightarrow>
          (case crecv w1 of
             (Inl e, w2) \<Rightarrow> (Inl e, w2)
           | (Inr (AuthOk _), w2) \<Rightarrow> (Inr (), w2)
           | (Inr (AuthError _), w2) \<Rightarrow>
               (case csend (Login email password) w2 of
                  (Inl e, w3) \<Rightarrow> (Inl e, w3)
                | (Inr _, w3) \<Rightarrow>
                    (case crecv w3 of
                       (Inl e, w4) \<Rightarrow> (Inl e, w4)
                     | (Inr (AuthOk _), w4) \<Rightarrow> (Inr (), w4)
                     | (Inr m, w4) \<Rightarrow> (Inl (''login failed: '' @ dbg m), w4)))
           | (Inr m, w2) \<Rightarrow> (Inl (''unexpected auth response: '' @ dbg m), w2)))"

section \<open>session.rs\<close>

record ice_server =
  is_urls :: "string list"
  is_username :: string
  is_credential :: string

record turn_credentials =
  tc_urls :: "string list"
  tc_username :: string
  tc_password :: string

definition ice_servers_from_turn :: "turn_credentials \<Rightarrow> ice_server list" where
  "ice_servers_from_turn creds =
     [\<lparr>is_urls = tc_urls creds, is_username = tc_username creds, is_credential = tc_password creds\<rparr>]"

text \<open>The library: each call gives the error it fails with, or its value.  A remote candidate is
  added before or after a remote description has been set.\<close>

record webrtc =
  register_codecs :: "string option"
  register_interceptors :: "string option"
  new_pc :: "ice_server list \<Rightarrow> string option"
  add_track :: "string option"
  create_channel :: "string option"
  add_transceiver :: "string option"
  candidate_init :: "string \<Rightarrow> string option"  \<comment> \<open>parsing the JSON of a candidate\<close>
  add_candidate :: "bool \<Rightarrow> string \<Rightarrow> string option"
  parse_sdp :: "string \<Rightarrow> string option"
  set_remote :: "string \<Rightarrow> string option"
  create_answer :: "string \<Rightarrow> (string, string) result"
  create_offer :: "(string, string) result"
  set_local :: "string \<Rightarrow> string option"
  write_sample :: "bytes \<Rightarrow> string option"

definition attempt :: "string \<Rightarrow> string option \<Rightarrow> (string, unit) result" where
  "attempt c r = (case r of Some e \<Rightarrow> Inl (ctx c e) | None \<Rightarrow> Inr ())"

definition build_peer_connection :: "webrtc \<Rightarrow> ice_server list \<Rightarrow> (string, unit) result" where
  "build_peer_connection rtc servers =
     (case attempt ''register default codecs'' (register_codecs rtc) of
        Inl e \<Rightarrow> Inl e
      | Inr _ \<Rightarrow>
          (case attempt ''register interceptors'' (register_interceptors rtc) of
             Inl e \<Rightarrow> Inl e
           | Inr _ \<Rightarrow> attempt ''create peer connection'' (new_pc rtc servers)))"

text \<open>\<open>decode_ice_candidate\<close> followed by \<open>add_ice_candidate\<close>.\<close>

definition remote_candidate :: "webrtc \<Rightarrow> bool \<Rightarrow> string \<Rightarrow> (string, unit) result" where
  "remote_candidate rtc described c =
     (case attempt ''decode ICE candidate JSON'' (candidate_init rtc c) of
        Inl e \<Rightarrow> Inl e
      | Inr _ \<Rightarrow> attempt ''add remote ICE candidate'' (add_candidate rtc described c))"

text \<open>\<open>encode_ice_candidate\<close> of a local candidate: its JSON value, then the text.\<close>

definition encode_ice_candidate :: "(string, (string, string) result) result \<Rightarrow> (string, string) result" where
  "encode_ice_candidate c =
     (case c of
        Inl e \<Rightarrow> Inl (ctx ''serialize ICE candidate'' e)
      | Inr (Inl e) \<Rightarrow> Inl (ctx ''encode ICE candidate as JSON'' e)
      | Inr (Inr s) \<Rightarrow> Inr s)"

definition ice_servers_of :: "server_message \<Rightarrow> ice_server list" where
  "ice_servers_of m =
     (case m of
        TurnCredentials urls username password _ \<Rightarrow>
          [\<lparr>is_urls = urls, is_username = username, is_credential = password\<rparr>]
      | _ \<Rightarrow> [])"

section \<open>The host\<close>

text \<open>The loop that waits for the offer of a session.\<close>

function await_offer :: "webrtc \<Rightarrow> session_id \<Rightarrow> ws_frame list \<Rightarrow> (string, string) result \<times> ws_frame list" where
  "await_offer rtc sid fs =
     (case recv_frames fs of
        (Inl e, fs1) \<Rightarrow> (Inl e, fs1)
      | (Inr (SrvSdpOffer s sdp), fs1) \<Rightarrow> if s = sid then (Inr sdp, fs1) else await_offer rtc sid fs1
      | (Inr (SrvIceCandidate s c), fs1) \<Rightarrow>
          if s = sid
          then (case remote_candidate rtc False c of Inl e \<Rightarrow> (Inl e, fs1) | Inr _ \<Rightarrow> await_offer rtc sid fs1)
          else await_offer rtc sid fs1
      | (Inr _, fs1) \<Rightarrow> await_offer rtc sid fs1)"
  by pat_completeness auto
termination
  by (relation "measure (\<lambda>(rtc, sid, fs). length fs)") (auto dest: recv_shorter [OF sym])

declare await_offer.simps [simp del]

text \<open>From the offer to the answer.\<close>

definition make_answer :: "webrtc \<Rightarrow> string \<Rightarrow> (string, string) result" where
  "make_answer rtc sdp =
     (case attempt ''parse remote offer'' (parse_sdp rtc sdp) of
        Inl e \<Rightarrow> Inl e
      | Inr _ \<Rightarrow>
          (case attempt ''set remote description'' (set_remote rtc sdp) of
             Inl e \<Rightarrow> Inl e
           | Inr _ \<Rightarrow>
               (case create_answer rtc sdp of
                  Inl e \<Rightarrow> Inl (ctx ''create answer'' e)
                | Inr answer \<Rightarrow>
                    (case attempt ''set local description'' (set_local rtc answer) of
                       Inl e \<Rightarrow> Inl e
                     | Inr _ \<Rightarrow> Inr answer))))"

text \<open>The \<open>select!\<close> loop of a connected session, by the branches it takes.  It ends only with an error;
  no result means that it is still running.  Its last component is what it wrote to the track.\<close>

datatype stream_event =
  LocalCandidate "(string, (string, string) result) result"
| EncodedFrame bytes
| SignalingReady

fun stream_loop :: "webrtc \<Rightarrow> session_id \<Rightarrow> stream_event list \<Rightarrow> wire \<Rightarrow> string option \<times> wire \<times> bytes list" where
  "stream_loop rtc sid [] w = (None, w, [])"
| "stream_loop rtc sid (LocalCandidate c # es) w =
     (case encode_ice_candidate c of
        Inl e \<Rightarrow> (Some e, w, [])
      | Inr encoded \<Rightarrow>
          (case csend (IceCandidate sid encoded) w of
             (Inl e, w1) \<Rightarrow> (Some e, w1, [])
           | (Inr _, w1) \<Rightarrow> stream_loop rtc sid es w1))"
| "stream_loop rtc sid (EncodedFrame data # es) w =
     (case attempt ''write video sample'' (write_sample rtc data) of
        Inl e \<Rightarrow> (Some e, w, [])
      | Inr _ \<Rightarrow> (case stream_loop rtc sid es w of (r, w1, out) \<Rightarrow> (r, w1, data # out)))"
| "stream_loop rtc sid (SignalingReady # es) w =
     (case crecv w of
        (Inl e, w1) \<Rightarrow> (Some e, w1, [])
      | (Inr (SrvIceCandidate s c), w1) \<Rightarrow>
          if s = sid
          then (case remote_candidate rtc True c of
                  Inl e \<Rightarrow> (Some e, w1, [])
                | Inr _ \<Rightarrow> stream_loop rtc sid es w1)
          else stream_loop rtc sid es w1
      | (Inr _, w1) \<Rightarrow> stream_loop rtc sid es w1)"

text \<open>\<open>handle_one_connection\<close>.  \<open>receiver\<close> is what creating the destination directory of the file
  receiver fails with.\<close>

definition handle_one_connection ::
  "webrtc \<Rightarrow> string option \<Rightarrow> stream_event list \<Rightarrow> session_id \<Rightarrow> wire \<Rightarrow> string option \<times> wire \<times> bytes list" where
  "handle_one_connection rtc receiver evs sid w =
     (case csend RequestTurnCredentials w of
        (Inl e, w1) \<Rightarrow> (Some e, w1, [])
      | (Inr _, w1) \<Rightarrow>
     (case crecv w1 of
        (Inl e, w2) \<Rightarrow> (Some e, w2, [])
      | (Inr m, w2) \<Rightarrow>
     (case build_peer_connection rtc (ice_servers_of m) of
        Inl e \<Rightarrow> (Some e, w2, [])
      | Inr _ \<Rightarrow>
     (case attempt ''add video track'' (add_track rtc) of
        Inl e \<Rightarrow> (Some e, w2, [])
      | Inr _ \<Rightarrow>
     (case receiver of
        Some e \<Rightarrow> (Some e, w2, [])
      | None \<Rightarrow>
     (case await_offer rtc sid (incoming w2) of
        (Inl e, rest) \<Rightarrow> (Some e, w2\<lparr>incoming := rest\<rparr>, [])
      | (Inr sdp, rest) \<Rightarrow>
     (case make_answer rtc sdp of
        Inl e \<Rightarrow> (Some e, w2\<lparr>incoming := rest\<rparr>, [])
      | Inr answer \<Rightarrow>
     (case csend (SdpAnswer sid answer) (w2\<lparr>incoming := rest\<rparr>) of
        (Inl e, w3) \<Rightarrow> (Some e, w3, [])
      | (Inr _, w3) \<Rightarrow> stream_loop rtc sid evs w3))))))))"

text \<open>\<open>serve_connections\<close>: waits for a connection; the error of the connection it handles ends it.\<close>

function next_incoming :: "ws_frame list \<Rightarrow> (string, session_id) result \<times> ws_frame list" where
  "next_incoming fs =
     (case recv_frames fs of
        (Inl e, fs1) \<Rightarrow> (Inl e, fs1)
      | (Inr (IncomingConnection sid _), fs1) \<Rightarrow> (Inr sid, fs1)
      | (Inr _, fs1) \<Rightarrow> next_incoming fs1)"
  by pat_completeness auto
termination by (relation "measure length") (auto dest: recv_shorter [OF sym])

declare next_incoming.simps [simp del]

definition serve_connections ::
  "webrtc \<Rightarrow> string option \<Rightarrow> stream_event list \<Rightarrow> wire \<Rightarrow> string option \<times> wire \<times> bytes list" where
  "serve_connections rtc receiver evs w =
     (case next_incoming (incoming w) of
        (Inl e, rest) \<Rightarrow> (Some e, w\<lparr>incoming := rest\<rparr>, [])
      | (Inr sid, rest) \<Rightarrow> handle_one_connection rtc receiver evs sid (w\<lparr>incoming := rest\<rparr>))"

record host_handle =
  hh_device_id :: device_id
  hh_one_time_password :: string

text \<open>\<open>register_and_serve\<close> up to the point where it hands the connection to \<open>serve_connections\<close>.\<close>

definition register_and_serve ::
  "(server_message \<Rightarrow> string) \<Rightarrow> (string, wire) result \<Rightarrow> string \<Rightarrow> string \<Rightarrow> string \<Rightarrow> string \<Rightarrow>
   (string, host_handle \<times> wire) result" where
  "register_and_serve dbg net url email password name =
     (case signaling_connect url net of
        Inl e \<Rightarrow> Inl e
      | Inr w \<Rightarrow>
     (case authenticate dbg email password w of
        (Inl e, _) \<Rightarrow> Inl e
      | (Inr _, w1) \<Rightarrow>
     (case csend (RegisterDevice name) w1 of
        (Inl e, _) \<Rightarrow> Inl e
      | (Inr _, w2) \<Rightarrow>
     (case crecv w2 of
        (Inl e, _) \<Rightarrow> Inl e
      | (Inr (DeviceRegistered di code), w3) \<Rightarrow> Inr (\<lparr>hh_device_id = di, hh_one_time_password = code\<rparr>, w3)
      | (Inr m, _) \<Rightarrow> Inl (''expected DeviceRegistered, got '' @ dbg m)))))"

text \<open>\<open>set_unattended_password\<close>: it does not wait for an answer to the request itself.\<close>

definition set_unattended_flow ::
  "(server_message \<Rightarrow> string) \<Rightarrow> string \<Rightarrow> string \<Rightarrow> device_id \<Rightarrow> string \<Rightarrow> unit flow" where
  "set_unattended_flow dbg email password target unattended w =
     (case csend (Login email password) w of
        (Inl e, w1) \<Rightarrow> (Inl e, w1)
      | (Inr _, w1) \<Rightarrow>
          (case crecv w1 of
             (Inl e, w2) \<Rightarrow> (Inl e, w2)
           | (Inr (AuthOk _), w2) \<Rightarrow> csend (SetUnattendedPassword target unattended) w2
           | (Inr m, w2) \<Rightarrow> (Inl (''login failed: '' @ dbg m), w2)))"

section \<open>The controller\<close>

function await_answer :: "webrtc \<Rightarrow> session_id \<Rightarrow> ws_frame list \<Rightarrow> (string, string) result \<times> ws_frame list" where
  "await_answer rtc sid fs =
     (case recv_frames fs of
        (Inl e, fs1) \<Rightarrow> (Inl e, fs1)
      | (Inr (SrvSdpAnswer s sdp), fs1) \<Rightarrow> if s = sid then (Inr sdp, fs1) else await_answer rtc sid fs1
      | (Inr (SrvIceCandidate s c), fs1) \<Rightarrow>
          if s = sid
          then (case remote_candidate rtc False c of Inl e \<Rightarrow> (Inl e, fs1) | Inr _ \<Rightarrow> await_answer rtc sid fs1)
          else await_answer rtc sid fs1
      | (Inr _, fs1) \<Rightarrow> await_answer rtc sid fs1)"
  by pat_completeness auto
termination
  by (relation "measure (\<lambda>(rtc, sid, fs). length fs)") (auto dest: recv_shorter [OF sym])

declare await_answer.simps [simp del]

definition request_session ::
  "(server_message \<Rightarrow> string) \<Rightarrow> device_id \<Rightarrow> connect_credential \<Rightarrow> (session_id \<times> ice_server list) flow" where
  "request_session dbg target cred w =
     (case csend RequestTurnCredentials w of
        (Inl e, w1) \<Rightarrow> (Inl e, w1)
      | (Inr _, w1) \<Rightarrow>
          (case crecv w1 of
             (Inl e, w2) \<Rightarrow> (Inl e, w2)
           | (Inr m, w2) \<Rightarrow>
               (case csend (RequestConnection target cred) w2 of
                  (Inl e, w3) \<Rightarrow> (Inl e, w3)
                | (Inr _, w3) \<Rightarrow>
                    (case crecv w3 of
                       (Inl e, w4) \<Rightarrow> (Inl e, w4)
                     | (Inr (ConnectionEstablished sid _), w4) \<Rightarrow> (Inr (sid, ice_servers_of m), w4)
                     | (Inr m', w4) \<Rightarrow> (Inl (''expected ConnectionEstablished, got '' @ dbg m'), w4)))))"

text \<open>Preparing the connection up to the offer, which is then sent.\<close>

definition prepare_offer :: "webrtc \<Rightarrow> ice_server list \<Rightarrow> (string, string) result" where
  "prepare_offer rtc servers =
     (case build_peer_connection rtc servers of
        Inl e \<Rightarrow> Inl e
      | Inr _ \<Rightarrow>
     (case attempt ''create data channel'' (create_channel rtc) of
        Inl e \<Rightarrow> Inl e
      | Inr _ \<Rightarrow>
     (case attempt ''add recvonly video transceiver'' (add_transceiver rtc) of
        Inl e \<Rightarrow> Inl e
      | Inr _ \<Rightarrow>
     (case create_offer rtc of
        Inl e \<Rightarrow> Inl (ctx ''create offer'' e)
      | Inr offer \<Rightarrow>
     (case attempt ''set local description'' (set_local rtc offer) of
        Inl e \<Rightarrow> Inl e
      | Inr _ \<Rightarrow> Inr offer)))))"

definition accept_answer :: "webrtc \<Rightarrow> string \<Rightarrow> (string, unit) result" where
  "accept_answer rtc sdp =
     (case attempt ''parse remote answer'' (parse_sdp rtc sdp) of
        Inl e \<Rightarrow> Inl e
      | Inr _ \<Rightarrow> attempt ''set remote description'' (set_remote rtc sdp))"

definition controller_connect ::
  "(server_message \<Rightarrow> string) \<Rightarrow> webrtc \<Rightarrow> (string, wire) result \<Rightarrow> string \<Rightarrow> string \<Rightarrow> string \<Rightarrow> device_id \<Rightarrow>
   connect_credential \<Rightarrow> (string, session_id \<times> wire) result" where
  "controller_connect dbg rtc net url email password target cred =
     (case signaling_connect url net of
        Inl e \<Rightarrow> Inl e
      | Inr w \<Rightarrow>
     (case authenticate dbg email password w of
        (Inl e, _) \<Rightarrow> Inl e
      | (Inr _, w1) \<Rightarrow>
     (case request_session dbg target cred w1 of
        (Inl e, _) \<Rightarrow> Inl e
      | (Inr (sid, servers), w2) \<Rightarrow>
     (case prepare_offer rtc servers of
        Inl e \<Rightarrow> Inl e
      | Inr offer \<Rightarrow>
     (case csend (SdpOffer sid offer) w2 of
        (Inl e, _) \<Rightarrow> Inl e
      | (Inr _, w3) \<Rightarrow>
     (case await_answer rtc sid (incoming w3) of
        (Inl e, _) \<Rightarrow> Inl e
      | (Inr sdp, rest) \<Rightarrow>
     (case accept_answer rtc sdp of
        Inl e \<Rightarrow> Inl e
      | Inr _ \<Rightarrow> Inr (sid, w3\<lparr>incoming := rest\<rparr>))))))))"

text \<open>The task that exchanges candidates afterwards: it ends when sending or receiving fails, and
  ignores candidates that cannot be used.  Its last component is the remote candidates it added.\<close>

datatype ice_event = OwnCandidate "(string, (string, string) result) result" | MessageReady

fun ice_loop :: "webrtc \<Rightarrow> session_id \<Rightarrow> ice_event list \<Rightarrow> wire \<Rightarrow> bool \<times> wire \<times> string list" where
  "ice_loop rtc sid [] w = (True, w, [])"
| "ice_loop rtc sid (OwnCandidate c # es) w =
     (case encode_ice_candidate c of
        Inl _ \<Rightarrow> ice_loop rtc sid es w
      | Inr encoded \<Rightarrow>
          (case csend (IceCandidate sid encoded) w of
             (Inl _, w1) \<Rightarrow> (False, w1, [])
           | (Inr _, w1) \<Rightarrow> ice_loop rtc sid es w1))"
| "ice_loop rtc sid (MessageReady # es) w =
     (case crecv w of
        (Inl _, w1) \<Rightarrow> (False, w1, [])
      | (Inr (SrvIceCandidate s c), w1) \<Rightarrow>
          if s = sid \<and> remote_candidate rtc True c = Inr ()
          then (case ice_loop rtc sid es w1 of (r, w2, added) \<Rightarrow> (r, w2, c # added))
          else ice_loop rtc sid es w1
      | (Inr _, w1) \<Rightarrow> ice_loop rtc sid es w1)"

section \<open>The dashboard task\<close>

text \<open>The task of \<open>dashboard::start\<close>: pings waiting in its channel, whether all senders of pings are
  gone, its connection, the lists it has pushed, and whether the receiver of lists is gone.\<close>

record dashboard =
  db_pings :: nat
  db_pings_closed :: bool
  db_wire :: wire
  db_pushed :: "device_summary list list"
  db_receiver_gone :: bool

definition dashboard_start ::
  "(server_message \<Rightarrow> string) \<Rightarrow> (string, wire) result \<Rightarrow> string \<Rightarrow> string \<Rightarrow> string \<Rightarrow> (string, dashboard) result" where
  "dashboard_start dbg net url email password =
     (case signaling_connect url net of
        Inl e \<Rightarrow> Inl e
      | Inr w \<Rightarrow>
          (case authenticate dbg email password w of
             (Inl e, _) \<Rightarrow> Inl e
           | (Inr _, w1) \<Rightarrow>
               Inr \<lparr>db_pings = 1, db_pings_closed = False, db_wire = w1, db_pushed = [], db_receiver_gone = False\<rparr>))"

text \<open>One turn of the \<open>select!\<close> loop by the branch taken, and whether the loop goes on.  The branch of
  pings is ready when one waits or when the channel is closed.\<close>

datatype dashboard_branch = TakePing | TakeMessage

fun dashboard_step :: "dashboard_branch \<Rightarrow> dashboard \<Rightarrow> bool \<times> dashboard" where
  "dashboard_step TakePing s =
     (case db_pings s of
        Suc n \<Rightarrow>
          (case csend ListDevices (db_wire s) of
             (Inl _, w1) \<Rightarrow> (False, s\<lparr>db_pings := n, db_wire := w1\<rparr>)
           | (Inr _, w1) \<Rightarrow> (True, s\<lparr>db_pings := n, db_wire := w1\<rparr>))
      | 0 \<Rightarrow> (\<not> db_pings_closed s, s))"
| "dashboard_step TakeMessage s =
     (case crecv (db_wire s) of
        (Inl _, w1) \<Rightarrow> (False, s\<lparr>db_wire := w1\<rparr>)
      | (Inr (DeviceList ds), w1) \<Rightarrow>
          if db_receiver_gone s then (False, s\<lparr>db_wire := w1\<rparr>)
          else (True, s\<lparr>db_wire := w1, db_pushed := db_pushed s @ [ds]\<rparr>)
      | (Inr _, w1) \<Rightarrow> (True, s\<lparr>db_wire := w1\<rparr>))"

fun dashboard_run :: "dashboard_branch list \<Rightarrow> dashboard \<Rightarrow> bool \<times> dashboard" where
  "dashboard_run [] s = (True, s)"
| "dashboard_run (b # bs) s =
     (case dashboard_step b s of (False, s1) \<Rightarrow> (False, s1) | (True, s1) \<Rightarrow> dashboard_run bs s1)"

section \<open>Lemmas\<close>

abbreviation msgf :: "server_message \<Rightarrow> ws_frame" where
  "msgf m \<equiv> WsText (Inr m)"

lemma await_offer_txt:
  "await_offer rtc sid (msgf m # fs) =
     (case m of
        SrvSdpOffer s sdp \<Rightarrow> if s = sid then (Inr sdp, fs) else await_offer rtc sid fs
      | SrvIceCandidate s c \<Rightarrow>
          if s = sid
          then (case remote_candidate rtc False c of Inl e \<Rightarrow> (Inl e, fs) | Inr _ \<Rightarrow> await_offer rtc sid fs)
          else await_offer rtc sid fs
      | _ \<Rightarrow> await_offer rtc sid fs)"
  by (subst await_offer.simps) (simp split: server_message.split)

lemma await_answer_txt:
  "await_answer rtc sid (msgf m # fs) =
     (case m of
        SrvSdpAnswer s sdp \<Rightarrow> if s = sid then (Inr sdp, fs) else await_answer rtc sid fs
      | SrvIceCandidate s c \<Rightarrow>
          if s = sid
          then (case remote_candidate rtc False c of Inl e \<Rightarrow> (Inl e, fs) | Inr _ \<Rightarrow> await_answer rtc sid fs)
          else await_answer rtc sid fs
      | _ \<Rightarrow> await_answer rtc sid fs)"
  by (subst await_answer.simps) (simp split: server_message.split)

lemma next_incoming_txt:
  "next_incoming (msgf m # fs) = (case m of IncomingConnection sid _ \<Rightarrow> (Inr sid, fs) | _ \<Rightarrow> next_incoming fs)"
  by (subst next_incoming.simps) (simp split: server_message.split)

lemma loops_Nil:
  "await_offer rtc sid [] = (Inl ''signaling connection closed'', [])"
  "await_answer rtc sid [] = (Inl ''signaling connection closed'', [])"
  "next_incoming [] = (Inl ''signaling connection closed'', [])"
  by (simp_all add: await_offer.simps await_answer.simps next_incoming.simps)

lemmas loop_simps = await_offer_txt await_answer_txt next_incoming_txt loops_Nil

lemma recv_member: "recv_frames fs = (Inr m, fs') \<Longrightarrow> msgf m \<in> set fs \<and> set fs' \<subseteq> set fs"
  by (induction fs rule: recv_frames.induct) auto

text \<open>Waiting ends with an offer of the session, which was among the frames.\<close>

lemma await_offer_member:
  "await_offer rtc sid fs = (Inr sdp, fs') \<Longrightarrow> msgf (SrvSdpOffer sid sdp) \<in> set fs \<and> set fs' \<subseteq> set fs"
proof (induction rtc sid fs arbitrary: sdp fs' rule: await_offer.induct)
  case (1 rtc sid fs)
  obtain r fs1 where r: "recv_frames fs = (r, fs1)" by fastforce
  from "1.prems" show ?case
    using recv_member [of fs _ fs1] r "1.IH"
    by (subst (asm) await_offer.simps) (fastforce split: sum.splits server_message.splits if_splits)
qed

lemma await_answer_member:
  "await_answer rtc sid fs = (Inr sdp, fs') \<Longrightarrow> msgf (SrvSdpAnswer sid sdp) \<in> set fs \<and> set fs' \<subseteq> set fs"
proof (induction rtc sid fs arbitrary: sdp fs' rule: await_answer.induct)
  case (1 rtc sid fs)
  obtain r fs1 where r: "recv_frames fs = (r, fs1)" by fastforce
  from "1.prems" show ?case
    using recv_member [of fs _ fs1] r "1.IH"
    by (subst (asm) await_answer.simps) (fastforce split: sum.splits server_message.splits if_splits)
qed

lemma csend_sent:
  "csend m w = (Inr u, w') \<Longrightarrow> sent w' = sent w @ [m] \<and> incoming w' = incoming w"
  "csend m w = (Inl e, w') \<Longrightarrow> w' = w"
  by (auto simp: csend_def split: option.splits nat.splits)

lemma crecv_sent [simp]: "sent (snd (crecv w)) = sent w"
  by (simp add: crecv_def case_prod_beta)

lemma crecv_eqD: "crecv w = (r, w') \<Longrightarrow> sent w' = sent w"
  using crecv_sent [of w] by simp

text \<open>Streaming only ever sends candidates of its session.\<close>

definition only_candidates :: "session_id \<Rightarrow> wire \<Rightarrow> wire \<Rightarrow> bool" where
  "only_candidates sid w w' \<longleftrightarrow> (\<exists>cs. sent w' = sent w @ map (IceCandidate sid) cs)"

lemma only_candidates_refl [simp]: "only_candidates sid w w"
  by (auto simp: only_candidates_def intro: exI [of _ "[]"])

lemma only_candidates_failed: "csend m w = (Inl e, w1) \<Longrightarrow> only_candidates sid w w1"
  by (drule csend_sent(2)) simp

lemma only_candidates_send:
  assumes "csend (IceCandidate sid c) w = (Inr u, w1)" and "only_candidates sid w1 w2"
  shows "only_candidates sid w w2"
proof -
  from assms(2) obtain cs where "sent w2 = sent w1 @ map (IceCandidate sid) cs" by (auto simp: only_candidates_def)
  then have "sent w2 = sent w @ map (IceCandidate sid) (c # cs)" using csend_sent(1) [OF assms(1)] by simp
  then show ?thesis unfolding only_candidates_def by blast
qed

lemma only_candidates_recv:
  "crecv w = (r, w1) \<Longrightarrow> only_candidates sid w1 w2 \<longleftrightarrow> only_candidates sid w w2"
  by (simp add: only_candidates_def crecv_eqD)

lemma only_candidates_recv1: "crecv w = (r, w1) \<Longrightarrow> only_candidates sid w w1"
  using only_candidates_recv [of w r w1 sid w1] by simp

lemma stream_loop_sent: "only_candidates sid w (fst (snd (stream_loop rtc sid es w)))"
proof (induction rtc sid es w rule: stream_loop.induct)
  case (2 rtc sid c es w)
  then show ?case
    by (auto split: sum.split prod.split dest: only_candidates_failed intro: only_candidates_send)
next
  case (3 rtc sid data es w)
  then show ?case by (auto simp: case_prod_beta split: sum.split)
next
  case (4 rtc sid es w)
  obtain r w1 where r: "crecv w = (r, w1)" by fastforce
  show ?case
    using 4 by (auto simp: r only_candidates_recv [OF r] only_candidates_recv1 [OF r]
        split: sum.split server_message.split)
qed simp

lemma handle_one_sent:
  "\<exists>ext. sent (fst (snd (handle_one_connection rtc rc evs sid w))) = sent w @ ext \<and>
     (ext = [] \<or> ext = [RequestTurnCredentials] \<or>
      (\<exists>a cs. ext = RequestTurnCredentials # SdpAnswer sid a # map (IceCandidate sid) cs))"
proof (cases "csend RequestTurnCredentials w")
  case (Pair r w1)
  show ?thesis
  proof (cases r)
    case (Inl e)
    then show ?thesis using Pair csend_sent(2) [of RequestTurnCredentials w e w1]
      by (simp add: handle_one_connection_def)
  next
    case (Inr u)
    then have s1: "sent w1 = sent w @ [RequestTurnCredentials]" using Pair csend_sent(1) by blast
    obtain r2 w2 where r2: "crecv w1 = (r2, w2)" by fastforce
    have s2: "sent w2 = sent w @ [RequestTurnCredentials]" using crecv_eqD [OF r2] s1 by simp
    have s3: "\<exists>ext. sent (fst (snd (stream_loop rtc sid evs w3))) = sent w @ ext \<and>
        (ext = [] \<or> ext = [RequestTurnCredentials] \<or>
         (\<exists>a cs. ext = RequestTurnCredentials # SdpAnswer sid a # map (IceCandidate sid) cs))"
      if "csend (SdpAnswer sid a) (w2\<lparr>incoming := rest\<rparr>) = (Inr x, w3)" for a rest x w3
      using stream_loop_sent [of sid w3 rtc evs] csend_sent(1) [OF that] s2
      by (auto simp: only_candidates_def)
    show ?thesis
      using Pair Inr r2 s2
      by (auto simp: handle_one_connection_def split: sum.split option.split prod.split
          intro: s3 dest!: csend_sent(2))
  qed
qed

section \<open>Properties\<close>

text \<open>
  The host answers at most one session in its life, that of the first \<open>IncomingConnection\<close>, whatever
  the server sends and however long it runs: all it ever sends on this connection is its request for
  TURN credentials, then one answer, then candidates of that session (so the controller never sees a
  candidate before the answer).  The loop around it never comes to a second turn, because handling
  a connection ends only with an error.
\<close>

theorem host_answers_one_session:
  "\<exists>ext. sent (fst (snd (serve_connections rtc receiver evs w))) = sent w @ ext \<and>
     (ext = [] \<or> ext = [RequestTurnCredentials] \<or>
      (\<exists>sid rest a cs. next_incoming (incoming w) = (Inr sid, rest) \<and>
         ext = RequestTurnCredentials # SdpAnswer sid a # map (IceCandidate sid) cs))"
proof (cases "next_incoming (incoming w)")
  case (Pair r rest)
  show ?thesis
  proof (cases r)
    case (Inl e)
    then show ?thesis using Pair by (simp add: serve_connections_def)
  next
    case (Inr sid)
    then show ?thesis
      using Pair handle_one_sent [of rtc receiver evs sid "w\<lparr>incoming := rest\<rparr>"]
      by (auto simp: serve_connections_def)
  qed
qed

lemma crecv_Inr:
  "crecv w = (Inr m, w1) \<Longrightarrow>
   sent w1 = sent w \<and> msgf m \<in> set (incoming w) \<and> set (incoming w1) \<subseteq> set (incoming w)"
  using recv_member by (fastforce simp: crecv_def split: prod.splits)

lemma authenticate_Inr:
  assumes "authenticate dbg e p w = (Inr u, w')"
  shows "\<exists>login \<in> {[Register e p], [Register e p, Login e p]}.
     sent w' = sent w @ login \<and> set (incoming w') \<subseteq> set (incoming w)"
  using assms unfolding authenticate_def
  by (auto simp: subset_iff split: prod.splits sum.splits server_message.splits dest!: csend_sent(1) crecv_Inr)

lemma request_session_Inr:
  assumes "request_session dbg target cred w = (Inr (sid, servers), w')"
  shows "sent w' = sent w @ [RequestTurnCredentials, RequestConnection target cred] \<and>
     (\<exists>t. msgf (ConnectionEstablished sid t) \<in> set (incoming w)) \<and> set (incoming w') \<subseteq> set (incoming w)"
proof -
  from assms obtain u1 w1 m w2 u2 w3 t where
    "csend RequestTurnCredentials w = (Inr u1, w1)" and "crecv w1 = (Inr m, w2)"
    and "csend (RequestConnection target cred) w2 = (Inr u2, w3)" and "crecv w3 = (Inr (ConnectionEstablished sid t), w')"
    by (auto simp: request_session_def split: prod.splits sum.splits server_message.splits)
  then show ?thesis by (auto simp: subset_iff intro!: exI [of _ t] dest!: csend_sent(1) crecv_Inr)
qed

text \<open>
  A controller that reports a session has been granted it and answered: when \<open>connect\<close> returns a
  session, the server sent \<open>ConnectionEstablished\<close> and an answer for exactly this session, and the
  client sent its login, its request for the target with the given credential, and one offer.
\<close>

theorem controller_connect_sound:
  assumes "controller_connect dbg rtc (Inr w) url email password target cred = Inr (sid, w')" and "sent w = []"
  shows "\<exists>t sdp offer login.
     msgf (ConnectionEstablished sid t) \<in> set (incoming w) \<and> msgf (SrvSdpAnswer sid sdp) \<in> set (incoming w) \<and>
     login \<in> {[Register email password], [Register email password, Login email password]} \<and>
     sent w' = login @ [RequestTurnCredentials, RequestConnection target cred, SdpOffer sid offer]"
proof -
  from assms(1) obtain u w1 servers w2 offer x w3 sdp rest where
    a: "authenticate dbg email password w = (Inr u, w1)"
    and q: "request_session dbg target cred w1 = (Inr (sid, servers), w2)"
    and o: "csend (SdpOffer sid offer) w2 = (Inr x, w3)"
    and n: "await_answer rtc sid (incoming w3) = (Inr sdp, rest)" and w': "w' = w3\<lparr>incoming := rest\<rparr>"
    by (auto simp: controller_connect_def signaling_connect_def split: prod.splits sum.splits)
  note qs = request_session_Inr [OF q] and os = csend_sent(1) [OF o] and ns = await_answer_member [OF n]
  from authenticate_Inr [OF a] obtain login where
    l: "login \<in> {[Register email password], [Register email password, Login email password]}"
    and s1: "sent w1 = login" "set (incoming w1) \<subseteq> set (incoming w)" using assms(2) by auto
  have "sent w' = login @ [RequestTurnCredentials, RequestConnection target cred, SdpOffer sid offer]"
    using qs os w' s1 by simp
  moreover have "msgf (SrvSdpAnswer sid sdp) \<in> set (incoming w)" using ns os qs s1 by auto
  ultimately show ?thesis using qs s1 l by blast
qed

definition wit_rtc :: webrtc where
  "wit_rtc = \<lparr>register_codecs = None, register_interceptors = None, new_pc = (\<lambda>_. None), add_track = None,
     create_channel = None, add_transceiver = None, candidate_init = (\<lambda>_. None), add_candidate = (\<lambda>_ _. None),
     parse_sdp = (\<lambda>_. None), set_remote = (\<lambda>_. None), create_answer = (\<lambda>sdp. Inr (''answer to '' @ sdp)),
     create_offer = Inr ''offer'', set_local = (\<lambda>_. None), write_sample = (\<lambda>_. None)\<rparr>"

definition wit_wire :: wire where
  "wit_wire = \<lparr>incoming = [msgf (AuthError ''taken''), WsOther, msgf (AuthOk ''t''),
     msgf (TurnCredentials [''turn:h''] ''u'' ''p'' 300), msgf (ConnectionEstablished ''s1'' ''012 345 006''),
     msgf (SrvIceCandidate ''s0'' ''c''), msgf (SrvSdpAnswer ''s1'' ''v=0'')], sent = [], sends_left = None\<rparr>"

theorem controller_connect_sound_witness:
  "\<exists>w'. controller_connect (\<lambda>_. []) wit_rtc (Inr wit_wire) ''ws://h/ws'' ''a@b'' ''pw'' ''012 345 006''
        (OneTimePassword ''1'') = Inr (''s1'', w') \<and>
     (\<exists>t. msgf (ConnectionEstablished ''s1'' t) \<in> set (incoming wit_wire))"
proof -
  obtain w' where c: "controller_connect (\<lambda>_. []) wit_rtc (Inr wit_wire) ''ws://h/ws'' ''a@b'' ''pw'' ''012 345 006''
        (OneTimePassword ''1'') = Inr (''s1'', w')"
    by (simp add: controller_connect_def signaling_connect_def authenticate_def csend_def crecv_def wit_wire_def
        request_session_def prepare_offer_def build_peer_connection_def attempt_def wit_rtc_def accept_answer_def
        loop_simps)
  have "sent wit_wire = []" by (simp add: wit_wire_def)
  from controller_connect_sound [OF c this] c show ?thesis by blast
qed

end
