(* ===== verification/Sign_In.thy ===== *)
theory Sign_In
  imports Ws_Properties Client_Protocol
begin

text \<open>
  Signing in, end to end: \<open>SignalingClient::authenticate\<close> of the client run against the connection handler of
  the server.  The client's frames are the messages the server has queued for its connection, and the
  server's input is what the client has sent; both directions are settled together in \<open>signs_in\<close>.
\<close>

section \<open>The two ends of one connection\<close>

text \<open>The server takes the messages of a connection in order; every message draws from its own randomness.\<close>

fun converse :: "crypto \<Rightarrow> (nat \<Rightarrow> entropy) \<Rightarrow> conn_id \<Rightarrow> client_message list \<Rightarrow> conn \<times> app_state \<Rightarrow> conn \<times> app_state" where
  "converse c r cid [] s = s"
| "converse c r cid (m # ms) s = converse c (\<lambda>n. r (Suc n)) cid ms (ws_text c (r 0) m cid (fst s) (snd s))"

definition hears :: "server_message list \<Rightarrow> wire" where
  "hears ms = \<lparr>incoming = map msgf ms, sent = [], sends_left = None\<rparr>"

definition signs_in ::
  "(server_message \<Rightarrow> string) \<Rightarrow> crypto \<Rightarrow> (nat \<Rightarrow> entropy) \<Rightarrow> conn_id \<Rightarrow> string \<Rightarrow> string \<Rightarrow> conn \<Rightarrow> app_state \<Rightarrow>
   (string, unit) result \<Rightarrow> client_message list \<Rightarrow> conn \<Rightarrow> app_state \<Rightarrow> bool" where
  "signs_in dbg c r cid e p cn st res ms cn' st' \<longleftrightarrow>
     converse c r cid ms (cn, st) = (cn', st') \<and>
     authenticate dbg e p (hears (inbox st' cid)) = (res, \<lparr>incoming = [], sent = ms, sends_left = None\<rparr>)"

section \<open>The client\<close>

lemmas client_eval = authenticate_def hears_def csend_def crecv_def

lemma client_first_try:
  "authenticate dbg e p (hears [AuthOk t]) = (Inr (), \<lparr>incoming = [], sent = [Register e p], sends_left = None\<rparr>)"
  by (simp add: client_eval)

lemma client_second_try:
  "authenticate dbg e p (hears [AuthError x, AuthOk t]) =
     (Inr (), \<lparr>incoming = [], sent = [Register e p, Login e p], sends_left = None\<rparr>)"
  "authenticate dbg e p (hears [AuthError x, AuthError y]) =
     (Inl (''login failed: '' @ dbg (AuthError y)), \<lparr>incoming = [], sent = [Register e p, Login e p], sends_left = None\<rparr>)"
  by (simp_all add: client_eval)

section \<open>The server, while the engine refuses nothing\<close>

lemma text_replied: "handle_message c r m cid cn st = (Inr u, cn', st') \<Longrightarrow> ws_text c r m cid cn st = (cn', st')"
  by (simp add: ws_text_def)

lemma reply_alive:
  "rx_alive (channels st cid) \<Longrightarrow> reply cid m cn st = (Inr (), cn, snd (send cid m st))"
  by (simp add: reply_def send_def)

definition can_register :: "string \<Rightarrow> db \<Rightarrow> bool" where
  "can_register e d \<longleftrightarrow> reg_open d \<and> account_by_email d e = None \<and> accounts_seq d < 2 ^ 63 - 1"

lemma email_known: "account_by_email d e = None \<longleftrightarrow> \<not> list_ex (\<lambda>r. ar_email r = e) (accounts_tbl d)"
  by (simp add: account_by_email_def find_key_None list_ex_key_iff)

lemma with_same_db [simp]: "st\<lparr>app_db := app_db st\<rparr> = st"
  by simp

lemma bootstrap_refused:
  assumes "faults d = []" and "\<not> can_register e d" and "reg_open d"
  shows "\<exists>x. create_account_and_maybe_bootstrap_admin e h d = (Inl x, d)"
  using assms
  by (auto simp: create_account_and_maybe_bootstrap_admin_def count_accounts_def create_account_def stmt_ok
      can_register_def email_known Let_def not_less)

lemma register_refused:
  assumes "faults (app_db st) = []" and "\<not> can_register e (app_db st)" and "rx_alive (channels st cid)"
    and "hash_password c r p = Inr h"
  shows "\<exists>x. ws_text c r (Register e p) cid cn st = (cn, snd (send cid (AuthError x) st))"
proof (cases "reg_open (app_db st)")
  case True
  then obtain x where x: "create_account_and_maybe_bootstrap_admin e h (app_db st) = (Inl x, app_db st)"
    using bootstrap_refused assms(1,2) by blast
  have "handle_message c r (Register e p) cid cn st =
      (Inr (), cn, snd (send cid (AuthError (''registration failed: '' @ x)) st))"
    using assms True by (simp add: ws_register_def with_db_pair registration_enabled_ok x reply_alive)
  then show ?thesis by (blast intro: text_replied)
next
  case False
  have "handle_message c r (Register e p) cid cn st =
      (Inr (), cn, snd (send cid (AuthError ''registration is currently disabled'') st))"
    using assms False by (simp add: ws_register_def with_db_pair registration_enabled_ok reply_alive)
  then show ?thesis by (blast intro: text_replied)
qed

lemma bootstrap_creates:
  assumes "faults d = []" and "can_register e d"
  obtains d' role where "create_account_and_maybe_bootstrap_admin e h d = (Inr (accounts_seq d + 1, role), d')"
    "accounts_tbl d' = accounts_tbl d @ [\<lparr>ar_id = accounts_seq d + 1, ar_email = e, ar_password_hash = h,
        ar_created_at = wall_clock d, ar_role = as_str role\<rparr>]"
proof -
  have "\<exists>d' role. create_account_and_maybe_bootstrap_admin e h d = (Inr (accounts_seq d + 1, role), d') \<and>
    accounts_tbl d' = accounts_tbl d @ [\<lparr>ar_id = accounts_seq d + 1, ar_email = e, ar_password_hash = h,
        ar_created_at = wall_clock d, ar_role = as_str role\<rparr>]"
    using assms
    by (cases "accounts_tbl d = []")
      (simp_all add: create_account_and_maybe_bootstrap_admin_def count_accounts_def create_account_def stmt_ok
        set_registration_enabled_def set_setting_def can_register_def email_known Let_def)
  with that show thesis by blast
qed

lemma register_accepted:
  assumes "faults (app_db st) = []" and "can_register e (app_db st)" and "rx_alive (channels st cid)"
    and "hash_password c r p = Inr h"
  obtains d' t row where
    "ws_text c r (Register e p) cid cn st =
       (cn\<lparr>conn_state := Authenticated (ar_id row)\<rparr>, snd (send cid (AuthOk t) (st\<lparr>app_db := d'\<rparr>)))"
    "accounts_tbl d' = accounts_tbl (app_db st) @ [row]" "ar_email row = e" "ar_password_hash row = h"
proof -
  obtain d' role where b: "create_account_and_maybe_bootstrap_admin e h (app_db st) =
      (Inr (accounts_seq (app_db st) + 1, role), d')"
    "accounts_tbl d' = accounts_tbl (app_db st) @ [\<lparr>ar_id = accounts_seq (app_db st) + 1, ar_email = e,
        ar_password_hash = h, ar_created_at = wall_clock (app_db st), ar_role = as_str role\<rparr>]"
    using bootstrap_creates [OF assms(1,2)] by metis
  have o: "reg_open (app_db st)" using assms(2) by (simp add: can_register_def)
  have "handle_message c r (Register e p) cid cn st =
      (Inr (), cn\<lparr>conn_state := Authenticated (accounts_seq (app_db st) + 1)\<rparr>,
       snd (send cid (AuthOk (generate_session_token r)) (st\<lparr>app_db := d'\<rparr>)))"
    using assms(1,3,4) o by (simp add: ws_register_def with_db_pair registration_enabled_ok b reply_alive)
  then show ?thesis
    using that [of "\<lparr>ar_id = accounts_seq (app_db st) + 1, ar_email = e, ar_password_hash = h,
        ar_created_at = wall_clock (app_db st), ar_role = as_str role\<rparr>" "generate_session_token r" d'] b(2)
    by (simp add: text_replied)
qed

lemma login_answer:
  assumes "faults (app_db st) = []" and "rx_alive (channels st cid)"
  shows "ws_text c r (Login e p) cid cn st =
    (case account_by_email (app_db st) e of
       Some a \<Rightarrow> if verify_password c p (acc_password_hash a)
                 then (cn\<lparr>conn_state := Authenticated (acc_id a)\<rparr>, snd (send cid (AuthOk (generate_session_token r)) st))
                 else (cn, snd (send cid (AuthError ''invalid email or password'') st))
     | None \<Rightarrow> (cn, snd (send cid (AuthError ''invalid email or password'') st)))"
  using assms
  by (simp add: ws_text_def ws_login_def with_db_pair find_account_by_email_ok reply_alive split: option.split)

section \<open>Properties\<close>

text \<open>
  C19. Signing in ends as the password decides.  Over a fresh connection, with the engine refusing nothing
  and the hash computed, the exchange between \<open>authenticate\<close> and the server always completes: for a known
  email the client is told success exactly if the password verifies, its connection then acts for that
  account, and no table changes; for an unknown email a new account with a hash of that password is created
  while registration is open, and refused without a change while it is closed.
\<close>

theorem sign_in_end_to_end:
  assumes "faults (app_db st) = []" and "rx_alive (channels st cid)" and "inbox st cid = []"
    and "conn_state cn = Unauthenticated" and "hash_password c (r 0) p = Inr h"
  shows "\<exists>res ms cn' st'. signs_in dbg c r cid e p cn st res ms cn' st' \<and>
    (if can_register e (app_db st)
     then res = Inr () \<and> ms = [Register e p] \<and>
       (\<exists>row. accounts_tbl (app_db st') = accounts_tbl (app_db st) @ [row] \<and> ar_email row = e \<and>
          ar_password_hash row = h \<and> conn_state cn' = Authenticated (ar_id row))
     else ms = [Register e p, Login e p] \<and> app_db st' = app_db st \<and>
       (case account_by_email (app_db st) e of
          Some a \<Rightarrow> if verify_password c p (acc_password_hash a)
                    then res = Inr () \<and> conn_state cn' = Authenticated (acc_id a)
                    else (\<exists>x. res = Inl x) \<and> conn_state cn' = Unauthenticated
        | None \<Rightarrow> (\<exists>x. res = Inl x) \<and> conn_state cn' = Unauthenticated))"
proof (cases "can_register e (app_db st)")
  case True
  obtain d' t row where reg: "ws_text c (r 0) (Register e p) cid cn st =
       (cn\<lparr>conn_state := Authenticated (ar_id row)\<rparr>, snd (send cid (AuthOk t) (st\<lparr>app_db := d'\<rparr>)))"
    "accounts_tbl d' = accounts_tbl (app_db st) @ [row]" "ar_email row = e" "ar_password_hash row = h"
    by (rule register_accepted [OF assms(1) True assms(2,5)])
  let ?st = "snd (send cid (AuthOk t) (st\<lparr>app_db := d'\<rparr>))"
  have "signs_in dbg c r cid e p cn st (Inr ()) [Register e p] (cn\<lparr>conn_state := Authenticated (ar_id row)\<rparr>) ?st"
    using assms(2,3) reg(1) by (simp add: signs_in_def send_inbox client_first_try)
  moreover have "accounts_tbl (app_db ?st) = accounts_tbl (app_db st) @ [row]" by (simp add: reg(2))
  moreover have "conn_state (cn\<lparr>conn_state := Authenticated (ar_id row)\<rparr>) = Authenticated (ar_id row)" by simp
  ultimately show ?thesis using True reg(3,4) by (simp only: if_True) blast
next
  case False
  obtain x where reg: "ws_text c (r 0) (Register e p) cid cn st = (cn, snd (send cid (AuthError x) st))"
    using register_refused [OF assms(1) False assms(2,5)] by blast
  let ?st = "snd (send cid (AuthError x) st)"
  have log: "ws_text c (r 1) (Login e p) cid cn ?st =
    (case account_by_email (app_db st) e of
       Some a \<Rightarrow> if verify_password c p (acc_password_hash a)
                 then (cn\<lparr>conn_state := Authenticated (acc_id a)\<rparr>, snd (send cid (AuthOk (generate_session_token (r 1))) ?st))
                 else (cn, snd (send cid (AuthError ''invalid email or password'') ?st))
     | None \<Rightarrow> (cn, snd (send cid (AuthError ''invalid email or password'') ?st)))"
    using login_answer [of ?st cid c "r 1" e p cn] assms(1,2) by simp
  show ?thesis
    using False assms(2,3,4) reg log
    by (auto simp: signs_in_def send_inbox client_second_try split: option.splits)
qed

theorem sign_in_end_to_end_witness:
  "\<exists>ms cn' st'. signs_in (\<lambda>_. []) wit_crypto (\<lambda>_. wit_entropy) ''new'' ''a@b'' ''pw''
      \<lparr>conn_state = Unauthenticated, my_device_id = None\<rparr> wit_live (Inr ()) ms cn' st' \<and>
     ms = [Register ''a@b'' ''pw'', Login ''a@b'' ''pw''] \<and> conn_state cn' = Authenticated 1"
proof -
  have a: "account_by_email (app_db wit_live) ''a@b'' =
      Some \<lparr>acc_id = 1, acc_email = ''a@b'', acc_password_hash = ''salt$pw'', acc_role = Admin\<rparr>"
    by (simp add: account_by_email_def wit_defs map_account_row_def from_column_def)
  have v: "verify_password wit_crypto ''pw'' ''salt$pw''" by (simp add: verify_password_def wit_crypto_def)
  have h: "hash_password wit_crypto wit_entropy ''pw'' = Inr ''salt$pw''"
    by (simp add: hash_password_def wit_crypto_def wit_entropy_def)
  have "faults (app_db wit_live) = []" "rx_alive (channels wit_live ''new'')" "inbox wit_live ''new'' = []"
    by (simp_all add: wit_defs inbox_def)
  from sign_in_end_to_end [where r = "\<lambda>_. wit_entropy" and c = wit_crypto and p = "''pw''" and e = "''a@b''"
      and cn = "\<lparr>conn_state = Unauthenticated, my_device_id = None\<rparr>" and dbg = "\<lambda>_. []", OF this _ h]
  show ?thesis by (simp add: can_register_def a v) blast
qed

end
