(* ===== verification/Session_Setup.thy ===== *)
theory Session_Setup
  imports Sign_In Server_Properties
begin

text \<open>
  The server's part in a session, from the first message to the answer.  It takes the messages of both
  connections in one order; each client's frames are what the server has queued for it.  The clients'
  parts, and the session as a whole, are in \<open>Session_Candidates\<close>.
\<close>

section \<open>The server between several connections\<close>

fun serve_all ::
  "crypto \<Rightarrow> (nat \<Rightarrow> entropy) \<Rightarrow> (conn_id \<times> client_message) list \<Rightarrow> (conn_id \<Rightarrow> conn) \<Rightarrow> app_state \<Rightarrow>
   (conn_id \<Rightarrow> conn) \<times> app_state" where
  "serve_all c r [] cns st = (cns, st)"
| "serve_all c r ((cid, m) # ms) cns st =
     (case ws_text c (r 0) m cid (cns cid) st of
        (cn', st') \<Rightarrow> serve_all c (\<lambda>n. r (Suc n)) ms (cns(cid := cn')) st')"

text \<open>What one of the connections has sent.\<close>

definition spoken :: "conn_id \<Rightarrow> (conn_id \<times> client_message) list \<Rightarrow> client_message list" where
  "spoken cid ms = map snd (filter (\<lambda>p. fst p = cid) ms)"

section \<open>The server's answers\<close>

lemma credential_ok_send [simp]:
  "credential_ok c (snd (send x m st)) t dev cred = credential_ok c st t dev cred"
  by (simp add: credential_ok_def split: connect_credential.split)

lemma turn_answer:
  assumes "rx_alive (channels st cid)"
  obtains u p where "ws_text c r RequestTurnCredentials cid cn st =
     (cn, snd (send cid (TurnCredentials (turn_urls (turn st)) u p 300) st))"
proof -
  obtain u p where up: "mint_credentials c r (turn st) cid 300 = (u, p)" by fastforce
  have "handle_message c r RequestTurnCredentials cid cn st =
      (Inr (), cn, snd (send cid (TurnCredentials (turn_urls (turn st)) u p 300) st))"
    by (simp add: ws_turn_credentials_def up reply_alive [OF assms])
  from text_replied [OF this] that show thesis by blast
qed

lemma request_granted:
  assumes "may_connect c cn st target cred host" and "faults (app_db st) = []"
    and "connections st host = Some host" and "rx_alive (channels st host)" and "rx_alive (channels st cid)"
  shows "ws_text c r (RequestConnection target cred) cid cn st =
     (cn, snd (send cid (ConnectionEstablished (rnd_uuid r) target)
       (snd (send host (IncomingConnection (rnd_uuid r) None)
         (st\<lparr>sessions := (sessions st)(rnd_uuid r \<mapsto> peer_session cid host)\<rparr>)))))"
proof -
  obtain i dev where d: "conn_state cn = Authenticated i" "device_of (app_db st) target = Some dev"
    "credential_ok c st target dev cred" "device_online st target = Some host"
    using assms(1) by (cases "conn_state cn") (auto simp: may_connect_def split: option.splits)
  let ?s = "st\<lparr>sessions := (sessions st)(rnd_uuid r \<mapsto> peer_session cid host)\<rparr>"
  have s: "fst (send host (IncomingConnection (rnd_uuid r) None) ?s) = Inr ()"
    using assms(4) by (simp add: send_ok)
  have "handle_message c r (RequestConnection target cred) cid cn st =
     (Inr (), cn, snd (send cid (ConnectionEstablished (rnd_uuid r) target)
       (snd (send host (IncomingConnection (rnd_uuid r) None) ?s))))"
    using assms(3,5) d s
    by (simp add: ws_request_connection_def require_auth_def with_db_pair find_device_ok [OF assms(2)]
        peer_session_def reply_alive Let_def case_prod_beta)
  then show ?thesis by (rule text_replied)
qed

lemma relay_text:
  assumes "sessions st sid = Some p" and "other p cid = Some x" and "connections st x = Some x"
    and "rx_alive (channels st x)"
  shows "ws_text c r (SdpOffer sid sdp) cid cn st = (cn, snd (send x (SrvSdpOffer sid sdp) st))"
    "ws_text c r (SdpAnswer sid sdp) cid cn st = (cn, snd (send x (SrvSdpAnswer sid sdp) st))"
  using relay_delivers [OF assms] by (simp_all add: ws_text_def)

lemma serve_all_append:
  "serve_all c r (ms @ ns) cns st =
     (case serve_all c r ms cns st of (cns', st') \<Rightarrow> serve_all c (\<lambda>n. r (length ms + n)) ns cns' st')"
  by (induction ms arbitrary: r cns st) (auto split: prod.split)

section \<open>From signing in to the session\<close>

text \<open>A connection and its account's password, a device that is online and a credential for it.\<close>

definition may_start :: "crypto \<Rightarrow> entropy \<Rightarrow> app_state \<Rightarrow> string \<Rightarrow> string \<Rightarrow> device_id \<Rightarrow> connect_credential \<Rightarrow> conn_id \<Rightarrow> bool" where
  "may_start c r st email pw target cred host \<longleftrightarrow>
     (case account_by_email (app_db st) email of None \<Rightarrow> False | Some a \<Rightarrow> verify_password c pw (acc_password_hash a)) \<and>
     (case hash_password c r pw of Inl _ \<Rightarrow> False | Inr _ \<Rightarrow> True) \<and>
     (case device_of (app_db st) target of None \<Rightarrow> False | Some dev \<Rightarrow> credential_ok c st target dev cred) \<and>
     device_online st target = Some host"

text \<open>Both connections are registered and their send tasks run.\<close>

definition live_pair :: "conn_id \<Rightarrow> conn_id \<Rightarrow> app_state \<Rightarrow> bool" where
  "live_pair a b st \<longleftrightarrow> a \<noteq> b \<and> connections st a = Some a \<and> connections st b = Some b \<and>
     rx_alive (channels st a) \<and> rx_alive (channels st b)"

lemma may_start_send [simp]:
  "may_start c r (snd (send x m st)) email pw target cred host = may_start c r st email pw target cred host"
  by (simp add: may_start_def split: option.split)

lemma server_signs_in:
  assumes "faults (app_db st) = []" and "rx_alive (channels st ctl)" and "may_start c (r 0) st email pw target cred host"
  obtains cn x t where "conn_state cn \<noteq> Unauthenticated"
    "serve_all c r [(ctl, Register email pw), (ctl, Login email pw)] cns st =
       (cns(ctl := cn), snd (send ctl (AuthOk t) (snd (send ctl (AuthError x) st))))"
proof -
  obtain a h where a: "account_by_email (app_db st) email = Some a" "verify_password c pw (acc_password_hash a)"
    and h: "hash_password c (r 0) pw = Inr h"
    using assms(3) by (auto simp: may_start_def split: option.splits sum.splits)
  have "\<not> can_register email (app_db st)" using a(1) by (simp add: can_register_def)
  then obtain x where reg: "ws_text c (r 0) (Register email pw) ctl (cns ctl) st =
      (cns ctl, snd (send ctl (AuthError x) st))"
    using register_refused [OF assms(1) _ assms(2) h] by blast
  let ?cn = "(cns ctl)\<lparr>conn_state := Authenticated (acc_id a)\<rparr>"
  have "ws_text c (r 1) (Login email pw) ctl (cns ctl) (snd (send ctl (AuthError x) st)) =
      (?cn, snd (send ctl (AuthOk (generate_session_token (r 1))) (snd (send ctl (AuthError x) st))))"
    using login_answer [of "snd (send ctl (AuthError x) st)" ctl c "r 1" email pw "cns ctl"] assms(1,2) a by simp
  then show ?thesis using that [of ?cn] reg by simp
qed

lemma server_grants:
  assumes "faults (app_db st) = []" and "live_pair ctl host st" and "may_start c r0 st email pw target cred host"
    and "conn_state (cns ctl) \<noteq> Unauthenticated"
  obtains u p where "serve_all c r [(ctl, RequestTurnCredentials), (ctl, RequestConnection target cred)] cns st =
     (cns, snd (send ctl (ConnectionEstablished (rnd_uuid (r 1)) target)
       (snd (send host (IncomingConnection (rnd_uuid (r 1)) None)
         ((snd (send ctl (TurnCredentials (turn_urls (turn st)) u p 300) st))
            \<lparr>sessions := (sessions st)(rnd_uuid (r 1) \<mapsto> peer_session ctl host)\<rparr>)))))"
proof -
  have "rx_alive (channels st ctl)" using assms(2) by (simp add: live_pair_def)
  then obtain u p where t: "ws_text c (r 0) RequestTurnCredentials ctl (cns ctl) st =
      (cns ctl, snd (send ctl (TurnCredentials (turn_urls (turn st)) u p 300) st))" by (rule turn_answer)
  let ?s = "snd (send ctl (TurnCredentials (turn_urls (turn st)) u p 300) st)"
  have "may_connect c (cns ctl) ?s target cred host"
    using assms(3,4) by (auto simp: may_start_def may_connect_def split: option.splits)
  then have "ws_text c (r 1) (RequestConnection target cred) ctl (cns ctl) ?s =
     (cns ctl, snd (send ctl (ConnectionEstablished (rnd_uuid (r 1)) target)
       (snd (send host (IncomingConnection (rnd_uuid (r 1)) None)
         (?s\<lparr>sessions := (sessions st)(rnd_uuid (r 1) \<mapsto> peer_session ctl host)\<rparr>)))))"
    using request_granted [of c "cns ctl" ?s target cred host ctl "r 1"] assms(1,2) by (simp add: live_pair_def)
  then show ?thesis using that t by simp
qed

lemma server_relays:
  assumes "live_pair ctl host st" and "sessions st sid = Some (peer_session ctl host)"
  obtains u p where
    "serve_all c r [(host, RequestTurnCredentials), (ctl, SdpOffer sid offer), (host, SdpAnswer sid answer)] cns st =
       (cns, snd (send ctl (SrvSdpAnswer sid answer) (snd (send host (SrvSdpOffer sid offer)
          (snd (send host (TurnCredentials (turn_urls (turn st)) u p 300) st))))))"
proof -
  have "rx_alive (channels st host)" using assms(1) by (simp add: live_pair_def)
  then obtain u p where t: "ws_text c (r 0) RequestTurnCredentials host (cns host) st =
      (cns host, snd (send host (TurnCredentials (turn_urls (turn st)) u p 300) st))" by (rule turn_answer)
  let ?s = "snd (send host (TurnCredentials (turn_urls (turn st)) u p 300) st)"
  have peers: "other (peer_session ctl host) ctl = Some host" "other (peer_session ctl host) host = Some ctl"
    using assms(1) by (simp_all add: other_def peer_session_def live_pair_def)
  have "ws_text c (r 1) (SdpOffer sid offer) ctl (cns ctl) ?s = (cns ctl, snd (send host (SrvSdpOffer sid offer) ?s))"
    by (rule relay_text [of _ _ "peer_session ctl host"]) (use assms peers in \<open>simp_all add: live_pair_def\<close>)
  moreover have "ws_text c (r 2) (SdpAnswer sid answer) host (cns host) (snd (send host (SrvSdpOffer sid offer) ?s)) =
      (cns host, snd (send ctl (SrvSdpAnswer sid answer) (snd (send host (SrvSdpOffer sid offer) ?s))))"
    by (rule relay_text [of _ _ "peer_session ctl host"]) (use assms peers in \<open>simp_all add: live_pair_def\<close>)
  ultimately show ?thesis using that t by (simp add: eval_nat_numeral)
qed

section \<open>The server's part\<close>

definition setup_messages ::
  "conn_id \<Rightarrow> conn_id \<Rightarrow> string \<Rightarrow> string \<Rightarrow> device_id \<Rightarrow> connect_credential \<Rightarrow> session_id \<Rightarrow> string \<Rightarrow> string \<Rightarrow>
   (conn_id \<times> client_message) list" where
  "setup_messages ctl host email pw target cred sid offer answer =
     [(ctl, Register email pw), (ctl, Login email pw), (ctl, RequestTurnCredentials),
      (ctl, RequestConnection target cred), (host, RequestTurnCredentials), (ctl, SdpOffer sid offer),
      (host, SdpAnswer sid answer)]"

lemma server_sets_up:
  fixes st :: app_state and r :: "nat \<Rightarrow> entropy" and offer answer :: string
  assumes "faults (app_db st) = []" and "live_pair ctl host st" and "inbox st ctl = []" and "inbox st host = []"
    and "may_start c (r 0) st email pw target cred host"
  defines "sid \<equiv> rnd_uuid (r 3)"
  defines "ms \<equiv> setup_messages ctl host email pw target cred sid offer answer"
  shows "\<exists>cns' st' x t us u p u' p'. serve_all c r ms cns st = (cns', st') \<and>
     inbox st' ctl = [AuthError x, AuthOk t, TurnCredentials us u p 300, ConnectionEstablished sid target,
       SrvSdpAnswer sid answer] \<and>
     inbox st' host = [IncomingConnection sid None, TurnCredentials us u' p' 300, SrvSdpOffer sid offer] \<and>
     sessions st' sid = Some (peer_session ctl host) \<and> app_db st' = app_db st \<and> live_pair ctl host st'"
proof -
  have live: "ctl \<noteq> host" "rx_alive (channels st ctl)" "rx_alive (channels st host)"
    using assms(2) by (simp_all add: live_pair_def)
  obtain cn x t where cn: "conn_state cn \<noteq> Unauthenticated" and
    run1: "serve_all c r [(ctl, Register email pw), (ctl, Login email pw)] cns st =
       (cns(ctl := cn), snd (send ctl (AuthOk t) (snd (send ctl (AuthError x) st))))"
    by (rule server_signs_in [where r = r, OF assms(1) live(2) assms(5)])
  define st2 where "st2 = snd (send ctl (AuthOk t) (snd (send ctl (AuthError x) st)))"
  have pre: "faults (app_db st2) = []" "live_pair ctl host st2" "may_start c (r 0) st2 email pw target cred host"
    using assms(1,2,5) by (simp_all add: st2_def live_pair_def)
  obtain u p where run2: "serve_all c (\<lambda>n. r (2 + n)) [(ctl, RequestTurnCredentials), (ctl, RequestConnection target cred)]
      (cns(ctl := cn)) st2 =
     (cns(ctl := cn), snd (send ctl (ConnectionEstablished sid target) (snd (send host (IncomingConnection sid None)
         ((snd (send ctl (TurnCredentials (turn_urls (turn st2)) u p 300) st2))
            \<lparr>sessions := (sessions st2)(sid \<mapsto> peer_session ctl host)\<rparr>)))))"
    by (rule server_grants [OF pre, of "cns(ctl := cn)" "\<lambda>n. r (2 + n)"]) (use cn in \<open>simp_all add: sid_def\<close>)
  define st4 where "st4 = snd (send ctl (ConnectionEstablished sid target) (snd (send host (IncomingConnection sid None)
         ((snd (send ctl (TurnCredentials (turn_urls (turn st2)) u p 300) st2))
            \<lparr>sessions := (sessions st2)(sid \<mapsto> peer_session ctl host)\<rparr>))))"
  have "live_pair ctl host st4" "sessions st4 sid = Some (peer_session ctl host)"
    using pre(2) by (simp_all add: st4_def live_pair_def)
  then obtain u' p' where run3: "serve_all c (\<lambda>n. r (4 + n))
      [(host, RequestTurnCredentials), (ctl, SdpOffer sid offer), (host, SdpAnswer sid answer)] (cns(ctl := cn)) st4 =
     (cns(ctl := cn), snd (send ctl (SrvSdpAnswer sid answer) (snd (send host (SrvSdpOffer sid offer)
          (snd (send host (TurnCredentials (turn_urls (turn st4)) u' p' 300) st4))))))" (is "_ = (_, ?st7)")
    by (rule server_relays)
  have ms: "ms = [(ctl, Register email pw), (ctl, Login email pw)] @
      [(ctl, RequestTurnCredentials), (ctl, RequestConnection target cred)] @
      [(host, RequestTurnCredentials), (ctl, SdpOffer sid offer), (host, SdpAnswer sid answer)]" by (simp add: ms_def setup_messages_def)
  have "serve_all c r ms cns st = (cns(ctl := cn), ?st7)"
    unfolding ms serve_all_append run1 st2_def [symmetric]
    using run2 [folded st4_def] run3 by (simp add: eval_nat_numeral del: serve_all.simps)
  moreover have "inbox ?st7 ctl = [AuthError x, AuthOk t, TurnCredentials (turn_urls (turn st2)) u p 300,
       ConnectionEstablished sid target, SrvSdpAnswer sid answer]"
    "inbox ?st7 host = [IncomingConnection sid None, TurnCredentials (turn_urls (turn st2)) u' p' 300, SrvSdpOffer sid offer]"
    using live assms(3,4) by (simp_all add: st4_def st2_def send_inbox)
  moreover have "sessions ?st7 sid = Some (peer_session ctl host)" "app_db ?st7 = app_db st" "live_pair ctl host ?st7"
    using pre(2) by (simp_all add: st4_def st2_def live_pair_def)
  ultimately show ?thesis by blast
qed

end
