(* ===== verification/Session_Candidates.thy ===== *)
theory Session_Candidates
  imports Session_Setup
begin

text \<open>
  A session after the answer: both peers trickle their ICE candidates through the server.  A candidate that the
  WebRTC library finds goes into a queue (\<open>on_ice_candidate\<close>); the controller's task and the host's streaming
  loop empty it.  Neither loop runs before the answer is out, so every candidate message follows the
  messages of \<open>Session_Setup\<close>, in any interleaving of the two sides.
\<close>

section \<open>The candidates of the two sides\<close>

type_synonym candidate = "(string, (string, string) result) result"  \<comment> \<open>what serialising it gives\<close>

text \<open>The callback: the end of gathering is signalled by no candidate and is not queued.\<close>

fun on_ice_candidate :: "candidate option \<Rightarrow> candidate list \<Rightarrow> candidate list" where
  "on_ice_candidate (Some c) q = q @ [c]"
| "on_ice_candidate None q = q"

definition gathered :: "candidate option list \<Rightarrow> candidate list" where
  "gathered cs = fold on_ice_candidate cs []"

text \<open>What the events of a loop take from the queue, in order, and how often they read the connection.\<close>

fun own_candidates :: "ice_event list \<Rightarrow> candidate list" where
  "own_candidates [] = []"
| "own_candidates (OwnCandidate c # es) = c # own_candidates es"
| "own_candidates (MessageReady # es) = own_candidates es"

fun reads :: "ice_event list \<Rightarrow> nat" where
  "reads [] = 0"
| "reads (OwnCandidate _ # es) = reads es"
| "reads (MessageReady # es) = Suc (reads es)"

fun local_candidates :: "stream_event list \<Rightarrow> candidate list" where
  "local_candidates [] = []"
| "local_candidates (LocalCandidate c # es) = c # local_candidates es"
| "local_candidates (EncodedFrame _ # es) = local_candidates es"
| "local_candidates (SignalingReady # es) = local_candidates es"

fun stream_reads :: "stream_event list \<Rightarrow> nat" where
  "stream_reads [] = 0"
| "stream_reads (LocalCandidate _ # es) = stream_reads es"
| "stream_reads (EncodedFrame _ # es) = stream_reads es"
| "stream_reads (SignalingReady # es) = Suc (stream_reads es)"

fun stream_frames :: "stream_event list \<Rightarrow> bytes list" where
  "stream_frames [] = []"
| "stream_frames (LocalCandidate _ # es) = stream_frames es"
| "stream_frames (EncodedFrame b # es) = b # stream_frames es"
| "stream_frames (SignalingReady # es) = stream_frames es"

text \<open>The texts of the candidates that can be encoded.\<close>

definition encodings :: "candidate list \<Rightarrow> string list" where
  "encodings cs = List.map_filter (\<lambda>c. case encode_ice_candidate c of Inl _ \<Rightarrow> None | Inr s \<Rightarrow> Some s) cs"

lemma encodings_simps [simp]:
  "encodings [] = []"
  "encodings (c # cs) = (case encode_ice_candidate c of Inl _ \<Rightarrow> encodings cs | Inr s \<Rightarrow> s # encodings cs)"
  by (simp_all add: encodings_def List.map_filter_def split: sum.split)

section \<open>The loops\<close>

lemma ice_loop_runs:
  assumes "reads es = length ds" and "sends_left w = None" and "incoming w = map (\<lambda>d. msgf (SrvIceCandidate sid d)) ds"
  shows "ice_loop rtc sid es w =
     (True, w\<lparr>incoming := [], sent := sent w @ map (IceCandidate sid) (encodings (own_candidates es))\<rparr>,
      filter (\<lambda>d. remote_candidate rtc True d = Inr ()) ds)"
  using assms
proof (induction es arbitrary: ds w)
  case (Cons e es)
  show ?case
  proof (cases e)
    case (OwnCandidate c)
    then show ?thesis using Cons by (auto simp: csend_def split: sum.split)
  next
    case MessageReady
    with Cons.prems obtain d ds' where "ds = d # ds'" by (cases ds) auto
    then show ?thesis using Cons MessageReady by (auto simp: crecv_def)
  qed
qed simp

lemma stream_loop_runs:
  assumes "stream_reads es = length cs" and "sends_left w = None" and "incoming w = map (\<lambda>c. msgf (SrvIceCandidate sid c)) cs"
    and "list_all (\<lambda>c. remote_candidate rtc True c = Inr ()) cs"
    and "list_all (\<lambda>d. \<exists>s. encode_ice_candidate d = Inr s) (local_candidates es)"
    and "\<And>b. write_sample rtc b = None"
  shows "stream_loop rtc sid es w =
     (None, w\<lparr>incoming := [], sent := sent w @ map (IceCandidate sid) (encodings (local_candidates es))\<rparr>, stream_frames es)"
  using assms(1-5)
proof (induction es arbitrary: cs w)
  case (Cons e es)
  show ?case
  proof (cases e)
    case (LocalCandidate c)
    then show ?thesis using Cons by (auto simp: csend_def)
  next
    case (EncodedFrame b)
    then show ?thesis using Cons assms(6) by (auto simp: attempt_def)
  next
    case SignalingReady
    with Cons.prems obtain c cs' where "cs = c # cs'" by (cases cs) auto
    then show ?thesis using Cons SignalingReady by (auto simp: crecv_def)
  qed
qed simp

section \<open>The server\<close>

text \<open>The candidates of both sides in the order in which the server takes them.\<close>

definition candidate_messages :: "session_id \<Rightarrow> (conn_id \<times> string) list \<Rightarrow> (conn_id \<times> client_message) list" where
  "candidate_messages sid xs = map (\<lambda>(x, c). (x, IceCandidate sid c)) xs"

definition texts_of :: "conn_id \<Rightarrow> (conn_id \<times> string) list \<Rightarrow> string list" where
  "texts_of x xs = map snd (filter (\<lambda>p. fst p = x) xs)"

lemma texts_simps [simp]:
  "texts_of x [] = []" "texts_of x ((y, c) # xs) = (if y = x then c # texts_of x xs else texts_of x xs)"
  by (simp_all add: texts_of_def)

lemma spoken_append [simp]: "spoken x (ms @ ns) = spoken x ms @ spoken x ns"
  by (simp add: spoken_def)

lemma spoken_candidates: "spoken x (candidate_messages sid xs) = map (IceCandidate sid) (texts_of x xs)"
  by (induction xs) (auto simp: spoken_def candidate_messages_def)

lemma candidate_text:
  assumes "sessions st sid = Some p" and "other p cid = Some x" and "connections st x = Some x"
    and "rx_alive (channels st x)"
  shows "ws_text c r (IceCandidate sid d) cid cn st = (cn, snd (send x (SrvIceCandidate sid d) st))"
  using relay_delivers [OF assms] by (simp add: ws_text_def)

lemma server_trickles:
  assumes "live_pair ctl host st" and "sessions st sid = Some (peer_session ctl host)"
    and "list_all (\<lambda>(x, d). x = ctl \<or> x = host) xs"
  shows "\<exists>st'. serve_all c r (candidate_messages sid xs) cns st = (cns, st') \<and>
     inbox st' ctl = inbox st ctl @ map (SrvIceCandidate sid) (texts_of host xs) \<and>
     inbox st' host = inbox st host @ map (SrvIceCandidate sid) (texts_of ctl xs) \<and>
     sessions st' = sessions st \<and> app_db st' = app_db st"
  using assms
proof (induction xs arbitrary: r st)
  case (Cons e xs)
  obtain x d where e: "e = (x, d)" by fastforce
  have x: "x = ctl \<or> x = host" using Cons.prems(3) e by simp
  let ?y = "if x = ctl then host else ctl"
  let ?st = "snd (send ?y (SrvIceCandidate sid d) st)"
  have live: "ctl \<noteq> host" "rx_alive (channels st ctl)" "rx_alive (channels st host)"
    using Cons.prems(1) by (simp_all add: live_pair_def)
  have "ws_text c (r 0) (IceCandidate sid d) x (cns x) st = (cns x, ?st)"
    by (rule candidate_text [where p = "peer_session ctl host"])
      (use Cons.prems(1,2) x in \<open>auto simp: live_pair_def other_def peer_session_def\<close>)
  then have "serve_all c r (candidate_messages sid (e # xs)) cns st =
      serve_all c (\<lambda>n. r (Suc n)) (candidate_messages sid xs) cns ?st"
    using e by (simp add: candidate_messages_def)
  moreover have "live_pair ctl host ?st" "sessions ?st sid = Some (peer_session ctl host)"
    using Cons.prems(1,2) by (simp_all add: live_pair_def)
  with Cons.IH [of ?st "\<lambda>n. r (Suc n)"] Cons.prems(3) e obtain st' where
    "serve_all c (\<lambda>n. r (Suc n)) (candidate_messages sid xs) cns ?st = (cns, st')"
    "inbox st' ctl = inbox ?st ctl @ map (SrvIceCandidate sid) (texts_of host xs)"
    "inbox st' host = inbox ?st host @ map (SrvIceCandidate sid) (texts_of ctl xs)"
    "sessions st' = sessions ?st" "app_db st' = app_db ?st" by auto
  ultimately show ?case using e x live by (auto simp: send_inbox)
qed (simp add: candidate_messages_def)

section \<open>The clients\<close>

lemma controller_completes_early:
  assumes "\<And>servers. prepare_offer rtc servers = Inr offer" and "accept_answer rtc answer = Inr ()"
  shows "controller_connect dbg rtc (Inr (hears ([AuthError x, AuthOk t, TurnCredentials us u p ttl,
       ConnectionEstablished sid target, SrvSdpAnswer sid answer] @ rest))) url email pw target cred =
     Inr (sid, \<lparr>incoming = map msgf rest, sent = [Register email pw, Login email pw, RequestTurnCredentials,
       RequestConnection target cred, SdpOffer sid offer], sends_left = None\<rparr>)"
  using assms
  by (simp add: controller_connect_def signaling_connect_def client_eval request_session_def loop_simps)

lemma host_streams:
  assumes "\<And>servers. build_peer_connection rtc servers = Inr ()" and "add_track rtc = None"
    and "make_answer rtc sdp = Inr answer"
  shows "serve_connections rtc None es
       (hears ([IncomingConnection sid None, TurnCredentials us u p ttl, SrvSdpOffer sid sdp] @ rest)) =
     stream_loop rtc sid es \<lparr>incoming = map msgf rest, sent = [RequestTurnCredentials, SdpAnswer sid answer],
       sends_left = None\<rparr>"
  using assms
  by (simp add: serve_connections_def handle_one_connection_def hears_def csend_def crecv_def attempt_def loop_simps)

section \<open>Properties\<close>

text \<open>
  C21. A session is established and its candidates are exchanged.  A user with an account asks for a device that
  is online, with a valid credential; the engine refuses nothing, both send tasks run and the WebRTC
  libraries accept what they are given.  When the server handles the host's request for TURN credentials
  before the offer, and then the candidates of both sides in any interleaving, the three programs agree:
  \<open>connect\<close> returns the session and its task adds exactly the host's candidates that its library can use,
  in the order in which the host found them; the host has answered, keeps streaming and has written every
  encoded frame; each has sent exactly the messages the server handled for it, and the server has recorded
  the two as peers.
\<close>

theorem session_established:
  fixes st :: app_state and r :: "nat \<Rightarrow> entropy"
  assumes "faults (app_db st) = []" and "live_pair ctl host st" and "inbox st ctl = []" and "inbox st host = []"
    and "may_start c (r 0) st email pw target cred host"
    and "\<And>servers. prepare_offer crtc servers = Inr offer" and "accept_answer crtc answer = Inr ()"
    and "\<And>servers. build_peer_connection hrtc servers = Inr ()" and "add_track hrtc = None"
    and "make_answer hrtc offer = Inr answer" and "\<And>b. write_sample hrtc b = None"
    and "list_all (\<lambda>(x, d). x = ctl \<or> x = host) xs"
    and "own_candidates ces = gathered cgs" and "texts_of ctl xs = encodings (gathered cgs)"
    and "local_candidates hes = gathered hgs" and "texts_of host xs = encodings (gathered hgs)"
    and "reads ces = length (texts_of host xs)" and "stream_reads hes = length (texts_of ctl xs)"
    and "list_all (\<lambda>d. remote_candidate hrtc True d = Inr ()) (texts_of ctl xs)"
    and "list_all (\<lambda>d. \<exists>s. encode_ice_candidate d = Inr s) (gathered hgs)"
  defines "sid \<equiv> rnd_uuid (r 3)"
  defines "ms \<equiv> setup_messages ctl host email pw target cred sid offer answer @ candidate_messages sid xs"
  shows "\<exists>cns' st' w. serve_all c r ms cns st = (cns', st') \<and>
     controller_connect dbg crtc (Inr (hears (inbox st' ctl))) url email pw target cred = Inr (sid, w) \<and>
     ice_loop crtc sid ces w = (True, \<lparr>incoming = [], sent = spoken ctl ms, sends_left = None\<rparr>,
       filter (\<lambda>d. remote_candidate crtc True d = Inr ()) (texts_of host xs)) \<and>
     serve_connections hrtc None hes (hears (inbox st' host)) =
       (None, \<lparr>incoming = [], sent = spoken host ms, sends_left = None\<rparr>, stream_frames hes) \<and>
     sessions st' sid = Some (peer_session ctl host) \<and> app_db st' = app_db st"
proof -
  let ?first = "setup_messages ctl host email pw target cred sid offer answer"
  obtain cns' st1 x t us u p u' p' where run: "serve_all c r ?first cns st = (cns', st1)"
    and ctl: "inbox st1 ctl = [AuthError x, AuthOk t, TurnCredentials us u p 300, ConnectionEstablished sid target,
       SrvSdpAnswer sid answer]"
    and host: "inbox st1 host = [IncomingConnection sid None, TurnCredentials us u' p' 300, SrvSdpOffer sid offer]"
    and rest: "sessions st1 sid = Some (peer_session ctl host)" "app_db st1 = app_db st" "live_pair ctl host st1"
    using server_sets_up [where r = r and cns = cns and offer = offer and answer = answer, OF assms(1-5)]
    unfolding sid_def by blast
  obtain st' where run': "serve_all c (\<lambda>n. r (length ?first + n)) (candidate_messages sid xs) cns' st1 = (cns', st')"
    and inb: "inbox st' ctl = inbox st1 ctl @ map (SrvIceCandidate sid) (texts_of host xs)"
      "inbox st' host = inbox st1 host @ map (SrvIceCandidate sid) (texts_of ctl xs)"
      "sessions st' = sessions st1" "app_db st' = app_db st1"
    using server_trickles [OF rest(3,1) assms(12)] by blast
  have all: "serve_all c r ms cns st = (cns', st')"
    using run run' by (simp add: ms_def serve_all_append)
  have said: "spoken ctl ?first = [Register email pw, Login email pw, RequestTurnCredentials,
       RequestConnection target cred, SdpOffer sid offer]" "spoken host ?first = [RequestTurnCredentials, SdpAnswer sid answer]"
    using assms(2) by (auto simp: spoken_def setup_messages_def live_pair_def)
  define w :: wire where "w = \<lparr>incoming = map msgf (map (SrvIceCandidate sid) (texts_of host xs)),
    sent = spoken ctl ?first, sends_left = None\<rparr>"
  have "controller_connect dbg crtc (Inr (hears (inbox st' ctl))) url email pw target cred = Inr (sid, w)"
    using controller_completes_early [OF assms(6,7)] unfolding inb ctl w_def said by simp
  moreover have "ice_loop crtc sid ces w = (True, \<lparr>incoming = [], sent = spoken ctl ms, sends_left = None\<rparr>,
       filter (\<lambda>d. remote_candidate crtc True d = Inr ()) (texts_of host xs))"
    using ice_loop_runs [OF assms(17), of w sid crtc] assms(13,14)
    by (simp add: w_def ms_def spoken_candidates comp_def)
  moreover have "serve_connections hrtc None hes (hears (inbox st' host)) =
       (None, \<lparr>incoming = [], sent = spoken host ms, sends_left = None\<rparr>, stream_frames hes)"
    unfolding inb host host_streams [OF assms(8-10)]
    using assms(11,15,16,18-20) by (subst stream_loop_runs [where cs = "texts_of ctl xs"])
      (simp_all add: ms_def said spoken_candidates comp_def)
  ultimately show ?thesis using all rest inb by auto
qed

theorem session_established_witness:
  "\<exists>cns' st' w. serve_all wit_crypto (\<lambda>_. wit_entropy) (setup_messages ''ctl'' ''host'' ''a@b'' ''pw'' ''012 345 006''
        (OneTimePassword ''0042 9999'') ''uuid-1'' ''offer'' ''answer to offer'' @
        candidate_messages ''uuid-1'' [(''host'', ''h1''), (''ctl'', ''c1''), (''host'', ''h2'')])
        (\<lambda>_. \<lparr>conn_state = Unauthenticated, my_device_id = None\<rparr>) wit_live = (cns', st') \<and>
     snd (snd (ice_loop wit_rtc ''uuid-1'' [MessageReady, OwnCandidate (Inr (Inr ''c1'')), MessageReady] w)) = [''h1'', ''h2'']"
proof -
  let ?xs = "[(''host'', ''h1''), (''ctl'', ''c1''), (''host'', ''h2'')]"
  let ?ces = "[MessageReady, OwnCandidate (Inr (Inr ''c1'')), MessageReady]"
  let ?hes = "[LocalCandidate (Inr (Inr ''h1'')), EncodedFrame [1], SignalingReady, LocalCandidate (Inr (Inr ''h2''))]"
  let ?cgs = "[Some (Inr (Inr ''c1'')), None]" and ?hgs = "[Some (Inr (Inr ''h1'')), Some (Inr (Inr ''h2'')), None]"
  have u: "rnd_uuid wit_entropy = ''uuid-1''" by (simp add: wit_entropy_def)
  have m: "may_start wit_crypto wit_entropy wit_live ''a@b'' ''pw'' ''012 345 006'' (OneTimePassword ''0042 9999'') ''host''"
    by (simp add: may_start_def account_by_email_def device_of_def wit_defs map_account_row_def from_column_def
        verify_password_def hash_password_def wit_crypto_def credential_ok_def)
  have s: "faults (app_db wit_live) = []" "live_pair ''ctl'' ''host'' wit_live" "inbox wit_live ''ctl'' = []"
    "inbox wit_live ''host'' = []"
    by (simp_all add: live_pair_def wit_defs inbox_def)
  have rtc: "prepare_offer wit_rtc servers = Inr ''offer''" "accept_answer wit_rtc ''answer to offer'' = Inr ()"
    "build_peer_connection wit_rtc servers = Inr ()" "add_track wit_rtc = None"
    "make_answer wit_rtc ''offer'' = Inr ''answer to offer''" "write_sample wit_rtc b = None"
    "remote_candidate wit_rtc True d = Inr ()" for servers b d
    by (simp_all add: prepare_offer_def accept_answer_def build_peer_connection_def make_answer_def remote_candidate_def
        attempt_def wit_rtc_def)
  have ev: "list_all (\<lambda>(x, d). x = ''ctl'' \<or> x = ''host'') ?xs" "own_candidates ?ces = gathered ?cgs"
    "texts_of ''ctl'' ?xs = encodings (gathered ?cgs)" "local_candidates ?hes = gathered ?hgs"
    "texts_of ''host'' ?xs = encodings (gathered ?hgs)" "reads ?ces = length (texts_of ''host'' ?xs)"
    "stream_reads ?hes = length (texts_of ''ctl'' ?xs)"
    "list_all (\<lambda>d. remote_candidate wit_rtc True d = Inr ()) (texts_of ''ctl'' ?xs)"
    "list_all (\<lambda>d. \<exists>s. encode_ice_candidate d = Inr s) (gathered ?hgs)"
    by (simp_all add: gathered_def encode_ice_candidate_def rtc)
  have t: "filter (\<lambda>d. remote_candidate wit_rtc True d = Inr ()) (texts_of ''host'' ?xs) = [''h1'', ''h2'']"
    by (simp add: rtc)
  from session_established [where r = "\<lambda>_. wit_entropy" and ces = ?ces and hes = ?hes, OF s m rtc(1-6) ev]
  show ?thesis unfolding u t by (metis snd_conv)
qed

end
