(* ===== verification/Clipboard_Sync.thy ===== *)
theory Clipboard_Sync
  imports Visuara_Prelude
begin

text \<open>
  \<^verbatim>\<open>visuara-client/src/clipboard_sync.rs\<close>: the polling thread of each peer, and two peers that exchange what
  their threads report, as \<^verbatim>\<open>host.rs\<close> and \<^verbatim>\<open>controller.rs\<close> connect them.  The clipboard itself
  (\<^verbatim>\<open>visuara-agent/src/clipboard.rs\<close>) is its text, none when it cannot be read as text; whether it accepts
  a text is a parameter.
\<close>

section \<open>The polling thread\<close>

record clip =
  clip_text :: "string option"
  last_seen :: string

text \<open>\<open>while let Ok(text) = remote_update_rx.try_recv()\<close>\<close>

fun apply_updates :: "(string \<Rightarrow> bool) \<Rightarrow> string list \<Rightarrow> clip \<Rightarrow> clip" where
  "apply_updates accepts [] s = s"
| "apply_updates accepts (t # ts) s =
     apply_updates accepts ts
       ((if accepts t then s\<lparr>clip_text := Some t\<rparr> else s)\<lparr>last_seen := t\<rparr>)"

definition poll :: "clip \<Rightarrow> string option \<times> clip" where
  "poll s =
     (case clip_text s of
        None \<Rightarrow> (None, s)
      | Some t \<Rightarrow> if t \<noteq> last_seen s then (Some t, s\<lparr>last_seen := t\<rparr>) else (None, s))"

definition iteration :: "(string \<Rightarrow> bool) \<Rightarrow> string list \<Rightarrow> clip \<Rightarrow> string option \<times> clip" where
  "iteration accepts updates s = poll (apply_updates accepts updates s)"

definition thread_start :: "string option \<Rightarrow> clip" where
  "thread_start t = \<lparr>clip_text = t, last_seen = []\<rparr>"

section \<open>Two peers\<close>

datatype side = HostSide | ControllerSide

fun other_side :: "side \<Rightarrow> side" where
  "other_side HostSide = ControllerSide"
| "other_side ControllerSide = HostSide"

record peers =
  clip_of :: "side \<Rightarrow> clip"
  updates_for :: "side \<Rightarrow> string list"

datatype clip_event = Copy side string | Tick side

text \<open>A user copies a text; or a thread runs one iteration, and what it reports is queued at the
  other peer.\<close>

fun clip_step :: "(string \<Rightarrow> bool) \<Rightarrow> clip_event \<Rightarrow> peers \<Rightarrow> nat \<times> peers" where
  "clip_step accepts (Copy x t) s = (0, s\<lparr>clip_of := (clip_of s)(x := (clip_of s x)\<lparr>clip_text := Some t\<rparr>)\<rparr>)"
| "clip_step accepts (Tick x) s =
     (case iteration accepts (updates_for s x) (clip_of s x) of (report, c) \<Rightarrow>
        let s1 = s\<lparr>clip_of := (clip_of s)(x := c), updates_for := (updates_for s)(x := [])\<rparr> in
        (case report of
           None \<Rightarrow> (0, s1)
         | Some t \<Rightarrow> (1, s1\<lparr>updates_for := (updates_for s1)(other_side x := updates_for s1 (other_side x) @ [t])\<rparr>)))"

text \<open>The number of reports of a run, and its final state.\<close>

fun clip_run :: "(string \<Rightarrow> bool) \<Rightarrow> clip_event list \<Rightarrow> peers \<Rightarrow> nat \<times> peers" where
  "clip_run accepts [] s = (0, s)"
| "clip_run accepts (e # es) s =
     (case clip_step accepts e s of (n, s1) \<Rightarrow>
        (case clip_run accepts es s1 of (m, s2) \<Rightarrow> (n + m, s2)))"

definition copies :: "clip_event list \<Rightarrow> nat" where
  "copies es = length (filter (\<lambda>e. case e of Copy _ _ \<Rightarrow> True | Tick _ \<Rightarrow> False) es)"

section \<open>Lemmas\<close>

text \<open>A clipboard whose text the thread has not seen yet.\<close>

definition pending :: "clip \<Rightarrow> nat" where
  "pending c = (case clip_text c of None \<Rightarrow> 0 | Some t \<Rightarrow> if t = last_seen c then 0 else 1)"

definition backlog :: "peers \<Rightarrow> nat" where
  "backlog s = pending (clip_of s HostSide) + pending (clip_of s ControllerSide)"

lemma apply_updates_seen:
  "(\<And>t. accepts t) \<Longrightarrow> ts \<noteq> [] \<Longrightarrow>
   apply_updates accepts ts s = s\<lparr>clip_text := Some (last ts), last_seen := last ts\<rparr>"
proof (induction ts arbitrary: s)
  case (Cons t ts)
  then show ?case by (cases "ts = []") simp_all
qed simp

lemma iteration_pending:
  assumes "\<And>t. accepts t" and "iteration accepts ts c = (r, c')"
  shows "(case r of None \<Rightarrow> 0 | Some _ \<Rightarrow> 1) + pending c' \<le> pending c"
proof (cases "ts = []")
  case True
  then show ?thesis using assms(2)
    by (auto simp: iteration_def poll_def pending_def split: option.splits if_splits)
next
  case False
  then show ?thesis using assms(2) apply_updates_seen [OF assms(1) False, where s = c]
    by (auto simp: iteration_def poll_def pending_def)
qed

lemma step_backlog:
  assumes "\<And>t. accepts t" and "clip_step accepts e s = (n, s')"
  shows "n + backlog s' \<le> backlog s + copies [e]"
proof (cases e)
  case (Copy x t)
  then show ?thesis using assms(2)
    by (cases x) (auto simp: backlog_def copies_def pending_def split: option.splits)
next
  case (Tick x)
  obtain r c where it: "iteration accepts (updates_for s x) (clip_of s x) = (r, c)" by fastforce
  note p = iteration_pending [OF assms(1) it]
  show ?thesis using assms(2) Tick it p
    by (cases x; cases r) (auto simp: backlog_def copies_def Let_def)
qed

lemma run_backlog:
  assumes "\<And>t. accepts t"
  shows "clip_run accepts es s = (n, s') \<Longrightarrow> n + backlog s' \<le> backlog s + copies es"
proof (induction es arbitrary: s n s')
  case Nil
  then show ?case by (simp add: copies_def)
next
  case (Cons e es)
  obtain n1 s1 where 1: "clip_step accepts e s = (n1, s1)" by fastforce
  obtain n2 s2 where 2: "clip_run accepts es s1 = (n2, s2)" by fastforce
  have "n = n1 + n2" "s' = s2" using Cons.prems 1 2 by simp_all
  moreover have "copies (e # es) = copies [e] + copies es" by (simp add: copies_def)
  ultimately show ?case using step_backlog [OF assms 1] Cons.IH [OF 2] by simp
qed

text \<open>Nothing left to do: both threads have seen their clipboards and no update is on its way.\<close>

definition quiet :: "peers \<Rightarrow> bool" where
  "quiet s \<longleftrightarrow> (\<forall>x. updates_for s x = [] \<and> pending (clip_of s x) = 0)"

lemma quiet_tick: "quiet s \<Longrightarrow> clip_step accepts (Tick x) s = (0, s)"
proof -
  assume q: "quiet s"
  then have u: "updates_for s x = []" and p: "pending (clip_of s x) = 0" by (simp_all add: quiet_def)
  have "iteration accepts [] (clip_of s x) = (None, clip_of s x)"
    using p by (auto simp: iteration_def poll_def pending_def split: option.splits if_splits)
  moreover have "(updates_for s)(x := []) = updates_for s" using u by auto
  ultimately show ?thesis using u by simp
qed

lemma quiet_run: "quiet s \<Longrightarrow> copies es = 0 \<Longrightarrow> clip_run accepts es s = (0, s)"
proof (induction es)
  case (Cons e es)
  then obtain x where "e = Tick x" by (cases e) (auto simp: copies_def)
  then show ?case using Cons quiet_tick [OF Cons.prems(1), of accepts x] by (simp add: copies_def del: clip_step.simps)
qed simp


section \<open>Properties\<close>

text \<open>
  No echo: as long as the clipboards accept what they are given, the two threads together report at
  most one change for each text a user copies, plus one for each clipboard whose initial text a
  thread has not seen; so an update is never bounced back, whatever the order of iterations.
\<close>

theorem clipboard_no_echo:
  assumes "\<And>t. accepts t" and "clip_run accepts es s = (n, s')"
  shows "n \<le> backlog s + copies es"
  using run_backlog [OF assms(1,2)] by simp

definition wit_peers :: peers where
  "wit_peers = \<lparr>clip_of = (\<lambda>_. thread_start (Some [])), updates_for = (\<lambda>_. [])\<rparr>"

theorem clipboard_no_echo_witness:
  "fst (clip_run (\<lambda>_. True) [Copy HostSide ''hi'', Tick HostSide, Tick ControllerSide, Tick HostSide] wit_peers) \<le> 1"
  using clipboard_no_echo [of "\<lambda>_. True" "[Copy HostSide ''hi'', Tick HostSide, Tick ControllerSide, Tick HostSide]"
      wit_peers, OF _ surjective_pairing]
  by (simp add: backlog_def pending_def wit_peers_def thread_start_def copies_def)

text \<open>
  A copied text reaches the other side: from a quiet state, once the thread of the side where it was
  copied and then that of the other side have run, both clipboards hold the text, exactly one change
  was reported if it was new, and no further iterations, in any order, change anything.
\<close>

theorem clipboard_converges:
  assumes "\<And>u. accepts u" and "quiet s" and "t \<noteq> last_seen (clip_of s x)"
  shows "\<exists>s'. clip_run accepts [Copy x t, Tick x, Tick (other_side x)] s = (1, s') \<and>
     clip_text (clip_of s' x) = Some t \<and> clip_text (clip_of s' (other_side x)) = Some t \<and>
     (\<forall>es. copies es = 0 \<longrightarrow> clip_run accepts es s' = (0, s'))"
proof -
  have ne: "other_side x \<noteq> x" "other_side (other_side x) = x" by (cases x; simp)+
  have u: "updates_for s x = []" "updates_for s (other_side x) = []" using assms(2) by (simp_all add: quiet_def)
  let ?s' = "s\<lparr>clip_of := (clip_of s)(x := (clip_of s x)\<lparr>clip_text := Some t, last_seen := t\<rparr>,
       other_side x := (clip_of s (other_side x))\<lparr>clip_text := Some t, last_seen := t\<rparr>)\<rparr>"
  have upd: "(updates_for s)(x := [], other_side x := []) = updates_for s" using u by auto
  have run: "clip_run accepts [Copy x t, Tick x, Tick (other_side x)] s = (1, ?s')"
    using assms(1,3) ne u upd by (simp add: iteration_def poll_def Let_def fun_upd_twist)
  have all: "y = x \<or> y = other_side x" for y by (cases x; cases y) simp_all
  have "quiet ?s'"
    unfolding quiet_def
  proof
    fix y
    show "updates_for ?s' y = [] \<and> pending (clip_of ?s' y) = 0"
      using all [of y] u ne by (auto simp: pending_def)
  qed
  then show ?thesis using run quiet_run ne by (intro exI [of _ ?s']) auto
qed

theorem clipboard_converges_witness:
  "\<exists>s'. clip_run (\<lambda>_. True) [Copy HostSide ''hi'', Tick HostSide, Tick ControllerSide] wit_peers = (1, s') \<and>
     clip_text (clip_of s' ControllerSide) = Some ''hi''"
proof -
  have "quiet wit_peers" by (simp add: quiet_def wit_peers_def thread_start_def pending_def)
  from clipboard_converges [OF _ this, of "\<lambda>_. True" "''hi''" HostSide] show ?thesis
    by (auto simp: wit_peers_def thread_start_def)
qed

text \<open>
  When the clipboard refuses a remote update, the baseline moves all the same: the old local text
  then counts as a local change and is sent to the peer, where it replaces the newer text.
\<close>

theorem refused_update_sends_stale_text:
  assumes "\<not> accepts t" and "clip_text c = Some old" and "old \<noteq> t"
  shows "iteration accepts [t] c = (Some old, c\<lparr>last_seen := old\<rparr>)"
  using assms by (simp add: iteration_def poll_def)

theorem refused_update_sends_stale_text_witness:
  "fst (iteration (\<lambda>_. False) [''new''] \<lparr>clip_text = Some ''old'', last_seen = ''old''\<rparr>) = Some ''old''"
  using refused_update_sends_stale_text [of "\<lambda>_. False" "''new''" "\<lparr>clip_text = Some ''old'', last_seen = ''old''\<rparr>" "''old''"]
  by simp

end
