(* ===== verification/Clipboard_Backend.thy ===== *)
theory Clipboard_Backend
  imports Clipboard_Sync Client_Protocol
begin

text \<open>
  \<^verbatim>\<open>visuara-agent/src/clipboard.rs\<close>, and the thread of \<^verbatim>\<open>visuara-client/src/clipboard_sync.rs\<close> over it with its error
  handling.  The operating system's clipboard (arboard) is the record \<open>arboard\<close> of three calls on a state of
  its own; the thread is shown to be a refinement of the abstract thread of \<open>Clipboard_Sync\<close> for every
  clipboard that keeps what it accepts.
\<close>

section \<open>clipboard.rs\<close>

record 'c arboard =
  ab_new :: "(string, 'c) result"
  ab_get_text :: "'c \<Rightarrow> (string, string) result \<times> 'c"
  ab_set_text :: "string \<Rightarrow> 'c \<Rightarrow> (string, unit) result \<times> 'c"

definition handle_new :: "'c arboard \<Rightarrow> (string, 'c) result" where
  "handle_new ab = (case ab_new ab of Inl e \<Rightarrow> Inl (ctx ''open system clipboard'' e) | Inr c \<Rightarrow> Inr c)"

definition handle_get_text :: "'c arboard \<Rightarrow> 'c \<Rightarrow> (string, string) result \<times> 'c" where
  "handle_get_text ab c =
     (case ab_get_text ab c of
        (Inl e, c1) \<Rightarrow> (Inl (ctx ''read clipboard text'' e), c1)
      | (Inr t, c1) \<Rightarrow> (Inr t, c1))"

definition handle_set_text :: "'c arboard \<Rightarrow> string \<Rightarrow> 'c \<Rightarrow> (string, unit) result \<times> 'c" where
  "handle_set_text ab t c =
     (case ab_set_text ab t c of
        (Inl e, c1) \<Rightarrow> (Inl (ctx ''write clipboard text'' e), c1)
      | (Inr _, c1) \<Rightarrow> (Inr (), c1))"

section \<open>The thread\<close>

text \<open>The clipboard and \<open>last_seen\<close>; without a clipboard the thread logs the error and returns.\<close>

definition backend_start :: "'c arboard \<Rightarrow> (string, 'c \<times> string) result" where
  "backend_start ab =
     (case handle_new ab of
        Inl e \<Rightarrow> Inl (''[clipboard-sync] failed to open clipboard: '' @ e)
      | Inr c \<Rightarrow> Inr (c, []))"

fun backend_updates :: "'c arboard \<Rightarrow> string list \<Rightarrow> 'c \<times> string \<Rightarrow> 'c \<times> string" where
  "backend_updates ab [] s = s"
| "backend_updates ab (t # ts) (c, seen) = backend_updates ab ts (snd (handle_set_text ab t c), t)"

definition backend_turn :: "'c arboard \<Rightarrow> string list \<Rightarrow> 'c \<times> string \<Rightarrow> string option \<times> 'c \<times> string" where
  "backend_turn ab updates s =
     (case backend_updates ab updates s of (c, seen) \<Rightarrow>
        (case handle_get_text ab c of
           (Inl _, c1) \<Rightarrow> (None, c1, seen)
         | (Inr t, c1) \<Rightarrow> if t \<noteq> seen then (Some t, c1, t) else (None, c1, seen)))"

fun backend_run :: "'c arboard \<Rightarrow> string list list \<Rightarrow> 'c \<times> string \<Rightarrow> string option list \<times> 'c \<times> string" where
  "backend_run ab [] s = ([], s)"
| "backend_run ab (us # uss) s =
     (case backend_turn ab us s of (r, s1) \<Rightarrow> (case backend_run ab uss s1 of (rs, s2) \<Rightarrow> (r # rs, s2)))"

section \<open>The contract\<close>

text \<open>What a clipboard holds as text, and which texts it accepts; reading does not change it, and a text that it
  refuses leaves it as it was.\<close>

definition clipboard_keeps :: "'c arboard \<Rightarrow> ('c \<Rightarrow> string option) \<Rightarrow> (string \<Rightarrow> bool) \<Rightarrow> bool" where
  "clipboard_keeps ab holds accepts \<longleftrightarrow>
     (\<forall>c. holds (snd (ab_get_text ab c)) = holds c \<and>
        (case holds c of Some t \<Rightarrow> fst (ab_get_text ab c) = Inr t | None \<Rightarrow> (\<exists>e. fst (ab_get_text ab c) = Inl e))) \<and>
     (\<forall>t c. holds (snd (ab_set_text ab t c)) = (if accepts t then Some t else holds c))"

definition abs_clip :: "('c \<Rightarrow> string option) \<Rightarrow> 'c \<times> string \<Rightarrow> clip" where
  "abs_clip holds s = \<lparr>clip_text = holds (fst s), last_seen = snd s\<rparr>"

text \<open>The abstract thread over several turns.\<close>

fun iterations :: "(string \<Rightarrow> bool) \<Rightarrow> string list list \<Rightarrow> clip \<Rightarrow> string option list \<times> clip" where
  "iterations accepts [] s = ([], s)"
| "iterations accepts (us # uss) s =
     (case iteration accepts us s of (r, s1) \<Rightarrow> (case iterations accepts uss s1 of (rs, s2) \<Rightarrow> (r # rs, s2)))"

lemma set_text_state: "snd (handle_set_text ab t c) = snd (ab_set_text ab t c)"
  by (simp add: handle_set_text_def split: prod.split sum.split)

lemma updates_refine:
  assumes "clipboard_keeps ab holds accepts"
  shows "abs_clip holds (backend_updates ab ts s) = apply_updates accepts ts (abs_clip holds s)"
proof (induction ts arbitrary: s)
  case (Cons t ts)
  obtain c seen where s: "s = (c, seen)" by fastforce
  have "holds (snd (handle_set_text ab t c)) = (if accepts t then Some t else holds c)"
    using assms by (simp add: set_text_state clipboard_keeps_def)
  then show ?case using Cons [of "(snd (handle_set_text ab t c), t)"] by (simp add: s abs_clip_def)
qed simp

lemma turn_refines:
  assumes "clipboard_keeps ab holds accepts"
  shows "iteration accepts us (abs_clip holds s) = map_prod id (abs_clip holds) (backend_turn ab us s)"
proof -
  obtain c seen where u: "backend_updates ab us s = (c, seen)" by fastforce
  have it: "iteration accepts us (abs_clip holds s) = poll \<lparr>clip_text = holds c, last_seen = seen\<rparr>"
    unfolding iteration_def updates_refine [OF assms, symmetric] u by (simp add: abs_clip_def)
  obtain r c1 where g: "ab_get_text ab c = (r, c1)" by fastforce
  have h: "holds c1 = holds c" "case holds c of Some t \<Rightarrow> r = Inr t | None \<Rightarrow> (\<exists>e. r = Inl e)"
    using assms g unfolding clipboard_keeps_def by (metis fst_conv snd_conv)+
  show ?thesis
    unfolding it using h by (cases "holds c") (auto simp: poll_def backend_turn_def u handle_get_text_def g abs_clip_def)
qed

section \<open>Properties\<close>

text \<open>
  C36. The clipboard thread, with the error handling it has over the operating system's clipboard, is the abstract
  thread of the clipboard theorems: for any clipboard that keeps what it accepts, whichever calls fail, it
  reports the same changes in every turn of any run and keeps the same text and the same baseline, from a
  start in which the clipboard opens; when it does not open, there is no thread and the error is logged.
\<close>

theorem clipboard_thread_refines:
  assumes "clipboard_keeps ab holds accepts"
  shows "case backend_start ab of
      Inl e \<Rightarrow> \<exists>x. ab_new ab = Inl x \<and> e = ''[clipboard-sync] failed to open clipboard: '' @ ctx ''open system clipboard'' x
    | Inr s \<Rightarrow> abs_clip holds s = thread_start (holds (fst s)) \<and>
        iterations accepts uss (abs_clip holds s) = map_prod id (abs_clip holds) (backend_run ab uss s)"
proof -
  have "iterations accepts uss (abs_clip holds s) = map_prod id (abs_clip holds) (backend_run ab uss s)" for s
  proof (induction uss arbitrary: s)
    case (Cons us uss)
    then show ?case by (simp add: turn_refines [OF assms] map_prod_def case_prod_beta)
  qed simp
  then show ?thesis
    by (auto simp: backend_start_def handle_new_def thread_start_def abs_clip_def split: sum.split)
qed

text \<open>A clipboard that holds a picture at first and refuses one text.\<close>

definition wit_arboard :: "string option arboard" where
  "wit_arboard = \<lparr>ab_new = Inr None, ab_get_text = (\<lambda>c. (case c of None \<Rightarrow> Inl ''no text'' | Some t \<Rightarrow> Inr t, c)),
     ab_set_text = (\<lambda>t c. if t = ''no'' then (Inl ''occupied'', c) else (Inr (), Some t))\<rparr>"

theorem clipboard_thread_refines_witness:
  "fst (iterations (\<lambda>t. t \<noteq> ''no'') [[], [''a''], [''no'']] (thread_start None)) =
     fst (backend_run wit_arboard [[], [''a''], [''no'']] (None, [])) \<and>
   fst (backend_run wit_arboard [[], [''a''], [''no'']] (None, [])) = [None, None, Some ''a'']"
proof -
  have k: "clipboard_keeps wit_arboard (\<lambda>c. c) (\<lambda>t. t \<noteq> ''no'')"
    by (simp add: clipboard_keeps_def wit_arboard_def split: option.split)
  have s: "backend_start wit_arboard = Inr (None, [])" by (simp add: backend_start_def handle_new_def wit_arboard_def)
  have "fst (backend_run wit_arboard [[], [''a''], [''no'']] (None, [])) = [None, None, Some ''a'']"
    by (simp add: backend_turn_def handle_get_text_def handle_set_text_def wit_arboard_def)
  moreover have "iterations (\<lambda>t. t \<noteq> ''no'') [[], [''a''], [''no'']] (thread_start None) =
      map_prod id (abs_clip (\<lambda>c. c)) (backend_run wit_arboard [[], [''a''], [''no'']] (None, []))"
    using clipboard_thread_refines [OF k, of "[[], [''a''], [''no'']]"] unfolding s sum.case fst_conv by metis
  ultimately show ?thesis by (simp del: backend_run.simps iterations.simps)
qed

end
