(* ===== verification/Local_Store.thy ===== *)
theory Local_Store
  imports Embedded_Config
begin

text \<open>
  The client's files: \<^verbatim>\<open>visuara-client/src/local_storage.rs\<close>, \<^verbatim>\<open>local_settings.rs\<close>, \<^verbatim>\<open>saved_credentials.rs\<close>, the
  Unix half of \<^verbatim>\<open>autostart.rs\<close>, and the places of \<^verbatim>\<open>gui.rs\<close> and \<^verbatim>\<open>main.rs\<close> that read and write them.  A
  file is its bytes and its permission bits; the failures of the system calls and the JSON
  encoding are parameters.
\<close>

section \<open>Files\<close>

record stored_file =
  sf_data :: bytes
  sf_mode :: nat

record home =
  config_dir :: "string option"
  stored :: "string \<rightharpoonup> stored_file"
  default_mode :: nat  \<comment> \<open>permission bits of a new file under the user's umask\<close>

record store_io =
  mkdir_fault :: "string \<Rightarrow> string option"
  swrite_fault :: "string \<Rightarrow> (string \<times> bytes) option"  \<comment> \<open>error, and what the file then holds\<close>
  chmod_fault :: "string \<Rightarrow> string option"
  sread_fault :: "string \<Rightarrow> string option"
  remove_fault :: "string \<Rightarrow> string option"

text \<open>\<open>Path::parent\<close> of a path that does not end in a slash.\<close>

definition path_parent :: "string \<Rightarrow> string" where
  "path_parent p =
     (case split_once (CHR ''/'') (rev p) of
        None \<Rightarrow> []
      | Some (_, before) \<Rightarrow> if before = [] then ''/'' else rev before)"

text \<open>\<open>std::fs::write\<close>: a new file gets the default mode, an existing one keeps its own.\<close>

definition put_file :: "string \<Rightarrow> bytes \<Rightarrow> home \<Rightarrow> home" where
  "put_file p data h =
     h\<lparr>stored := (stored h)(p \<mapsto> \<lparr>sf_data = data,
        sf_mode = (case stored h p of Some f \<Rightarrow> sf_mode f | None \<Rightarrow> default_mode h)\<rparr>)\<rparr>"

section \<open>local\_storage.rs\<close>

definition restrict_permissions :: "store_io \<Rightarrow> string \<Rightarrow> home \<Rightarrow> (string, unit) result \<times> home" where
  "restrict_permissions io p h =
     (case chmod_fault io p of
        Some e \<Rightarrow> (Inl (''restrict permissions on '' @ p @ '': '' @ e), h)
      | None \<Rightarrow>
          (Inr (), h\<lparr>stored := (stored h)(p := map_option (\<lambda>f. f\<lparr>sf_mode := 384\<rparr>) (stored h p))\<rparr>))"

definition write_restricted :: "store_io \<Rightarrow> string \<Rightarrow> bytes \<Rightarrow> home \<Rightarrow> (string, unit) result \<times> home" where
  "write_restricted io p data h =
     (case mkdir_fault io (path_parent p) of
        Some e \<Rightarrow> (Inl (''create '' @ path_parent p @ '': '' @ e), h)
      | None \<Rightarrow>
          (case swrite_fault io p of
             Some (e, left) \<Rightarrow> (Inl (''write '' @ p @ '': '' @ e), put_file p left h)
           | None \<Rightarrow> restrict_permissions io p (put_file p data h)))"

section \<open>local\_settings.rs\<close>

record remembered_login =
  rl_email :: string
  rl_password :: string

record local_settings =
  ls_server_url :: "string option"
  ls_device_name :: "string option"
  ls_remembered_login :: "remembered_login option"

definition default_settings :: local_settings where
  "default_settings = \<lparr>ls_server_url = None, ls_device_name = None, ls_remembered_login = None\<rparr>"

text \<open>The JSON encoding of a type: \<open>to_vec_pretty\<close> and \<open>from_slice\<close>.\<close>

record 'a json =
  to_json :: "'a \<Rightarrow> (string, bytes) result"
  from_json :: "bytes \<Rightarrow> (string, 'a) result"

definition config_file :: "string \<Rightarrow> home \<Rightarrow> (string, string) result" where
  "config_file name h =
     (case config_dir h of
        None \<Rightarrow> Inl ''resolve config directory''
      | Some d \<Rightarrow> Inr (path_join (path_join d ''visuara'') name))"

definition settings_path :: "home \<Rightarrow> (string, string) result" where
  "settings_path h = config_file ''local-settings.json'' h"

definition settings_save ::
  "store_io \<Rightarrow> local_settings json \<Rightarrow> local_settings \<Rightarrow> home \<Rightarrow> (string, unit) result \<times> home" where
  "settings_save io js s h =
     (case settings_path h of
        Inl e \<Rightarrow> (Inl e, h)
      | Inr p \<Rightarrow>
          (case to_json js s of
             Inl e \<Rightarrow> (Inl (''serialize local settings: '' @ e), h)
           | Inr data \<Rightarrow> write_restricted io p data h))"

definition settings_load :: "store_io \<Rightarrow> local_settings json \<Rightarrow> home \<Rightarrow> (string, local_settings option) result" where
  "settings_load io js h =
     (case settings_path h of
        Inl e \<Rightarrow> Inl e
      | Inr p \<Rightarrow>
          (case stored h p of
             None \<Rightarrow> Inr None
           | Some f \<Rightarrow>
               (case sread_fault io p of
                  Some e \<Rightarrow> Inl (''read '' @ p @ '': '' @ e)
                | None \<Rightarrow>
                    (case from_json js (sf_data f) of
                       Inl e \<Rightarrow> Inl (''parse local settings: '' @ e)
                     | Inr s \<Rightarrow> Inr (Some s)))))"

definition settings_clear :: "store_io \<Rightarrow> home \<Rightarrow> (string, unit) result \<times> home" where
  "settings_clear io h =
     (case settings_path h of
        Inl e \<Rightarrow> (Inl e, h)
      | Inr p \<Rightarrow>
          if stored h p = None then (Inr (), h)
          else (case remove_fault io p of
                  Some e \<Rightarrow> (Inl (''remove '' @ p @ '': '' @ e), h)
                | None \<Rightarrow> (Inr (), h\<lparr>stored := (stored h)(p := None)\<rparr>)))"

definition clear_remembered_login ::
  "store_io \<Rightarrow> local_settings json \<Rightarrow> home \<Rightarrow> (string, unit) result \<times> home" where
  "clear_remembered_login io js h =
     (case settings_load io js h of
        Inl e \<Rightarrow> (Inl e, h)
      | Inr None \<Rightarrow> (Inr (), h)
      | Inr (Some s) \<Rightarrow>
          if ls_remembered_login s \<noteq> None
          then settings_save io js (s\<lparr>ls_remembered_login := None\<rparr>) h
          else (Inr (), h))"

section \<open>saved\_credentials.rs\<close>

record saved_credentials =
  sc_server_url :: string
  sc_email :: string
  sc_password :: string
  sc_device_name :: string

definition credentials_path :: "home \<Rightarrow> (string, string) result" where
  "credentials_path h = config_file ''unattended-credentials.json'' h"

definition credentials_save ::
  "store_io \<Rightarrow> saved_credentials json \<Rightarrow> saved_credentials \<Rightarrow> home \<Rightarrow> (string, unit) result \<times> home" where
  "credentials_save io js s h =
     (case credentials_path h of
        Inl e \<Rightarrow> (Inl e, h)
      | Inr p \<Rightarrow>
          (case to_json js s of
             Inl e \<Rightarrow> (Inl (''serialize credentials: '' @ e), h)
           | Inr data \<Rightarrow> write_restricted io p data h))"

definition credentials_load ::
  "store_io \<Rightarrow> saved_credentials json \<Rightarrow> home \<Rightarrow> (string, saved_credentials option) result" where
  "credentials_load io js h =
     (case credentials_path h of
        Inl e \<Rightarrow> Inl e
      | Inr p \<Rightarrow>
          (case stored h p of
             None \<Rightarrow> Inr None
           | Some f \<Rightarrow>
               (case sread_fault io p of
                  Some e \<Rightarrow> Inl (''read '' @ p @ '': '' @ e)
                | None \<Rightarrow>
                    (case from_json js (sf_data f) of
                       Inl e \<Rightarrow> Inl (''parse saved credentials: '' @ e)
                     | Inr s \<Rightarrow> Inr (Some s)))))"

definition credentials_clear :: "store_io \<Rightarrow> home \<Rightarrow> (string, unit) result \<times> home" where
  "credentials_clear io h =
     (case credentials_path h of
        Inl e \<Rightarrow> (Inl e, h)
      | Inr p \<Rightarrow>
          if stored h p = None then (Inr (), h)
          else (case remove_fault io p of
                  Some e \<Rightarrow> (Inl (''remove '' @ p @ '': '' @ e), h)
                | None \<Rightarrow> (Inr (), h\<lparr>stored := (stored h)(p := None)\<rparr>)))"

section \<open>The callers in gui.rs and main.rs\<close>

text \<open>\<open>load().ok().flatten().unwrap_or_default()\<close>\<close>

definition settings_or_default :: "store_io \<Rightarrow> local_settings json \<Rightarrow> home \<Rightarrow> local_settings" where
  "settings_or_default io js h =
     (case settings_load io js h of Inr (Some s) \<Rightarrow> s | _ \<Rightarrow> default_settings)"

definition autosave_local_settings ::
  "store_io \<Rightarrow> local_settings json \<Rightarrow> string \<Rightarrow> string \<Rightarrow> home \<Rightarrow> home" where
  "autosave_local_settings io js server_url device_name h =
     (let s = settings_or_default io js h in
      snd (settings_save io js (s\<lparr>ls_server_url := Some server_url, ls_device_name := Some device_name\<rparr>) h))"

record app_fields =
  af_server_url :: string
  af_email :: string
  af_password :: string
  af_device_name :: string
  af_remember_me :: bool

fun or_else :: "'a option \<Rightarrow> 'a option \<Rightarrow> 'a option" where
  "or_else (Some x) _ = Some x"
| "or_else None y = y"

definition unwrap_or_default :: "string \<Rightarrow> string option \<Rightarrow> string" where
  "unwrap_or_default d x = (case x of Some s \<Rightarrow> s | None \<Rightarrow> d)"

text \<open>\<open>VisuaraApp::new\<close>\<close>

definition app_new :: "store_io \<Rightarrow> local_settings json \<Rightarrow> embedded_config \<Rightarrow> home \<Rightarrow> app_fields" where
  "app_new io js embedded h =
     (let local = settings_or_default io js h; remembered = ls_remembered_login local in
      \<lparr>af_server_url = unwrap_or_default ''ws://127.0.0.1:8080/ws''
         (or_else (ls_server_url local) (cfg_server_url embedded)),
       af_email = unwrap_or_default [] (map_option rl_email remembered),
       af_password = unwrap_or_default [] (map_option rl_password remembered),
       af_device_name = unwrap_or_default ''this-machine''
         (or_else (ls_device_name local) (cfg_device_name embedded)),
       af_remember_me = (remembered \<noteq> None)\<rparr>)"

text \<open>The address and the name of \<open>Command::Host\<close>.\<close>

definition host_arguments :: "string option \<Rightarrow> string option \<Rightarrow> embedded_config \<Rightarrow> string \<times> string" where
  "host_arguments server_url device_name embedded =
     (unwrap_or_default ''ws://127.0.0.1:8080/ws'' (or_else server_url (cfg_server_url embedded)),
      unwrap_or_default ''this-machine'' (or_else device_name (cfg_device_name embedded)))"

section \<open>autostart.rs on Unix\<close>

definition unit_path :: "home \<Rightarrow> (string, string) result" where
  "unit_path h =
     (case config_dir h of
        None \<Rightarrow> Inl ''resolve config directory''
      | Some d \<Rightarrow> Inr (path_join (path_join d ''systemd/user'') ''visuara-host.service''))"

definition newline :: string where
  "newline = [CHR 0x0A]"

definition unit_text :: "string \<Rightarrow> string" where
  "unit_text exe =
     ''[Unit]'' @ newline @ ''Description=Visuara unattended host'' @ newline @ newline @
     ''[Service]'' @ newline @ ''ExecStart=\"'' @ exe @ ''\" host-autostart'' @ newline @
     ''Restart=on-failure'' @ newline @ newline @
     ''[Install]'' @ newline @ ''WantedBy=default.target'' @ newline"

definition bytes_of :: "string \<Rightarrow> bytes" where
  "bytes_of s = map (\<lambda>c. of_nat (of_char c)) s"

text \<open>What \<open>systemctl\<close> answers: none when it could not be started, else whether it succeeded.\<close>

definition autostart_enable ::
  "store_io \<Rightarrow> (string, string) result \<Rightarrow> bool option \<Rightarrow> home \<Rightarrow> (string, unit) result \<times> home" where
  "autostart_enable io current_exe systemctl h =
     (case current_exe of
        Inl e \<Rightarrow> (Inl e, h)
      | Inr exe \<Rightarrow>
          (case unit_path h of
             Inl e \<Rightarrow> (Inl e, h)
           | Inr p \<Rightarrow>
               (case mkdir_fault io (path_parent p) of
                  Some e \<Rightarrow> (Inl e, h)
                | None \<Rightarrow>
                    (case swrite_fault io p of
                       Some (e, left) \<Rightarrow> (Inl e, put_file p left h)
                     | None \<Rightarrow>
                         (if systemctl = Some False then Inl ''systemctl --user enable failed'' else Inr (),
                          put_file p (bytes_of (unit_text exe)) h)))))"

definition autostart_disable :: "store_io \<Rightarrow> home \<Rightarrow> (string, unit) result \<times> home" where
  "autostart_disable io h =
     (case unit_path h of
        Inl e \<Rightarrow> (Inl e, h)
      | Inr p \<Rightarrow>
          if stored h p = None then (Inr (), h)
          else (case remove_fault io p of
                  Some e \<Rightarrow> (Inl e, h)
                | None \<Rightarrow> (Inr (), h\<lparr>stored := (stored h)(p := None)\<rparr>)))"

definition autostart_is_enabled :: "home \<Rightarrow> bool" where
  "autostart_is_enabled h = (case unit_path h of Inl _ \<Rightarrow> False | Inr p \<Rightarrow> stored h p \<noteq> None)"

text \<open>The auto-start button of the host panel: what it does depends on whether auto-start is on.\<close>

definition toggle_autostart ::
  "store_io \<Rightarrow> saved_credentials json \<Rightarrow> (string, string) result \<Rightarrow> bool option \<Rightarrow> saved_credentials \<Rightarrow>
   home \<Rightarrow> (string, unit) result \<times> home" where
  "toggle_autostart io js exe systemctl creds h =
     (if autostart_is_enabled h
      then (case autostart_disable io h of
              (Inl e, h1) \<Rightarrow> (Inl e, h1)
            | (Inr _, h1) \<Rightarrow> credentials_clear io h1)
      else (case credentials_save io js creds h of
              (Inl e, h1) \<Rightarrow> (Inl e, h1)
            | (Inr _, h1) \<Rightarrow> autostart_enable io exe systemctl h1))"


section \<open>The contract of a JSON file\<close>

text \<open>
  What both stores promise: what was saved is loaded, under owner-only permissions; after clearing
  nothing is; and no other file changes.  \<open>good\<close> is what the promise needs of the outside.
\<close>

locale json_file =
  fixes save :: "'a \<Rightarrow> home \<Rightarrow> (string, unit) result \<times> home"
    and load :: "home \<Rightarrow> (string, 'a option) result"
    and clear :: "home \<Rightarrow> (string, unit) result \<times> home"
    and path :: "home \<Rightarrow> (string, string) result"
    and good :: bool
  assumes save_load: "good \<Longrightarrow> save v h = (Inr (), h') \<Longrightarrow> load h' = Inr (Some v)"
    and save_private: "save v h = (Inr (), h') \<Longrightarrow>
      \<exists>p f. path h = Inr p \<and> stored h' p = Some f \<and> sf_mode f = 384"
    and save_local: "path h = Inr p \<Longrightarrow> q \<noteq> p \<Longrightarrow> stored (snd (save v h)) q = stored h q"
    and clear_load: "clear h = (Inr (), h') \<Longrightarrow> load h' = Inr None"
    and clear_local: "path h = Inr p \<Longrightarrow> q \<noteq> p \<Longrightarrow> stored (snd (clear h)) q = stored h q"
begin

lemma last_save_wins:
  "good \<Longrightarrow> save v h = (Inr (), h1) \<Longrightarrow> save w h1 = (Inr (), h2) \<Longrightarrow> load h2 = Inr (Some w)"
  by (rule save_load)

lemma save_then_clear:
  "save v h = (Inr (), h1) \<Longrightarrow> clear h1 = (Inr (), h2) \<Longrightarrow> load h2 = Inr None"
  by (rule clear_load)

end

definition json_ok :: "'a json \<Rightarrow> bool" where
  "json_ok js \<longleftrightarrow> (\<forall>v data. to_json js v = Inr data \<longrightarrow> from_json js data = Inr v)"

definition readable :: "store_io \<Rightarrow> bool" where
  "readable io \<longleftrightarrow> (\<forall>p. sread_fault io p = None)"

lemma write_restricted_Inr:
  "write_restricted io p data h = (Inr (), h') \<Longrightarrow>
   stored h' = (stored h)(p \<mapsto> \<lparr>sf_data = data, sf_mode = 384\<rparr>) \<and> config_dir h' = config_dir h"
  by (auto simp: write_restricted_def restrict_permissions_def put_file_def split: option.splits prod.splits)

lemma write_restricted_other:
  "q \<noteq> p \<Longrightarrow> stored (snd (write_restricted io p data h)) q = stored h q"
  by (simp add: write_restricted_def restrict_permissions_def put_file_def split: option.split prod.split)

lemma config_file_cong: "config_dir h' = config_dir h \<Longrightarrow> config_file n h' = config_file n h"
  by (simp add: config_file_def)

lemma settings_save_Inr:
  assumes "settings_save io js s h = (Inr (), h')"
  shows "\<exists>p data. settings_path h = Inr p \<and> settings_path h' = Inr p \<and> to_json js s = Inr data \<and>
     stored h' = (stored h)(p \<mapsto> \<lparr>sf_data = data, sf_mode = 384\<rparr>)"
proof -
  from assms obtain p data where pd: "settings_path h = Inr p" "to_json js s = Inr data"
    "write_restricted io p data h = (Inr (), h')"
    by (auto simp: settings_save_def split: sum.splits)
  then show ?thesis
    using write_restricted_Inr [OF pd(3)] by (auto simp: settings_path_def intro: config_file_cong [THEN trans])
qed

lemma credentials_save_Inr:
  assumes "credentials_save io js s h = (Inr (), h')"
  shows "\<exists>p data. credentials_path h = Inr p \<and> credentials_path h' = Inr p \<and> to_json js s = Inr data \<and>
     stored h' = (stored h)(p \<mapsto> \<lparr>sf_data = data, sf_mode = 384\<rparr>)"
proof -
  from assms obtain p data where pd: "credentials_path h = Inr p" "to_json js s = Inr data"
    "write_restricted io p data h = (Inr (), h')"
    by (auto simp: credentials_save_def split: sum.splits)
  then show ?thesis
    using write_restricted_Inr [OF pd(3)] by (auto simp: credentials_path_def intro: config_file_cong [THEN trans])
qed

interpretation settings_file: json_file "settings_save io js" "settings_load io js" "settings_clear io" settings_path
  "json_ok js \<and> readable io" for io js
proof
  fix v h h'
  assume g: "json_ok js \<and> readable io" and s: "settings_save io js v h = (Inr (), h')"
  from settings_save_Inr [OF s] g show "settings_load io js h' = Inr (Some v)"
    by (auto simp: settings_load_def json_ok_def readable_def)
next
  fix v h h'
  assume "settings_save io js v h = (Inr (), h')"
  from settings_save_Inr [OF this] show "\<exists>p f. settings_path h = Inr p \<and> stored h' p = Some f \<and> sf_mode f = 384"
    by auto
next
  fix h p q v
  assume "settings_path h = Inr p" "q \<noteq> p"
  then show "stored (snd (settings_save io js v h)) q = stored h q"
    by (simp add: settings_save_def write_restricted_other split: sum.split)
next
  fix h h'
  assume "settings_clear io h = (Inr (), h')"
  then show "settings_load io js h' = Inr None"
    by (auto simp: settings_clear_def settings_load_def settings_path_def config_file_def
        split: sum.splits option.splits if_splits)
next
  fix h p q
  assume "settings_path h = Inr p" "q \<noteq> p"
  then show "stored (snd (settings_clear io h)) q = stored h q"
    by (simp add: settings_clear_def split: option.split)
qed

interpretation credentials_file: json_file "credentials_save io js" "credentials_load io js" "credentials_clear io"
  credentials_path "json_ok js \<and> readable io" for io js
proof
  fix v h h'
  assume g: "json_ok js \<and> readable io" and s: "credentials_save io js v h = (Inr (), h')"
  from credentials_save_Inr [OF s] g show "credentials_load io js h' = Inr (Some v)"
    by (auto simp: credentials_load_def json_ok_def readable_def)
next
  fix v h h'
  assume "credentials_save io js v h = (Inr (), h')"
  from credentials_save_Inr [OF this] show "\<exists>p f. credentials_path h = Inr p \<and> stored h' p = Some f \<and> sf_mode f = 384"
    by auto
next
  fix h p q v
  assume "credentials_path h = Inr p" "q \<noteq> p"
  then show "stored (snd (credentials_save io js v h)) q = stored h q"
    by (simp add: credentials_save_def write_restricted_other split: sum.split)
next
  fix h h'
  assume "credentials_clear io h = (Inr (), h')"
  then show "credentials_load io js h' = Inr None"
    by (auto simp: credentials_clear_def credentials_load_def credentials_path_def config_file_def
        split: sum.splits option.splits if_splits)
next
  fix h p q
  assume "credentials_path h = Inr p" "q \<noteq> p"
  then show "stored (snd (credentials_clear io h)) q = stored h q"
    by (simp add: credentials_clear_def split: option.split)
qed

section \<open>Properties\<close>

text \<open>
  Settings survive a restart and a login can be forgotten: after a save that succeeds, the next
  start of the app shows the saved address, name and login, from a file only its owner can read; and
  after \<open>clear_remembered_login\<close> it shows the same address and name and no login.
\<close>

theorem settings_survive_restart:
  assumes "json_ok js" and "readable io" and "settings_save io js s h = (Inr (), h1)"
    and "ls_server_url s = Some url" and "ls_device_name s = Some name"
    and "ls_remembered_login s = Some login" and "clear_remembered_login io js h1 = (Inr (), h2)"
  shows "app_new io js emb h1 = \<lparr>af_server_url = url, af_email = rl_email login, af_password = rl_password login,
       af_device_name = name, af_remember_me = True\<rparr> \<and>
     app_new io js emb h2 = \<lparr>af_server_url = url, af_email = [], af_password = [],
       af_device_name = name, af_remember_me = False\<rparr> \<and>
     (\<exists>p f. settings_path h = Inr p \<and> stored h1 p = Some f \<and> sf_mode f = 384)"
proof -
  have l1: "settings_load io js h1 = Inr (Some s)"
    using settings_file.save_load assms(1,2,3) by blast
  have "settings_save io js (s\<lparr>ls_remembered_login := None\<rparr>) h1 = (Inr (), h2)"
    using assms(6,7) l1 by (simp add: clear_remembered_login_def)
  then have l2: "settings_load io js h2 = Inr (Some (s\<lparr>ls_remembered_login := None\<rparr>))"
    using settings_file.save_load assms(1,2) by blast
  show ?thesis
    using l1 l2 assms(4-6) settings_file.save_private [OF assms(3)]
    by (simp add: app_new_def settings_or_default_def Let_def unwrap_or_default_def)
qed

definition wit_home :: home where
  "wit_home = \<lparr>config_dir = Some ''/home/u/.config'', stored = Map.empty, default_mode = 420\<rparr>"

definition wit_store_io :: store_io where
  "wit_store_io = \<lparr>mkdir_fault = (\<lambda>_. None), swrite_fault = (\<lambda>_. None), chmod_fault = (\<lambda>_. None),
     sread_fault = (\<lambda>_. None), remove_fault = (\<lambda>_. None)\<rparr>"

definition wit_settings :: local_settings where
  "wit_settings = \<lparr>ls_server_url = Some ''wss://h/ws'', ls_device_name = Some ''pc'',
     ls_remembered_login = Some \<lparr>rl_email = ''a@b'', rl_password = ''pw''\<rparr>\<rparr>"

definition wit_json :: "local_settings json" where
  "wit_json = \<lparr>to_json = (\<lambda>s. if s = wit_settings then Inr [1]
        else if s = wit_settings\<lparr>ls_remembered_login := None\<rparr> then Inr [2] else Inl ''unsupported''),
     from_json = (\<lambda>b. if b = [1] then Inr wit_settings
        else if b = [2] then Inr (wit_settings\<lparr>ls_remembered_login := None\<rparr>) else Inl ''EOF'')\<rparr>"

lemma wit_json_ok: "json_ok wit_json" and wit_readable: "readable wit_store_io"
  by (auto simp: json_ok_def wit_json_def readable_def wit_store_io_def split: if_splits)

lemma wit_save:
  "config_dir h = Some d \<Longrightarrow> to_json js s = Inr data \<Longrightarrow>
   \<exists>h'. settings_save wit_store_io js s h = (Inr (), h') \<and> config_dir h' = config_dir h"
  by (simp add: settings_save_def settings_path_def config_file_def write_restricted_def wit_store_io_def
      restrict_permissions_def put_file_def)

theorem settings_survive_restart_witness:
  "\<exists>h1 h2. settings_save wit_store_io wit_json wit_settings wit_home = (Inr (), h1) \<and>
     clear_remembered_login wit_store_io wit_json h1 = (Inr (), h2) \<and>
     af_email (app_new wit_store_io wit_json default_config h1) = ''a@b'' \<and>
     af_email (app_new wit_store_io wit_json default_config h2) = []"
proof -
  obtain h1 where 1: "settings_save wit_store_io wit_json wit_settings wit_home = (Inr (), h1)"
    and c1: "config_dir h1 = config_dir wit_home"
    using wit_save [of wit_home "''/home/u/.config''" wit_json wit_settings "[1]"] by (auto simp: wit_home_def wit_json_def)
  have l1: "settings_load wit_store_io wit_json h1 = Inr (Some wit_settings)"
    using settings_file.save_load wit_json_ok wit_readable 1 by blast
  have j: "to_json wit_json (wit_settings\<lparr>ls_remembered_login := None\<rparr>) = Inr [2]"
    by (simp add: wit_json_def) (simp add: wit_settings_def)
  obtain h2 where "settings_save wit_store_io wit_json (wit_settings\<lparr>ls_remembered_login := None\<rparr>) h1 = (Inr (), h2)"
    using wit_save [OF _ j, of h1 "''/home/u/.config''"] c1 by (auto simp: wit_home_def)
  then have 2: "clear_remembered_login wit_store_io wit_json h1 = (Inr (), h2)"
    using l1 by (simp add: clear_remembered_login_def) (simp add: wit_settings_def)
  from settings_survive_restart [OF wit_json_ok wit_readable 1 _ _ _ 2, of "''wss://h/ws''" "''pc''"
      "\<lparr>rl_email = ''a@b'', rl_password = ''pw''\<rparr>" default_config]
  show ?thesis using 1 2 by (simp add: wit_settings_def)
qed

text \<open>
  \<open>autosave_local_settings\<close> keeps a remembered login when the settings can be loaded; but when they
  exist and reading them fails, it replaces them with a file that has no login.
\<close>

theorem autosave_keeps_login_unless_unreadable:
  assumes "json_ok js" and "settings_path h = Inr p" and "stored h p = Some f"
    and "from_json js (sf_data f) = Inr s"
    and "to_json js ((settings_or_default io js h)\<lparr>ls_server_url := Some url, ls_device_name := Some name\<rparr>) = Inr data"
    and "mkdir_fault io (path_parent p) = None" and "swrite_fault io p = None" and "chmod_fault io p = None"
    and "autosave_local_settings io js url name h = h'"
  shows "\<exists>f' s'. stored h' p = Some f' \<and> from_json js (sf_data f') = Inr s' \<and>
     ls_server_url s' = Some url \<and> ls_device_name s' = Some name \<and>
     ls_remembered_login s' = (if sread_fault io p = None then ls_remembered_login s else None)"
proof -
  let ?s = "(settings_or_default io js h)\<lparr>ls_server_url := Some url, ls_device_name := Some name\<rparr>"
  note d = assms(5)
  have "stored h' p = Some \<lparr>sf_data = data, sf_mode = 384\<rparr>"
    using d assms(2,6-8)
    by (simp add: assms(9) [symmetric] autosave_local_settings_def settings_save_def write_restricted_def
        restrict_permissions_def put_file_def Let_def)
  moreover have "from_json js data = Inr ?s" using d assms(1) by (simp add: json_ok_def)
  moreover have "ls_remembered_login ?s = (if sread_fault io p = None then ls_remembered_login s else None)"
    using assms(2-4) by (auto simp: settings_or_default_def settings_load_def default_settings_def split: option.splits)
  ultimately show ?thesis by simp
qed


theorem autosave_keeps_login_unless_unreadable_witness:
  "\<exists>f' s'. stored (autosave_local_settings (wit_store_io\<lparr>sread_fault := (\<lambda>_. Some ''I/O error'')\<rparr>) wit_json
        ''wss://h/ws'' ''pc'' (wit_home\<lparr>stored :=
           [''/home/u/.config/visuara/local-settings.json'' \<mapsto> \<lparr>sf_data = [1], sf_mode = 384\<rparr>]\<rparr>))
        ''/home/u/.config/visuara/local-settings.json'' = Some f' \<and>
     from_json wit_json (sf_data f') = Inr s' \<and> ls_remembered_login s' = None"
proof -
  let ?io = "wit_store_io\<lparr>sread_fault := (\<lambda>_. Some ''I/O error'')\<rparr>"
  let ?p = "''/home/u/.config/visuara/local-settings.json''"
  let ?h = "wit_home\<lparr>stored := [?p \<mapsto> \<lparr>sf_data = [1], sf_mode = 384\<rparr>]\<rparr>"
  have p: "settings_path ?h = Inr ?p" by (simp add: settings_path_def config_file_def wit_home_def path_join_def)
  have f: "stored ?h ?p = Some \<lparr>sf_data = [1], sf_mode = 384\<rparr>" by simp
  have s: "from_json wit_json (sf_data \<lparr>sf_data = [1], sf_mode = 384\<rparr>) = Inr wit_settings" by (simp add: wit_json_def)
  have "(settings_or_default ?io wit_json ?h)\<lparr>ls_server_url := Some ''wss://h/ws'', ls_device_name := Some ''pc''\<rparr> =
      wit_settings\<lparr>ls_remembered_login := None\<rparr>"
    using p by (simp add: settings_or_default_def settings_load_def default_settings_def wit_settings_def wit_store_io_def)
  then have d: "to_json wit_json ((settings_or_default ?io wit_json ?h)\<lparr>ls_server_url := Some ''wss://h/ws'',
      ls_device_name := Some ''pc''\<rparr>) = Inr [2]" by (simp add: wit_json_def) (simp add: wit_settings_def)
  from autosave_keeps_login_unless_unreadable [OF wit_json_ok p f s d _ _ _ refl]
  show ?thesis by (auto simp: wit_store_io_def)
qed

end
