(* ===== verification/File_Transfer.thy ===== *)
theory File_Transfer
  imports Control_Messages
begin

text \<open>
  \<^verbatim>\<open>visuara-client/src/file_transfer.rs\<close>: sending a file in chunks and receiving it on the host.  The disk
  maps paths to inodes and inodes to contents, so that an open file, a removed file and a truncated
  file are told apart; an open file is its inode and its write position.  Faults of the file system
  are arguments of the step that meets them.
\<close>

section \<open>Paths\<close>

text \<open>\<open>Path::file_name\<close>: the last component, if it is a normal one.\<close>

definition path_file_name :: "string \<Rightarrow> string option" where
  "path_file_name s =
     (let comps = filter (\<lambda>c. c \<noteq> [] \<and> c \<noteq> ''.'') (split_on (CHR ''/'') s)
      in if comps = [] \<or> last comps = ''..'' then None else Some (last comps))"

text \<open>A file name split at its last dot, unless that dot comes first.\<close>

definition rsplit_dot :: "string \<Rightarrow> string \<times> string option" where
  "rsplit_dot f =
     (case split_once (CHR ''.'') (rev f) of
        None \<Rightarrow> (f, None)
      | Some (after, before) \<Rightarrow> if before = [] then (f, None) else (rev before, Some (rev after)))"

definition file_stem :: "string \<Rightarrow> string option" where
  "file_stem s = map_option (\<lambda>f. fst (rsplit_dot f)) (path_file_name s)"

definition extension :: "string \<Rightarrow> string option" where
  "extension s = Option.bind (path_file_name s) (\<lambda>f. snd (rsplit_dot f))"

section \<open>The disk\<close>

record open_file =
  of_path :: string
  of_inode :: nat
  of_pos :: nat

record receiver =
  dest_dir :: string
  in_progress :: "string \<rightharpoonup> open_file"
  entries :: "string \<rightharpoonup> nat"
  is_dir :: "string \<Rightarrow> bool"
  contents :: "nat \<Rightarrow> bytes"
  next_inode :: nat

definition exists_path :: "receiver \<Rightarrow> string \<Rightarrow> bool" where
  "exists_path rx p \<longleftrightarrow> entries rx p \<noteq> None \<or> is_dir rx p"

text \<open>\<open>File::create\<close>: an existing file is truncated, otherwise a new one is made.\<close>

definition create_file :: "string option \<Rightarrow> string \<Rightarrow> receiver \<Rightarrow> (string, open_file) result \<times> receiver" where
  "create_file fault p rx =
     (case fault of
        Some e \<Rightarrow> (Inl e, rx)
      | None \<Rightarrow>
          if is_dir rx p then (Inl ''Is a directory (os error 21)'', rx)
          else (case entries rx p of
                  Some i \<Rightarrow> (Inr \<lparr>of_path = p, of_inode = i, of_pos = 0\<rparr>,
                             rx\<lparr>contents := (contents rx)(i := [])\<rparr>)
                | None \<Rightarrow>
                    let i = next_inode rx in
                    (Inr \<lparr>of_path = p, of_inode = i, of_pos = 0\<rparr>,
                     rx\<lparr>entries := (entries rx)(p \<mapsto> i), contents := (contents rx)(i := []),
                        next_inode := Suc i\<rparr>)))"

text \<open>Writing at a position of a file; a gap reads as zeros.\<close>

definition write_at :: "nat \<Rightarrow> bytes \<Rightarrow> bytes \<Rightarrow> bytes" where
  "write_at pos data c = take pos (c @ replicate (pos - length c) 0) @ data @ drop (pos + length data) c"

section \<open>The sender\<close>

definition CHUNK_SIZE :: nat where
  "CHUNK_SIZE = 16 * 1024"

definition send_file :: "string \<Rightarrow> string \<Rightarrow> bytes \<Rightarrow> file_transfer_message list" where
  "send_file transfer_id path data =
     Offer transfer_id (case path_file_name path of Some n \<Rightarrow> n | None \<Rightarrow> ''file'') (of_nat (length data)) #
     map (\<lambda>(i, chunk). Chunk transfer_id (of_nat i) chunk) (enumerate 0 (chunks CHUNK_SIZE data)) @
     [Complete transfer_id]"

section \<open>The receiver\<close>

definition numbered_name :: "string \<Rightarrow> string option \<Rightarrow> nat \<Rightarrow> string" where
  "numbered_name stem ext n =
     (case ext of
        Some x \<Rightarrow> stem @ '' ('' @ dec n @ '').'' @ x
      | None \<Rightarrow> stem @ '' ('' @ dec n @ '')'')"

definition numbered_path :: "receiver \<Rightarrow> string \<Rightarrow> nat \<Rightarrow> string" where
  "numbered_path rx file_name n =
     path_join (dest_dir rx)
       (numbered_name (case file_stem file_name of Some s \<Rightarrow> s | None \<Rightarrow> []) (extension file_name) n)"

definition unique_destination_path :: "receiver \<Rightarrow> string \<Rightarrow> string" where
  "unique_destination_path rx file_name =
     (let candidate = path_join (dest_dir rx) file_name in
      if \<not> exists_path rx candidate then candidate
      else case find (\<lambda>n. \<not> exists_path rx (numbered_path rx file_name n)) [1 ..< 10000] of
             Some n \<Rightarrow> numbered_path rx file_name n
           | None \<Rightarrow> path_join (dest_dir rx) file_name)"

text \<open>
  \<open>FileReceiver::handle\<close>.  The fault is the error of the one file system call a message makes and,
  for a write, how many bytes went out before it.
\<close>

fun handle_file ::
  "(string \<times> nat) option \<Rightarrow> file_transfer_message \<Rightarrow> receiver \<Rightarrow> (string, unit) result \<times> receiver" where
  "handle_file fault (Offer tid file_name size_bytes) rx =
     (let p = unique_destination_path rx file_name in
      case create_file (map_option fst fault) p rx of
        (Inl e, rx1) \<Rightarrow> (Inl (''create '' @ p @ '': '' @ e), rx1)
      | (Inr f, rx1) \<Rightarrow> (Inr (), rx1\<lparr>in_progress := (in_progress rx1)(tid \<mapsto> f)\<rparr>))"
| "handle_file fault (Chunk tid seq_no data) rx =
     (case in_progress rx tid of
        None \<Rightarrow> (Inr (), rx)
      | Some f \<Rightarrow>
          let written = (case fault of None \<Rightarrow> data | Some (_, n) \<Rightarrow> take n data);
              rx1 = rx\<lparr>contents := (contents rx)(of_inode f := write_at (of_pos f) written (contents rx (of_inode f))),
                       in_progress := (in_progress rx)(tid \<mapsto> f\<lparr>of_pos := of_pos f + length written\<rparr>)\<rparr>
          in (case fault of None \<Rightarrow> Inr () | Some (e, _) \<Rightarrow> Inl (''write file chunk: '' @ e), rx1))"
| "handle_file fault (Complete tid) rx = (Inr (), rx\<lparr>in_progress := (in_progress rx)(tid := None)\<rparr>)"
| "handle_file fault (Cancel tid) rx =
     (Inr (), case in_progress rx tid of
        None \<Rightarrow> rx
      | Some f \<Rightarrow>
          rx\<lparr>in_progress := (in_progress rx)(tid := None),
             entries := (if fault = None then (entries rx)(of_path f := None) else entries rx)\<rparr>)"
| "handle_file fault (Accept tid) rx = (Inr (), rx)"
| "handle_file fault (Reject tid) rx = (Inr (), rx)"

text \<open>The host handles the messages of the data channel in order and goes on after an error.\<close>

fun receive_all :: "file_transfer_message list \<Rightarrow> receiver \<Rightarrow> receiver" where
  "receive_all [] rx = rx"
| "receive_all (m # ms) rx = receive_all ms (snd (handle_file None m rx))"


text \<open>A receiver on a disk: its directory is created, with everything above it, and no transfer is in progress.\<close>

definition default_destination :: "string option \<Rightarrow> string" where
  "default_destination download_dir = (case download_dir of Some d \<Rightarrow> d | None \<Rightarrow> ''visuara-received'')"

definition file_receiver_new :: "(string \<Rightarrow> string option) \<Rightarrow> string \<Rightarrow> receiver \<Rightarrow> (string, receiver) result" where
  "file_receiver_new mkdir dest disk =
     (case mkdir dest of
        Some e \<Rightarrow> Inl (''create destination directory '' @ dest @ '': '' @ e)
      | None \<Rightarrow> Inr (disk\<lparr>dest_dir := dest, in_progress := Map.empty, is_dir := (is_dir disk)(dest := True)\<rparr>))"

section \<open>Free names\<close>

lemma unique_path_cases:
  "unique_destination_path rx name = path_join (dest_dir rx) name \<or>
   (\<exists>n. unique_destination_path rx name = numbered_path rx name n)"
  by (auto simp: unique_destination_path_def Let_def split: option.split)

lemma unique_path_exists_iff:
  "exists_path rx (unique_destination_path rx name) \<longleftrightarrow>
     exists_path rx (path_join (dest_dir rx) name) \<and>
     (\<forall>n \<in> {1 ..< 10000}. exists_path rx (numbered_path rx name n))"
proof -
  define ns :: "nat list" where "ns = [1 ..< 10000]"
  have ns: "{1 ..< 10000} = set ns" by (simp add: ns_def)
  have "exists_path rx (unique_destination_path rx name) \<longleftrightarrow>
     exists_path rx (path_join (dest_dir rx) name) \<and> (\<forall>n \<in> set ns. exists_path rx (numbered_path rx name n))"
  proof (cases "find (\<lambda>n. \<not> exists_path rx (numbered_path rx name n)) ns")
    case None
    then have "\<forall>n \<in> set ns. exists_path rx (numbered_path rx name n)" by (auto simp: find_None_iff)
    then show ?thesis unfolding unique_destination_path_def ns_def [symmetric] by (simp add: None Let_def)
  next
    case (Some n)
    then have "n \<in> set ns" "\<not> exists_path rx (numbered_path rx name n)" by (auto simp: find_Some_iff)
    then show ?thesis using Some unfolding unique_destination_path_def ns_def [symmetric] by (auto simp: Let_def)
  qed
  then show ?thesis unfolding ns .
qed

section \<open>The receiver's invariant\<close>

text \<open>
  Every transfer in progress writes at the end of its own file, which nothing else names or writes.
\<close>

definition recv_inv :: "receiver \<Rightarrow> bool" where
  "recv_inv rx \<longleftrightarrow>
     (\<forall>p i. entries rx p = Some i \<longrightarrow> i < next_inode rx) \<and>
     (\<forall>tid f. in_progress rx tid = Some f \<longrightarrow>
        of_inode f < next_inode rx \<and> entries rx (of_path f) = Some (of_inode f) \<and>
        of_pos f = length (contents rx (of_inode f)) \<and>
        (\<forall>q. entries rx q = Some (of_inode f) \<longrightarrow> q = of_path f) \<and>
        (\<forall>tid' g. tid' \<noteq> tid \<and> in_progress rx tid' = Some g \<longrightarrow> of_inode g \<noteq> of_inode f))"

lemma file_receiver_new_inv:
  "file_receiver_new mkdir dest disk = Inr rx \<Longrightarrow> \<forall>p i. entries disk p = Some i \<longrightarrow> i < next_inode disk \<Longrightarrow> recv_inv rx"
  by (auto simp: file_receiver_new_def recv_inv_def split: option.splits)

lemma inodes_distinct:
  "recv_inv rx \<Longrightarrow> in_progress rx t = Some f \<Longrightarrow> in_progress rx t' = Some g \<Longrightarrow> t' \<noteq> t \<Longrightarrow> of_inode g \<noteq> of_inode f"
  unfolding recv_inv_def by blast

lemma inode_less: "recv_inv rx \<Longrightarrow> in_progress rx t = Some f \<Longrightarrow> of_inode f < next_inode rx"
  unfolding recv_inv_def by blast

text \<open>A file that no transfer is writing.\<close>

definition settled :: "receiver \<Rightarrow> string \<Rightarrow> nat \<Rightarrow> bool" where
  "settled rx p i \<longleftrightarrow> entries rx p = Some i \<and>
     (\<forall>tid f. in_progress rx tid = Some f \<longrightarrow> of_inode f \<noteq> i)"

definition offer_fresh :: "file_transfer_message \<Rightarrow> receiver \<Rightarrow> bool" where
  "offer_fresh m rx \<longleftrightarrow>
     (case m of Offer _ name _ \<Rightarrow> \<not> exists_path rx (unique_destination_path rx name) | _ \<Rightarrow> True)"

fun offers_fresh :: "file_transfer_message list \<Rightarrow> receiver \<Rightarrow> bool" where
  "offers_fresh [] rx = True"
| "offers_fresh (m # ms) rx = (offer_fresh m rx \<and> offers_fresh ms (snd (handle_file None m rx)))"

lemma write_at_end: "write_at (length c) data c = c @ data"
  by (simp add: write_at_def)

lemma offer_result:
  assumes "offer_fresh (Offer tid name n) rx"
  shows "snd (handle_file None (Offer tid name n) rx) =
     rx\<lparr>entries := (entries rx)(unique_destination_path rx name \<mapsto> next_inode rx),
        contents := (contents rx)(next_inode rx := []), next_inode := Suc (next_inode rx),
        in_progress := (in_progress rx)(tid \<mapsto> \<lparr>of_path = unique_destination_path rx name,
           of_inode = next_inode rx, of_pos = 0\<rparr>)\<rparr>"
  using assms by (simp add: offer_fresh_def exists_path_def create_file_def Let_def)

lemma handle_inv:
  assumes "recv_inv rx" and "offer_fresh m rx"
  shows "recv_inv (snd (handle_file None m rx))"
proof (cases m)
  case (Offer tid name n)
  let ?p = "unique_destination_path rx name"
  have np: "entries rx ?p = None" using assms(2) Offer by (simp add: offer_fresh_def exists_path_def)
  have lt: "entries rx q = Some i \<Longrightarrow> i < next_inode rx" for q i using assms(1) by (simp add: recv_inv_def)
  have old: "of_inode g < next_inode rx \<and> of_path g \<noteq> ?p" if "in_progress rx t = Some g" for t g
    using that np assms(1) unfolding recv_inv_def by (metis option.distinct(1))
  show ?thesis
    unfolding Offer offer_result [OF assms(2) [unfolded Offer]] recv_inv_def
  proof (intro conjI allI impI, goal_cases)
    case (1 q i)
    then show ?case using lt by (auto simp: less_Suc_eq split: if_splits)
  next
    case (2 t g)
    then show ?case using old by (auto simp: less_Suc_eq split: if_splits)
  next
    case (3 t g)
    then show ?case using assms(1) old by (auto simp: recv_inv_def split: if_splits)
  next
    case (4 t g)
    then show ?case using assms(1) old by (fastforce simp: recv_inv_def split: if_splits)
  next
    case (5 t g q)
    show ?case
    proof (cases "t = tid")
      case True
      then have g: "g = \<lparr>of_path = ?p, of_inode = next_inode rx, of_pos = 0\<rparr>" using 5(1) by simp
      show ?thesis using 5(2) lt [of q "next_inode rx"] unfolding g by (auto split: if_splits)
    next
      case False
      then have g: "in_progress rx t = Some g" using 5(1) by simp
      then have "q \<noteq> ?p" using 5(2) old [OF g] by auto
      then show ?thesis using 5(2) g assms(1) by (simp add: recv_inv_def)
    qed
  next
    case (6 t g t' g')
    then show ?case using assms(1) old by (fastforce simp: recv_inv_def split: if_splits)
  qed
next
  case (Chunk tid k data)
  show ?thesis
  proof (cases "in_progress rx tid")
    case None
    then show ?thesis using assms(1) Chunk by simp
  next
    case (Some f)
    then have "of_pos f = length (contents rx (of_inode f))" using assms(1) by (simp add: recv_inv_def)
    then show ?thesis using assms(1) Chunk Some
      by (auto simp: recv_inv_def write_at_end Let_def) metis
  qed
next
  case (Cancel tid)
  show ?thesis
  proof (cases "in_progress rx tid")
    case None
    then show ?thesis using assms(1) Cancel by simp
  next
    case (Some f)
    have "of_path g \<noteq> of_path f" if "in_progress rx t = Some g" "t \<noteq> tid" for t g
      using assms(1) Some that unfolding recv_inv_def by (metis option.inject)
    then show ?thesis using assms(1) Cancel Some by (auto simp: recv_inv_def)
  qed
qed (use assms(1) in \<open>auto simp: recv_inv_def\<close>)


text \<open>A message of another transfer does not touch this one's file, nor any settled file.\<close>

lemma other_message:
  assumes "recv_inv rx" and "offer_fresh m rx" and "ft_id m \<noteq> tid"
  shows "in_progress (snd (handle_file None m rx)) tid = in_progress rx tid \<and>
     (\<forall>f. in_progress rx tid = Some f \<longrightarrow>
        contents (snd (handle_file None m rx)) (of_inode f) = contents rx (of_inode f))"
proof (cases m)
  case (Offer t name n)
  then show ?thesis
    using assms(3) inode_less [OF assms(1), of tid] unfolding Offer offer_result [OF assms(2) [unfolded Offer]]
    by auto
next
  case (Chunk t k data)
  then show ?thesis using assms(3) inodes_distinct [OF assms(1)]
    by (auto simp: Let_def split: option.split)
next
  case (Cancel t)
  then show ?thesis using assms(3) by (auto split: option.split)
qed (use assms(3) in auto)

lemma settled_message:
  assumes "recv_inv rx" and "offer_fresh m rx" and "settled rx p i"
  shows "settled (snd (handle_file None m rx)) p i \<and> contents (snd (handle_file None m rx)) i = contents rx i"
proof (cases m)
  case (Offer t name n)
  have "i < next_inode rx" using assms(1,3) by (auto simp: recv_inv_def settled_def)
  moreover have "p \<noteq> unique_destination_path rx name"
    using assms(2,3) Offer by (auto simp: offer_fresh_def exists_path_def settled_def)
  ultimately show ?thesis
    using assms(3) unfolding Offer offer_result [OF assms(2) [unfolded Offer]] by (auto simp: settled_def)
next
  case (Chunk t k data)
  then show ?thesis using assms(3) by (auto simp: settled_def Let_def split: option.split)
next
  case (Cancel t)
  show ?thesis
  proof (cases "in_progress rx t")
    case None
    then show ?thesis using assms(3) Cancel by simp
  next
    case (Some f)
    then have "entries rx (of_path f) = Some (of_inode f)" "of_inode f \<noteq> i"
      using assms(1,3) by (auto simp: recv_inv_def settled_def)
    then have "p \<noteq> of_path f" using assms(3) by (auto simp: settled_def)
    then show ?thesis using assms(3) Cancel Some by (auto simp: settled_def)
  qed
qed (use assms(3) in \<open>auto simp: settled_def\<close>)

lemma settled_all:
  "recv_inv rx \<Longrightarrow> offers_fresh ms rx \<Longrightarrow> settled rx p i \<Longrightarrow>
   settled (receive_all ms rx) p i \<and> contents (receive_all ms rx) i = contents rx i"
proof (induction ms arbitrary: rx)
  case (Cons m ms)
  then show ?case using settled_message [of rx m p i] handle_inv [of rx m] by auto
qed simp

lemma dest_dir_message [simp]: "dest_dir (snd (handle_file flt m rx)) = dest_dir rx"
  by (cases m) (auto simp: create_file_def Let_def split: option.split)

definition about :: "string \<Rightarrow> file_transfer_message list \<Rightarrow> file_transfer_message list" where
  "about tid ms = filter (\<lambda>m. ft_id m = tid) ms"

lemma about_simps [simp]:
  "about tid [] = []" "about tid (m # ms) = (if ft_id m = tid then m # about tid ms else about tid ms)"
  by (simp_all add: about_def)

lemma own_chunk:
  assumes "recv_inv rx" and "in_progress rx tid = Some f"
  shows "\<exists>f'. in_progress (snd (handle_file None (Chunk tid k data) rx)) tid = Some f' \<and>
     of_path f' = of_path f \<and> of_inode f' = of_inode f \<and>
     contents (snd (handle_file None (Chunk tid k data) rx)) (of_inode f) = contents rx (of_inode f) @ data"
proof -
  have "of_pos f = length (contents rx (of_inode f))" using assms by (simp add: recv_inv_def)
  then show ?thesis using assms(2) by (simp add: write_at_end Let_def)
qed

text \<open>The phase in which chunks arrive, up to the end of the transfer and beyond.\<close>

lemma chunk_phase:
  assumes "recv_inv rx" and "offers_fresh ms rx" and "in_progress rx tid = Some f"
    and "about tid ms = map (\<lambda>(k, c). Chunk tid (num k) c) kcs @ [Complete tid]"
  shows "settled (receive_all ms rx) (of_path f) (of_inode f) \<and>
     contents (receive_all ms rx) (of_inode f) = contents rx (of_inode f) @ concat (map snd kcs)"
  using assms
proof (induction ms arbitrary: rx f kcs)
  case Nil
  then show ?case by simp
next
  case (Cons m ms)
  let ?rx = "snd (handle_file None m rx)"
  have fresh: "offer_fresh m rx" "offers_fresh ms ?rx" using Cons.prems(2) by simp_all
  have inv: "recv_inv ?rx" by (rule handle_inv [OF Cons.prems(1) fresh(1)])
  show ?case
  proof (cases "ft_id m = tid")
    case False
    note o = other_message [OF Cons.prems(1) fresh(1) False]
    have "in_progress ?rx tid = Some f" using o Cons.prems(3) by simp
    from Cons.IH [OF inv fresh(2) this] Cons.prems(3,4) False o show ?thesis by simp
  next
    case True
    show ?thesis
    proof (cases kcs)
      case Nil
      then have m: "m = Complete tid" using Cons.prems(4) True by simp
      then have "settled ?rx (of_path f) (of_inode f)"
        using Cons.prems(1,3) by (auto simp: recv_inv_def settled_def split: if_splits)
      from settled_all [OF inv fresh(2) this] show ?thesis using m Nil by simp
    next
      case (Cons kc rest)
      obtain k c where kc: "kc = (k, c)" by fastforce
      have m: "m = Chunk tid (num k) c" and ab: "about tid ms = map (\<lambda>(k, c). Chunk tid (num k) c) rest @ [Complete tid]"
        using Cons.prems(4) True Cons kc by simp_all
      from own_chunk [OF Cons.prems(1,3), of "num k" c] m obtain f' where
        f': "in_progress ?rx tid = Some f'" "of_path f' = of_path f" "of_inode f' = of_inode f"
          "contents ?rx (of_inode f) = contents rx (of_inode f) @ c" by blast
      from Cons.IH [OF inv fresh(2) f'(1) ab] show ?thesis using f' Cons kc by simp
    qed
  qed
qed


lemma map_snd_enumerate: "map snd (enumerate k xs) = xs"
  by (induction xs arbitrary: k) auto

definition offered_name :: "string \<Rightarrow> string" where
  "offered_name path = (case path_file_name path of Some n \<Rightarrow> n | None \<Rightarrow> ''file'')"

lemma send_file_shape:
  "send_file tid path data = Offer tid (offered_name path) (of_nat (length data)) #
     map (\<lambda>(k, c). Chunk tid (of_nat k) c) (enumerate 0 (chunks CHUNK_SIZE data)) @ [Complete tid]"
  by (simp add: send_file_def offered_name_def)

section \<open>Properties\<close>

text \<open>
  A transfer arrives intact: whatever other transfers are offered, continued, completed or cancelled
  in between, if the messages of one transfer are those of \<open>send_file\<close>, in order, then after all of
  them the host has a file with exactly the bytes sent, under the offered name or a numbered variant
  of it in the destination directory; and every file that was complete before still has its name
  and its bytes.  (No offer meets a directory in which all ten thousand candidate names are taken,
  and no file system call fails.)
\<close>

theorem file_transfer_intact:
  assumes "recv_inv rx" and "offers_fresh ms rx" and "about tid ms = send_file tid path data"
  shows "\<exists>p i. settled (receive_all ms rx) p i \<and> contents (receive_all ms rx) i = data \<and>
     (p = path_join (dest_dir rx) (offered_name path) \<or> (\<exists>n. p = numbered_path rx (offered_name path) n)) \<and>
     (\<forall>q j. settled rx q j \<longrightarrow> settled (receive_all ms rx) q j \<and> contents (receive_all ms rx) j = contents rx j)"
proof -
  have others: "settled rx q j \<Longrightarrow> settled (receive_all ms rx) q j \<and> contents (receive_all ms rx) j = contents rx j"
    for q j by (rule settled_all [OF assms(1,2)])
  have "\<exists>p i. settled (receive_all ms rx) p i \<and> contents (receive_all ms rx) i = data \<and>
     (p = path_join (dest_dir rx) (offered_name path) \<or> (\<exists>n. p = numbered_path rx (offered_name path) n))"
    using assms
  proof (induction ms arbitrary: rx)
    case Nil
    then show ?case by (simp add: send_file_def)
  next
    case (Cons m ms)
    let ?rx = "snd (handle_file None m rx)"
    have fresh: "offer_fresh m rx" "offers_fresh ms ?rx" using Cons.prems(2) by simp_all
    have inv: "recv_inv ?rx" by (rule handle_inv [OF Cons.prems(1) fresh(1)])
    have num: "numbered_path ?rx = numbered_path rx" by (simp add: fun_eq_iff numbered_path_def)
    show ?case
    proof (cases "ft_id m = tid")
      case False
      then show ?thesis using Cons.IH [OF inv fresh(2)] Cons.prems(3) num by simp
    next
      case True
      let ?kcs = "enumerate 0 (chunks CHUNK_SIZE data)"
      have m: "m = Offer tid (offered_name path) (of_nat (length data))"
        and ab: "about tid ms = map (\<lambda>(k, c). Chunk tid (of_nat k) c) ?kcs @ [Complete tid]"
        using Cons.prems(3) True by (simp_all add: send_file_shape)
      let ?p = "unique_destination_path rx (offered_name path)"
      have rx': "in_progress ?rx tid = Some \<lparr>of_path = ?p, of_inode = next_inode rx, of_pos = 0\<rparr>"
        "contents ?rx (next_inode rx) = []"
        using offer_result [OF fresh(1) [unfolded m]] unfolding m by simp_all
      have "concat (map snd ?kcs) = data"
        by (simp add: map_snd_enumerate concat_chunks CHUNK_SIZE_def)
      then show ?thesis
        using chunk_phase [OF inv fresh(2) rx'(1) ab] rx'(2) unique_path_cases [of rx "offered_name path"]
        by auto
    qed
  qed
  then show ?thesis using others by blast
qed

definition wit_rx :: receiver where
  "wit_rx = \<lparr>dest_dir = ''/dl'', in_progress = Map.empty, entries = [''/dl/a.txt'' \<mapsto> 0],
     is_dir = (\<lambda>p. p = ''/dl''), contents = (\<lambda>_. [9]), next_inode = 1\<rparr>"

lemma wit_numbered: "numbered_path wit_rx ''a.txt'' 1 = ''/dl/a (1).txt''"
proof -
  have d: "char_of (49 :: nat) = CHR ''1''" by code_simp
  then show ?thesis
    by (simp add: numbered_path_def wit_rx_def path_join_def numbered_name_def file_stem_def
        extension_def path_file_name_def rsplit_dot_def dec.simps [of "Suc 0"] digit_def)
qed

lemma wit_unique: "unique_destination_path wit_rx ''a.txt'' = ''/dl/a (1).txt''"
proof -
  obtain ns where l: "[1 ..< 10000 :: nat] = 1 # ns" using upt_conv_Cons [of 1 "10000 :: nat"] by fastforce
  note p1 = wit_numbered
  have c: "path_join (dest_dir wit_rx) ''a.txt'' = ''/dl/a.txt''" by (simp add: wit_rx_def path_join_def)
  have e: "exists_path wit_rx ''/dl/a.txt''" "\<not> exists_path wit_rx ''/dl/a (1).txt''"
    by (simp_all add: exists_path_def wit_rx_def)
  have "find (\<lambda>n. \<not> exists_path wit_rx (numbered_path wit_rx ''a.txt'' n)) (1 # ns) = Some 1"
    using p1 e by simp
  then show ?thesis unfolding unique_destination_path_def l using p1 c e by simp
qed

theorem file_transfer_intact_witness:
  "\<exists>p i. settled (receive_all (send_file ''t'' ''/home/a.txt'' [1, 2, 3]) wit_rx) p i \<and>
     contents (receive_all (send_file ''t'' ''/home/a.txt'' [1, 2, 3]) wit_rx) i = [1, 2, 3]"
proof -
  have s: "send_file ''t'' ''/home/a.txt'' [1, 2, 3] =
      [Offer ''t'' ''a.txt'' 3, Chunk ''t'' 0 [1, 2, 3], Complete ''t'']"
    by (simp add: send_file_def path_file_name_def chunks.simps CHUNK_SIZE_def)
  have "recv_inv wit_rx" by (simp add: recv_inv_def wit_rx_def)
  moreover have "offers_fresh (send_file ''t'' ''/home/a.txt'' [1, 2, 3]) wit_rx"
    unfolding s using wit_unique by (simp add: offer_fresh_def exists_path_def wit_rx_def Let_def create_file_def)
  moreover have "about ''t'' (send_file ''t'' ''/home/a.txt'' [1, 2, 3]) = send_file ''t'' ''/home/a.txt'' [1, 2, 3]"
    unfolding s by simp
  ultimately show ?thesis using file_transfer_intact [of wit_rx] by blast
qed

text \<open>
  The destination of an offer exists already exactly if the offered name and all 9999 numbered
  variants of it do: as long as one is free no existing file is touched, and when none is free the
  file of the offered name itself is truncated.
\<close>

theorem destination_clobbers_iff_full:
  "(exists_path rx (unique_destination_path rx name) \<longleftrightarrow>
     exists_path rx (path_join (dest_dir rx) name) \<and>
     (\<forall>n. 1 \<le> n \<and> n < 10000 \<longrightarrow> exists_path rx (numbered_path rx name n))) \<and>
   (exists_path rx (unique_destination_path rx name) \<longrightarrow>
     unique_destination_path rx name = path_join (dest_dir rx) name \<and>
     (\<forall>i tid sz. entries rx (path_join (dest_dir rx) name) = Some i \<and>
        \<not> is_dir rx (path_join (dest_dir rx) name) \<longrightarrow>
        contents (snd (handle_file None (Offer tid name sz) rx)) i = []))"
proof (intro conjI impI)
  show "exists_path rx (unique_destination_path rx name) \<longleftrightarrow>
     exists_path rx (path_join (dest_dir rx) name) \<and>
     (\<forall>n. 1 \<le> n \<and> n < 10000 \<longrightarrow> exists_path rx (numbered_path rx name n))"
    unfolding unique_path_exists_iff by auto
next
  assume ex: "exists_path rx (unique_destination_path rx name)"
  then show u: "unique_destination_path rx name = path_join (dest_dir rx) name"
    unfolding unique_path_exists_iff
    by (auto simp: unique_destination_path_def Let_def find_Some_iff simp del: upt_rec_numeral split: option.split)
  show "\<forall>i tid sz. entries rx (path_join (dest_dir rx) name) = Some i \<and>
        \<not> is_dir rx (path_join (dest_dir rx) name) \<longrightarrow>
        contents (snd (handle_file None (Offer tid name sz) rx)) i = []"
    by (auto simp: u create_file_def)
qed

theorem destination_clobbers_iff_full_witness:
  "\<not> exists_path wit_rx (unique_destination_path wit_rx ''a.txt'')"
proof
  assume "exists_path wit_rx (unique_destination_path wit_rx ''a.txt'')"
  with destination_clobbers_iff_full [of wit_rx "''a.txt''"]
  have "exists_path wit_rx (numbered_path wit_rx ''a.txt'' 1)" by simp
  then show False unfolding wit_numbered by (simp add: exists_path_def wit_rx_def)
qed

text \<open>
  The name in an offer is not confined to the destination directory: an absolute path in it replaces
  the directory altogether, so a peer can create any new file the host's user may create.
\<close>

theorem offer_escapes_destination:
  assumes "starts_with name ''/''" and "\<not> exists_path rx name"
  shows "entries (snd (handle_file None (Offer tid name sz) rx)) name = Some (next_inode rx) \<and>
     of_path (the (in_progress (snd (handle_file None (Offer tid name sz) rx)) tid)) = name"
  using assms
  by (simp add: unique_destination_path_def path_join_def create_file_def exists_path_def Let_def)

theorem offer_escapes_destination_witness:
  "entries (snd (handle_file None (Offer ''t'' ''/home/u/.config/autostart/x.desktop'' 5) wit_rx))
     ''/home/u/.config/autostart/x.desktop'' = Some 1"
  using offer_escapes_destination [of "''/home/u/.config/autostart/x.desktop''" wit_rx "''t''" 5]
  by (simp add: exists_path_def wit_rx_def)

end
