(* ===== verification/Unit_Tests.thy ===== *)
theory Unit_Tests
  imports Clipboard_Backend Local_Store File_Transfer
begin

text \<open>
  The unit tests of \<^verbatim>\<open>visuara-client/src\<close>, each translated to a predicate that says that none of its calls fails and all
  its assertions hold.  Where a test runs in one environment and with one timing, the predicate takes them as
  arguments: the temporary directory, the system calls, the JSON encoding, and the number of turns of the
  clipboard thread before and after what the test does.  They are proved for every environment in which no system call
  fails, and for every timing.
\<close>

section \<open>saved\_credentials.rs, local\_settings.rs, autostart.rs\<close>

definition ok :: "(string, unit) result \<times> home \<Rightarrow> (home \<Rightarrow> bool) \<Rightarrow> bool" where
  "ok r k = (case r of (Inr _, h) \<Rightarrow> k h | (Inl _, _) \<Rightarrow> False)"

definition test_creds :: saved_credentials where
  "test_creds = \<lparr>sc_server_url = ''wss://example.com/ws'', sc_email = ''test@example.com'',
     sc_password = ''hunter2'', sc_device_name = ''test-device''\<rparr>"

definition test_save_load_and_clear_credentials :: "store_io \<Rightarrow> saved_credentials json \<Rightarrow> home \<Rightarrow> bool" where
  "test_save_load_and_clear_credentials io js h \<longleftrightarrow>
     credentials_load io js h = Inr None \<and>
     ok (credentials_save io js test_creds h) (\<lambda>h1.
       (case credentials_load io js h1 of
          Inr (Some loaded) \<Rightarrow>
            sc_server_url loaded = sc_server_url test_creds \<and> sc_email loaded = sc_email test_creds \<and>
            sc_password loaded = sc_password test_creds \<and> sc_device_name loaded = sc_device_name test_creds
        | _ \<Rightarrow> False) \<and>
       ok (credentials_clear io h1) (\<lambda>h2. credentials_load io js h2 = Inr None))"

definition test_settings :: local_settings where
  "test_settings = \<lparr>ls_server_url = Some ''wss://example.com/ws'', ls_device_name = Some ''my-laptop'',
     ls_remembered_login = Some \<lparr>rl_email = ''test@example.com'', rl_password = ''hunter2''\<rparr>\<rparr>"

definition test_save_load_and_clear_settings :: "store_io \<Rightarrow> local_settings json \<Rightarrow> home \<Rightarrow> bool" where
  "test_save_load_and_clear_settings io js h \<longleftrightarrow>
     settings_load io js h = Inr None \<and>
     ok (settings_save io js test_settings h) (\<lambda>h1.
       (case settings_load io js h1 of
          Inr (Some loaded) \<Rightarrow>
            ls_server_url loaded = ls_server_url test_settings \<and> ls_device_name loaded = ls_device_name test_settings \<and>
            map_option rl_email (ls_remembered_login loaded) = Some ''test@example.com''
        | _ \<Rightarrow> False) \<and>
       ok (clear_remembered_login io js h1) (\<lambda>h2.
         (case settings_load io js h2 of
            Inr (Some after_forget) \<Rightarrow>
              ls_remembered_login after_forget = None \<and> ls_server_url after_forget = ls_server_url test_settings
          | _ \<Rightarrow> False) \<and>
         ok (settings_clear io h2) (\<lambda>h3. settings_load io js h3 = Inr None)))"

definition test_enable_disable_round_trip :: "store_io \<Rightarrow> string \<Rightarrow> bool option \<Rightarrow> home \<Rightarrow> bool" where
  "test_enable_disable_round_trip io exe systemctl h \<longleftrightarrow>
     ok (autostart_disable io h) (\<lambda>h1. \<not> autostart_is_enabled h1 \<and>
       ok (autostart_enable io (Inr exe) systemctl h1) (\<lambda>h2. autostart_is_enabled h2 \<and>
         ok (autostart_disable io h2) (\<lambda>h3. \<not> autostart_is_enabled h3)))"

section \<open>file\_transfer.rs\<close>

definition test_receiver_writes_chunks_in_order :: "(string \<Rightarrow> string option) \<Rightarrow> string \<Rightarrow> string \<Rightarrow> receiver \<Rightarrow> bool" where
  "test_receiver_writes_chunks_in_order mkdir dir tid disk \<longleftrightarrow>
     (case file_receiver_new mkdir dir disk of
        Inl _ \<Rightarrow> False
      | Inr rx0 \<Rightarrow>
          let (r1, rx1) = handle_file None (Offer tid ''hello.txt'' 11) rx0;
              (r2, rx2) = handle_file None (Chunk tid 0 (bytes_of ''hello '')) rx1;
              (r3, rx3) = handle_file None (Chunk tid 1 (bytes_of ''world'')) rx2;
              (r4, rx4) = handle_file None (Complete tid) rx3
          in r1 = Inr () \<and> r2 = Inr () \<and> r3 = Inr () \<and> r4 = Inr () \<and>
             map_option (contents rx4) (entries rx4 (path_join dir ''hello.txt'')) = Some (bytes_of ''hello world''))"

definition test_unique_destination_path :: "receiver \<Rightarrow> bool" where
  "test_unique_destination_path rx \<longleftrightarrow>
     (case create_file None (path_join (dest_dir rx) ''a.txt'') rx of
        (Inr _, rx1) \<Rightarrow> unique_destination_path rx1 ''a.txt'' = path_join (dest_dir rx) ''a (1).txt''
      | (Inl _, _) \<Rightarrow> False)"

section \<open>clipboard\_sync.rs\<close>

text \<open>\<open>FakeBackend\<close>: a text behind a lock, which the test shares with the thread.\<close>

definition fake_backend :: "string arboard" where
  "fake_backend = \<lparr>ab_new = Inr [], ab_get_text = (\<lambda>c. (Inr c, c)), ab_set_text = (\<lambda>t c. (Inr (), t))\<rparr>"

definition reports :: "string option list \<Rightarrow> string list" where
  "reports rs = List.map_filter id rs"

text \<open>The thread has run \<open>n\<close> turns when the test writes the text, and \<open>m\<close> more when the test stops waiting.\<close>

definition test_local_change_is_reported_once :: "nat \<Rightarrow> nat \<Rightarrow> bool" where
  "test_local_change_is_reported_once n m \<longleftrightarrow>
     (case backend_run fake_backend (replicate n []) ([], []) of
        (rs, _, seen) \<Rightarrow>
          (case backend_run fake_backend (replicate m []) (''hello from local'', seen) of
             (rs', _, _) \<Rightarrow> reports (rs @ rs') = [''hello from local'']))"

text \<open>The update of the remote side is in the queue at turn \<open>n\<close>.\<close>

definition test_remote_update_is_not_echoed_back :: "nat \<Rightarrow> nat \<Rightarrow> bool" where
  "test_remote_update_is_not_echoed_back n m \<longleftrightarrow>
     (case backend_run fake_backend (replicate n [] @ [[''from the remote side'']] @ replicate m []) ([], []) of
        (rs, text_now, _) \<Rightarrow> text_now = ''from the remote side'' \<and> reports rs = [])"

section \<open>Lemmas\<close>

definition never_fails :: "store_io \<Rightarrow> bool" where
  "never_fails io \<longleftrightarrow> (\<forall>p. mkdir_fault io p = None \<and> swrite_fault io p = None \<and> chmod_fault io p = None \<and>
     sread_fault io p = None \<and> remove_fault io p = None)"

definition encodes :: "'a json \<Rightarrow> 'a \<Rightarrow> bool" where
  "encodes js v \<longleftrightarrow> (case to_json js v of Inr data \<Rightarrow> from_json js data = Inr v | Inl _ \<Rightarrow> False)"

lemma encodesE: "encodes js v \<Longrightarrow> (\<And>data. to_json js v = Inr data \<Longrightarrow> from_json js data = Inr v \<Longrightarrow> P) \<Longrightarrow> P"
  by (auto simp: encodes_def split: sum.splits)

lemmas store_eval = ok_def credentials_load_def credentials_save_def credentials_clear_def credentials_path_def
  settings_load_def settings_save_def settings_clear_def settings_path_def config_file_def
  clear_remembered_login_def write_restricted_def restrict_permissions_def put_file_def

lemma credentials_test:
  assumes "never_fails io" and "encodes js test_creds" and "config_dir h = Some d" and "stored h = Map.empty"
  shows "test_save_load_and_clear_credentials io js h"
proof -
  obtain data where "to_json js test_creds = Inr data" "from_json js data = Inr test_creds"
    using assms(2) by (rule encodesE)
  then show ?thesis
    using assms by (simp add: test_save_load_and_clear_credentials_def store_eval never_fails_def)
qed

lemma settings_test:
  assumes "never_fails io" and "encodes js test_settings" and "encodes js (test_settings\<lparr>ls_remembered_login := None\<rparr>)"
    and "config_dir h = Some d" and "stored h = Map.empty"
  shows "test_save_load_and_clear_settings io js h"
proof -
  let ?forgot = "test_settings\<lparr>ls_remembered_login := None\<rparr>"
  obtain data where "to_json js test_settings = Inr data" "from_json js data = Inr test_settings"
    using assms(2) by (rule encodesE)
  moreover obtain data' where "to_json js ?forgot = Inr data'" "from_json js data' = Inr ?forgot"
    using assms(3) by (rule encodesE)
  moreover have "ls_remembered_login test_settings = Some \<lparr>rl_email = ''test@example.com'', rl_password = ''hunter2''\<rparr>"
    by (simp add: test_settings_def)
  ultimately show ?thesis
    using assms by (simp add: test_save_load_and_clear_settings_def store_eval never_fails_def)
qed

lemma autostart_test:
  assumes "never_fails io" and "config_dir h = Some d" and "systemctl \<noteq> Some False"
  shows "test_enable_disable_round_trip io exe systemctl h"
  using assms
  by (auto simp: test_enable_disable_round_trip_def ok_def autostart_disable_def autostart_enable_def
      autostart_is_enabled_def unit_path_def never_fails_def put_file_def)

lemma fake_turn:
  "backend_turn fake_backend [] (t, seen) = (if t \<noteq> seen then Some t else None, t, t)"
  "backend_turn fake_backend [u] (t, seen) = (None, u, u)"
  by (simp_all add: backend_turn_def handle_get_text_def handle_set_text_def fake_backend_def)

lemma fake_idle: "backend_run fake_backend (replicate n []) (t, t) = (replicate n None, t, t)"
  by (induction n) (simp_all add: fake_turn)

lemma backend_run_append:
  "backend_run ab (xs @ ys) s = (case backend_run ab xs s of (rs, s1) \<Rightarrow> (case backend_run ab ys s1 of (rs', s2) \<Rightarrow> (rs @ rs', s2)))"
  by (induction xs arbitrary: s) (simp_all add: case_prod_beta)

lemma reports_idle [simp]: "reports (replicate n None) = []" "reports (replicate n None @ rs) = reports rs"
    "reports (Some t # rs) = t # reports rs" "reports (None # rs) = reports rs"
  by (induction n) (simp_all add: reports_def map_filter_simps)

lemma local_change_test: "0 < m \<Longrightarrow> test_local_change_is_reported_once n m"
  by (cases m) (simp_all add: test_local_change_is_reported_once_def fake_idle fake_turn)

lemma remote_update_test: "test_remote_update_is_not_echoed_back n m"
  by (simp add: test_remote_update_is_not_echoed_back_def backend_run_append fake_idle fake_turn)

lemma receiver_test:
  assumes "mkdir dir = None" and "\<not> exists_path disk (path_join dir ''hello.txt'')" and "dir \<noteq> path_join dir ''hello.txt''"
  shows "test_receiver_writes_chunks_in_order mkdir dir tid disk"
proof -
  let ?rx = "disk\<lparr>dest_dir := dir, in_progress := Map.empty, is_dir := (is_dir disk)(dir := True)\<rparr>"
  have "unique_destination_path ?rx ''hello.txt'' = path_join dir ''hello.txt''"
    using assms(2,3) by (simp add: unique_destination_path_def exists_path_def)
  then show ?thesis
    using assms by (simp add: test_receiver_writes_chunks_in_order_def file_receiver_new_def create_file_def exists_path_def
        write_at_def bytes_of_def case_prod_beta Let_def)
qed

lemma upt_from_one: "1 < n \<Longrightarrow> [1 ..< n] = 1 # [2 ..< n :: nat]"
  by (simp add: upt_conv_Cons numeral_2_eq_2)

lemma dec_one: "dec (Suc 0) = ''1''"
  by code_simp

lemma unique_path_test:
  assumes "\<not> exists_path rx (path_join (dest_dir rx) ''a.txt'')" and "\<not> exists_path rx (path_join (dest_dir rx) ''a (1).txt'')"
  shows "test_unique_destination_path rx"
proof -
  let ?a = "path_join (dest_dir rx) ''a.txt''" and ?b = "path_join (dest_dir rx) ''a (1).txt''"
  obtain rx1 where c: "create_file None ?a rx = (Inr \<lparr>of_path = ?a, of_inode = next_inode rx, of_pos = 0\<rparr>, rx1)"
    "dest_dir rx1 = dest_dir rx" "exists_path rx1 ?a" "\<not> exists_path rx1 ?b"
    using assms by (auto simp: create_file_def exists_path_def Let_def path_join_def)
  have n: "numbered_path rx1 ''a.txt'' 1 = ?b"
    using c(2) by (simp add: numbered_path_def numbered_name_def file_stem_def extension_def path_file_name_def rsplit_dot_def dec_one)
  have "find (\<lambda>n. \<not> exists_path rx1 (numbered_path rx1 ''a.txt'' n)) (1 # [2 ..< 10000]) = Some 1"
    using n c(4) by simp
  moreover have "[1 ..< 10000] = 1 # [2 ..< 10000 :: nat]" by (rule upt_from_one) simp
  ultimately have "find (\<lambda>n. \<not> exists_path rx1 (numbered_path rx1 ''a.txt'' n)) [1 ..< 10000] = Some 1"
    by (simp only:)
  then have "unique_destination_path rx1 ''a.txt'' = ?b"
    using n c(2,3) unfolding unique_destination_path_def Let_def by (simp only: option.case not_True_eq_False if_False)
  then show ?thesis using c(1) by (simp add: test_unique_destination_path_def)
qed

section \<open>Properties\<close>

text \<open>
  C38. The unit tests of the client hold of the model, in more than their one environment: for a home directory with no file of
  the app in it, system calls that do not fail and an encoding that reads back what it wrote; for any directory and disk in
  which the names are free; and for any number of turns of the clipboard thread before and after the change, as
  long as it gets one turn to see it.
\<close>

theorem unit_tests_hold:
  assumes "never_fails io" and "config_dir h = Some d" and "stored h = Map.empty" and "systemctl \<noteq> Some False"
    and "encodes cjs test_creds" and "encodes sjs test_settings" and "encodes sjs (test_settings\<lparr>ls_remembered_login := None\<rparr>)"
    and "mkdir dir = None" and "dir \<noteq> path_join dir ''hello.txt''"
    and "\<not> exists_path disk (path_join dir ''hello.txt'')" and "\<not> exists_path rx (path_join (dest_dir rx) ''a.txt'')"
    and "\<not> exists_path rx (path_join (dest_dir rx) ''a (1).txt'')" and "0 < m"
  shows "test_save_load_and_clear_credentials io cjs h \<and> test_save_load_and_clear_settings io sjs h \<and>
    test_enable_disable_round_trip io exe systemctl h \<and>
    test_receiver_writes_chunks_in_order mkdir dir tid disk \<and> test_unique_destination_path rx \<and>
    test_local_change_is_reported_once n m \<and> test_remote_update_is_not_echoed_back n m"
  using assms
  by (intro conjI credentials_test settings_test autostart_test receiver_test unique_path_test local_change_test remote_update_test)

definition wit_test_creds_json :: "saved_credentials json" where
  "wit_test_creds_json = \<lparr>to_json = (\<lambda>_. Inr []), from_json = (\<lambda>_. Inr test_creds)\<rparr>"

definition wit_test_settings_json :: "local_settings json" where
  "wit_test_settings_json = \<lparr>to_json = (\<lambda>s. Inr (if ls_remembered_login s = None then [] else [1])),
     from_json = (\<lambda>b. Inr (if b = [] then test_settings\<lparr>ls_remembered_login := None\<rparr> else test_settings))\<rparr>"

definition wit_disk :: receiver where
  "wit_disk = \<lparr>dest_dir = ''/tmp/t'', in_progress = Map.empty, entries = Map.empty, is_dir = (\<lambda>p. p = ''/tmp/t''),
     contents = (\<lambda>_. []), next_inode = 0\<rparr>"

theorem unit_tests_hold_witness:
  "test_save_load_and_clear_settings wit_store_io wit_test_settings_json wit_home \<and>
   test_receiver_writes_chunks_in_order (\<lambda>_. None) ''/tmp/t'' ''test-transfer'' wit_disk"
proof -
  have "encodes wit_test_creds_json test_creds" "encodes wit_test_settings_json test_settings"
    "encodes wit_test_settings_json (test_settings\<lparr>ls_remembered_login := None\<rparr>)"
    by (simp_all add: encodes_def wit_test_creds_json_def wit_test_settings_json_def test_settings_def)
  moreover have "never_fails wit_store_io" by (simp add: never_fails_def wit_store_io_def)
  moreover have "config_dir wit_home = Some ''/home/u/.config''" "stored wit_home = Map.empty" by (simp_all add: wit_home_def)
  moreover have "\<not> exists_path wit_disk (path_join ''/tmp/t'' ''hello.txt'')" "''/tmp/t'' \<noteq> path_join ''/tmp/t'' ''hello.txt''"
    "\<not> exists_path wit_disk (path_join (dest_dir wit_disk) ''a.txt'')"
    "\<not> exists_path wit_disk (path_join (dest_dir wit_disk) ''a (1).txt'')"
    by (simp_all add: exists_path_def wit_disk_def path_join_def)
  ultimately show ?thesis
    using unit_tests_hold [of wit_store_io wit_home "''/home/u/.config''" "Some True" wit_test_creds_json wit_test_settings_json
        "\<lambda>_. None" "''/tmp/t''" wit_disk wit_disk 1 "''/usr/bin/visuara''" "''test-transfer''" 3] by simp
qed

end
