(* ===== verification/Frame_Waits.thy ===== *)
theory Frame_Waits
  imports Client_Protocol
begin

text \<open>
  The three loops in which a client waits for one particular message: the host for a connection and for the
  offer of its session, the controller for the answer.  Each is the same search: frames that decide nothing
  are taken off the connection, and the first frame that decides anything ends the wait.
\<close>

section \<open>The search\<close>

text \<open>What a frame means to a loop: an error of the connection or of parsing always ends it, a message ends it
  if the loop decides on it.\<close>

fun frame_verdict :: "(server_message \<Rightarrow> (string, 'a) result option) \<Rightarrow> ws_frame \<Rightarrow> (string, 'a) result option" where
  "frame_verdict decide WsOther = None"
| "frame_verdict decide (WsError e) = Some (Inl (ctx ''websocket error'' e))"
| "frame_verdict decide (WsText (Inl e)) = Some (Inl (ctx ''parse server message'' e))"
| "frame_verdict decide (WsText (Inr m)) = decide m"

definition first_verdict ::
  "(server_message \<Rightarrow> (string, 'a) result option) \<Rightarrow> ws_frame list \<Rightarrow> (string, 'a) result \<times> ws_frame list" where
  "first_verdict decide fs =
     (case dropWhile (\<lambda>f. frame_verdict decide f = None) fs of
        [] \<Rightarrow> (Inl ''signaling connection closed'', [])
      | f # rest \<Rightarrow> (the (frame_verdict decide f), rest))"

lemma first_verdict_simps [simp]:
  "first_verdict decide [] = (Inl ''signaling connection closed'', [])"
  "first_verdict decide (f # fs) =
     (case frame_verdict decide f of None \<Rightarrow> first_verdict decide fs | Some r \<Rightarrow> (r, fs))"
  by (simp_all add: first_verdict_def split: option.split)

section \<open>The contract of a waiting loop\<close>

locale frame_wait =
  fixes wait :: "ws_frame list \<Rightarrow> (string, 'a) result \<times> ws_frame list"
    and decide :: "server_message \<Rightarrow> (string, 'a) result option"
  assumes wait_closed: "wait [] = (Inl ''signaling connection closed'', [])"
    and wait_message: "wait (msgf m # fs) = (case decide m of None \<Rightarrow> wait fs | Some r \<Rightarrow> (r, fs))"
    and wait_other: "wait (WsOther # fs) = wait fs"
    and wait_failed: "wait (WsError e # fs) = (Inl (ctx ''websocket error'' e), fs)"
      "wait (WsText (Inl e) # fs) = (Inl (ctx ''parse server message'' e), fs)"
begin

lemma wait_is_search: "wait fs = first_verdict decide fs"
proof (induction fs)
  case (Cons f fs)
  then show ?case
    by (cases "(decide, f)" rule: frame_verdict.cases)
      (simp_all add: wait_other wait_failed wait_message split: option.split)
qed (simp add: wait_closed)

text \<open>A message the loop decides on is never waited past: frames behind it do not matter.\<close>

lemma wait_append: "frame_verdict decide f = Some r \<Longrightarrow> list_all (\<lambda>g. frame_verdict decide g = None) pre \<Longrightarrow>
   wait (pre @ f # post) = (r, post)"
  unfolding wait_is_search by (induction pre) simp_all

end

section \<open>The loops\<close>

fun offer_verdict :: "webrtc \<Rightarrow> session_id \<Rightarrow> server_message \<Rightarrow> (string, string) result option" where
  "offer_verdict rtc sid (SrvSdpOffer s sdp) = (if s = sid then Some (Inr sdp) else None)"
| "offer_verdict rtc sid (SrvIceCandidate s c) =
     (if s = sid then (case remote_candidate rtc False c of Inl e \<Rightarrow> Some (Inl e) | Inr _ \<Rightarrow> None) else None)"
| "offer_verdict rtc sid _ = None"

fun answer_verdict :: "webrtc \<Rightarrow> session_id \<Rightarrow> server_message \<Rightarrow> (string, string) result option" where
  "answer_verdict rtc sid (SrvSdpAnswer s sdp) = (if s = sid then Some (Inr sdp) else None)"
| "answer_verdict rtc sid (SrvIceCandidate s c) =
     (if s = sid then (case remote_candidate rtc False c of Inl e \<Rightarrow> Some (Inl e) | Inr _ \<Rightarrow> None) else None)"
| "answer_verdict rtc sid _ = None"

fun incoming_verdict :: "server_message \<Rightarrow> (string, session_id) result option" where
  "incoming_verdict (IncomingConnection sid _) = Some (Inr sid)"
| "incoming_verdict _ = None"

lemma recv_other: "recv_frames (WsOther # fs) = recv_frames fs"
  by simp

interpretation offer_wait: frame_wait "await_offer rtc sid" "offer_verdict rtc sid" for rtc sid
proof
  fix m fs
  show "await_offer rtc sid (msgf m # fs) =
      (case offer_verdict rtc sid m of None \<Rightarrow> await_offer rtc sid fs | Some r \<Rightarrow> (r, fs))"
    by (simp add: await_offer_txt split: server_message.split sum.split)
  show "await_offer rtc sid (WsOther # fs) = await_offer rtc sid fs"
    unfolding await_offer.simps [of rtc sid "WsOther # fs"] await_offer.simps [of rtc sid fs] recv_other ..
qed (simp_all add: await_offer.simps)

interpretation answer_wait: frame_wait "await_answer rtc sid" "answer_verdict rtc sid" for rtc sid
proof
  fix m fs
  show "await_answer rtc sid (msgf m # fs) =
      (case answer_verdict rtc sid m of None \<Rightarrow> await_answer rtc sid fs | Some r \<Rightarrow> (r, fs))"
    by (simp add: await_answer_txt split: server_message.split sum.split)
  show "await_answer rtc sid (WsOther # fs) = await_answer rtc sid fs"
    unfolding await_answer.simps [of rtc sid "WsOther # fs"] await_answer.simps [of rtc sid fs] recv_other ..
qed (simp_all add: await_answer.simps)

interpretation incoming_wait: frame_wait next_incoming incoming_verdict
proof
  fix m fs
  show "next_incoming (msgf m # fs) =
      (case incoming_verdict m of None \<Rightarrow> next_incoming fs | Some r \<Rightarrow> (r, fs))"
    by (simp add: next_incoming_txt split: server_message.split)
  show "next_incoming (WsOther # fs) = next_incoming fs"
    unfolding next_incoming.simps [of "WsOther # fs"] next_incoming.simps [of fs] recv_other ..
qed (simp_all add: next_incoming.simps)

section \<open>Properties\<close>

text \<open>
  C24. The three waits end at the first frame that decides them, whatever arrives and in whatever order, and
  leave exactly the frames behind it: the host's wait for a connection at the first \<open>IncomingConnection\<close>,
  its wait for the offer at the first offer of its session or the first candidate of it that cannot be
  used, the controller's wait for the answer likewise; an error of the connection ends each, and so does
  its close when no frame decides.
\<close>

theorem waits_end_at_first_verdict:
  "next_incoming fs = first_verdict incoming_verdict fs \<and>
   await_offer rtc sid fs = first_verdict (offer_verdict rtc sid) fs \<and>
   await_answer rtc sid fs = first_verdict (answer_verdict rtc sid) fs"
  using incoming_wait.wait_is_search offer_wait.wait_is_search answer_wait.wait_is_search by blast

end
