(* ===== verification/Peer_Session.thy ===== *)
theory Peer_Session
  imports Client_Protocol File_Transfer
begin

text \<open>
  The data channel between two peers: the handlers that \<^verbatim>\<open>visuara-client/src/host.rs\<close> and \<^verbatim>\<open>controller.rs\<close>
  install on it, the helpers that send on it, and how a requested monitor switch reaches the capture
  thread.  The \<open>bincode\<close> encoding of control messages is a parameter.
\<close>

section \<open>Sending\<close>

record bincode =
  to_bytes :: "control_message \<Rightarrow> (string, bytes) result"
  from_bytes :: "bytes \<Rightarrow> (string, control_message) result"

text \<open>What the code relies on: what encodes decodes to itself.\<close>

definition bincode_ok :: "bincode \<Rightarrow> bool" where
  "bincode_ok bc \<longleftrightarrow> (\<forall>m b. to_bytes bc m = Inr b \<longrightarrow> from_bytes bc b = Inr m)"

text \<open>Encode and hand to the channel, with the two error contexts; \<open>fault\<close> is what the channel refuses with.\<close>

definition send_control ::
  "string \<Rightarrow> string \<Rightarrow> bincode \<Rightarrow> string option \<Rightarrow> control_message \<Rightarrow> bytes list \<Rightarrow> (string, unit) result \<times> bytes list" where
  "send_control encode_ctx send_ctx bc fault m out =
     (case to_bytes bc m of
        Inl e \<Rightarrow> (Inl (ctx encode_ctx e), out)
      | Inr data \<Rightarrow>
          (case fault of
             Some e \<Rightarrow> (Inl (ctx send_ctx e), out)
           | None \<Rightarrow> (Inr (), out @ [data])))"

definition send_input :: "bincode \<Rightarrow> string option \<Rightarrow> input_event \<Rightarrow> bytes list \<Rightarrow> (string, unit) result \<times> bytes list" where
  "send_input bc fault ev = send_control ''encode input event'' ''send input event'' bc fault (Input ev)"

definition request_monitor_list :: "bincode \<Rightarrow> string option \<Rightarrow> bytes list \<Rightarrow> (string, unit) result \<times> bytes list" where
  "request_monitor_list bc fault =
     send_control ''encode request'' ''send monitor list request'' bc fault (Monitor ListRequest)"

definition switch_monitor :: "bincode \<Rightarrow> string option \<Rightarrow> u32 \<Rightarrow> bytes list \<Rightarrow> (string, unit) result \<times> bytes list" where
  "switch_monitor bc fault i =
     send_control ''encode switch request'' ''send monitor switch request'' bc fault (Monitor (SwitchRequest i))"

text \<open>\<open>send\<close> of \<^verbatim>\<open>file_transfer.rs\<close> for each message of a file in turn; the first failure ends the transfer.\<close>

fun send_messages ::
  "bincode \<Rightarrow> (nat \<Rightarrow> string option) \<Rightarrow> file_transfer_message list \<Rightarrow> bytes list \<Rightarrow> (string, unit) result \<times> bytes list" where
  "send_messages bc faults [] out = (Inr (), out)"
| "send_messages bc faults (m # ms) out =
     (case send_control ''encode control message'' ''send over data channel'' bc (faults (length out)) (FileMsg m) out of
        (Inl e, out1) \<Rightarrow> (Inl e, out1)
      | (Inr _, out1) \<Rightarrow> send_messages bc faults ms out1)"

definition send_file_over ::
  "bincode \<Rightarrow> (nat \<Rightarrow> string option) \<Rightarrow> (string, bytes) result \<Rightarrow> string \<Rightarrow> string \<Rightarrow> bytes list \<Rightarrow>
   (string, unit) result \<times> bytes list" where
  "send_file_over bc faults content transfer_id path out =
     (case content of
        Inl e \<Rightarrow> (Inl (ctx (''read '' @ path) e), out)
      | Inr data \<Rightarrow> send_messages bc faults (send_file transfer_id path data) out)"

section \<open>The host's end\<close>

record host_session =
  hs_input :: injector
  hs_clipboard :: "string list"  \<comment> \<open>updates handed to the clipboard thread\<close>
  hs_files :: receiver
  hs_switches :: "u32 list"  \<comment> \<open>monitor switches handed to the capture thread\<close>
  hs_out :: "bytes list"

text \<open>What the handler meets: which injected call fails, the monitors, the fault of a file system call,
  and what the channel refuses a reply with.\<close>

record host_io =
  hio_enigo :: enigo
  hio_monitors :: monitors
  hio_file :: "(string \<times> nat) option"
  hio_channel :: "string option"

text \<open>\<open>if let Ok(bytes) = reply.to_bytes() { let _ = dc.send(..) }\<close>\<close>

definition reply_with :: "bincode \<Rightarrow> host_io \<Rightarrow> control_message \<Rightarrow> host_session \<Rightarrow> host_session" where
  "reply_with bc io m s = s\<lparr>hs_out := snd (send_control [] [] bc (hio_channel io) m (hs_out s))\<rparr>"

definition host_on_open :: "bincode \<Rightarrow> host_io \<Rightarrow> host_session \<Rightarrow> host_session" where
  "host_on_open bc io s =
     (case list_monitors (hio_monitors io) of
        Inr ms \<Rightarrow> reply_with bc io (Monitor (MonitorList ms)) s
      | Inl _ \<Rightarrow> s)"

text \<open>\<open>on_message\<close> of the host for a message that decodes; errors are logged and the session goes on.\<close>

fun host_on_message :: "bincode \<Rightarrow> host_io \<Rightarrow> control_message \<Rightarrow> host_session \<Rightarrow> host_session" where
  "host_on_message bc io (Input ev) s = s\<lparr>hs_input := snd (apply_input (hio_enigo io) ev (hs_input s))\<rparr>"
| "host_on_message bc io (Clipboard (TextUpdated t)) s = s\<lparr>hs_clipboard := hs_clipboard s @ [t]\<rparr>"
| "host_on_message bc io (FileMsg m) s = s\<lparr>hs_files := snd (handle_file (hio_file io) m (hs_files s))\<rparr>"
| "host_on_message bc io (Monitor ListRequest) s =
     (case list_monitors (hio_monitors io) of
        Inr ms \<Rightarrow> reply_with bc io (Monitor (MonitorList ms)) s
      | Inl _ \<Rightarrow> s)"
| "host_on_message bc io (Monitor (SwitchRequest i)) s =
     reply_with bc io (Monitor (Switched i)) (s\<lparr>hs_switches := hs_switches s @ [i]\<rparr>)"
| "host_on_message bc io (Monitor (MonitorList _)) s = s"
| "host_on_message bc io (Monitor (Switched _)) s = s"

definition host_receive :: "bincode \<Rightarrow> host_io \<Rightarrow> bytes \<Rightarrow> host_session \<Rightarrow> host_session" where
  "host_receive bc io data s =
     (case from_bytes bc data of Inr m \<Rightarrow> host_on_message bc io m s | Inl _ \<Rightarrow> s)"

fun host_receive_all :: "bincode \<Rightarrow> host_io \<Rightarrow> bytes list \<Rightarrow> host_session \<Rightarrow> host_session" where
  "host_receive_all bc io [] s = s"
| "host_receive_all bc io (d # ds) s = host_receive_all bc io ds (host_receive bc io d s)"

section \<open>The controller's end\<close>

record controller_end =
  ce_clipboard :: "string list"
  ce_monitor_updates :: "monitor_info list list"

fun controller_on_message :: "control_message \<Rightarrow> controller_end \<Rightarrow> controller_end" where
  "controller_on_message (Clipboard (TextUpdated t)) s = s\<lparr>ce_clipboard := ce_clipboard s @ [t]\<rparr>"
| "controller_on_message (Monitor (MonitorList ms)) s = s\<lparr>ce_monitor_updates := ce_monitor_updates s @ [ms]\<rparr>"
| "controller_on_message (Monitor (Switched _)) s = s"
| "controller_on_message _ s = s"

definition controller_receive :: "bincode \<Rightarrow> bytes \<Rightarrow> controller_end \<Rightarrow> controller_end" where
  "controller_receive bc data s =
     (case from_bytes bc data of Inr m \<Rightarrow> controller_on_message m s | Inl _ \<Rightarrow> s)"

section \<open>Lemmas\<close>

lemma receive_sent:
  "bincode_ok bc \<Longrightarrow> to_bytes bc m = Inr b \<Longrightarrow> host_receive bc io b s = host_on_message bc io m s"
  by (simp add: bincode_ok_def host_receive_def)

lemma host_receive_all_append:
  "host_receive_all bc io (xs @ ys) s = host_receive_all bc io ys (host_receive_all bc io xs s)"
  by (induction xs arbitrary: s) simp_all

text \<open>A file sent without faults: the host ends with what its receiver makes of the messages.\<close>

lemma send_messages_ok:
  assumes "\<And>n. faults n = None" and "\<And>m. m \<in> set ms \<Longrightarrow> to_bytes bc (FileMsg m) = Inr (enc m)"
  shows "send_messages bc faults ms out = (Inr (), out @ map enc ms)"
  using assms(2) by (induction ms arbitrary: out) (simp_all add: send_control_def assms(1))

lemma host_receives_files:
  assumes "bincode_ok bc" and "hio_file io = None" and "\<And>m. m \<in> set ms \<Longrightarrow> to_bytes bc (FileMsg m) = Inr (enc m)"
  shows "host_receive_all bc io (map enc ms) s = s\<lparr>hs_files := receive_all ms (hs_files s)\<rparr>"
  using assms(3)
proof (induction ms arbitrary: s)
  case (Cons m ms)
  then show ?case using receive_sent [OF assms(1), of "FileMsg m" "enc m" io s] by (simp add: assms(2))
qed simp

section \<open>Properties\<close>

text \<open>Turns of the capture thread whose output is still wanted: each takes one request off the front of the queue.\<close>

lemma grab_queue: "cs_switches (snd (grab lib shot s)) = cs_switches s" "cs_capturer (snd (grab lib shot s)) = cs_capturer s"
  by (simp_all add: grab_def split: sum.split prod.split)

lemma take_switch_queue: "cs_switches (take_switch all s) = tl (cs_switches s)"
  by (simp add: take_switch_def split: list.split sum.split)

lemma capture_loop_step:
  assumes "\<not> te_receiver_gone t"
  shows "snd (capture_loop lib (t # ts) s) = snd (capture_loop lib ts (snd (grab lib (te_shot t)
    (take_switch (te_monitors t) (s\<lparr>cs_switches := cs_switches s @ te_requests t\<rparr>)))))"
  using assms by (simp add: Let_def split: prod.split sum.split)

lemma capture_loop_one:
  "snd (capture_loop lib [t] s) =
     snd (grab lib (te_shot t) (take_switch (te_monitors t) (s\<lparr>cs_switches := cs_switches s @ te_requests t\<rparr>)))"
  by (simp add: Let_def split: prod.split sum.split)

lemma capture_loop_append:
  assumes "list_all (\<lambda>t. \<not> te_receiver_gone t) ts"
  shows "snd (capture_loop lib (ts @ us) s) = snd (capture_loop lib us (snd (capture_loop lib ts s)))"
  using assms
proof (induction ts arbitrary: s)
  case (Cons t ts)
  then show ?case by (simp add: capture_loop_step del: capture_loop.simps(2))
qed simp

lemma capture_loop_queue:
  assumes "list_all (\<lambda>t. \<not> te_receiver_gone t) ts" and "length ts \<le> length (cs_switches s)"
  shows "cs_switches (snd (capture_loop lib ts s)) = drop (length ts) (cs_switches s) @ concat (map te_requests ts)"
  using assms
proof (induction ts arbitrary: s)
  case (Cons t ts)
  let ?s = "snd (grab lib (te_shot t) (take_switch (te_monitors t) (s\<lparr>cs_switches := cs_switches s @ te_requests t\<rparr>)))"
  obtain q qs where q: "cs_switches s = q # qs" using Cons.prems by (cases "cs_switches s") auto
  then have "cs_switches ?s = qs @ te_requests t" by (simp add: grab_queue take_switch_queue)
  then show ?case using Cons q by (simp add: capture_loop_step del: capture_loop.simps(2))
qed simp

text \<open>
  C25. Switching monitors.  A switch request is put behind the requests that the capture thread has not taken
  yet, and the host answers \<open>Switched\<close> at once, before it could know.  The thread takes one request in
  each of its turns: once the \<open>n\<close> turns for the \<open>n\<close> requests before it are over, whatever they met and whatever
  has come in since, the next turn, so with no request waiting the very next one, uses it up.  If
  \<open>list_monitors\<close> shows its id in that turn, the thread captures from a monitor with that id from that turn on;
  otherwise it stays with the monitor it had.
\<close>

theorem monitor_switch_takes_effect:
  fixes cap :: "'e capture_state" and lib :: "('e, 'd, 'y) codec"
  assumes "bincode_ok bc" and "to_bytes bc (Monitor (SwitchRequest i)) = Inr req"
    and "to_bytes bc (Monitor (Switched i)) = Inr ack" and "hio_channel io = None"
    and "s' = host_receive bc io req s" and "cs_switches cap = hs_switches s'"
    and "list_all (\<lambda>t. \<not> te_receiver_gone t) ts" and "length ts = length (hs_switches s)"
    and "te_monitors t = Inr ms" and "list_monitors (Inr ms) = Inr infos"
  defines "before \<equiv> snd (capture_loop lib ts cap)" and "after \<equiv> snd (capture_loop lib (ts @ [t]) cap)"
  shows "hs_switches s' = hs_switches s @ [i] \<and> hs_out s' = hs_out s @ [ack] \<and>
     cs_switches before = i # concat (map te_requests ts) \<and> cs_switches after = concat (map te_requests (ts @ [t])) \<and>
     (if i \<in> set (map mon_id infos)
      then cs_capturer after \<in> set ms \<and> m_id (cs_capturer after) = Inr i
      else cs_capturer after = cs_capturer before)"
proof -
  have s': "s' = s\<lparr>hs_switches := hs_switches s @ [i], hs_out := hs_out s @ [ack]\<rparr>"
    using receive_sent [OF assms(1,2), of io s] assms(3-5) by (simp add: reply_with_def send_control_def)
  have b: "cs_switches before = i # concat (map te_requests ts)"
    using capture_loop_queue [OF assms(7), of cap lib] assms(6,8) by (simp add: before_def s')
  have a: "cs_switches after = concat (map te_requests (ts @ [t]))" "cs_capturer after =
      cs_capturer (take_switch (Inr ms) (before\<lparr>cs_switches := cs_switches before @ te_requests t\<rparr>))"
    using b assms(9) unfolding after_def capture_loop_append [OF assms(7)] before_def [symmetric] capture_loop_one
    by (simp_all add: grab_queue take_switch_queue)
  note ids = listed_ids [OF assms(10)]
  show ?thesis
  proof (cases "i \<in> set (map mon_id infos)")
    case True
    then obtain c where c: "capturer_for_monitor_id (Inr ms) i = Inr c" using for_monitor_id_iff ids by metis
    note cs = for_monitor_id_Inr [OF c]
    then obtain k where "m_id c = Inr k" using listed_readable [OF assms(10)] by blast
    then have "m_id c = Inr i" using cs by (simp add: res_or_def)
    then show ?thesis using True c s' a b cs by (simp add: take_switch_def)
  next
    case False
    then obtain e where "capturer_for_monitor_id (Inr ms) i = Inl e"
      using for_monitor_id_iff [of ms i] ids by (cases "capturer_for_monitor_id (Inr ms) i") auto
    then show ?thesis using False s' a b by (auto simp: take_switch_def)
  qed
qed

definition wit_bincode :: bincode where
  "wit_bincode = \<lparr>to_bytes = (\<lambda>m. if m = Monitor (SwitchRequest 3) then Inr [0]
       else if m = Monitor (Switched 3) then Inr [1] else Inl ''unsupported''),
     from_bytes = (\<lambda>b. if b = [0] then Inr (Monitor (SwitchRequest 3))
       else if b = [1] then Inr (Monitor (Switched 3)) else Inl ''EOF'')\<rparr>"

lemma wit_bincode_ok: "bincode_ok wit_bincode"
  by (auto simp: bincode_ok_def wit_bincode_def split: if_splits)

definition wit_monitor :: "u32 \<Rightarrow> monitor" where
  "wit_monitor i = \<lparr>m_handle = unat i, m_id = Inr i, m_name = Inl ''no EDID'', m_width = Inr 800, m_height = Inr 600,
     m_is_primary = Inr (i = 1)\<rparr>"

definition wit_host_io :: host_io where
  "wit_host_io = \<lparr>hio_enigo = (\<lambda>_. None), hio_monitors = Inr [wit_monitor 1, wit_monitor 3], hio_file = None,
     hio_channel = None\<rparr>"

definition wit_host_session :: host_session where
  "wit_host_session = \<lparr>hs_input = [], hs_clipboard = [], hs_files = wit_rx, hs_switches = [], hs_out = []\<rparr>"

text \<open>A host with a request for monitor 7, which it does not have, still waiting.\<close>

definition wit_waiting_session :: host_session where
  "wit_waiting_session = wit_host_session\<lparr>hs_switches := [7]\<rparr>"

definition wit_capture_turn :: turn_env where
  "wit_capture_turn = \<lparr>te_requests = [], te_monitors = Inr [wit_monitor 1, wit_monitor 3], te_shot = (\<lambda>_. Inl ''busy''),
     te_receiver_gone = False\<rparr>"

theorem monitor_switch_takes_effect_witness:
  "m_id (cs_capturer (snd (capture_loop wit_codec [wit_capture_turn, wit_capture_turn]
     \<lparr>cs_capturer = wit_monitor 1, cs_encoder = (), cs_switches =
        hs_switches (host_receive wit_bincode wit_host_io [0] wit_waiting_session)\<rparr>))) = Inr 3"
proof -
  have l: "list_monitors (Inr [wit_monitor 1, wit_monitor 3]) =
      Inr [\<lparr>mon_id = 1, mon_name = ''unknown'', mon_width = 800, mon_height = 600, mon_is_primary = True\<rparr>,
           \<lparr>mon_id = 3, mon_name = ''unknown'', mon_width = 800, mon_height = 600, mon_is_primary = False\<rparr>]"
    by (simp add: list_monitors_def monitor_info_of_def wit_monitor_def res_or_def)
  have e: "to_bytes wit_bincode (Monitor (SwitchRequest 3)) = Inr [0]" "to_bytes wit_bincode (Monitor (Switched 3)) = Inr [1]"
    "hio_channel wit_host_io = None"
    by (simp_all add: wit_bincode_def wit_host_io_def)
  have t: "list_all (\<lambda>t. \<not> te_receiver_gone t) [wit_capture_turn]" "length [wit_capture_turn] = length (hs_switches wit_waiting_session)"
    "te_monitors wit_capture_turn = Inr [wit_monitor 1, wit_monitor 3]"
    by (simp_all add: wit_capture_turn_def wit_waiting_session_def)
  let ?cap = "\<lparr>cs_capturer = wit_monitor 1, cs_encoder = (), cs_switches = hs_switches (host_receive wit_bincode wit_host_io [0] wit_waiting_session)\<rparr>"
  have "cs_switches ?cap = hs_switches (host_receive wit_bincode wit_host_io [0] wit_waiting_session)" by simp
  note m = monitor_switch_takes_effect [OF wit_bincode_ok e refl this t l, of wit_codec]
  show ?thesis by (rule m [THEN conjunct2, THEN conjunct2, THEN conjunct2, THEN conjunct2, simplified append.simps list.map
      list.set insert_iff monitor_info.simps simp_thms if_True, THEN conjunct2])
qed

end
