(* ===== verification/Peer_System.thy ===== *)
theory Peer_System
  imports Peer_Session Clipboard_Sync
begin

text \<open>
  Two peers in a session: the data channel handlers of \<open>Peer_Session\<close>, the clipboard threads of \<open>Clipboard_Sync\<close>
  and the channel between them, as one system.  The channel is ordered and reliable (the default that
  \<open>create_data_channel("control", None)\<close> asks for), a list of byte strings in flight per direction.  A
  clipboard thread does not send itself: for every change it spawns a task on the runtime, and spawned tasks
  run in any order.
\<close>

section \<open>The system\<close>

record peer_system =
  sy_host :: host_session  \<comment> \<open>its \<open>hs_out\<close> is what is in flight to the controller\<close>
  sy_ctl :: controller_end
  sy_to_host :: "bytes list"
  sy_clip :: "side \<Rightarrow> clip option"  \<comment> \<open>none: the thread could not open the clipboard and has returned\<close>
  sy_spawned :: "side \<Rightarrow> string list"  \<comment> \<open>changes whose task has not sent them yet\<close>

text \<open>\<open>ClipboardSync::start\<close> with a \<open>ClipboardHandle\<close>: what opening the clipboard gives, its text or an error.\<close>

definition clipboard_start :: "(string, string option) result \<Rightarrow> clip option" where
  "clipboard_start opened = (case opened of Inl _ \<Rightarrow> None | Inr t \<Rightarrow> Some (thread_start t))"

text \<open>\<open>apply_remote_update\<close> queues an update at the thread; here the queues are read and emptied.\<close>

fun updates_at :: "side \<Rightarrow> peer_system \<Rightarrow> string list" where
  "updates_at HostSide s = hs_clipboard (sy_host s)"
| "updates_at ControllerSide s = ce_clipboard (sy_ctl s)"

fun clear_updates :: "side \<Rightarrow> peer_system \<Rightarrow> peer_system" where
  "clear_updates HostSide s = s\<lparr>sy_host := (sy_host s)\<lparr>hs_clipboard := []\<rparr>\<rparr>"
| "clear_updates ControllerSide s = s\<lparr>sy_ctl := (sy_ctl s)\<lparr>ce_clipboard := []\<rparr>\<rparr>"

text \<open>One turn of a clipboard thread, with the closure it was started with: the change it reports is
  handed to a new task.\<close>

definition thread_turn :: "(string \<Rightarrow> bool) \<Rightarrow> side \<Rightarrow> peer_system \<Rightarrow> peer_system" where
  "thread_turn accepts x s =
     (case sy_clip s x of
        None \<Rightarrow> s
      | Some c \<Rightarrow>
          (case iteration accepts (updates_at x s) c of (report, c') \<Rightarrow>
             (clear_updates x s)\<lparr>sy_clip := (sy_clip s)(x \<mapsto> c'),
               sy_spawned := (sy_spawned s)(x := sy_spawned s x @ (case report of None \<Rightarrow> [] | Some t \<Rightarrow> [t]))\<rparr>))"

text \<open>A message goes out on the channel of one side, or is dropped with an error that nobody sees.\<close>

fun send_from :: "bincode \<Rightarrow> string option \<Rightarrow> side \<Rightarrow> control_message \<Rightarrow> peer_system \<Rightarrow> peer_system" where
  "send_from bc fault HostSide m s =
     s\<lparr>sy_host := (sy_host s)\<lparr>hs_out := snd (send_control [] [] bc fault m (hs_out (sy_host s)))\<rparr>\<rparr>"
| "send_from bc fault ControllerSide m s = s\<lparr>sy_to_host := snd (send_control [] [] bc fault m (sy_to_host s))\<rparr>"

definition run_text_task :: "bincode \<Rightarrow> string option \<Rightarrow> side \<Rightarrow> nat \<Rightarrow> peer_system \<Rightarrow> peer_system" where
  "run_text_task bc fault x i s =
     (if i < length (sy_spawned s x)
      then send_from bc fault x (Clipboard (TextUpdated (sy_spawned s x ! i)))
             (s\<lparr>sy_spawned := (sy_spawned s)(x := take i (sy_spawned s x) @ drop (Suc i) (sy_spawned s x))\<rparr>)
      else s)"

definition arrive_host :: "bincode \<Rightarrow> host_io \<Rightarrow> peer_system \<Rightarrow> peer_system" where
  "arrive_host bc io s =
     (case sy_to_host s of
        [] \<Rightarrow> s
      | b # bs \<Rightarrow> s\<lparr>sy_to_host := bs, sy_host := host_receive bc io b (sy_host s)\<rparr>)"

definition arrive_controller :: "bincode \<Rightarrow> peer_system \<Rightarrow> peer_system" where
  "arrive_controller bc s =
     (case hs_out (sy_host s) of
        [] \<Rightarrow> s
      | b # bs \<Rightarrow> s\<lparr>sy_host := (sy_host s)\<lparr>hs_out := bs\<rparr>, sy_ctl := controller_receive bc b (sy_ctl s)\<rparr>)"

section \<open>Its events\<close>

datatype peer_event =
  UserCopies side string
| ThreadTurn side
| TextTask side nat "string option"  \<comment> \<open>the \<open>n\<close>th spawned task sends, and what the channel refuses it with\<close>
| ControllerSends control_message "string option"  \<comment> \<open>input, a monitor request, or a message of a file\<close>
| HostOpened host_io
| ArriveHost host_io
| ArriveController

fun peer_step :: "bincode \<Rightarrow> (string \<Rightarrow> bool) \<Rightarrow> peer_event \<Rightarrow> peer_system \<Rightarrow> peer_system" where
  "peer_step bc accepts (UserCopies x t) s =
     s\<lparr>sy_clip := (sy_clip s)(x := map_option (\<lambda>c. c\<lparr>clip_text := Some t\<rparr>) (sy_clip s x))\<rparr>"
| "peer_step bc accepts (ThreadTurn x) s = thread_turn accepts x s"
| "peer_step bc accepts (TextTask x i fault) s = run_text_task bc fault x i s"
| "peer_step bc accepts (ControllerSends m fault) s = send_from bc fault ControllerSide m s"
| "peer_step bc accepts (HostOpened io) s = s\<lparr>sy_host := host_on_open bc io (sy_host s)\<rparr>"
| "peer_step bc accepts (ArriveHost io) s = arrive_host bc io s"
| "peer_step bc accepts ArriveController s = arrive_controller bc s"

fun peer_run :: "bincode \<Rightarrow> (string \<Rightarrow> bool) \<Rightarrow> peer_event list \<Rightarrow> peer_system \<Rightarrow> peer_system" where
  "peer_run bc accepts [] s = s"
| "peer_run bc accepts (e # es) s = peer_run bc accepts es (peer_step bc accepts e s)"

section \<open>What the clipboards make of it\<close>

lemma side_cases: "y = x \<or> y = other_side x"
  by (cases x; cases y) simp_all

lemma other_side_simps [simp]: "other_side x \<noteq> x" "x \<noteq> other_side x" "other_side (other_side x) = x"
  by (cases x; simp)+

lemma clear_updates_simps [simp]:
  "sy_clip (clear_updates x s) = sy_clip s" "sy_spawned (clear_updates x s) = sy_spawned s"
  "sy_to_host (clear_updates x s) = sy_to_host s" "hs_out (sy_host (clear_updates x s)) = hs_out (sy_host s)"
  "hs_files (sy_host (clear_updates x s)) = hs_files (sy_host s)"
  "updates_at y (clear_updates x s) = (if y = x then [] else updates_at y s)"
  by (cases x; cases y; simp)+

lemma send_from_simps [simp]:
  "sy_clip (send_from bc fault x m s) = sy_clip s" "sy_spawned (send_from bc fault x m s) = sy_spawned s"
  "updates_at y (send_from bc fault x m s) = updates_at y s"
  "hs_files (sy_host (send_from bc fault x m s)) = hs_files (sy_host s)"
  by (cases x; cases y; simp)+

text \<open>Clipboards whose text a thread has not seen yet, and the changes the threads report in a run.\<close>

definition unseen :: "side \<Rightarrow> peer_system \<Rightarrow> nat" where
  "unseen x s = (case sy_clip s x of None \<Rightarrow> 0 | Some c \<Rightarrow> pending c)"

definition reported :: "(string \<Rightarrow> bool) \<Rightarrow> peer_event \<Rightarrow> peer_system \<Rightarrow> nat" where
  "reported accepts e s =
     (case e of
        ThreadTurn x \<Rightarrow>
          (case sy_clip s x of
             None \<Rightarrow> 0
           | Some c \<Rightarrow> (case fst (iteration accepts (updates_at x s) c) of None \<Rightarrow> 0 | Some _ \<Rightarrow> 1))
      | _ \<Rightarrow> 0)"

fun reports :: "bincode \<Rightarrow> (string \<Rightarrow> bool) \<Rightarrow> peer_event list \<Rightarrow> peer_system \<Rightarrow> nat" where
  "reports bc accepts [] s = 0"
| "reports bc accepts (e # es) s = reported accepts e s + reports bc accepts es (peer_step bc accepts e s)"

definition user_copies :: "peer_event list \<Rightarrow> nat" where
  "user_copies es = length (filter (\<lambda>e. case e of UserCopies _ _ \<Rightarrow> True | _ \<Rightarrow> False) es)"

lemma clips_untouched:
  "sy_clip (run_text_task bc fault x i s) = sy_clip s" "sy_clip (arrive_host bc io s) = sy_clip s"
  "sy_clip (arrive_controller bc s) = sy_clip s"
  by (simp_all add: run_text_task_def arrive_host_def arrive_controller_def split: list.split)

lemma step_unseen:
  assumes "\<And>t. accepts t"
  shows "reported accepts e s + (unseen x (peer_step bc accepts e s) + unseen (other_side x) (peer_step bc accepts e s))
     \<le> unseen x s + unseen (other_side x) s + user_copies [e]"
proof (cases e)
  case (UserCopies y t)
  have "pending c \<le> Suc (pending d)" for c d by (simp add: pending_def split: option.split)
  then show ?thesis using UserCopies side_cases [of y x]
    by (auto simp: unseen_def reported_def user_copies_def split: option.split)
next
  case (ThreadTurn y)
  show ?thesis
  proof (cases "sy_clip s y")
    case None
    then show ?thesis using ThreadTurn by (simp add: thread_turn_def reported_def)
  next
    case (Some c)
    obtain r c' where it: "iteration accepts (updates_at y s) c = (r, c')" by fastforce
    from iteration_pending [OF assms it] show ?thesis
      using ThreadTurn Some it side_cases [of y x]
      by (auto simp: thread_turn_def reported_def unseen_def split: option.splits)
  qed
qed (simp_all add: unseen_def reported_def user_copies_def clips_untouched)

lemma run_unseen:
  assumes "\<And>t. accepts t"
  shows "reports bc accepts es s \<le> unseen x s + unseen (other_side x) s + user_copies es"
proof (induction es arbitrary: s)
  case (Cons e es)
  have "user_copies (e # es) = user_copies [e] + user_copies es" by (simp add: user_copies_def)
  then show ?case using Cons [of "peer_step bc accepts e s"] step_unseen [where accepts = accepts and e = e and s = s and x = x and bc = bc, OF assms] by simp
qed simp

text \<open>Nothing left to do for the clipboards: both threads have seen their texts and nothing is on its way.\<close>

definition calm :: "peer_system \<Rightarrow> bool" where
  "calm s \<longleftrightarrow> sy_to_host s = [] \<and> hs_out (sy_host s) = [] \<and>
     (\<forall>x. sy_spawned s x = [] \<and> updates_at x s = [] \<and> unseen x s = 0)"

fun idle_event :: "peer_event \<Rightarrow> bool" where
  "idle_event (ThreadTurn _) = True"
| "idle_event (TextTask _ _ _) = True"
| "idle_event (ArriveHost _) = True"
| "idle_event ArriveController = True"
| "idle_event _ = False"

lemma clear_no_updates: "updates_at x s = [] \<Longrightarrow> clear_updates x s = s"
  by (cases x) simp_all

lemma calm_turn: "calm s \<Longrightarrow> thread_turn accepts x s = s"
proof -
  assume c: "calm s"
  then have u: "updates_at x s = []" "sy_spawned s x = []" "unseen x s = 0" by (simp_all add: calm_def)
  show ?thesis
  proof (cases "sy_clip s x")
    case (Some d)
    then have p: "pending d = 0" using u(3) by (simp add: unseen_def)
    then have "iteration accepts [] d = (None, d)"
      by (auto simp: iteration_def poll_def pending_def split: option.splits if_splits)
    moreover have "(sy_clip s)(x \<mapsto> d) = sy_clip s" "(sy_spawned s)(x := []) = sy_spawned s"
      using Some u(2) by auto
    ultimately show ?thesis using Some u by (simp add: thread_turn_def clear_no_updates)
  qed (simp add: thread_turn_def)
qed

lemma calm_step: "calm s \<Longrightarrow> idle_event e \<Longrightarrow> peer_step bc accepts e s = s"
  by (cases e) (simp_all add: calm_turn, simp_all add: calm_def run_text_task_def arrive_host_def arrive_controller_def)

lemma calm_run: "calm s \<Longrightarrow> list_all idle_event es \<Longrightarrow> peer_run bc accepts es s = s"
  by (induction es) (simp_all add: calm_step)

text \<open>A change that is reported, sent by its task and delivered is the next update at the other side.\<close>

fun arrive :: "side \<Rightarrow> host_io \<Rightarrow> peer_event" where
  "arrive HostSide io = ArriveHost io"
| "arrive ControllerSide io = ArriveController"

fun in_flight :: "side \<Rightarrow> peer_system \<Rightarrow> bytes list" where
  "in_flight HostSide s = sy_to_host s"
| "in_flight ControllerSide s = hs_out (sy_host s)"

fun put_update :: "side \<Rightarrow> string \<Rightarrow> peer_system \<Rightarrow> peer_system" where
  "put_update HostSide t s = s\<lparr>sy_host := (sy_host s)\<lparr>hs_clipboard := hs_clipboard (sy_host s) @ [t]\<rparr>\<rparr>"
| "put_update ControllerSide t s = s\<lparr>sy_ctl := (sy_ctl s)\<lparr>ce_clipboard := ce_clipboard (sy_ctl s) @ [t]\<rparr>\<rparr>"

lemma text_delivered:
  assumes "bincode_ok bc" and "to_bytes bc (Clipboard (TextUpdated t)) = Inr b" and "in_flight (other_side x) s = []"
  shows "peer_step bc accepts (arrive (other_side x) io) (send_from bc None x (Clipboard (TextUpdated t)) s) =
     put_update (other_side x) t s"
proof -
  have d: "from_bytes bc b = Inr (Clipboard (TextUpdated t))" using assms(1,2) by (auto simp: bincode_ok_def)
  show ?thesis
    by (cases x) (use assms(2,3) d in \<open>simp_all add: arrive_host_def arrive_controller_def send_control_def
        host_receive_def controller_receive_def\<close>)
qed

lemma turn_reports:
  assumes "sy_clip s x = Some c" and "updates_at x s = []" and "clip_text c = Some t" and "t \<noteq> last_seen c"
  shows "thread_turn accepts x s = s\<lparr>sy_clip := (sy_clip s)(x \<mapsto> c\<lparr>last_seen := t\<rparr>),
     sy_spawned := (sy_spawned s)(x := sy_spawned s x @ [t])\<rparr>"
  using assms by (simp add: thread_turn_def iteration_def poll_def clear_no_updates)

lemma turn_applies:
  assumes "\<And>u. accepts u" and "sy_clip s x = Some c" and "updates_at x s \<noteq> []"
  shows "thread_turn accepts x s = (clear_updates x s)\<lparr>sy_clip := (sy_clip s)(x \<mapsto>
     c\<lparr>clip_text := Some (last (updates_at x s)), last_seen := last (updates_at x s)\<rparr>)\<rparr>"
  using assms(2) apply_updates_seen [OF assms(1,3), where s = c] by (simp add: thread_turn_def iteration_def poll_def)

lemma task_sends:
  "sy_spawned s x = [t] \<Longrightarrow> run_text_task bc fault x 0 s =
     send_from bc fault x (Clipboard (TextUpdated t)) (s\<lparr>sy_spawned := (sy_spawned s)(x := [])\<rparr>)"
  "sy_spawned s x = [t, u] \<Longrightarrow> run_text_task bc fault x 1 s =
     send_from bc fault x (Clipboard (TextUpdated u)) (s\<lparr>sy_spawned := (sy_spawned s)(x := [t])\<rparr>)"
  by (simp_all add: run_text_task_def)

lemma updates_simps [simp]:
  "updates_at x (s\<lparr>sy_clip := f\<rparr>) = updates_at x s" "updates_at x (s\<lparr>sy_spawned := g\<rparr>) = updates_at x s"
  "in_flight x (s\<lparr>sy_clip := f\<rparr>) = in_flight x s" "in_flight x (s\<lparr>sy_spawned := g\<rparr>) = in_flight x s"
  "in_flight y (put_update x t s) = in_flight y s"
  "sy_clip (put_update x t s) = sy_clip s" "sy_spawned (put_update x t s) = sy_spawned s"
  "updates_at x (put_update x t s) = updates_at x s @ [t]"
  "put_update x t s\<lparr>sy_spawned := g\<rparr> = put_update x t (s\<lparr>sy_spawned := g\<rparr>)"
  "put_update x t s\<lparr>sy_clip := f\<rparr> = put_update x t (s\<lparr>sy_clip := f\<rparr>)"
  by (cases x; cases y; simp)+

lemma put_then_clear [simp]:
  "clear_updates x (put_update x t s) = clear_updates x s"
  by (cases x) simp_all

lemma copy_reported:
  assumes "sy_clip s x = Some c" and "updates_at x s = []" and "t \<noteq> last_seen c"
  shows "peer_run bc accepts [UserCopies x t, ThreadTurn x] s =
     s\<lparr>sy_clip := (sy_clip s)(x \<mapsto> c\<lparr>clip_text := Some t, last_seen := t\<rparr>),
       sy_spawned := (sy_spawned s)(x := sy_spawned s x @ [t])\<rparr>"
  using assms turn_reports [where x = x and t = t and c = "c\<lparr>clip_text := Some t\<rparr>" and accepts = accepts and
      s = "s\<lparr>sy_clip := (sy_clip s)(x \<mapsto> c\<lparr>clip_text := Some t\<rparr>)\<rparr>"] by simp

lemma task_delivered:
  assumes "bincode_ok bc" and "to_bytes bc (Clipboard (TextUpdated t)) = Inr b" and "in_flight (other_side x) s = []"
  shows "sy_spawned s x = [t] \<Longrightarrow> peer_run bc accepts [TextTask x 0 None, arrive (other_side x) io] s =
       put_update (other_side x) t (s\<lparr>sy_spawned := (sy_spawned s)(x := [])\<rparr>)"
    "sy_spawned s x = [u, t] \<Longrightarrow> peer_run bc accepts [TextTask x 1 None, arrive (other_side x) io] s =
       put_update (other_side x) t (s\<lparr>sy_spawned := (sy_spawned s)(x := [u])\<rparr>)"
  using assms(3) by (simp_all add: task_sends text_delivered [OF assms(1,2)] del: One_nat_def)

lemma peer_run_append: "peer_run bc accepts (xs @ ys) s = peer_run bc accepts ys (peer_run bc accepts xs s)"
  by (induction xs arbitrary: s) simp_all

text \<open>The state in which the two clipboards hold given texts and everything else is as in a calm state.\<close>

definition holding :: "side \<Rightarrow> clip \<Rightarrow> clip \<Rightarrow> peer_system \<Rightarrow> peer_system" where
  "holding x c d s = s\<lparr>sy_clip := (sy_clip s)(x \<mapsto> c, other_side x \<mapsto> d)\<rparr>"

lemma holding_calm:
  "calm s \<Longrightarrow> pending c = 0 \<Longrightarrow> pending d = 0 \<Longrightarrow> calm (holding x c d s)"
proof -
  assume "calm s" "pending c = 0" "pending d = 0"
  then show ?thesis using side_cases [where x = x] by (auto simp: calm_def holding_def unseen_def)
qed

section \<open>What the disk makes of it\<close>

text \<open>The messages among the bytes in flight that are about files, and the disk of the host once everything in
  flight has arrived.\<close>

definition file_messages :: "bincode \<Rightarrow> bytes list \<Rightarrow> file_transfer_message list" where
  "file_messages bc bs =
     List.map_filter (\<lambda>b. case from_bytes bc b of Inr (FileMsg m) \<Rightarrow> Some m | _ \<Rightarrow> None) bs"

definition disk_to_be :: "bincode \<Rightarrow> peer_system \<Rightarrow> receiver" where
  "disk_to_be bc s = receive_all (file_messages bc (sy_to_host s)) (hs_files (sy_host s))"

fun file_sent :: "bincode \<Rightarrow> peer_event \<Rightarrow> file_transfer_message list" where
  "file_sent bc (ControllerSends (FileMsg m) None) = (case to_bytes bc (FileMsg m) of Inr _ \<Rightarrow> [m] | Inl _ \<Rightarrow> [])"
| "file_sent bc _ = []"

fun no_file_fault :: "peer_event \<Rightarrow> bool" where
  "no_file_fault (ArriveHost io) = (hio_file io = None)"
| "no_file_fault _ = True"

lemma receive_all_append: "receive_all (xs @ ys) rx = receive_all ys (receive_all xs rx)"
  by (induction xs arbitrary: rx) simp_all

lemma file_messages_simps [simp]:
  "file_messages bc [] = []"
  "file_messages bc (xs @ ys) = file_messages bc xs @ file_messages bc ys"
  "file_messages bc (b # bs) =
     (case from_bytes bc b of Inr (FileMsg m) \<Rightarrow> m # file_messages bc bs | _ \<Rightarrow> file_messages bc bs)"
  by (simp_all add: file_messages_def List.map_filter_def split: sum.split control_message.split)

lemma host_files:
  assumes "hio_file io = None"
  shows "hs_files (host_receive bc io b h) =
     (case from_bytes bc b of Inr (FileMsg m) \<Rightarrow> snd (handle_file None m (hs_files h)) | _ \<Rightarrow> hs_files h)"
proof -
  have "hs_files (host_on_message bc io m h) =
      (case m of FileMsg f \<Rightarrow> snd (handle_file None f (hs_files h)) | _ \<Rightarrow> hs_files h)" for m
    using assms by (cases "(bc, io, m, h)" rule: host_on_message.cases) (simp_all add: reply_with_def split: sum.split)
  then show ?thesis by (simp add: host_receive_def split: sum.split control_message.split)
qed

lemma step_disk:
  assumes "bincode_ok bc" and "no_file_fault e"
  shows "disk_to_be bc (peer_step bc accepts e s) = receive_all (file_sent bc e) (disk_to_be bc s)"
proof (cases e)
  case (ThreadTurn x)
  then show ?thesis by (simp add: disk_to_be_def thread_turn_def split: option.split prod.split)
next
  case (TextTask x i fault)
  have "from_bytes bc b = Inr (Clipboard c)" if "to_bytes bc (Clipboard c) = Inr b" for b c
    using assms(1) that by (auto simp: bincode_ok_def)
  then show ?thesis using TextTask
    by (cases x) (auto simp: disk_to_be_def run_text_task_def send_control_def split: sum.split option.split)
next
  case (ControllerSends m fault)
  have d: "from_bytes bc b = Inr m" if "to_bytes bc m = Inr b" for b
    using assms(1) that by (auto simp: bincode_ok_def)
  then show ?thesis using ControllerSends
    by (cases m; cases fault)
      (auto simp: disk_to_be_def send_control_def receive_all_append split: sum.split)
next
  case (HostOpened io)
  then show ?thesis by (simp add: disk_to_be_def host_on_open_def reply_with_def split: sum.split)
next
  case (ArriveHost io)
  then have f: "hio_file io = None" using assms(2) by simp
  show ?thesis using ArriveHost host_files [OF f, of bc]
    by (auto simp: disk_to_be_def arrive_host_def split: list.split sum.split control_message.split)
next
  case ArriveController
  then show ?thesis by (simp add: disk_to_be_def arrive_controller_def split: list.split)
qed (simp add: disk_to_be_def)

lemma run_disk:
  assumes "bincode_ok bc" and "list_all no_file_fault es"
  shows "disk_to_be bc (peer_run bc accepts es s) = receive_all (concat (map (file_sent bc) es)) (disk_to_be bc s)"
  using assms(2) by (induction es arbitrary: s) (simp_all add: step_disk [OF assms(1)] receive_all_append)

section \<open>Properties\<close>

text \<open>
  C32. No echo in a session: while the clipboards accept what they are given, the two threads together report at
  most one change for each text a user copies, plus one for each clipboard whose first text a thread has
  not seen, however the turns, the spawned tasks, the deliveries and all other traffic of the session
  interleave, and whatever the channel loses.
\<close>

theorem session_clipboard_no_echo:
  assumes "\<And>t. accepts t"
  shows "reports bc accepts es s \<le> unseen HostSide s + unseen ControllerSide s + user_copies es"
  using run_unseen [where accepts = accepts and x = HostSide and bc = bc and es = es and s = s, OF assms] by simp

text \<open>
  C33. A copied text reaches the other side of a session: from a calm state, once the thread has seen it, its
  task has sent it, the channel has delivered it and the other thread has run, both clipboards hold it,
  the state is calm again, and no later turn, task or delivery changes anything.
\<close>

theorem session_clipboard_converges:
  assumes "bincode_ok bc" and "to_bytes bc (Clipboard (TextUpdated t)) = Inr b" and "\<And>u. accepts u"
    and "calm s" and "sy_clip s x = Some c" and "sy_clip s (other_side x) = Some d" and "t \<noteq> last_seen c"
  shows "\<exists>s' c' d'. peer_run bc accepts [UserCopies x t, ThreadTurn x, TextTask x 0 None, arrive (other_side x) io,
       ThreadTurn (other_side x)] s = s' \<and> calm s' \<and> sy_clip s' x = Some c' \<and> sy_clip s' (other_side x) = Some d' \<and>
     clip_text c' = Some t \<and> clip_text d' = Some t \<and>
     (\<forall>es. list_all idle_event es \<longrightarrow> peer_run bc accepts es s' = s')"
proof -
  let ?c = "c\<lparr>clip_text := Some t, last_seen := t\<rparr>" and ?d = "d\<lparr>clip_text := Some t, last_seen := t\<rparr>"
  have calm: "updates_at y s = []" "sy_spawned s y = []" "in_flight y s = []" for y
    using assms(4) by (cases y; simp add: calm_def)+
  let ?s1 = "s\<lparr>sy_clip := (sy_clip s)(x \<mapsto> ?c), sy_spawned := (sy_spawned s)(x := [t])\<rparr>"
  let ?s2 = "put_update (other_side x) t (s\<lparr>sy_clip := (sy_clip s)(x \<mapsto> ?c)\<rparr>)"
  have sp: "(sy_spawned s)(x := []) = sy_spawned s" using calm(2) [of x] by auto
  have "peer_run bc accepts [UserCopies x t, ThreadTurn x] s = ?s1"
    using copy_reported [where t = t, OF assms(5) calm(1) assms(7)] calm(2) by simp
  moreover have "peer_run bc accepts [TextTask x 0 None, arrive (other_side x) io] ?s1 = ?s2"
    using task_delivered(1) [OF assms(1,2), of x ?s1 accepts io] calm(3) sp by simp
  moreover have "thread_turn accepts (other_side x) ?s2 = holding x ?c ?d s"
    using turn_applies [OF assms(3), of ?s2 "other_side x" d] assms(6) calm(1)
    by (simp add: holding_def clear_no_updates)
  ultimately have run: "peer_run bc accepts ([UserCopies x t, ThreadTurn x] @ [TextTask x 0 None, arrive (other_side x) io] @
       [ThreadTurn (other_side x)]) s = holding x ?c ?d s"
    unfolding peer_run_append by simp
  have "calm (holding x ?c ?d s)" by (rule holding_calm [OF assms(4)]) (simp_all add: pending_def)
  moreover have "sy_clip (holding x ?c ?d s) x = Some ?c" "sy_clip (holding x ?c ?d s) (other_side x) = Some ?d"
    by (simp_all add: holding_def)
  ultimately show ?thesis using run calm_run [of "holding x ?c ?d s"] by auto
qed

text \<open>
  Two texts copied in a row can leave the clipboards different for good: each change is sent by a task of its
  own, and when the second task sends first, the other side ends with the older text while the first side
  holds the newer one; the state is calm, so nothing repairs it until somebody copies again.
\<close>

theorem session_clipboard_can_diverge:
  assumes "bincode_ok bc" and "to_bytes bc (Clipboard (TextUpdated t)) = Inr b" and "to_bytes bc (Clipboard (TextUpdated u)) = Inr b'"
    and "\<And>v. accepts v" and "calm s" and "sy_clip s x = Some c" and "sy_clip s (other_side x) = Some d"
    and "t \<noteq> last_seen c" and "u \<noteq> t"
  shows "\<exists>s' c' d'. peer_run bc accepts [UserCopies x t, ThreadTurn x, UserCopies x u, ThreadTurn x,
       TextTask x 1 None, arrive (other_side x) io, TextTask x 0 None, arrive (other_side x) io, ThreadTurn (other_side x)] s = s' \<and>
     sy_clip s' x = Some c' \<and> sy_clip s' (other_side x) = Some d' \<and> clip_text c' = Some u \<and> clip_text d' = Some t \<and>
     (\<forall>es. list_all idle_event es \<longrightarrow> peer_run bc accepts es s' = s')"
proof -
  let ?c1 = "c\<lparr>clip_text := Some t, last_seen := t\<rparr>" and ?c = "c\<lparr>clip_text := Some u, last_seen := u\<rparr>"
    and ?d = "d\<lparr>clip_text := Some t, last_seen := t\<rparr>"
  have calm: "updates_at y s = []" "sy_spawned s y = []" "in_flight y s = []" for y
    using assms(5) by (cases y; simp add: calm_def)+
  let ?s1 = "s\<lparr>sy_clip := (sy_clip s)(x \<mapsto> ?c1), sy_spawned := (sy_spawned s)(x := [t])\<rparr>"
  let ?s2 = "s\<lparr>sy_clip := (sy_clip s)(x \<mapsto> ?c), sy_spawned := (sy_spawned s)(x := [t, u])\<rparr>"
  let ?s3 = "put_update (other_side x) u (s\<lparr>sy_clip := (sy_clip s)(x \<mapsto> ?c), sy_spawned := (sy_spawned s)(x := [t])\<rparr>)"
  let ?s4 = "put_update (other_side x) t (put_update (other_side x) u (s\<lparr>sy_clip := (sy_clip s)(x \<mapsto> ?c)\<rparr>))"
  have sp: "(sy_spawned s)(x := []) = sy_spawned s" using calm(2) [of x] by auto
  have "peer_run bc accepts [UserCopies x t, ThreadTurn x] s = ?s1"
    using copy_reported [where t = t, OF assms(6) calm(1) assms(8)] calm(2) by simp
  moreover have "peer_run bc accepts [UserCopies x u, ThreadTurn x] ?s1 = ?s2"
    using copy_reported [where t = u and s = ?s1 and c = ?c1 and x = x] calm(1) assms(9) by simp
  moreover have "peer_run bc accepts [TextTask x 1 None, arrive (other_side x) io] ?s2 = ?s3"
    using task_delivered(2) [OF assms(1,3), of x ?s2 t accepts io] calm(3) by (simp del: One_nat_def)
  moreover have "peer_run bc accepts [TextTask x 0 None, arrive (other_side x) io] ?s3 = ?s4"
    using task_delivered(1) [OF assms(1,2), of x ?s3 accepts io] calm(3) sp by simp
  moreover have "thread_turn accepts (other_side x) ?s4 = holding x ?c ?d s"
    using turn_applies [OF assms(4), of ?s4 "other_side x" d] assms(7) calm(1)
    by (simp add: holding_def clear_no_updates)
  ultimately have run: "peer_run bc accepts ([UserCopies x t, ThreadTurn x] @ [UserCopies x u, ThreadTurn x] @
       [TextTask x 1 None, arrive (other_side x) io] @ [TextTask x 0 None, arrive (other_side x) io] @
       [ThreadTurn (other_side x)]) s = holding x ?c ?d s"
    unfolding peer_run_append by simp
  have "calm (holding x ?c ?d s)" by (rule holding_calm [OF assms(5)]) (simp_all add: pending_def)
  moreover have "sy_clip (holding x ?c ?d s) x = Some ?c" "sy_clip (holding x ?c ?d s) (other_side x) = Some ?d"
    by (simp_all add: holding_def)
  ultimately show ?thesis using run calm_run [of "holding x ?c ?d s"] by auto
qed

text \<open>
  C9. A file arrives intact through a session: whatever input, clipboard and monitor traffic and whatever other
  transfers share the channel, and however their sends and deliveries interleave, once everything sent has
  been delivered the host holds the file with exactly its bytes, under its name or a numbered variant, and
  every file that was complete before is as it was.
\<close>

theorem session_file_intact:
  assumes "bincode_ok bc" and "sy_to_host s = []" and "recv_inv (hs_files (sy_host s))"
    and "list_all no_file_fault es" and "offers_fresh (concat (map (file_sent bc) es)) (hs_files (sy_host s))"
    and "about tid (concat (map (file_sent bc) es)) = send_file tid path data"
    and "sy_to_host (peer_run bc accepts es s) = []"
  defines "rx \<equiv> hs_files (sy_host s)" and "rx' \<equiv> hs_files (sy_host (peer_run bc accepts es s))"
  shows "\<exists>p i. settled rx' p i \<and> contents rx' i = data \<and>
     (p = path_join (dest_dir rx) (offered_name path) \<or> (\<exists>n. p = numbered_path rx (offered_name path) n)) \<and>
     (\<forall>q j. settled rx q j \<longrightarrow> settled rx' q j \<and> contents rx' j = contents rx j)"
proof -
  have "rx' = receive_all (concat (map (file_sent bc) es)) rx"
    using run_disk [OF assms(1,4), of accepts s] assms(2,7) by (simp add: disk_to_be_def rx_def rx'_def)
  then show ?thesis using file_transfer_intact [OF assms(3,5,6)] by (simp add: rx_def)
qed

section \<open>Witnesses\<close>

definition wit_text_bincode :: bincode where
  "wit_text_bincode = \<lparr>to_bytes = (\<lambda>m. case m of
         Clipboard (TextUpdated t) \<Rightarrow> Inr (map (\<lambda>c. of_nat (of_char c)) t) | _ \<Rightarrow> Inl ''unsupported''),
     from_bytes = (\<lambda>b. Inr (Clipboard (TextUpdated (map (\<lambda>w. char_of (unat w)) b))))\<rparr>"

lemma wit_text_bincode_ok: "bincode_ok wit_text_bincode"
proof -
  have "char_of (unat (of_nat (of_char c) :: 8 word)) = c" for c
  proof -
    have "of_char c < (256 :: nat)" using of_char_mod_256 [of c, where 'a = nat] by (metis mod_less_divisor zero_less_numeral)
    then show ?thesis by (simp add: unat_of_nat take_bit_eq_mod)
  qed
  then show ?thesis
    by (auto simp: bincode_ok_def wit_text_bincode_def comp_def split: control_message.splits clipboard_message.splits)
qed

definition wit_system :: peer_system where
  "wit_system = \<lparr>sy_host = wit_host_session, sy_ctl = \<lparr>ce_clipboard = [], ce_monitor_updates = []\<rparr>, sy_to_host = [],
     sy_clip = (\<lambda>_. clipboard_start (Inr (Some []))), sy_spawned = (\<lambda>_. [])\<rparr>"

lemma wit_system_calm: "calm wit_system"
proof -
  have "updates_at x wit_system = []" for x by (cases x) (simp_all add: wit_system_def wit_host_session_def)
  then show ?thesis
    by (simp add: calm_def wit_system_def unseen_def clipboard_start_def thread_start_def pending_def wit_host_session_def)
qed

lemma wit_system_clip: "sy_clip wit_system x = Some (thread_start (Some []))"
  by (simp add: wit_system_def clipboard_start_def)

theorem session_clipboard_no_echo_witness:
  "reports wit_text_bincode (\<lambda>_. True) [UserCopies HostSide ''hi'', ThreadTurn HostSide, TextTask HostSide 0 None,
     ArriveController, ThreadTurn ControllerSide, ThreadTurn HostSide] wit_system \<le> 1"
  using session_clipboard_no_echo [of "\<lambda>_. True" wit_text_bincode "[UserCopies HostSide ''hi'', ThreadTurn HostSide,
      TextTask HostSide 0 None, ArriveController, ThreadTurn ControllerSide, ThreadTurn HostSide]" wit_system]
  by (simp add: unseen_def wit_system_clip thread_start_def pending_def user_copies_def)

theorem session_clipboard_converges_witness:
  "\<exists>s' d. peer_run wit_text_bincode (\<lambda>_. True) [UserCopies HostSide ''hi'', ThreadTurn HostSide, TextTask HostSide 0 None,
     ArriveController, ThreadTurn ControllerSide] wit_system = s' \<and> sy_clip s' ControllerSide = Some d \<and>
     clip_text d = Some ''hi''"
proof -
  have b: "to_bytes wit_text_bincode (Clipboard (TextUpdated ''hi'')) = Inr (map (\<lambda>c. of_nat (of_char c)) ''hi'')"
    by (simp add: wit_text_bincode_def)
  from session_clipboard_converges [OF wit_text_bincode_ok b _ wit_system_calm wit_system_clip wit_system_clip,
      of "\<lambda>_. True" HostSide] show ?thesis by (simp only: arrive.simps other_side.simps) (auto simp: thread_start_def)
qed

theorem session_clipboard_can_diverge_witness:
  "\<exists>s' d. peer_run wit_text_bincode (\<lambda>_. True) [UserCopies HostSide ''a'', ThreadTurn HostSide, UserCopies HostSide ''b'',
     ThreadTurn HostSide, TextTask HostSide 1 None, ArriveController, TextTask HostSide 0 None, ArriveController,
     ThreadTurn ControllerSide] wit_system = s' \<and> sy_clip s' ControllerSide = Some d \<and> clip_text d = Some ''a''"
proof -
  have b: "to_bytes wit_text_bincode (Clipboard (TextUpdated ''a'')) = Inr (map (\<lambda>c. of_nat (of_char c)) ''a'')"
    "to_bytes wit_text_bincode (Clipboard (TextUpdated ''b'')) = Inr (map (\<lambda>c. of_nat (of_char c)) ''b'')"
    by (simp_all add: wit_text_bincode_def)
  from session_clipboard_can_diverge [OF wit_text_bincode_ok b _ wit_system_calm wit_system_clip wit_system_clip,
      of "\<lambda>_. True" HostSide] show ?thesis by (simp only: arrive.simps other_side.simps) (auto simp: thread_start_def)
qed

definition wit_file_bincode :: bincode where
  "wit_file_bincode = \<lparr>to_bytes = (\<lambda>m. if m = FileMsg (Offer ''t'' ''a.txt'' 3) then Inr [0]
       else if m = FileMsg (Chunk ''t'' 0 [1, 2, 3]) then Inr [1]
       else if m = FileMsg (Complete ''t'') then Inr [2] else Inl ''unsupported''),
     from_bytes = (\<lambda>b. if b = [0] then Inr (FileMsg (Offer ''t'' ''a.txt'' 3))
       else if b = [1] then Inr (FileMsg (Chunk ''t'' 0 [1, 2, 3]))
       else if b = [2] then Inr (FileMsg (Complete ''t'')) else Inl ''EOF'')\<rparr>"

lemma wit_file_bincode_ok: "bincode_ok wit_file_bincode"
  by (auto simp: bincode_ok_def wit_file_bincode_def split: if_splits)

theorem session_file_intact_witness:
  "\<exists>p i. contents (hs_files (sy_host (peer_run wit_file_bincode (\<lambda>_. True)
     [ControllerSends (FileMsg (Offer ''t'' ''a.txt'' 3)) None, ControllerSends (FileMsg (Chunk ''t'' 0 [1, 2, 3])) None,
      ArriveHost wit_host_io, ThreadTurn HostSide, ControllerSends (FileMsg (Complete ''t'')) None,
      ArriveHost wit_host_io, ArriveHost wit_host_io] wit_system))) i = [1, 2, 3] \<and>
     settled (hs_files (sy_host (peer_run wit_file_bincode (\<lambda>_. True)
     [ControllerSends (FileMsg (Offer ''t'' ''a.txt'' 3)) None, ControllerSends (FileMsg (Chunk ''t'' 0 [1, 2, 3])) None,
      ArriveHost wit_host_io, ThreadTurn HostSide, ControllerSends (FileMsg (Complete ''t'')) None,
      ArriveHost wit_host_io, ArriveHost wit_host_io] wit_system))) p i"
  (is "\<exists>p i. contents (hs_files (sy_host (peer_run _ _ ?es _))) i = _ \<and> _")
proof -
  have s: "send_file ''t'' ''/home/a.txt'' [1, 2, 3] =
      [Offer ''t'' ''a.txt'' 3, Chunk ''t'' 0 [1, 2, 3], Complete ''t'']"
    by (simp add: send_file_def path_file_name_def chunks.simps CHUNK_SIZE_def)
  have sent: "concat (map (file_sent wit_file_bincode) ?es) = send_file ''t'' ''/home/a.txt'' [1, 2, 3]"
    unfolding s by (simp add: wit_file_bincode_def)
  have rx: "hs_files (sy_host wit_system) = wit_rx" by (simp add: wit_system_def wit_host_session_def)
  have "recv_inv wit_rx" by (simp add: recv_inv_def wit_rx_def)
  moreover have "offers_fresh (send_file ''t'' ''/home/a.txt'' [1, 2, 3]) wit_rx"
    unfolding s using wit_unique by (simp add: offer_fresh_def exists_path_def wit_rx_def Let_def create_file_def)
  moreover have "about ''t'' (send_file ''t'' ''/home/a.txt'' [1, 2, 3]) = send_file ''t'' ''/home/a.txt'' [1, 2, 3]"
    unfolding s by simp
  moreover have "sy_to_host wit_system = []" "list_all no_file_fault ?es"
    by (simp_all add: wit_system_def wit_host_io_def)
  moreover have "sy_to_host (peer_run wit_file_bincode (\<lambda>_. True) ?es wit_system) = []"
    by (simp add: wit_system_def wit_file_bincode_def send_control_def arrive_host_def thread_turn_def clipboard_start_def
        split: prod.split)
  ultimately show ?thesis
    using session_file_intact [OF wit_file_bincode_ok, of wit_system ?es "''t''" "''/home/a.txt''" "[1, 2, 3]" "\<lambda>_. True"]
    unfolding sent rx by blast
qed

end
