(* ===== verification/Pointer_Geometry.thy ===== *)
theory Pointer_Geometry
  imports Complex_Main Control_Messages
begin

text \<open>
  \<open>remote_coords\<close> of \<^verbatim>\<open>visuara-client/src/gui.rs\<close> and the casts of scroll deltas: single-precision arithmetic.  A
  value is a real number, an infinity or not a number (the sign of zero is not kept: it decides no
  comparison and no cast here); every operation rounds its exact result by \<open>rnd\<close>, of which only
  properties of IEEE rounding are used.
\<close>

section \<open>Single-precision numbers\<close>

datatype f32 = NaN | PosInf | NegInf | Fin real

fun f_lt :: "f32 \<Rightarrow> f32 \<Rightarrow> bool" where
  "f_lt NaN _ = False"
| "f_lt _ NaN = False"
| "f_lt (Fin a) (Fin b) = (a < b)"
| "f_lt NegInf NegInf = False"
| "f_lt NegInf _ = True"
| "f_lt (Fin _) PosInf = True"
| "f_lt _ _ = False"

fun f_neg :: "f32 \<Rightarrow> f32" where
  "f_neg NaN = NaN"
| "f_neg PosInf = NegInf"
| "f_neg NegInf = PosInf"
| "f_neg (Fin a) = Fin (- a)"

fun f_sub :: "(real \<Rightarrow> f32) \<Rightarrow> f32 \<Rightarrow> f32 \<Rightarrow> f32" where
  "f_sub rnd (Fin a) (Fin b) = rnd (a - b)"
| "f_sub rnd PosInf (Fin _) = PosInf"
| "f_sub rnd NegInf (Fin _) = NegInf"
| "f_sub rnd (Fin _) PosInf = NegInf"
| "f_sub rnd (Fin _) NegInf = PosInf"
| "f_sub rnd PosInf NegInf = PosInf"
| "f_sub rnd NegInf PosInf = NegInf"
| "f_sub rnd _ _ = NaN"

definition signed_inf :: "bool \<Rightarrow> f32" where
  "signed_inf positive = (if positive then PosInf else NegInf)"

fun f_div :: "(real \<Rightarrow> f32) \<Rightarrow> f32 \<Rightarrow> f32 \<Rightarrow> f32" where
  "f_div rnd (Fin a) (Fin b) =
     (if b \<noteq> 0 then rnd (a / b) else if a = 0 then NaN else signed_inf (0 < a))"
| "f_div rnd PosInf (Fin b) = signed_inf (0 \<le> b)"
| "f_div rnd NegInf (Fin b) = signed_inf (b < 0)"
| "f_div rnd (Fin _) PosInf = Fin 0"
| "f_div rnd (Fin _) NegInf = Fin 0"
| "f_div rnd _ _ = NaN"

fun f_mul :: "(real \<Rightarrow> f32) \<Rightarrow> f32 \<Rightarrow> f32 \<Rightarrow> f32" where
  "f_mul rnd (Fin a) (Fin b) = rnd (a * b)"
| "f_mul rnd NaN _ = NaN"
| "f_mul rnd _ NaN = NaN"
| "f_mul rnd (Fin a) PosInf = (if a = 0 then NaN else signed_inf (0 < a))"
| "f_mul rnd (Fin a) NegInf = (if a = 0 then NaN else signed_inf (a < 0))"
| "f_mul rnd PosInf (Fin b) = (if b = 0 then NaN else signed_inf (0 < b))"
| "f_mul rnd NegInf (Fin b) = (if b = 0 then NaN else signed_inf (b < 0))"
| "f_mul rnd PosInf PosInf = PosInf"
| "f_mul rnd NegInf NegInf = PosInf"
| "f_mul rnd _ _ = NegInf"

text \<open>\<open>f32::clamp\<close>: not a number stays what it is.\<close>

definition f_clamp :: "f32 \<Rightarrow> f32 \<Rightarrow> f32 \<Rightarrow> f32" where
  "f_clamp lo hi x = (let y = if f_lt x lo then lo else x in if f_lt hi y then hi else y)"

text \<open>\<open>as i32\<close>: towards zero, saturating, not a number to zero; and \<open>u32 as f32\<close>.\<close>

definition truncate_real :: "real \<Rightarrow> int" where
  "truncate_real x = (if 0 \<le> x then \<lfloor>x\<rfloor> else \<lceil>x\<rceil>)"

fun as_i32 :: "f32 \<Rightarrow> i32" where
  "as_i32 NaN = 0"
| "as_i32 PosInf = word_of_int (2 ^ 31 - 1)"
| "as_i32 NegInf = word_of_int (- (2 ^ 31))"
| "as_i32 (Fin x) = word_of_int (max (- (2 ^ 31)) (min (2 ^ 31 - 1) (truncate_real x)))"

definition f32_of_u32 :: "(real \<Rightarrow> f32) \<Rightarrow> u32 \<Rightarrow> f32" where
  "f32_of_u32 rnd w = rnd (real_of_int (uint w))"

section \<open>gui.rs\<close>

text \<open>The picture's rectangle: its left and top edge, its width and height.\<close>

record rect =
  rect_left :: f32
  rect_top :: f32
  rect_width :: f32
  rect_height :: f32

definition remote_coord :: "(real \<Rightarrow> f32) \<Rightarrow> f32 \<Rightarrow> f32 \<Rightarrow> f32 \<Rightarrow> u32 \<Rightarrow> i32" where
  "remote_coord rnd pos edge extent remote =
     (let rel = f_clamp (Fin 0) (Fin 1) (f_div rnd (f_sub rnd pos edge) extent)
      in as_i32 (f_mul rnd rel (f32_of_u32 rnd remote)))"

definition remote_coords :: "(real \<Rightarrow> f32) \<Rightarrow> f32 \<times> f32 \<Rightarrow> rect \<Rightarrow> u32 \<Rightarrow> u32 \<Rightarrow> i32 \<times> i32" where
  "remote_coords rnd pos r remote_w remote_h =
     (remote_coord rnd (fst pos) (rect_left r) (rect_width r) remote_w,
      remote_coord rnd (snd pos) (rect_top r) (rect_height r) remote_h)"

section \<open>Lemmas\<close>

text \<open>What is used of rounding: it is monotone where its results are finite, keeps what is
  representable, and represents the integers up to 2^24.\<close>

definition f32_rounding :: "(real \<Rightarrow> f32) \<Rightarrow> bool" where
  "f32_rounding rnd \<longleftrightarrow>
     (\<forall>x y a b. x \<le> y \<longrightarrow> rnd x = Fin a \<longrightarrow> rnd y = Fin b \<longrightarrow> a \<le> b) \<and>
     (\<forall>x y z a b. x \<le> y \<longrightarrow> y \<le> z \<longrightarrow> rnd x = Fin a \<longrightarrow> rnd z = Fin b \<longrightarrow> (\<exists>c. rnd y = Fin c)) \<and>
     (\<forall>n. 0 \<le> n \<and> n \<le> 2 ^ 24 \<longrightarrow> rnd (real_of_int n) = Fin (real_of_int n))"

lemma clamp_unit: "f_clamp (Fin 0) (Fin 1) x = NaN \<or> (\<exists>r. f_clamp (Fin 0) (Fin 1) x = Fin r \<and> 0 \<le> r \<and> r \<le> 1)"
  by (cases x) (auto simp: f_clamp_def Let_def)

lemma as_i32_between:
  assumes "0 \<le> x" and "x \<le> real_of_int n" and "n \<le> 2 ^ 24"
  shows "0 \<le> sint (as_i32 (Fin x)) \<and> sint (as_i32 (Fin x)) \<le> n"
proof -
  have t: "0 \<le> truncate_real x" "truncate_real x \<le> n" using assms by (simp_all add: truncate_real_def floor_le_iff)
  then have "truncate_real x < 2 ^ 31" using assms(3) by simp
  then have e: "as_i32 (Fin x) = word_of_int (truncate_real x)" using t by simp
  have "sint (word_of_int (truncate_real x) :: i32) = truncate_real x"
    using t assms(3) by (simp add: sint_sbintrunc' signed_take_bit_int_eq_self)
  then show ?thesis using e t by simp
qed

lemma rounding_between:
  assumes "f32_rounding rnd" and "0 \<le> x" and "x \<le> real_of_int n" and "n \<le> 2 ^ 24"
  shows "\<exists>c. rnd x = Fin c \<and> 0 \<le> c \<and> c \<le> real_of_int n"
proof -
  have n: "0 \<le> n" using assms(2,3) by linarith
  have e: "rnd 0 = Fin 0" "rnd (real_of_int n) = Fin (real_of_int n)"
    using assms(1,4) n unfolding f32_rounding_def by (metis le_numeral_extra(3) of_int_0 zero_le_numeral zero_le_power, blast)
  have "\<exists>c. rnd x = Fin c" using assms(1-3) e unfolding f32_rounding_def by blast
  then show ?thesis using assms(1-3) e unfolding f32_rounding_def by metis
qed

lemma rounding_int: "f32_rounding rnd \<Longrightarrow> 0 \<le> n \<Longrightarrow> n \<le> 2 ^ 24 \<Longrightarrow> rnd (real_of_int n) = Fin (real_of_int n)"
  by (simp add: f32_rounding_def)

lemma f32_of_u32_exact:
  assumes "f32_rounding rnd" and "uint w \<le> 2 ^ 24"
  shows "f32_of_u32 rnd w = Fin (real_of_int (uint w))"
  unfolding f32_of_u32_def by (rule rounding_int [OF assms(1) _ assms(2)]) simp

lemma remote_coord_bounds:
  assumes "f32_rounding rnd" and "uint w \<le> 2 ^ 24"
  shows "0 \<le> sint (remote_coord rnd pos edge extent w) \<and> sint (remote_coord rnd pos edge extent w) \<le> uint w"
proof -
  let ?rel = "f_clamp (Fin 0) (Fin 1) (f_div rnd (f_sub rnd pos edge) extent)"
  define n where "n = uint w"
  have n: "0 \<le> n" "n \<le> 2 ^ 24" using assms(2) by (simp_all add: n_def)
  have W: "f32_of_u32 rnd w = Fin (real_of_int n)" unfolding n_def by (rule f32_of_u32_exact [OF assms])
  from clamp_unit [of "f_div rnd (f_sub rnd pos edge) extent"]
  have "0 \<le> sint (remote_coord rnd pos edge extent w) \<and> sint (remote_coord rnd pos edge extent w) \<le> n"
  proof
    assume "?rel = NaN"
    then show ?thesis using n by (simp add: remote_coord_def Let_def)
  next
    assume "\<exists>r. ?rel = Fin r \<and> 0 \<le> r \<and> r \<le> 1"
    then obtain r where r: "?rel = Fin r" "0 \<le> r" "r \<le> 1" by blast
    have "0 \<le> r * real_of_int n" "r * real_of_int n \<le> real_of_int n"
      using r n by (simp_all add: mult_left_le_one_le)
    from rounding_between [OF assms(1) this n(2)] obtain c where
      c: "rnd (r * real_of_int n) = Fin c" "0 \<le> c" "c \<le> real_of_int n" by blast
    have "remote_coord rnd pos edge extent w = as_i32 (Fin c)"
      using r c W by (simp add: remote_coord_def Let_def)
    then show ?thesis using as_i32_between [OF c(2,3) n(2)] by simp
  qed
  then show ?thesis by (simp add: n_def)
qed

lemma remote_coord_right:
  assumes "f32_rounding rnd" and "uint w \<le> 2 ^ 24" and "f_div rnd (f_sub rnd pos edge) extent = Fin q" and "1 \<le> q"
  shows "sint (remote_coord rnd pos edge extent w) = uint w"
proof -
  define n where "n = uint w"
  have n: "0 \<le> n" "n \<le> 2 ^ 24" using assms(2) by (simp_all add: n_def)
  have W: "f32_of_u32 rnd w = Fin (real_of_int n)" unfolding n_def by (rule f32_of_u32_exact [OF assms(1,2)])
  have "f_clamp (Fin 0) (Fin 1) (Fin q) = Fin 1" using assms(4) by (simp add: f_clamp_def Let_def)
  then have "remote_coord rnd pos edge extent w = as_i32 (Fin (real_of_int n))"
    using assms(3) W rounding_int [OF assms(1) n] by (simp add: remote_coord_def Let_def)
  moreover have "sint (as_i32 (Fin (real_of_int n))) = n"
    using n by (simp add: truncate_real_def sint_sbintrunc' signed_take_bit_int_eq_self)
  ultimately show ?thesis by (simp add: n_def)
qed

section \<open>Properties\<close>

text \<open>
  C27. A pointer position always maps into the remote screen, border included: for a screen of at most
  2^24 by 2^24 pixels both coordinates lie between 0 and the size, whatever the position and the
  rectangle (empty or not finite included); a position at or beyond the right edge maps to the
  width itself, one past the last column.
\<close>

theorem remote_coords_bounds:
  assumes "f32_rounding rnd" and "uint rw \<le> 2 ^ 24" and "uint rh \<le> 2 ^ 24"
    and "remote_coords rnd pos r rw rh = (x, y)"
  shows "0 \<le> sint x \<and> sint x \<le> uint rw \<and> 0 \<le> sint y \<and> sint y \<le> uint rh \<and>
     (\<forall>q \<ge> 1. f_div rnd (f_sub rnd (fst pos) (rect_left r)) (rect_width r) = Fin q \<longrightarrow> sint x = uint rw)"
  using assms remote_coord_bounds remote_coord_right [OF assms(1,2)] by (auto simp: remote_coords_def)

theorem remote_coords_bounds_witness:
  "sint (fst (remote_coords Fin (Fin 110, Fin 30) \<lparr>rect_left = Fin 10, rect_top = Fin 10, rect_width = Fin 100, rect_height = Fin 0\<rparr>
     1920 1080)) = 1920"
proof -
  have "f32_rounding Fin" by (auto simp: f32_rounding_def)
  from remote_coords_bounds [OF this _ _ prod.collapse [symmetric], of 1920 1080 "(Fin 110, Fin 30)"
      "\<lparr>rect_left = Fin 10, rect_top = Fin 10, rect_width = Fin 100, rect_height = Fin 0\<rparr>"]
  show ?thesis by simp
qed

end
