(* ===== verification/Desktop_App.thy ===== *)
theory Desktop_App
  imports Local_Store Peer_Session Pointer_Geometry
begin

text \<open>
  \<^verbatim>\<open>visuara-client/src/gui.rs\<close>: the window of the desktop client as a state machine.  Its state is that of
  \<open>VisuaraApp\<close>, the \<open>SharedState\<close> behind the mutex, the user's files, and the tasks that were spawned on
  the runtime and have not run yet.  An event is something the user does, a spawned task that runs, or
  something that arrives from the network.  Drawing is left out: a widget appears here as the condition
  under which it is on screen and as what using it does.  A spawned task runs at any time after it was
  spawned, in any order with the others.
\<close>

section \<open>State\<close>

datatype panel = HostPanel | ConnectPanel | DashboardPanel

record visuara_app = app_fields +
  va_panel :: panel
  va_target_device_id :: string
  va_otp :: string
  va_selected_monitor_id :: "u32 option"
  va_unattended_password :: string
  va_use_unattended_password :: bool
  va_last_dashboard_refresh :: nat  \<comment> \<open>milliseconds\<close>
  va_texture :: "rgba_image option"

text \<open>\<open>dashboard_refresh_tx\<close> names the login whose task holds the other end.\<close>

record shared_state =
  sh_status :: string
  sh_host_info :: "(device_id \<times> string) option"
  sh_data_channel :: "session_id option"
  sh_latest_frame :: "rgba_image option"
  sh_remote_size :: "(u32 \<times> u32) option"
  sh_monitors :: "monitor_info list"
  sh_known_devices :: "device_summary list"
  sh_refresh_tx :: "nat option"
  sh_logged_in :: bool
  sh_dashboard_status :: string

definition shared_default :: shared_state where
  "shared_default = \<lparr>sh_status = [], sh_host_info = None, sh_data_channel = None, sh_latest_frame = None,
     sh_remote_size = None, sh_monitors = [], sh_known_devices = [], sh_refresh_tx = None,
     sh_logged_in = False, sh_dashboard_status = []\<rparr>"

text \<open>Tasks that have been spawned, with the values they captured.\<close>

datatype task =
  TSetUnattended string string string device_id string
| THost string string string string
| TConnect string string string device_id connect_credential string
| TLogin string string string string bool
| TInput input_event
| TSwitch u32
| TFile string

text \<open>A login that succeeded: its dashboard task, whether that still runs, and how many of its lists
  the window has taken.\<close>

record login_task =
  lt_running :: bool
  lt_dash :: dashboard
  lt_shown :: nat

record world =
  wd_app :: visuara_app
  wd_shared :: shared_state
  wd_home :: home
  wd_tasks :: "task list"
  wd_logins :: "nat \<rightharpoonup> login_task"
  wd_next_login :: nat
  wd_channel :: "bytes list"  \<comment> \<open>what was sent on the data channel\<close>

text \<open>What the world outside answers.\<close>

record app_env =
  ae_io :: store_io
  ae_js :: "local_settings json"
  ae_creds :: "saved_credentials json"
  ae_exe :: "(string, string) result"
  ae_systemctl :: "bool option"
  ae_dbg :: "server_message \<Rightarrow> string"
  ae_rtc :: webrtc
  ae_net :: "(string, wire) result"
  ae_injector :: "string option"
  ae_bincode :: bincode
  ae_channel_fault :: "string option"
  ae_read :: "string \<Rightarrow> (string, bytes) result"
  ae_uuid :: string

definition visuara_app_new :: "store_io \<Rightarrow> local_settings json \<Rightarrow> embedded_config \<Rightarrow> nat \<Rightarrow> home \<Rightarrow> visuara_app" where
  "visuara_app_new io js embedded now h =
     app_fields.extend (app_new io js embedded h)
       \<lparr>va_panel = HostPanel, va_target_device_id = [], va_otp = [], va_selected_monitor_id = None,
        va_unattended_password = [], va_use_unattended_password = False, va_last_dashboard_refresh = now,
        va_texture = None\<rparr>"

definition set_status :: "string \<Rightarrow> world \<Rightarrow> world" where
  "set_status s w = w\<lparr>wd_shared := (wd_shared w)\<lparr>sh_status := s\<rparr>\<rparr>"

definition spawn :: "task \<Rightarrow> world \<Rightarrow> world" where
  "spawn t w = w\<lparr>wd_tasks := wd_tasks w @ [t]\<rparr>"

section \<open>The text fields and tabs\<close>

datatype edit =
  EditServerUrl string | EditEmail string | EditPassword string | EditDeviceName string | EditTarget string
| EditOtp string | EditUnattended string | CheckUseUnattended bool | CheckRememberMe bool | SelectPanel panel

fun apply_edit :: "edit \<Rightarrow> visuara_app \<Rightarrow> visuara_app" where
  "apply_edit (EditServerUrl s) a = a\<lparr>af_server_url := s\<rparr>"
| "apply_edit (EditEmail s) a = a\<lparr>af_email := s\<rparr>"
| "apply_edit (EditPassword s) a = a\<lparr>af_password := s\<rparr>"
| "apply_edit (EditDeviceName s) a = a\<lparr>af_device_name := s\<rparr>"
| "apply_edit (EditTarget s) a = a\<lparr>va_target_device_id := s\<rparr>"
| "apply_edit (EditOtp s) a = a\<lparr>va_otp := s\<rparr>"
| "apply_edit (EditUnattended s) a = a\<lparr>va_unattended_password := s\<rparr>"
| "apply_edit (CheckUseUnattended b) a = a\<lparr>va_use_unattended_password := b\<rparr>"
| "apply_edit (CheckRememberMe b) a = a\<lparr>af_remember_me := b\<rparr>"
| "apply_edit (SelectPanel p) a = a\<lparr>va_panel := p\<rparr>"

section \<open>The host panel\<close>

definition click_set_unattended :: "world \<Rightarrow> world" where
  "click_set_unattended w =
     (case sh_host_info (wd_shared w) of
        None \<Rightarrow> w
      | Some (device_id, _) \<Rightarrow>
          if va_unattended_password (wd_app w) = [] then w
          else spawn (TSetUnattended (af_server_url (wd_app w)) (af_email (wd_app w)) (af_password (wd_app w))
                 device_id (va_unattended_password (wd_app w))) w)"

definition click_toggle_autostart :: "app_env \<Rightarrow> world \<Rightarrow> world" where
  "click_toggle_autostart env w =
     (if sh_host_info (wd_shared w) = None then w
      else (let a = wd_app w;
                creds = \<lparr>sc_server_url = af_server_url a, sc_email = af_email a, sc_password = af_password a,
                         sc_device_name = af_device_name a\<rparr> in
            (case toggle_autostart (ae_io env) (ae_creds env) (ae_exe env) (ae_systemctl env) creds (wd_home w) of
               (Inr _, h) \<Rightarrow> w\<lparr>wd_home := h\<rparr>
             | (Inl e, h) \<Rightarrow>
                 set_status ((if autostart_is_enabled (wd_home w) then ''failed to disable auto-start: ''
                              else ''failed to enable auto-start: '') @ e) (w\<lparr>wd_home := h\<rparr>))))"

definition click_start_sharing :: "world \<Rightarrow> world" where
  "click_start_sharing w =
     (if sh_host_info (wd_shared w) \<noteq> None then w
      else spawn (THost (af_server_url (wd_app w)) (af_email (wd_app w)) (af_password (wd_app w))
             (af_device_name (wd_app w))) w)"

definition run_set_unattended :: "app_env \<Rightarrow> string \<Rightarrow> string \<Rightarrow> string \<Rightarrow> device_id \<Rightarrow> string \<Rightarrow> world \<Rightarrow> world" where
  "run_set_unattended env url email password target unattended w =
     (case (case signaling_connect url (ae_net env) of
              Inl e \<Rightarrow> Inl e
            | Inr wr \<Rightarrow> fst (set_unattended_flow (ae_dbg env) email password target unattended wr)) of
        Inl e \<Rightarrow> set_status (''failed to set unattended password: '' @ e) w
      | Inr _ \<Rightarrow> w)"

definition run_host :: "app_env \<Rightarrow> string \<Rightarrow> string \<Rightarrow> string \<Rightarrow> string \<Rightarrow> world \<Rightarrow> world" where
  "run_host env url email password name w =
     (case ae_injector env of
        Some e \<Rightarrow> set_status (''input injector failed: '' @ e) w
      | None \<Rightarrow>
          (case register_and_serve (ae_dbg env) (ae_net env) url email password name of
             Inl e \<Rightarrow> set_status (''registration failed: '' @ e) w
           | Inr (handle, _) \<Rightarrow>
               w\<lparr>wd_home := autosave_local_settings (ae_io env) (ae_js env) url name (wd_home w),
                 wd_shared := (wd_shared w)\<lparr>sh_host_info := Some (hh_device_id handle, hh_one_time_password handle)\<rparr>\<rparr>))"

section \<open>The connect panel\<close>

definition form_credential :: "visuara_app \<Rightarrow> connect_credential" where
  "form_credential a =
     (if va_use_unattended_password a then UnattendedPassword (va_otp a) else OneTimePassword (va_otp a))"

definition click_connect :: "world \<Rightarrow> world" where
  "click_connect w =
     (if sh_data_channel (wd_shared w) \<noteq> None then w
      else spawn (TConnect (af_server_url (wd_app w)) (af_email (wd_app w)) (af_password (wd_app w))
             (va_target_device_id (wd_app w)) (form_credential (wd_app w)) (af_device_name (wd_app w))) w)"

definition run_connect ::
  "app_env \<Rightarrow> string \<Rightarrow> string \<Rightarrow> string \<Rightarrow> device_id \<Rightarrow> connect_credential \<Rightarrow> string \<Rightarrow> world \<Rightarrow> world" where
  "run_connect env url email password target cred name w =
     (case controller_connect (ae_dbg env) (ae_rtc env) (ae_net env) url email password target cred of
        Inl e \<Rightarrow> set_status (''connect failed: '' @ e) w
      | Inr (sid, _) \<Rightarrow>
          w\<lparr>wd_home := autosave_local_settings (ae_io env) (ae_js env) url name (wd_home w),
            wd_shared := (wd_shared w)\<lparr>sh_data_channel := Some sid\<rparr>\<rparr>)"

text \<open>The loops over the session's monitor lists and frames.\<close>

definition monitors_arrive :: "monitor_info list \<Rightarrow> world \<Rightarrow> world" where
  "monitors_arrive ms w = w\<lparr>wd_shared := (wd_shared w)\<lparr>sh_monitors := ms\<rparr>\<rparr>"

definition frame_arrives :: "rgba_image \<Rightarrow> world \<Rightarrow> world" where
  "frame_arrives frame w =
     w\<lparr>wd_shared := (wd_shared w)\<lparr>sh_remote_size := Some (img_width frame, img_height frame),
         sh_latest_frame := Some frame\<rparr>\<rparr>"

section \<open>The dashboard panel\<close>

text \<open>A ping is lost when no login holds the other end, or its task has ended.\<close>

definition request_dashboard_refresh :: "world \<Rightarrow> world" where
  "request_dashboard_refresh w =
     (case sh_refresh_tx (wd_shared w) of
        None \<Rightarrow> w
      | Some n \<Rightarrow>
          (case wd_logins w n of
             None \<Rightarrow> w
           | Some t \<Rightarrow>
               w\<lparr>wd_logins := (wd_logins w)(n \<mapsto> t\<lparr>lt_dash := (lt_dash t)\<lparr>db_pings := Suc (db_pings (lt_dash t))\<rparr>\<rparr>)\<rparr>))"

definition DASHBOARD_REFRESH_INTERVAL :: nat where
  "DASHBOARD_REFRESH_INTERVAL = 5000"

text \<open>The part of \<open>ui\<close> that runs on every frame.\<close>

definition ui_tick :: "nat \<Rightarrow> world \<Rightarrow> world" where
  "ui_tick now w =
     (if va_panel (wd_app w) = DashboardPanel \<and> sh_logged_in (wd_shared w) \<and>
         DASHBOARD_REFRESH_INTERVAL \<le> now - va_last_dashboard_refresh (wd_app w)
      then request_dashboard_refresh (w\<lparr>wd_app := (wd_app w)\<lparr>va_last_dashboard_refresh := now\<rparr>\<rparr>)
      else w)"

definition click_log_in :: "world \<Rightarrow> world" where
  "click_log_in w =
     (if sh_logged_in (wd_shared w) then w
      else spawn (TLogin (af_server_url (wd_app w)) (af_email (wd_app w)) (af_password (wd_app w))
             (af_device_name (wd_app w)) (af_remember_me (wd_app w))) w)"

text \<open>The files after a login: the settings, and the login when it is to be remembered.\<close>

definition login_saves :: "app_env \<Rightarrow> string \<Rightarrow> string \<Rightarrow> string \<Rightarrow> string \<Rightarrow> bool \<Rightarrow> home \<Rightarrow> home" where
  "login_saves env url email password name remember h =
     (let h1 = autosave_local_settings (ae_io env) (ae_js env) url name h in
      if remember
      then snd (settings_save (ae_io env) (ae_js env)
             ((settings_or_default (ae_io env) (ae_js env) h1)
                \<lparr>ls_remembered_login := Some \<lparr>rl_email = email, rl_password = password\<rparr>\<rparr>) h1)
      else h1)"

definition run_login :: "app_env \<Rightarrow> string \<Rightarrow> string \<Rightarrow> string \<Rightarrow> string \<Rightarrow> bool \<Rightarrow> world \<Rightarrow> world" where
  "run_login env url email password name remember w =
     (case dashboard_start (ae_dbg env) (ae_net env) url email password of
        Inl e \<Rightarrow> w\<lparr>wd_shared := (wd_shared w)\<lparr>sh_dashboard_status := ''log in failed: '' @ e\<rparr>\<rparr>
      | Inr d \<Rightarrow>
          w\<lparr>wd_home := login_saves env url email password name remember (wd_home w),
            wd_shared := (wd_shared w)\<lparr>sh_refresh_tx := Some (wd_next_login w), sh_logged_in := True,
              sh_dashboard_status := []\<rparr>,
            wd_logins := (wd_logins w)(wd_next_login w \<mapsto> \<lparr>lt_running = True, lt_dash = d, lt_shown = 0\<rparr>),
            wd_next_login := Suc (wd_next_login w)\<rparr>)"

text \<open>One turn of the dashboard task of a login; its channel of pings is closed once the window has
  dropped the sender.\<close>

definition login_turn :: "nat \<Rightarrow> dashboard_branch \<Rightarrow> world \<Rightarrow> world" where
  "login_turn n b w =
     (case wd_logins w n of
        None \<Rightarrow> w
      | Some t \<Rightarrow>
          if \<not> lt_running t then w
          else (case dashboard_step b ((lt_dash t)\<lparr>db_pings_closed := (sh_refresh_tx (wd_shared w) \<noteq> Some n)\<rparr>) of
                  (run, d) \<Rightarrow> w\<lparr>wd_logins := (wd_logins w)(n \<mapsto> t\<lparr>lt_running := run, lt_dash := d\<rparr>)\<rparr>))"

text \<open>\<open>while let Some(devices) = devices_rx.recv().await\<close>, and what follows it when the task is gone
  and its lists are used up.\<close>

definition devices_arrive :: "nat \<Rightarrow> world \<Rightarrow> world" where
  "devices_arrive n w =
     (case wd_logins w n of
        None \<Rightarrow> w
      | Some t \<Rightarrow>
          if lt_shown t < length (db_pushed (lt_dash t))
          then w\<lparr>wd_shared := (wd_shared w)\<lparr>sh_known_devices := db_pushed (lt_dash t) ! lt_shown t\<rparr>,
                 wd_logins := (wd_logins w)(n \<mapsto> t\<lparr>lt_shown := Suc (lt_shown t)\<rparr>)\<rparr>
          else w)"

definition devices_end :: "nat \<Rightarrow> world \<Rightarrow> world" where
  "devices_end n w =
     (case wd_logins w n of
        None \<Rightarrow> w
      | Some t \<Rightarrow>
          if \<not> lt_running t \<and> lt_shown t = length (db_pushed (lt_dash t))
          then w\<lparr>wd_shared := (wd_shared w)\<lparr>sh_logged_in := False, sh_refresh_tx := None\<rparr>,
                 wd_logins := (wd_logins w)(n := None)\<rparr>
          else w)"

definition click_refresh :: "world \<Rightarrow> world" where
  "click_refresh w = (if sh_logged_in (wd_shared w) then request_dashboard_refresh w else w)"

definition click_log_out :: "app_env \<Rightarrow> world \<Rightarrow> world" where
  "click_log_out env w =
     (if \<not> sh_logged_in (wd_shared w) then w
      else w\<lparr>wd_shared := (wd_shared w)\<lparr>sh_refresh_tx := None, sh_logged_in := False, sh_known_devices := []\<rparr>,
             wd_home := snd (clear_remembered_login (ae_io env) (ae_js env) (wd_home w)),
             wd_app := (wd_app w)\<lparr>af_remember_me := False\<rparr>\<rparr>)"

definition click_device :: "nat \<Rightarrow> world \<Rightarrow> world" where
  "click_device i w =
     (if sh_logged_in (wd_shared w) \<and> i < length (sh_known_devices (wd_shared w))
      then w\<lparr>wd_app := (wd_app w)\<lparr>va_target_device_id := ds_device_id (sh_known_devices (wd_shared w) ! i),
               va_panel := ConnectPanel\<rparr>\<rparr>
      else w)"

section \<open>The viewer\<close>

text \<open>The newest frame becomes the texture and is taken out of the shared state.\<close>

definition take_frame :: "world \<Rightarrow> world" where
  "take_frame w =
     (case sh_latest_frame (wd_shared w) of
        None \<Rightarrow> w
      | Some frame \<Rightarrow>
          w\<lparr>wd_shared := (wd_shared w)\<lparr>sh_latest_frame := None\<rparr>, wd_app := (wd_app w)\<lparr>va_texture := Some frame\<rparr>\<rparr>)"

definition monitor_label :: "world \<Rightarrow> string" where
  "monitor_label w =
     (case Option.bind (va_selected_monitor_id (wd_app w))
        (\<lambda>i. find (\<lambda>m. mon_id m = i) (sh_monitors (wd_shared w))) of
        Some m \<Rightarrow> mon_name m
      | None \<Rightarrow> ''Primary'')"

definition click_monitor :: "nat \<Rightarrow> world \<Rightarrow> world" where
  "click_monitor i w =
     (if sh_data_channel (wd_shared w) \<noteq> None \<and> i < length (sh_monitors (wd_shared w))
      then spawn (TSwitch (mon_id (sh_monitors (wd_shared w) ! i)))
             (w\<lparr>wd_app := (wd_app w)\<lparr>va_selected_monitor_id := Some (mon_id (sh_monitors (wd_shared w) ! i))\<rparr>\<rparr>)
      else w)"

text \<open>Video and input are handled only with a texture, a size and a channel.\<close>

definition viewing :: "world \<Rightarrow> bool" where
  "viewing w \<longleftrightarrow> va_texture (wd_app w) \<noteq> None \<and> sh_remote_size (wd_shared w) \<noteq> None \<and>
     sh_data_channel (wd_shared w) \<noteq> None"

definition drop_files :: "string list \<Rightarrow> world \<Rightarrow> world" where
  "drop_files paths w = (if viewing w then foldl (\<lambda>v p. spawn (TFile p) v) w paths else w)"

text \<open>What the toolkit says of the picture in a frame, and the events of the frame; a position comes
  with whether the rectangle contains it.\<close>

record view =
  vw_rnd :: "real \<Rightarrow> f32"
  vw_rect :: rect
  vw_hovered :: bool
  vw_focused :: bool

datatype gui_event =
  PointerMoved bool "f32 \<times> f32"
| PointerButton bool egui_button bool
| MouseWheel f32 f32
| TextEntered string
| KeyPressed egui_key bool bool  \<comment> \<open>key, pressed, repeat\<close>
| OtherEvent

fun input_of :: "view \<Rightarrow> u32 \<times> u32 \<Rightarrow> gui_event \<Rightarrow> input_event option" where
  "input_of v (rw, rh) (PointerMoved inside pos) =
     (if inside then (case remote_coords (vw_rnd v) pos (vw_rect v) rw rh of (x, y) \<Rightarrow> Some (MouseMove x y)) else None)"
| "input_of v sz (PointerButton inside b pressed) =
     (if inside then map_option (\<lambda>b. MouseButton b pressed) (map_pointer_button b) else None)"
| "input_of v sz (MouseWheel dx dy) =
     (if vw_hovered v then Some (MouseScroll (as_i32 (f_neg dx)) (as_i32 (f_neg dy))) else None)"
| "input_of v sz (TextEntered t) = (if vw_hovered v \<or> vw_focused v then Some (TypeText t) else None)"
| "input_of v sz (KeyPressed k pressed repeated) =
     (if \<not> repeated \<and> (vw_hovered v \<or> vw_focused v)
      then map_option (\<lambda>k. KeyEvent k pressed) (map_special_key k) else None)"
| "input_of v sz OtherEvent = None"

definition capture_input :: "view \<Rightarrow> gui_event list \<Rightarrow> world \<Rightarrow> world" where
  "capture_input v evs w =
     (case sh_remote_size (wd_shared w) of
        None \<Rightarrow> w
      | Some sz \<Rightarrow>
          if viewing w then foldl (\<lambda>u e. spawn (TInput e) u) w (List.map_filter (input_of v sz) evs) else w)"

section \<open>Running a spawned task\<close>

fun run_task :: "app_env \<Rightarrow> task \<Rightarrow> world \<Rightarrow> world" where
  "run_task env (TSetUnattended url email pw target upw) w = run_set_unattended env url email pw target upw w"
| "run_task env (THost url email pw name) w = run_host env url email pw name w"
| "run_task env (TConnect url email pw target cred name) w = run_connect env url email pw target cred name w"
| "run_task env (TLogin url email pw name remember) w = run_login env url email pw name remember w"
| "run_task env (TInput ev) w =
     w\<lparr>wd_channel := snd (send_input (ae_bincode env) (ae_channel_fault env) ev (wd_channel w))\<rparr>"
| "run_task env (TSwitch i) w =
     w\<lparr>wd_channel := snd (switch_monitor (ae_bincode env) (ae_channel_fault env) i (wd_channel w))\<rparr>"
| "run_task env (TFile path) w =
     w\<lparr>wd_channel := snd (send_file_over (ae_bincode env) (\<lambda>_. ae_channel_fault env) (ae_read env path)
         (ae_uuid env) path (wd_channel w))\<rparr>"

definition run_spawned :: "app_env \<Rightarrow> nat \<Rightarrow> world \<Rightarrow> world" where
  "run_spawned env i w =
     (if i < length (wd_tasks w)
      then run_task env (wd_tasks w ! i) (w\<lparr>wd_tasks := take i (wd_tasks w) @ drop (Suc i) (wd_tasks w)\<rparr>)
      else w)"

section \<open>Events\<close>

datatype app_event =
  Edit edit
| Tick nat
| SetUnattendedClicked
| ToggleAutostartClicked app_env
| StartSharingClicked
| ConnectClicked
| LogInClicked
| RefreshClicked
| LogOutClicked app_env
| DeviceClicked nat
| MonitorClicked nat
| FilesDropped "string list"
| GuiEvents view "gui_event list"
| FrameTaken
| RunSpawned app_env nat
| MonitorsArrived "monitor_info list"
| FrameArrived rgba_image
| LoginTurn nat dashboard_branch
| DevicesArrived nat
| DevicesEnded nat

fun app_step :: "app_event \<Rightarrow> world \<Rightarrow> world" where
  "app_step (Edit e) w = w\<lparr>wd_app := apply_edit e (wd_app w)\<rparr>"
| "app_step (Tick now) w = ui_tick now w"
| "app_step SetUnattendedClicked w = click_set_unattended w"
| "app_step (ToggleAutostartClicked env) w = click_toggle_autostart env w"
| "app_step StartSharingClicked w = click_start_sharing w"
| "app_step ConnectClicked w = click_connect w"
| "app_step LogInClicked w = click_log_in w"
| "app_step RefreshClicked w = click_refresh w"
| "app_step (LogOutClicked env) w = click_log_out env w"
| "app_step (DeviceClicked i) w = click_device i w"
| "app_step (MonitorClicked i) w = click_monitor i w"
| "app_step (FilesDropped ps) w = drop_files ps w"
| "app_step (GuiEvents v evs) w = capture_input v evs w"
| "app_step FrameTaken w = take_frame w"
| "app_step (RunSpawned env i) w = run_spawned env i w"
| "app_step (MonitorsArrived ms) w = monitors_arrive ms w"
| "app_step (FrameArrived f) w = frame_arrives f w"
| "app_step (LoginTurn n b) w = login_turn n b w"
| "app_step (DevicesArrived n) w = devices_arrive n w"
| "app_step (DevicesEnded n) w = devices_end n w"

fun app_run :: "app_event list \<Rightarrow> world \<Rightarrow> world" where
  "app_run [] w = w"
| "app_run (e # es) w = app_run es (app_step e w)"

text \<open>The state the window starts with.\<close>

definition world_start :: "world \<Rightarrow> bool" where
  "world_start w \<longleftrightarrow> wd_shared w = shared_default \<and> wd_tasks w = [] \<and> wd_logins w = Map.empty \<and> wd_channel w = [] \<and>
     (\<exists>io js emb now. wd_app w = visuara_app_new io js emb now (wd_home w))"

end
