(* ===== verification/Desktop_Properties.thy ===== *)
theory Desktop_Properties
  imports Desktop_App "HOL-Library.Multiset"
begin

text \<open>
  Properties of the desktop window: which parts of its state agree in every run, what a login, a
  logout and a second login do, what never comes back, and what becomes of the user's input on its way
  to the host.
\<close>

section \<open>Runs as a machine\<close>

definition world_trans :: "app_event \<Rightarrow> world \<Rightarrow> world \<Rightarrow> bool" where
  "world_trans e w w' \<longleftrightarrow> w' = app_step e w"

lemma app_run_reachable: "reachable world_start world_trans w \<Longrightarrow> reachable world_start world_trans (app_run es w)"
proof (induction es arbitrary: w)
  case (Cons e es)
  have "reachable world_start world_trans (app_step e w)"
    by (rule reach_step [OF Cons.prems, of e]) (simp add: world_trans_def)
  then show ?case using Cons.IH by simp
qed simp

lemmas clicks = click_set_unattended_def click_start_sharing_def click_connect_def click_log_in_def
  click_refresh_def click_log_out_def click_device_def click_monitor_def click_toggle_autostart_def
  request_dashboard_refresh_def ui_tick_def spawn_def set_status_def

lemmas arrivals = monitors_arrive_def frame_arrives_def take_frame_def login_turn_def devices_arrive_def
  devices_end_def

lemma foldl_spawn: "foldl (\<lambda>u x. spawn (f x) u) w xs = w\<lparr>wd_tasks := wd_tasks w @ map f xs\<rparr>"
  by (induction xs arbitrary: w) (simp_all add: spawn_def)

lemma drop_files_eq:
  "drop_files ps w = (if viewing w then w\<lparr>wd_tasks := wd_tasks w @ map TFile ps\<rparr> else w)"
  by (simp add: drop_files_def foldl_spawn)

lemma capture_input_eq:
  "capture_input v evs w =
     (case sh_remote_size (wd_shared w) of
        None \<Rightarrow> w
      | Some sz \<Rightarrow>
          if viewing w then w\<lparr>wd_tasks := wd_tasks w @ map TInput (List.map_filter (input_of v sz) evs)\<rparr> else w)"
  by (simp add: capture_input_def foldl_spawn split: option.split)

lemmas batches = drop_files_eq capture_input_eq

lemmas tasks_run = run_set_unattended_def run_host_def run_connect_def run_login_def set_status_def

text \<open>Running one task changes the shared state as the task itself does.\<close>

lemma run_spawned_cases:
  obtains "run_spawned env i w = w"
  | t w0 where "t \<in> set (wd_tasks w)" and "wd_shared w0 = wd_shared w" and "wd_logins w0 = wd_logins w"
    and "wd_app w0 = wd_app w" and "wd_home w0 = wd_home w" and "wd_next_login w0 = wd_next_login w"
    and "run_spawned env i w = run_task env t w0"
proof (cases "i < length (wd_tasks w)")
  case True
  then show thesis
    by (intro that(2) [of "wd_tasks w ! i" "w\<lparr>wd_tasks := take i (wd_tasks w) @ drop (Suc i) (wd_tasks w)\<rparr>"])
      (simp_all add: run_spawned_def)
qed (use that(1) in \<open>simp add: run_spawned_def\<close>)

section \<open>The dashboard\<close>

text \<open>The window shows the list of devices exactly while it holds the sender of pings, and the login
  that sender belongs to has not been taken down.\<close>

definition dashboard_inv :: "world \<Rightarrow> bool" where
  "dashboard_inv w \<longleftrightarrow>
     (sh_logged_in (wd_shared w) \<longleftrightarrow> sh_refresh_tx (wd_shared w) \<noteq> None) \<and>
     (\<forall>n. sh_refresh_tx (wd_shared w) = Some n \<longrightarrow> wd_logins w n \<noteq> None) \<and>
     (\<forall>n t. wd_logins w n = Some t \<longrightarrow> n < wd_next_login w \<and> lt_shown t \<le> length (db_pushed (lt_dash t)))"

lemma dashboard_step_pushed:
  "\<exists>ls. db_pushed (snd (dashboard_step b d)) = db_pushed d @ ls"
  by (cases b) (auto split: nat.split prod.split sum.split server_message.split)

lemma run_task_dashboard:
  assumes "dashboard_inv w"
  shows "dashboard_inv (run_task env t w)"
  using assms
  by (cases t) (auto simp: tasks_run dashboard_inv_def less_Suc_eq split: sum.split option.split prod.split)

lemma login_turn_dashboard:
  assumes "dashboard_inv w"
  shows "dashboard_inv (login_turn n b w)"
proof (cases "wd_logins w n")
  case (Some t)
  let ?d = "(lt_dash t)\<lparr>db_pings_closed := (sh_refresh_tx (wd_shared w) \<noteq> Some n)\<rparr>"
  obtain run d where r: "dashboard_step b ?d = (run, d)" by fastforce
  obtain ls where "db_pushed d = db_pushed (lt_dash t) @ ls"
    using dashboard_step_pushed [of b ?d] r by auto
  then show ?thesis
    using Some assms r by (auto simp: login_turn_def dashboard_inv_def intro: trans_le_add1)
qed (use assms in \<open>simp add: login_turn_def\<close>)

lemma app_step_dashboard:
  assumes "dashboard_inv w"
  shows "dashboard_inv (app_step e w)"
proof (cases e)
  case (RunSpawned env i)
  show ?thesis
  proof (rule run_spawned_cases [of env i w])
    assume "run_spawned env i w = w"
    then show ?thesis using RunSpawned assms by simp
  next
    fix t w0
    assume "wd_shared w0 = wd_shared w" "wd_logins w0 = wd_logins w" "wd_next_login w0 = wd_next_login w"
      "run_spawned env i w = run_task env t w0"
    then show ?thesis using RunSpawned assms run_task_dashboard [of w0 env t] by (simp add: dashboard_inv_def)
  qed
next
  case (LoginTurn n b)
  then show ?thesis using login_turn_dashboard [OF assms] by simp
qed (use assms in \<open>auto simp: clicks arrivals batches dashboard_inv_def Let_def split: option.splits prod.splits sum.splits\<close>)

lemma dashboard_start_inv: "world_start w \<Longrightarrow> dashboard_inv w"
  by (auto simp: world_start_def dashboard_inv_def shared_default_def)

interpretation dashboard_machine: machine world_start world_trans dashboard_inv
  by unfold_locales (auto simp: world_trans_def dashboard_start_inv app_step_dashboard)

section \<open>What the window never gives up\<close>

definition keeps_going :: "world \<Rightarrow> world \<Rightarrow> bool" where
  "keeps_going w w' \<longleftrightarrow>
     (sh_data_channel (wd_shared w) \<noteq> None \<longrightarrow> sh_data_channel (wd_shared w') \<noteq> None) \<and>
     (sh_status (wd_shared w) \<noteq> [] \<longrightarrow> sh_status (wd_shared w') \<noteq> []) \<and>
     (sh_host_info (wd_shared w) \<noteq> None \<longrightarrow> sh_host_info (wd_shared w') \<noteq> None)"

lemma keeps_going_refl: "wd_shared w' = wd_shared w \<Longrightarrow> keeps_going w w'"
  by (simp add: keeps_going_def)

lemma keeps_going_trans: "keeps_going a b \<Longrightarrow> keeps_going b c \<Longrightarrow> keeps_going a c"
  by (simp add: keeps_going_def)

lemma run_task_keeps: "keeps_going w (run_task env t w)"
  by (cases t) (auto simp: tasks_run keeps_going_def split: sum.split option.split prod.split)

lemma app_step_keeps: "keeps_going w (app_step e w)"
proof (cases e)
  case (RunSpawned env i)
  show ?thesis
  proof (rule run_spawned_cases [of env i w])
    fix t w0
    assume "wd_shared w0 = wd_shared w" "run_spawned env i w = run_task env t w0"
    then show ?thesis using RunSpawned run_task_keeps [of w0 env t] by (simp add: keeps_going_def)
  qed (simp add: RunSpawned keeps_going_refl)
qed (auto simp: clicks arrivals batches keeps_going_def Let_def split: option.splits prod.splits sum.splits)

lemma app_run_keeps: "keeps_going w (app_run es w)"
  by (induction es arbitrary: w) (auto intro: keeps_going_refl keeps_going_trans app_step_keeps)

section \<open>Input on its way\<close>

text \<open>What an injector without failures does for an event.\<close>

definition calls_of :: "input_event \<Rightarrow> enigo_call list" where
  "calls_of ev = snd (apply_input (\<lambda>_. None) ev [])"

lemma apply_input_calls: "snd (apply_input (\<lambda>_. None) ev made) = made @ calls_of ev"
  by (cases ev) (simp_all add: calls_of_def call_def)

lemma run_input:
  assumes "i < length xs" and "wd_tasks w = map TInput xs" and "ae_channel_fault env = None"
    and "to_bytes (ae_bincode env) (Input (xs ! i)) = Inr (enc (xs ! i))"
  shows "run_spawned env i w = w\<lparr>wd_tasks := map TInput (take i xs @ drop (Suc i) xs),
     wd_channel := wd_channel w @ [enc (xs ! i)]\<rparr>"
  using assms by (simp add: run_spawned_def send_input_def send_control_def take_map drop_map)

lemma mset_remove_nth:
  assumes "i < length xs"
  shows "mset xs = add_mset (xs ! i) (mset (take i xs @ drop (Suc i) xs))"
proof -
  have "mset xs = mset (take i xs @ xs ! i # drop (Suc i) xs)" using id_take_nth_drop [OF assms] by simp
  then show ?thesis by simp
qed

lemma inputs_in_any_order:
  assumes "mset ys = mset xs" and "wd_tasks w = map TInput xs" and "ae_channel_fault env = None"
    and "\<And>ev. ev \<in> set xs \<Longrightarrow> to_bytes (ae_bincode env) (Input ev) = Inr (enc ev)"
  shows "\<exists>ks. app_run (map (RunSpawned env) ks) w = w\<lparr>wd_tasks := [], wd_channel := wd_channel w @ map enc ys\<rparr>"
  using assms
proof (induction ys arbitrary: xs w)
  case Nil
  then show ?case by (intro exI [of _ "[]"]) simp
next
  case (Cons y ys)
  have "y \<in> set xs" using Cons.prems(1) by (metis list.set_intros(1) set_mset_mset)
  then obtain i where i: "i < length xs" "xs ! i = y" by (auto simp: in_set_conv_nth)
  let ?xs = "take i xs @ drop (Suc i) xs"
  let ?w = "w\<lparr>wd_tasks := map TInput ?xs, wd_channel := wd_channel w @ [enc y]\<rparr>"
  have r: "run_spawned env i w = ?w"
    using run_input [OF i(1) Cons.prems(2,3), of enc] Cons.prems(4) [OF \<open>y \<in> set xs\<close>] i by simp
  have "mset ys = mset ?xs" using mset_remove_nth [OF i(1)] Cons.prems(1) i(2) by simp
  moreover have "set ?xs \<subseteq> set xs" using set_take_subset set_drop_subset by (metis Un_least set_append)
  ultimately obtain ks' where
    "app_run (map (RunSpawned env) ks') ?w = ?w\<lparr>wd_tasks := [], wd_channel := wd_channel ?w @ map enc ys\<rparr>"
    using Cons.IH [of ?xs ?w] Cons.prems(3,4) by auto
  then show ?case using r by (intro exI [of _ "i # ks'"]) simp
qed

lemma host_injects:
  assumes "bincode_ok bc" and "hio_enigo io = (\<lambda>_. None)"
    and "\<And>ev. ev \<in> set ys \<Longrightarrow> to_bytes bc (Input ev) = Inr (enc ev)"
  shows "hs_input (host_receive_all bc io (map enc ys) s) = hs_input s @ concat (map calls_of ys)"
  using assms(3)
proof (induction ys arbitrary: s)
  case (Cons y ys)
  have "host_receive bc io (enc y) s = s\<lparr>hs_input := hs_input s @ calls_of y\<rparr>"
    using receive_sent [OF assms(1), of "Input y" "enc y" io s] Cons.prems
    by (simp add: assms(2) apply_input_calls)
  then show ?case using Cons by simp
qed simp

section \<open>A concrete window for the witnesses\<close>

definition wit_creds_json :: "saved_credentials json" where
  "wit_creds_json = \<lparr>to_json = (\<lambda>_. Inl ''unsupported''), from_json = (\<lambda>_. Inl ''EOF'')\<rparr>"

text \<open>An encoding of three key events.\<close>

definition wit_key_bincode :: bincode where
  "wit_key_bincode = \<lparr>to_bytes = (\<lambda>m. if m = Input (KeyEvent Enter True) then Inr [1]
       else if m = Input (KeyEvent Enter False) then Inr [0] else Inl ''unsupported''),
     from_bytes = (\<lambda>b. if b = [1] then Inr (Input (KeyEvent Enter True))
       else if b = [0] then Inr (Input (KeyEvent Enter False)) else Inl ''EOF'')\<rparr>"

definition wit_app_env :: app_env where
  "wit_app_env = \<lparr>ae_io = wit_store_io, ae_js = wit_json, ae_creds = wit_creds_json, ae_exe = Inr ''/usr/bin/visuara'',
     ae_systemctl = Some True, ae_dbg = (\<lambda>_. []), ae_rtc = wit_rtc,
     ae_net = Inr \<lparr>incoming = [msgf (AuthOk ''t'')], sent = [], sends_left = None\<rparr>, ae_injector = None,
     ae_bincode = wit_key_bincode, ae_channel_fault = None, ae_read = (\<lambda>_. Inl ''no such file''), ae_uuid = ''u''\<rparr>"

definition wit_world :: world where
  "wit_world = \<lparr>wd_app = visuara_app_new wit_store_io wit_json default_config 0 wit_home, wd_shared = shared_default,
     wd_home = wit_home, wd_tasks = [], wd_logins = Map.empty, wd_next_login = 0, wd_channel = []\<rparr>"

lemma wit_world_start: "world_start wit_world"
  by (auto simp: world_start_def wit_world_def)

lemma wit_login:
  "dashboard_start (ae_dbg wit_app_env) (ae_net wit_app_env) url email pw =
     Inr \<lparr>db_pings = 1, db_pings_closed = False,
       db_wire = \<lparr>incoming = [], sent = [Register email pw], sends_left = None\<rparr>, db_pushed = [], db_receiver_gone = False\<rparr>"
  by (simp add: dashboard_start_def signaling_connect_def authenticate_def csend_def crecv_def wit_app_env_def)

section \<open>Properties\<close>

text \<open>
  C26. The dashboard's state agrees in every run of the window, whatever the user does and in whatever
  order tasks run: the list of devices is shown exactly while the window holds the sender of refresh
  pings, and the login this sender belongs to has not been taken down.
\<close>

theorem dashboard_state_agrees:
  assumes "reachable world_start world_trans w"
  shows "(sh_logged_in (wd_shared w) \<longleftrightarrow> sh_refresh_tx (wd_shared w) \<noteq> None) \<and>
     (\<forall>n. sh_refresh_tx (wd_shared w) = Some n \<longrightarrow> wd_logins w n \<noteq> None)"
  using dashboard_machine.invariant [OF assms] by (simp add: dashboard_inv_def)

theorem dashboard_state_agrees_witness:
  "sh_logged_in (wd_shared (app_run [LogInClicked, RunSpawned wit_app_env 0] wit_world)) \<and>
   sh_refresh_tx (wd_shared (app_run [LogInClicked, RunSpawned wit_app_env 0] wit_world)) \<noteq> None"
proof -
  let ?w = "app_run [LogInClicked, RunSpawned wit_app_env 0] wit_world"
  have "reachable world_start world_trans ?w"
    by (intro app_run_reachable reach_init wit_world_start)
  moreover have "sh_logged_in (wd_shared ?w)"
    using wit_login by (simp add: wit_world_def shared_default_def click_log_in_def spawn_def run_spawned_def run_login_def)
  ultimately show ?thesis using dashboard_state_agrees by blast
qed


text \<open>
  Clicking \<open>Log in\<close> twice logs the user out: when both logins succeed, the second replaces the first
  one's sender, which ends the first one's task, and the code after that task clears the state of the
  second login too.  At the end the window shows the login form again, without any message.
\<close>

theorem second_login_logs_out:
  assumes "world_start w"
    and "dashboard_start (ae_dbg env) (ae_net env) (af_server_url (wd_app w)) (af_email (wd_app w))
           (af_password (wd_app w)) = Inr d"
    and "sends_left (db_wire d) = None"
  defines "n \<equiv> wd_next_login w"
  defines "w1 \<equiv> app_run [LogInClicked, LogInClicked, RunSpawned env 0, LoginTurn n TakePing, RunSpawned env 0] w"
    and "w2 \<equiv> app_run [LogInClicked, LogInClicked, RunSpawned env 0, LoginTurn n TakePing, RunSpawned env 0,
           LoginTurn n TakePing, DevicesEnded n] w"
  shows "sh_logged_in (wd_shared w1) \<and> sh_refresh_tx (wd_shared w1) = Some (Suc n) \<and>
     \<not> sh_logged_in (wd_shared w2) \<and> sh_refresh_tx (wd_shared w2) = None \<and> sh_dashboard_status (wd_shared w2) = []"
proof -
  have d: "db_pings d = 1" "db_pushed d = []" using assms(2)
    by (auto simp: dashboard_start_def split: sum.splits prod.splits)
  show ?thesis
    using assms(1-3) d unfolding w1_def w2_def n_def
    by (auto simp: world_start_def shared_default_def click_log_in_def spawn_def run_spawned_def run_login_def
        login_turn_def csend_def devices_end_def)
qed

theorem second_login_logs_out_witness:
  "\<not> sh_logged_in (wd_shared (app_run [LogInClicked, LogInClicked, RunSpawned wit_app_env 0, LoginTurn 0 TakePing,
      RunSpawned wit_app_env 0, LoginTurn 0 TakePing, DevicesEnded 0] wit_world))"
proof -
  have "wd_next_login wit_world = 0" by (simp add: wit_world_def)
  then show ?thesis
    using second_login_logs_out [OF wit_world_start wit_login] by simp
qed


text \<open>
  Some things never come back: once a data channel has been stored the window stays on the viewer for
  ever (the connect form is shown only without one, also after the session has ended), an error shown
  on the host or connect panel is never cleared, and neither is the host's device id.
\<close>

theorem viewer_and_errors_stay:
  "(sh_data_channel (wd_shared w) \<noteq> None \<longrightarrow>
      sh_data_channel (wd_shared (app_run es w)) \<noteq> None \<and> click_connect (app_run es w) = app_run es w) \<and>
   (sh_status (wd_shared w) \<noteq> [] \<longrightarrow> sh_status (wd_shared (app_run es w)) \<noteq> []) \<and>
   (sh_host_info (wd_shared w) \<noteq> None \<longrightarrow> click_start_sharing (app_run es w) = app_run es w)"
  using app_run_keeps [of w es] by (auto simp: keeps_going_def click_connect_def click_start_sharing_def)

theorem viewer_and_errors_stay_witness:
  "sh_status (wd_shared (app_run [LogInClicked, RunSpawned wit_app_env 0] (set_status ''connect failed'' wit_world))) \<noteq> []"
  using viewer_and_errors_stay [of "set_status ''connect failed'' wit_world" "[LogInClicked, RunSpawned wit_app_env 0]"]
  by (simp add: set_status_def)


text \<open>
  The order of input is not kept: every event is sent by a task of its own, so for any reordering of
  the events of a frame there is a run after which the host has injected exactly these events in that
  order; a key can be released before it is pressed.
\<close>

theorem input_order_not_kept:
  assumes "mset ys = mset xs" and "wd_tasks w = map TInput xs" and "wd_channel w = []"
    and "ae_channel_fault env = None" and "bincode_ok (ae_bincode env)"
    and "\<And>ev. ev \<in> set xs \<Longrightarrow> to_bytes (ae_bincode env) (Input ev) = Inr (enc ev)"
    and "hio_enigo io = (\<lambda>_. None)"
  shows "\<exists>ks. wd_tasks (app_run (map (RunSpawned env) ks) w) = [] \<and>
     hs_input (host_receive_all (ae_bincode env) io (wd_channel (app_run (map (RunSpawned env) ks) w)) s) =
       hs_input s @ concat (map calls_of ys)"
proof -
  from inputs_in_any_order [OF assms(1,2,4,6)] obtain ks where
    r: "app_run (map (RunSpawned env) ks) w = w\<lparr>wd_tasks := [], wd_channel := wd_channel w @ map enc ys\<rparr>" by blast
  have "set ys = set xs" using assms(1) by (metis set_mset_mset)
  then have "hs_input (host_receive_all (ae_bincode env) io (map enc ys) s) = hs_input s @ concat (map calls_of ys)"
    using host_injects [OF assms(5,7), of ys enc s] assms(6) by simp
  then show ?thesis using r assms(3) by (intro exI [of _ ks]) simp
qed

theorem input_order_not_kept_witness:
  "\<exists>ks. hs_input (host_receive_all wit_key_bincode wit_host_io (wd_channel (app_run (map (RunSpawned wit_app_env) ks)
      (wit_world\<lparr>wd_tasks := [TInput (KeyEvent Enter True), TInput (KeyEvent Enter False)]\<rparr>))) wit_host_session) =
    [Key KReturn Release, Key KReturn Press]"
proof -
  let ?xs = "[KeyEvent Enter True, KeyEvent Enter False]"
  have b: "ae_bincode wit_app_env = wit_key_bincode" "ae_channel_fault wit_app_env = None" by (simp_all add: wit_app_env_def)
  have ok: "bincode_ok wit_key_bincode" by (auto simp: bincode_ok_def wit_key_bincode_def split: if_splits)
  have e: "to_bytes wit_key_bincode (Input ev) = Inr (if ev = KeyEvent Enter True then [1] else [0])" if "ev \<in> set ?xs" for ev
    using that by (auto simp: wit_key_bincode_def)
  have "mset (rev ?xs) = mset ?xs" by simp
  moreover have "wd_tasks (wit_world\<lparr>wd_tasks := map TInput ?xs\<rparr>) = map TInput ?xs"
    "wd_channel (wit_world\<lparr>wd_tasks := map TInput ?xs\<rparr>) = []" by (simp_all add: wit_world_def)
  moreover have "hio_enigo wit_host_io = (\<lambda>_. None)" by (simp add: wit_host_io_def)
  ultimately have "\<exists>ks. hs_input (host_receive_all wit_key_bincode wit_host_io (wd_channel (app_run (map (RunSpawned wit_app_env) ks)
      (wit_world\<lparr>wd_tasks := map TInput ?xs\<rparr>))) wit_host_session) =
      hs_input wit_host_session @ concat (map calls_of (rev ?xs))"
    using input_order_not_kept [of "rev ?xs" ?xs _ wit_app_env "\<lambda>ev. if ev = KeyEvent Enter True then [1] else [0]" wit_host_io]
      ok e unfolding b by blast
  then show ?thesis by (simp add: wit_host_session_def calls_of_def call_def)
qed


text \<open>
  The keyboard mapping has gaps: no event of the toolkit ever becomes a key event for Shift, Control,
  Alt or Meta, though the host can inject them, and pressing the space bar, which the toolkit reports
  as a key and as text, types two spaces.
\<close>

theorem keyboard_gaps:
  "(input_of v sz ev = Some (KeyEvent k p) \<longrightarrow> k \<notin> {Shift, Control, Alt, Meta}) \<and>
   (vw_focused v \<longrightarrow> concat (map calls_of (List.map_filter (input_of v sz)
       [KeyPressed EKSpace True False, TextEntered '' '', KeyPressed EKSpace False False])) =
     [Key KSpace Press, EnigoText '' '', Key KSpace Release])"
proof -
  have m: "map_special_key x \<notin> Some ` {Shift, Control, Alt, Meta}" for x by (cases x) auto
  have "input_of v sz ev = Some (KeyEvent k p) \<longrightarrow> k \<notin> {Shift, Control, Alt, Meta}"
    using m by (cases ev; cases sz) (auto simp: image_iff split: if_splits prod.splits)
  then show ?thesis by (simp add: List.map_filter_simps calls_of_def call_def)
qed

theorem keyboard_gaps_witness:
  "concat (map calls_of (List.map_filter (input_of \<lparr>vw_rnd = Fin, vw_rect = \<lparr>rect_left = Fin 0, rect_top = Fin 0,
       rect_width = Fin 1, rect_height = Fin 1\<rparr>, vw_hovered = False, vw_focused = True\<rparr> (1, 1))
     [KeyPressed EKSpace True False, TextEntered '' '', KeyPressed EKSpace False False])) =
   [Key KSpace Press, EnigoText '' '', Key KSpace Release]"
  using keyboard_gaps [of "\<lparr>vw_rnd = Fin, vw_rect = \<lparr>rect_left = Fin 0, rect_top = Fin 0, rect_width = Fin 1,
    rect_height = Fin 1\<rparr>, vw_hovered = False, vw_focused = True\<rparr>" "(1, 1)"] by simp

text \<open>
  What the window remembers of a login: logging in with \<open>Remember me\<close> unchecked leaves an older
  remembered login in place, so the next start fills in that one, also when another account has just
  logged in; logging out removes it, and the next start shows an empty form.
\<close>

theorem remembered_login_outlives_unchecking:
  fixes emb :: embedded_config
  assumes "json_ok (ae_js env)" and "readable (ae_io env)"
    and "dashboard_start (ae_dbg env) (ae_net env) url email password = Inr d"
    and "settings_load (ae_io env) (ae_js env) (wd_home w) = Inr (Some s)" and "ls_remembered_login s = Some old"
    and "settings_save (ae_io env) (ae_js env) (s\<lparr>ls_server_url := Some url, ls_device_name := Some name\<rparr>) (wd_home w) =
           (Inr (), h1)"
    and "clear_remembered_login (ae_io env) (ae_js env) h1 = (Inr (), h2)"
  defines "w1 \<equiv> run_login env url email password name False w"
  defines "a1 \<equiv> app_new (ae_io env) (ae_js env) emb (wd_home w1)"
    and "a2 \<equiv> app_new (ae_io env) (ae_js env) emb (wd_home (click_log_out env w1))"
  shows "af_email a1 = rl_email old \<and> af_password a1 = rl_password old \<and> af_remember_me a1 \<and>
     af_email a2 = [] \<and> af_password a2 = [] \<and> \<not> af_remember_me a2 \<and> af_server_url a2 = url"
proof -
  let ?s = "s\<lparr>ls_server_url := Some url, ls_device_name := Some name\<rparr>"
  have h1: "wd_home w1 = h1" and li: "sh_logged_in (wd_shared w1)"
    using assms(3,4,6)
    by (simp_all add: w1_def run_login_def login_saves_def autosave_local_settings_def settings_or_default_def)
  have l1: "settings_load (ae_io env) (ae_js env) h1 = Inr (Some ?s)"
    using settings_file.save_load assms(1,2,6) by blast
  have "settings_save (ae_io env) (ae_js env) (?s\<lparr>ls_remembered_login := None\<rparr>) h1 = (Inr (), h2)"
    using assms(5,7) l1 by (simp add: clear_remembered_login_def)
  then have l2: "settings_load (ae_io env) (ae_js env) h2 = Inr (Some (?s\<lparr>ls_remembered_login := None\<rparr>))"
    using settings_file.save_load assms(1,2) by blast
  have h2: "wd_home (click_log_out env w1) = h2" using li h1 assms(7) by (simp add: click_log_out_def)
  show ?thesis
    unfolding a1_def a2_def h1 h2 using l1 l2 assms(5)
    by (simp add: app_new_def settings_or_default_def Let_def unwrap_or_default_def)
qed

theorem remembered_login_outlives_unchecking_witness:
  "\<exists>h. af_email (app_new wit_store_io wit_json default_config
     (wd_home (run_login wit_app_env ''wss://h/ws'' ''other@b'' ''x'' ''pc'' False (wit_world\<lparr>wd_home := h\<rparr>)))) = ''a@b''"
proof -
  have e: "ae_js wit_app_env = wit_json" "ae_io wit_app_env = wit_store_io" by (simp_all add: wit_app_env_def)
  have c0: "config_dir wit_home = Some ''/home/u/.config''" by (simp add: wit_home_def)
  have j1: "to_json wit_json wit_settings = Inr [1]" by (simp add: wit_json_def)
  obtain h where s0: "settings_save wit_store_io wit_json wit_settings wit_home = (Inr (), h)"
    and c: "config_dir h = Some ''/home/u/.config''" using wit_save [OF c0 j1] c0 by auto
  have l0: "settings_load wit_store_io wit_json h = Inr (Some wit_settings)"
    using settings_file.save_load wit_json_ok wit_readable s0 by blast
  have same: "wit_settings\<lparr>ls_server_url := Some ''wss://h/ws'', ls_device_name := Some ''pc''\<rparr> = wit_settings"
    by (simp add: wit_settings_def)
  obtain h1 where s1: "settings_save wit_store_io wit_json wit_settings h = (Inr (), h1)"
    and c1: "config_dir h1 = Some ''/home/u/.config''" using wit_save [OF c j1] c by auto
  have l1: "settings_load wit_store_io wit_json h1 = Inr (Some wit_settings)"
    using settings_file.save_load wit_json_ok wit_readable s1 by blast
  have "to_json wit_json (wit_settings\<lparr>ls_remembered_login := None\<rparr>) = Inr [2]"
    by (simp add: wit_json_def) (simp add: wit_settings_def)
  from wit_save [OF c1 this] l1 obtain h2 where "clear_remembered_login wit_store_io wit_json h1 = (Inr (), h2)"
    by (auto simp: clear_remembered_login_def wit_settings_def)
  then show ?thesis
    using remembered_login_outlives_unchecking [of wit_app_env "''wss://h/ws''" "''other@b''" "''x''" _
        "wit_world\<lparr>wd_home := h\<rparr>" wit_settings "\<lparr>rl_email = ''a@b'', rl_password = ''pw''\<rparr>" "''pc''" h1 h2 default_config,
        OF _ _ wit_login]
      wit_json_ok wit_readable l0 s1 same
    by (intro exI [of _ h]) (simp add: e wit_settings_def)
qed

end
