(* ===== verification/Video_Session.thy ===== *)
theory Video_Session
  imports Session_Candidates Desktop_Properties
begin

text \<open>
  The picture through a session: the capture thread of the host (\<^verbatim>\<open>host.rs\<close>) encodes what the chosen monitor shows,
  the streaming loop writes it to the track, the controller (\<^verbatim>\<open>controller.rs\<close>) depacketizes and decodes what
  arrives, and the window (\<^verbatim>\<open>gui.rs\<close>) shows the newest picture.  Packetizing a sample is the webrtc crate's: the
  parameter \<open>pk\<close> is the payloads of a sample.  Encoder and decoder are any machines with a state of their own: a picture
  may depend on everything before it, be inexact, or not come at all.
\<close>

section \<open>Playing payloads\<close>

fun play ::
  "('e, 'd, 'y) codec \<Rightarrow> 'p depacketizer \<Rightarrow> bytes list \<Rightarrow> 'p \<Rightarrow> 'd \<Rightarrow> rgba_image list \<times> 'p \<times> 'd" where
  "play lib dp [] p d = ([], p, d)"
| "play lib dp (x # xs) p d =
     (case depacketize dp x p of
        (Inl _, p') \<Rightarrow> play lib dp xs p' d
      | (Inr nal, p') \<Rightarrow>
          if nal = [] then play lib dp xs p' d
          else (case decode lib nal d of
                  (Inr (Some frame), d') \<Rightarrow> (case play lib dp xs p' d' of (fs, q) \<Rightarrow> (frame # fs, q))
                | (_, d') \<Rightarrow> play lib dp xs p' d'))"

lemma play_append:
  "play lib dp (xs @ ys) p d =
     (case play lib dp xs p d of (fs, p1, d1) \<Rightarrow> (case play lib dp ys p1 d1 of (gs, q) \<Rightarrow> (fs @ gs, q)))"
  by (induction lib dp xs p d rule: play.induct) (auto split: prod.split sum.split option.split)

lemma read_loop_play:
  "read_loop lib dp (map (\<lambda>x. (Inr x, True)) xs) p d = (None, fst (play lib dp xs p d))"
  by (induction lib dp xs p d rule: play.induct) (auto split: prod.split sum.split option.split)

section \<open>The reference\<close>

text \<open>The shots of the capture thread: in each turn, what the monitor chosen by then shows, if capturing succeeds.\<close>

fun shots :: "turn_env list \<Rightarrow> 'e capture_state \<Rightarrow> rgba_image list" where
  "shots [] s = []"
| "shots (t # ts) s =
     (let s1 = take_switch (te_monitors t) (s\<lparr>cs_switches := cs_switches s @ te_requests t\<rparr>) in
      (case te_shot t (m_handle (cs_capturer s1)) of
         Inl _ \<Rightarrow> shots ts s1
       | Inr frame \<Rightarrow> frame # shots ts s1))"

text \<open>The codec alone, encoder and decoder side by side: each shot that it encodes, with the pictures that
  the decoder makes of that encoding.\<close>

fun through_codec ::
  "('e, 'd, 'y) codec \<Rightarrow> 'p depacketizer \<Rightarrow> (bytes \<Rightarrow> bytes list) \<Rightarrow> rgba_image list \<Rightarrow> 'e \<Rightarrow> 'p \<Rightarrow> 'd \<Rightarrow>
   (rgba_image \<times> rgba_image list) list" where
  "through_codec lib dp pk [] e p d = []"
| "through_codec lib dp pk (frame # frames) e p d =
     (case encode_frame lib frame e of
        (Inl _, e') \<Rightarrow> through_codec lib dp pk frames e' p d
      | (Inr data, e') \<Rightarrow>
          (case play lib dp (pk data) p d of (ps, p', d') \<Rightarrow> (frame, ps) # through_codec lib dp pk frames e' p' d'))"

text \<open>What a codec may promise: there is a relation between encoder and decoder that a new pair is in and every frame keeps,
  and in which each picture is like (\<open>near\<close>) the frame it was encoded from.\<close>

definition codec_follows ::
  "('e, 'd, 'y) codec \<Rightarrow> 'p depacketizer \<Rightarrow> (bytes \<Rightarrow> bytes list) \<Rightarrow> (rgba_image \<Rightarrow> rgba_image \<Rightarrow> bool) \<Rightarrow>
   ('e \<Rightarrow> 'p \<Rightarrow> 'd \<Rightarrow> bool) \<Rightarrow> bool" where
  "codec_follows lib dp pk near rel \<longleftrightarrow>
     (\<forall>e d. encoder_new lib = Inr e \<longrightarrow> decoder_new lib = Inr d \<longrightarrow> rel e (depacketizer_default dp) d) \<and>
     (\<forall>frame e p d. rel e p d \<longrightarrow>
        (case encode_frame lib frame e of
           (Inl _, e') \<Rightarrow> rel e' p d
         | (Inr data, e') \<Rightarrow>
             (case play lib dp (pk data) p d of (ps, p', d') \<Rightarrow> list_all (near frame) ps \<and> rel e' p' d')))"

lemma codec_follows_near:
  assumes "codec_follows lib dp pk near rel" and "rel e p d"
  shows "list_all (\<lambda>x. list_all (near (fst x)) (snd x)) (through_codec lib dp pk frames e p d)"
  using assms(2)
proof (induction frames arbitrary: e p d)
  case (Cons frame frames)
  have step: "case encode_frame lib frame e of (Inl _, e') \<Rightarrow> rel e' p d
      | (Inr data, e') \<Rightarrow> (case play lib dp (pk data) p d of (ps, p', d') \<Rightarrow> list_all (near frame) ps \<and> rel e' p' d')"
    by (rule assms(1) [unfolded codec_follows_def, THEN conjunct2, rule_format, OF Cons.prems])
  then show ?case using Cons.IH by (auto split: prod.splits sum.splits)
qed simp

lemma take_switch_encoder [simp]: "cs_encoder (take_switch all s) = cs_encoder s"
  by (simp add: take_switch_def split: list.split sum.split)

lemma take_switch_other:
  "take_switch all (s\<lparr>cs_encoder := e, cs_switches := q\<rparr>) = (take_switch all (s\<lparr>cs_switches := q\<rparr>))\<lparr>cs_encoder := e\<rparr>"
  by (simp add: take_switch_def split: list.split sum.split)

lemma shots_encoder: "shots ts (s\<lparr>cs_encoder := e\<rparr>) = shots ts s"
proof (induction ts arbitrary: s)
  case (Cons t ts)
  show ?case using Cons by (simp add: Let_def take_switch_other split: sum.split)
qed simp

lemma capture_plays:
  assumes "list_all (\<lambda>t. \<not> te_receiver_gone t) ts"
  shows "fst (play lib dp (concat (map pk (take k (fst (capture_loop lib ts s))))) p d) =
    concat (map snd (take k (through_codec lib dp pk (shots ts s) (cs_encoder s) p d)))"
  using assms
proof (induction ts arbitrary: s p d k)
  case (Cons t ts)
  define s1 where "s1 = take_switch (te_monitors t) (s\<lparr>cs_switches := cs_switches s @ te_requests t\<rparr>)"
  have e: "cs_encoder s1 = cs_encoder s" by (simp add: s1_def)
  show ?case
  proof (cases "te_shot t (m_handle (cs_capturer s1))")
    case (Inl x)
    then show ?thesis using Cons e by (simp add: s1_def [symmetric] Let_def grab_def capture_frame_def)
  next
    case (Inr frame)
    obtain res e' where en: "encode_frame lib frame (cs_encoder s1) = (res, e')" by fastforce
    note IH = Cons.IH [where s = "s1\<lparr>cs_encoder := e'\<rparr>"]
    show ?thesis
    proof (cases res)
      case (Inl x)
      then show ?thesis using IH Cons.prems Inr en e
        by (simp add: s1_def [symmetric] Let_def grab_def capture_frame_def shots_encoder)
    next
      case (Inr data)
      obtain fs p' d' where pl: "play lib dp (pk data) p d = (fs, p', d')" by (metis prod_cases3)
      show ?thesis using IH [where p = p' and d = d'] Cons.prems en e Inr \<open>te_shot t _ = _\<close> pl
        by (cases k) (simp_all add: s1_def [symmetric] Let_def grab_def capture_frame_def shots_encoder play_append case_prod_beta)
    qed
  qed
qed simp

text \<open>What the streaming loop writes while it runs is what it took from the capture thread.\<close>

lemma stream_writes:
  "stream_loop rtc sid es w = (None, w', out) \<Longrightarrow> out = stream_frames es"
proof (induction es arbitrary: w out)
  case (Cons e es)
  then show ?case
    by (cases e) (fastforce split: sum.splits prod.splits server_message.splits if_splits)+
qed simp

section \<open>The window\<close>

text \<open>The newest picture the window has, taken or not.\<close>

definition newest :: "world \<Rightarrow> rgba_image option" where
  "newest w = (case sh_latest_frame (wd_shared w) of Some f \<Rightarrow> Some f | None \<Rightarrow> va_texture (wd_app w))"

fun pictures :: "app_event list \<Rightarrow> rgba_image list" where
  "pictures [] = []"
| "pictures (FrameArrived f # es) = f # pictures es"
| "pictures (_ # es) = pictures es"

lemma run_task_pictures:
  "sh_latest_frame (wd_shared (run_task env t w)) = sh_latest_frame (wd_shared w)"
  "va_texture (wd_app (run_task env t w)) = va_texture (wd_app w)"
  by (cases t, simp_all add: tasks_run split: sum.split option.split prod.split)+

lemma step_newest: "newest (app_step e w) = (case e of FrameArrived f \<Rightarrow> Some f | _ \<Rightarrow> newest w)"
proof (cases e)
  case (RunSpawned env i)
  then show ?thesis by (simp add: newest_def run_spawned_def run_task_pictures split: option.split)
next
  case (Edit x)
  then show ?thesis by (cases x) (simp_all add: newest_def split: option.split)
qed (auto simp: newest_def clicks arrivals batches Let_def split: option.splits prod.splits sum.splits)

lemma run_newest: "newest (app_run es w) = (if pictures es = [] then newest w else Some (last (pictures es)))"
proof (induction es arbitrary: w)
  case (Cons e es)
  then show ?case by (cases e) (simp_all add: step_newest del: app_step.simps)
qed simp

lemma taken_texture: "va_texture (wd_app (app_step FrameTaken w)) = newest w"
  by (simp add: newest_def take_frame_def split: option.split)

lemma app_run_append: "app_run (xs @ ys) w = app_run ys (app_run xs w)"
  by (induction xs arbitrary: w) simp_all

section \<open>Properties\<close>

text \<open>
  C22. The host's screen reaches the controller's window.  With a host whose streaming loop runs and a network that
  delivers the payloads in order, at any moment, once \<open>j\<close> samples have been taken from the capture thread and the
  payloads of \<open>k\<close> of them have come in, the controller has, in order and without a loss or repetition, exactly the pictures
  that the decoder makes of the encodings of the shots so far, as if encoder and decoder ran side by side on what
  the chosen monitors show; and after its next frame the window shows the last of them, whatever the user
  does and whichever spawned tasks run in between.  So whatever likeness the codec keeps between a frame and
  its picture holds between the host's shots and what is shown, the one on the window included.
\<close>

theorem screen_reaches_window:
  assumes "encoder_new lib = Inr e" and "decoder_new lib = Inr d"
    and "capturer_primary all = Inr m" and "list_all (\<lambda>t. \<not> te_receiver_gone t) ts"
    and "stream_frames hes = take j (capture_thread lib all ts)" and "stream_loop rtc sid hes w = (None, w', out)"
    and "pictures es = snd (read_video_track lib dp (map (\<lambda>x. (Inr x, True)) (concat (map pk (take k out)))))"
  defines "seen \<equiv> take (min k j) (through_codec lib dp pk
      (shots ts \<lparr>cs_capturer = m, cs_encoder = e, cs_switches = []\<rparr>) e (depacketizer_default dp) d)"
  shows "pictures es = concat (map snd seen) \<and>
    va_texture (wd_app (app_run (es @ [FrameTaken]) u)) =
      (if concat (map snd seen) = [] then newest u else Some (last (concat (map snd seen)))) \<and>
    (codec_follows lib dp pk near rel \<longrightarrow> list_all (\<lambda>(shot, ps). list_all (near shot) ps) seen)"
proof -
  let ?s = "\<lparr>cs_capturer = m, cs_encoder = e, cs_switches = []\<rparr>"
  let ?all = "through_codec lib dp pk (shots ts ?s) e (depacketizer_default dp) d"
  have "out = take j (fst (capture_loop lib ts ?s))"
    using stream_writes [OF assms(6)] assms(1,3,5) by (simp add: capture_thread_def video_encoder_new_def)
  then have p: "pictures es = concat (map snd seen)"
    using capture_plays [OF assms(4), of lib dp pk "min k j" ?s] assms(2,7)
    by (simp add: read_video_track_def video_decoder_new_def read_loop_play seen_def)
  have "list_all (\<lambda>(shot, ps). list_all (near shot) ps) seen" if c: "codec_follows lib dp pk near rel"
  proof -
    have "rel e (depacketizer_default dp) d" using c assms(1,2) by (simp add: codec_follows_def)
    from codec_follows_near [OF c this, of "shots ts ?s"] show ?thesis
      unfolding seen_def list_all_iff case_prod_beta by (meson in_set_takeD)
  qed
  moreover have "va_texture (wd_app (app_run (es @ [FrameTaken]) u)) = newest (app_run es u)"
    by (simp only: app_run_append app_run.simps taken_texture)
  ultimately show ?thesis using p unfolding run_newest p by simp
qed

text \<open>A lossy codec that sends differences: its state is the brightness that the other side has, a picture of one pixel is sent
  as the difference to it without the lowest bit, and every sample has a malformed and an empty unit before it.\<close>

definition wit_delta :: "(8 word, 8 word, 8 word) codec" where
  "wit_delta = \<lparr>encoder_new = Inr 0,
     encoder_encode = (\<lambda>y b. let z = y - b; q = z - z mod 2 in (Inr [q], b + q)), yuv_of_rgba = (\<lambda>raw _. hd (raw @ [0])),
     decoder_new = Inr 0, decoder_decode = (\<lambda>xs b. (Inr (Some (b + hd xs)), b + hd xs)),
     yuv_dimensions = (\<lambda>_. (1, 1)), rgba_of_yuv = (\<lambda>y. [y]),
     image_from_raw = (\<lambda>w h raw. Some \<lparr>img_width = w, img_height = h, img_raw = raw\<rparr>)\<rparr>"

definition wit_payloads :: "bytes \<Rightarrow> bytes list" where
  "wit_payloads b = [[], [9], 9 # b]"

definition wit_near :: "rgba_image \<Rightarrow> rgba_image \<Rightarrow> bool" where
  "wit_near f g \<longleftrightarrow> hd (img_raw f @ [0]) - hd (img_raw g) \<in> {0, 1}"

lemma low_bit: "(z :: 8 word) mod 2 = 0 \<or> z mod 2 = 1"
  by (simp add: mod_2_eq_odd)

lemma wit_follows: "codec_follows wit_delta wit_depacketizer wit_payloads wit_near (\<lambda>e p d. e = d)"
proof -
  have "y - (b + (y - b - (y - b) mod 2)) = (y - b) mod 2" for y b :: "8 word" by simp
  then show ?thesis using low_bit
    by (auto simp: codec_follows_def wit_delta_def wit_depacketizer_def wit_payloads_def wit_near_def encode_frame_def decode_def Let_def)
qed

definition wit_picture :: "8 word \<Rightarrow> rgba_image" where
  "wit_picture b = \<lparr>img_width = 1, img_height = 1, img_raw = [b]\<rparr>"

definition wit_monitor :: monitor where
  "wit_monitor = \<lparr>m_handle = 0, m_id = Inr 1, m_name = Inr ''m'', m_width = Inr 1, m_height = Inr 1, m_is_primary = Inr True\<rparr>"

definition wit_turn :: "(string, rgba_image) result \<Rightarrow> turn_env" where
  "wit_turn r = \<lparr>te_requests = [], te_monitors = Inr [wit_monitor], te_shot = (\<lambda>_. r), te_receiver_gone = False\<rparr>"

text \<open>The host shows brightness 5, fails to capture, and shows 9; the window shows 4, then 8.\<close>

theorem screen_reaches_window_witness:
  "va_texture (wd_app (app_run ([FrameArrived (wit_picture 4), ConnectClicked, FrameTaken, FrameArrived (wit_picture 8)] @
     [FrameTaken]) wit_world)) = Some (wit_picture 8) \<and> wit_near (wit_picture 9) (wit_picture 8)"
proof -
  let ?ts = "[wit_turn (Inr (wit_picture 5)), wit_turn (Inl ''busy''), wit_turn (Inr (wit_picture 9))]"
  let ?es = "[FrameArrived (wit_picture 4), ConnectClicked, FrameTaken, FrameArrived (wit_picture 8)]"
  let ?hes = "[EncodedFrame [4], EncodedFrame [4]]" and ?all = "Inr [wit_monitor]"
  let ?s = "\<lparr>cs_capturer = wit_monitor, cs_encoder = 0, cs_switches = []\<rparr> :: 8 word capture_state"
  note defs = wit_turn_def wit_delta_def wit_picture_def take_switch_def grab_def capture_frame_def encode_frame_def Let_def
  have t: "capture_thread wit_delta ?all ?ts = [[4], [4]]"
    by (simp add: capture_thread_def capturer_primary_def video_encoder_new_def defs wit_monitor_def res_or_def)
  have s: "stream_loop wit_rtc ''s'' ?hes wit_wire = (None, wit_wire, [[4], [4]])"
    by (simp add: attempt_def wit_rtc_def)
  have c: "through_codec wit_delta wit_depacketizer wit_payloads (shots ?ts ?s) 0 (depacketizer_default wit_depacketizer) 0 =
      [(wit_picture 5, [wit_picture 4]), (wit_picture 9, [wit_picture 8])]"
    by (simp add: defs wit_depacketizer_def wit_payloads_def decode_def)
  have p: "pictures ?es = snd (read_video_track wit_delta wit_depacketizer
      (map (\<lambda>x. (Inr x, True)) (concat (map wit_payloads (take 2 [[4], [4]])))))"
    by (simp add: read_video_track_def video_decoder_new_def wit_delta_def wit_depacketizer_def wit_payloads_def
        decode_def wit_picture_def)
  have l: "list_all (\<lambda>t. \<not> te_receiver_gone t) ?ts" "capturer_primary ?all = Inr wit_monitor"
    "encoder_new wit_delta = Inr 0" "decoder_new wit_delta = Inr 0" "stream_frames ?hes = take 2 (capture_thread wit_delta ?all ?ts)"
    unfolding t by (simp_all add: wit_turn_def wit_delta_def capturer_primary_def wit_monitor_def res_or_def)
  note window = screen_reaches_window [OF l(3,4,2,1,5) s p, of wit_world wit_near "\<lambda>e p d. e = d", unfolded c]
  show ?thesis using window wit_follows by (simp del: app_run.simps)
qed

end
