(* ===== verification/Window_View.thy ===== *)
theory Window_View
  imports Desktop_Properties
begin

text \<open>
  What the window of \<^verbatim>\<open>visuara-client/src/gui.rs\<close> shows: the widgets one frame draws, in order, when nothing is
  clicked in it.  Rows, frames and spacing are left out; a text that is not ASCII is its UTF-8 bytes.
  \<open>Desktop_App\<close> has what using a widget does; here is when it is on the screen, and what a screen gives away.
\<close>

section \<open>Widgets\<close>

datatype field = ServerUrl | Email | Password | DeviceName | TargetId | Otp | Unattended

datatype button = SetButton | AutostartButton | ShareButton | ConnectButton | LogInButton | RefreshButton
| LogOutButton | DeviceButton nat

datatype color = Red | Green | Gray

datatype widget =
  Heading string
| Label string
| Colored color string
| Separator
| Field field bool string  \<comment> \<open>whether it is a password field, and the text in it\<close>
| Check string bool
| Button button string
| Tab panel string bool  \<comment> \<open>whether it is the selected one\<close>
| Combo string
| Choice nat string bool  \<comment> \<open>an entry of the open list, and whether it is the selected one\<close>
| Picture rgba_image

section \<open>The panels\<close>

definition tabs :: "visuara_app \<Rightarrow> widget list" where
  "tabs a = [Tab HostPanel ''Host'' (va_panel a = HostPanel), Tab ConnectPanel ''Connect'' (va_panel a = ConnectPanel),
     Tab DashboardPanel ''My devices'' (va_panel a = DashboardPanel)]"

text \<open>The first rows of every form.\<close>

definition login_fields :: "visuara_app \<Rightarrow> widget list" where
  "login_fields a =
     [Label ''Server URL:'', Field ServerUrl False (af_server_url a), Label ''Email:'', Field Email False (af_email a),
      Label ''Password:'', Field Password True (af_password a)]"

definition status_line :: "string \<Rightarrow> widget list" where
  "status_line status = (if status = [] then [] else [Colored Red status])"

definition show_host_panel :: "bool \<Rightarrow> visuara_app \<Rightarrow> shared_state \<Rightarrow> widget list" where
  "show_host_panel autostart_enabled a sh =
     [Heading ''Share this machine''] @ login_fields a @
     [Label ''Device name:'', Field DeviceName False (af_device_name a)] @
     (case sh_host_info sh of
        Some (device_id, otp) \<Rightarrow>
          [Separator, Label (''Device ID: '' @ device_id), Label (''One-time password: '' @ otp),
           Label ''Waiting for incoming connections...'',
           Separator, Heading ''Unattended access'', Label ''Fixed password:'',
           Field Unattended True (va_unattended_password a), Button SetButton ''Set'',
           Label ''Lets a controller connect to this device without a fresh one-time password.'',
           Separator, Button AutostartButton
             (if autostart_enabled then ''Disable auto-start on login'' else ''Enable auto-start on login''),
           Label ''When enabled, this machine automatically re-shares itself after you log in, using the account above.'']
      | None \<Rightarrow> [Button ShareButton ''Start sharing'']) @
     status_line (sh_status sh)"

text \<open>\<open>show_video_and_capture_input\<close>, after it has taken the newest frame.\<close>

definition monitor_list :: "visuara_app \<Rightarrow> shared_state \<Rightarrow> widget list" where
  "monitor_list a sh =
     map (\<lambda>i. Choice i (mon_name (sh_monitors sh ! i)) (Some (mon_id (sh_monitors sh ! i)) = va_selected_monitor_id a))
       [0..<length (sh_monitors sh)]"

definition show_video :: "world \<Rightarrow> widget list" where
  "show_video w =
     (let v = take_frame w in
      (if sh_monitors (wd_shared v) \<noteq> [] \<and> sh_data_channel (wd_shared v) \<noteq> None
       then [Label ''Monitor:'', Combo (monitor_label v)] @ monitor_list (wd_app v) (wd_shared v) else []) @
      (case va_texture (wd_app v) of
         None \<Rightarrow> [Label ''Waiting for video...'']
       | Some tex \<Rightarrow> if viewing v then [Picture tex] else []))"

definition show_connect_panel :: "world \<Rightarrow> widget list" where
  "show_connect_panel w =
     (let a = wd_app w; sh = wd_shared w in
      if sh_data_channel sh = None
      then [Heading ''Connect to a device''] @ login_fields a @
        [Label ''Target device ID:'', Field TargetId False (va_target_device_id a),
         Check ''Use fixed unattended password instead of a one-time password'' (va_use_unattended_password a),
         Label (if va_use_unattended_password a then ''Fixed password:'' else ''One-time password:''),
         Field Otp (va_use_unattended_password a) (va_otp a), Button ConnectButton ''Connect''] @
        status_line (sh_status sh)
      else show_video w)"

definition device_row :: "nat \<Rightarrow> device_summary \<Rightarrow> widget list" where
  "device_row i d =
     [if ds_online d then Colored Green [CHR 0xE2, CHR 0x97, CHR 0x8F] else Colored Gray [CHR 0xE2, CHR 0x97, CHR 0x8B],
      Label (ds_name d), Label (''('' @ ds_device_id d @ '')''),
      Label (if ds_online d then ''online'' else ''offline'')] @
     (if ds_unattended_access_enabled d then [Label ''unattended access enabled''] else []) @
     [Button (DeviceButton i) ''Connect'']"

definition device_list :: "shared_state \<Rightarrow> widget list" where
  "device_list sh =
     [Heading ''My devices'', Button RefreshButton ''Refresh'', Button LogOutButton ''Log out''] @
     (if sh_known_devices sh = []
      then [Label (''No devices registered on this account yet '' @ [CHR 0xE2, CHR 0x80, CHR 0x94] @
              '' share a machine from the Host tab.'')]
      else []) @
     concat (map (\<lambda>i. device_row i (sh_known_devices sh ! i)) [0..<length (sh_known_devices sh)])"

definition show_dashboard_panel :: "visuara_app \<Rightarrow> shared_state \<Rightarrow> widget list" where
  "show_dashboard_panel a sh =
     (if \<not> sh_logged_in sh
      then [Heading ''My devices''] @ login_fields a @
        [Check ''Remember me on this device'' (af_remember_me a), Button LogInButton ''Log in''] @
        status_line (sh_dashboard_status sh)
      else device_list sh)"

definition ui :: "world \<Rightarrow> widget list" where
  "ui w = tabs (wd_app w) @
     (case va_panel (wd_app w) of
        HostPanel \<Rightarrow> show_host_panel (autostart_is_enabled (wd_home w)) (wd_app w) (wd_shared w)
      | ConnectPanel \<Rightarrow> show_connect_panel w
      | DashboardPanel \<Rightarrow> show_dashboard_panel (wd_app w) (wd_shared w))"

section \<open>What the widgets do\<close>

text \<open>The event that using a widget is; a box is ticked or cleared.\<close>

fun clicked :: "app_env \<Rightarrow> button \<Rightarrow> app_event" where
  "clicked env SetButton = SetUnattendedClicked"
| "clicked env AutostartButton = ToggleAutostartClicked env"
| "clicked env ShareButton = StartSharingClicked"
| "clicked env ConnectButton = ConnectClicked"
| "clicked env LogInButton = LogInClicked"
| "clicked env RefreshButton = RefreshClicked"
| "clicked env LogOutButton = LogOutClicked env"
| "clicked env (DeviceButton i) = DeviceClicked i"

fun panel_of :: "button \<Rightarrow> panel" where
  "panel_of SetButton = HostPanel"
| "panel_of AutostartButton = HostPanel"
| "panel_of ShareButton = HostPanel"
| "panel_of ConnectButton = ConnectPanel"
| "panel_of LogInButton = DashboardPanel"
| "panel_of RefreshButton = DashboardPanel"
| "panel_of LogOutButton = DashboardPanel"
| "panel_of (DeviceButton i) = DashboardPanel"

fun has_button :: "button \<Rightarrow> widget \<Rightarrow> bool" where
  "has_button b (Button c _) = (c = b)"
| "has_button b _ = False"

definition offers :: "button \<Rightarrow> world \<Rightarrow> bool" where
  "offers b w \<longleftrightarrow> list_ex (has_button b) (ui w)"

text \<open>When a button is on the screen, from the state alone.\<close>

fun enabled :: "button \<Rightarrow> shared_state \<Rightarrow> bool" where
  "enabled SetButton sh = (sh_host_info sh \<noteq> None)"
| "enabled AutostartButton sh = (sh_host_info sh \<noteq> None)"
| "enabled ShareButton sh = (sh_host_info sh = None)"
| "enabled ConnectButton sh = (sh_data_channel sh = None)"
| "enabled LogInButton sh = (\<not> sh_logged_in sh)"
| "enabled RefreshButton sh = sh_logged_in sh"
| "enabled LogOutButton sh = sh_logged_in sh"
| "enabled (DeviceButton i) sh = (sh_logged_in sh \<and> i < length (sh_known_devices sh))"

lemma list_ex_concat: "list_ex P (concat (map f xs)) \<longleftrightarrow> list_ex (\<lambda>x. list_ex P (f x)) xs"
  by (induction xs) simp_all

lemma no_buttons [simp]:
  "\<not> list_ex (has_button b) (tabs a)" "\<not> list_ex (has_button b) (login_fields a)"
  "\<not> list_ex (has_button b) (status_line s)" "\<not> list_ex (has_button b) (show_video w)"
  by (auto simp: tabs_def login_fields_def status_line_def show_video_def monitor_list_def Let_def list_ex_iff
      split: option.split)

lemma device_row_buttons [simp]: "list_ex (has_button b) (device_row i d) \<longleftrightarrow> b = DeviceButton i"
  by (auto simp: device_row_def)

lemma rows_buttons:
  "list_ex (has_button b) (concat (map (\<lambda>i. device_row i (ds ! i)) [0..<n])) \<longleftrightarrow> (\<exists>i<n. b = DeviceButton i)"
  by (simp add: list_ex_concat) (auto simp: list_ex_iff [where P = "\<lambda>i. b = DeviceButton i"])

lemma offers_iff: "offers b w \<longleftrightarrow> va_panel (wd_app w) = panel_of b \<and> enabled b (wd_shared w)"
proof (cases "va_panel (wd_app w)")
  case HostPanel
  then show ?thesis by (cases b) (auto simp: offers_def ui_def show_host_panel_def split: option.split)
next
  case ConnectPanel
  then show ?thesis by (cases b) (auto simp: offers_def ui_def show_connect_panel_def Let_def)
next
  case DashboardPanel
  from DashboardPanel show ?thesis
    by (cases b) (auto simp: offers_def ui_def show_dashboard_panel_def device_list_def rows_buttons)
qed

lemma hidden_click: "\<not> enabled b (wd_shared w) \<Longrightarrow> app_step (clicked env b) w = w"
  by (cases b) (auto simp: click_set_unattended_def click_toggle_autostart_def click_start_sharing_def click_connect_def
      click_log_in_def click_refresh_def click_log_out_def click_device_def split: option.split)

section \<open>A session on the screen\<close>

text \<open>A picture comes with its size, so a picture that has arrived is drawn.\<close>

definition sized :: "world \<Rightarrow> bool" where
  "sized w \<longleftrightarrow> (sh_latest_frame (wd_shared w) \<noteq> None \<or> va_texture (wd_app w) \<noteq> None \<longrightarrow> sh_remote_size (wd_shared w) \<noteq> None)"

lemma run_task_sized:
  "sh_latest_frame (wd_shared (run_task env t w)) = sh_latest_frame (wd_shared w)"
  "va_texture (wd_app (run_task env t w)) = va_texture (wd_app w)"
  "sh_remote_size (wd_shared (run_task env t w)) = sh_remote_size (wd_shared w)"
  by (cases t, simp_all add: tasks_run split: sum.split option.split prod.split)+

lemma app_step_sized:
  assumes "sized w"
  shows "sized (app_step e w)"
proof (cases e)
  case (RunSpawned env i)
  then show ?thesis using assms by (simp add: sized_def run_spawned_def run_task_sized)
next
  case (Edit x)
  then show ?thesis using assms by (cases x) (simp_all add: sized_def)
qed (use assms in \<open>auto simp: sized_def clicks arrivals batches Let_def split: option.splits prod.splits sum.splits\<close>)

interpretation sized_machine: machine world_start world_trans sized
  by unfold_locales (auto simp: world_trans_def app_step_sized, auto simp: world_start_def sized_def shared_default_def visuara_app_new_def app_fields.defs)

text \<open>What shows a session: its newest picture, or the text in its place.\<close>

definition session_screen :: "world \<Rightarrow> widget" where
  "session_screen w =
     (case sh_latest_frame (wd_shared w) of
        Some frame \<Rightarrow> Picture frame
      | None \<Rightarrow> (case va_texture (wd_app w) of Some tex \<Rightarrow> Picture tex | None \<Rightarrow> Label ''Waiting for video...''))"

lemma session_shown:
  assumes "sh_data_channel (wd_shared w) \<noteq> None" and "va_panel (wd_app w) = ConnectPanel" and "sized w"
  shows "session_screen w \<in> set (ui w)"
  using assms
  by (auto simp: ui_def show_connect_panel_def show_video_def session_screen_def take_frame_def viewing_def sized_def Let_def
      split: option.split)

section \<open>What a screen gives away\<close>

text \<open>A password field shows one bullet for each character.\<close>

fun seen :: "widget \<Rightarrow> widget" where
  "seen (Field f True t) = Field f True (replicate (length t) (CHR ''*''))"
| "seen x = x"

definition retyped :: "string \<Rightarrow> string \<Rightarrow> string \<Rightarrow> visuara_app \<Rightarrow> visuara_app" where
  "retyped p u q a = a\<lparr>af_password := p, va_unattended_password := u, va_otp := q\<rparr>"

lemma retyped_simps [simp]:
  "va_panel (retyped p u q a) = va_panel a" "af_server_url (retyped p u q a) = af_server_url a"
  "af_email (retyped p u q a) = af_email a" "af_device_name (retyped p u q a) = af_device_name a"
  "af_remember_me (retyped p u q a) = af_remember_me a" "va_texture (retyped p u q a) = va_texture a"
  "va_target_device_id (retyped p u q a) = va_target_device_id a"
  "va_selected_monitor_id (retyped p u q a) = va_selected_monitor_id a"
  "va_use_unattended_password (retyped p u q a) = va_use_unattended_password a"
  "af_password (retyped p u q a) = p" "va_unattended_password (retyped p u q a) = u" "va_otp (retyped p u q a) = q"
  by (simp_all add: retyped_def)

lemma seen_login: "length p = length (af_password a) \<Longrightarrow> map seen (login_fields (retyped p u q a)) = map seen (login_fields a)"
  by (simp add: login_fields_def)

lemma seen_video: "show_video (w\<lparr>wd_app := retyped p u q (wd_app w)\<rparr>) = show_video w"
  by (cases "sh_latest_frame (wd_shared w)")
    (simp_all add: show_video_def take_frame_def monitor_list_def monitor_label_def viewing_def Let_def split: option.split)

lemma seen_host:
  "length p = length (af_password a) \<Longrightarrow> length u = length (va_unattended_password a) \<Longrightarrow>
   map seen (show_host_panel b (retyped p u q a) sh) = map seen (show_host_panel b a sh)"
  by (simp add: show_host_panel_def seen_login split: option.split)

lemma seen_dashboard:
  "length p = length (af_password a) \<Longrightarrow>
   map seen (show_dashboard_panel (retyped p u q a) sh) = map seen (show_dashboard_panel a sh)"
  by (simp add: show_dashboard_panel_def seen_login)

lemma seen_connect:
  assumes "length p = length (af_password (wd_app w))"
    and "if va_use_unattended_password (wd_app w) then length q = length (va_otp (wd_app w)) else q = va_otp (wd_app w)"
  shows "map seen (show_connect_panel (w\<lparr>wd_app := retyped p u q (wd_app w)\<rparr>)) = map seen (show_connect_panel w)"
  using assms
  by (cases "va_use_unattended_password (wd_app w)") (simp_all add: show_connect_panel_def Let_def seen_login seen_video)

section \<open>Properties\<close>

text \<open>
  C40. The screen hides passwords: whatever the panel and the state, what a person sees does not depend on the
  account password or the unattended password, nor on the password of a connection while that is a fixed
  one, beyond their lengths.  A one-time password is shown as it is typed.
\<close>

theorem screen_hides_passwords:
  fixes w :: world
  defines "a \<equiv> wd_app w"
  assumes "length p = length (af_password a)" and "length u = length (va_unattended_password a)"
    and "if va_use_unattended_password a then length q = length (va_otp a) else q = va_otp a"
  shows "map seen (ui (w\<lparr>wd_app := a\<lparr>af_password := p, va_unattended_password := u, va_otp := q\<rparr>\<rparr>)) = map seen (ui w)"
proof -
  have "tabs (retyped p u q a) = tabs a" by (simp add: tabs_def)
  then have "map seen (ui (w\<lparr>wd_app := retyped p u q a\<rparr>)) = map seen (ui w)"
    using assms(2-4) seen_host seen_connect seen_dashboard
    by (cases "va_panel (wd_app w)") (simp_all add: ui_def a_def)
  then show ?thesis by (simp add: retyped_def)
qed

text \<open>
  Nothing happens behind the screen: a button is drawn exactly on its panel and in the states in which
  clicking it can do anything, and the click of a button that its panel does not draw changes nothing.
\<close>

theorem clicks_need_their_button:
  "(offers b w \<longleftrightarrow> va_panel (wd_app w) = panel_of b \<and> enabled b (wd_shared w)) \<and>
   (va_panel (wd_app w) = panel_of b \<and> app_step (clicked env b) w \<noteq> w \<longrightarrow> offers b w)"
  using offers_iff hidden_click by blast

text \<open>
  C39. Choosing a device in the list connects to that device.  In every reachable state with the list on the screen, the
  row's button is there, and clicking it opens the connect panel.  With no session open the panel shows the
  device's id filled in and the Connect button, which spawns a request for exactly that device with the
  form's account and credential.  While a session is open, the panel shows that session instead: its
  newest picture, or that it is waiting for the first one; and whenever the panel is on the screen at any
  later time it shows the session again, and never the Connect button.
\<close>

theorem chosen_device_is_connected:
  assumes "reachable world_start world_trans w"
    and "va_panel (wd_app w) = DashboardPanel" and "sh_logged_in (wd_shared w)" and "i < length (sh_known_devices (wd_shared w))"
  defines "d \<equiv> sh_known_devices (wd_shared w) ! i" and "v \<equiv> app_step (DeviceClicked i) w" and "a \<equiv> wd_app w"
  shows "offers (DeviceButton i) w \<and> va_panel (wd_app v) = ConnectPanel \<and>
    (if sh_data_channel (wd_shared w) = None
     then Field TargetId False (ds_device_id d) \<in> set (ui v) \<and> offers ConnectButton v \<and>
       wd_tasks (app_step ConnectClicked v) = wd_tasks w @ [TConnect (af_server_url a) (af_email a) (af_password a)
         (ds_device_id d) (form_credential a) (af_device_name a)]
     else (\<forall>es. va_panel (wd_app (app_run es v)) = ConnectPanel \<longrightarrow>
       session_screen (app_run es v) \<in> set (ui (app_run es v)) \<and> \<not> offers ConnectButton (app_run es v)))"
proof -
  have v: "v = w\<lparr>wd_app := a\<lparr>va_target_device_id := ds_device_id d, va_panel := ConnectPanel\<rparr>\<rparr>"
    using assms(3,4) by (simp add: v_def d_def a_def click_device_def)
  have "session_screen u \<in> set (ui u) \<and> \<not> offers ConnectButton u"
    if c: "sh_data_channel (wd_shared w) \<noteq> None" "u = app_run es v" "va_panel (wd_app u) = ConnectPanel" for es u
  proof -
    have on: "sh_data_channel (wd_shared u) \<noteq> None" using app_run_keeps [of v es] c by (auto simp: keeps_going_def v)
    have "reachable world_start world_trans (app_run (DeviceClicked i # es) w)" by (rule app_run_reachable [OF assms(1)])
    also have "app_run (DeviceClicked i # es) w = u" by (simp add: c(2) v_def)
    finally have "reachable world_start world_trans u" .
    from sized_machine.invariant [OF this] have "sized u" .
    from session_shown [OF on c(3) this] on show ?thesis by (simp add: offers_iff)
  qed
  then show ?thesis using assms(2-4)
    by (auto simp: offers_iff v ui_def show_connect_panel_def click_connect_def spawn_def form_credential_def a_def)
qed

section \<open>Witnesses\<close>

text \<open>A window whose user has typed passwords, and one that shows a device.\<close>

definition wit_typed :: "string \<Rightarrow> string \<Rightarrow> string \<Rightarrow> world" where
  "wit_typed p u q = wit_world\<lparr>wd_app := (wd_app wit_world)
     \<lparr>va_use_unattended_password := True, af_password := p, va_unattended_password := u, va_otp := q\<rparr>\<rparr>"

theorem screen_hides_passwords_witness:
  "map seen (ui (wit_typed ''secret'' ''fixed'' ''0042'')) = map seen (ui (wit_typed ''hidden'' ''other'' ''9999''))"
  using screen_hides_passwords [of "''secret''" "wit_typed ''hidden'' ''other'' ''9999''" "''fixed''" "''0042''"]
  by (simp add: wit_typed_def)

theorem clicks_need_their_button_witness: "offers ShareButton wit_world"
proof -
  have "app_step (clicked wit_app_env ShareButton) wit_world \<noteq> wit_world"
    by (simp add: click_start_sharing_def spawn_def wit_world_def shared_default_def)
  moreover have "va_panel (wd_app wit_world) = panel_of ShareButton"
    by (simp add: wit_world_def visuara_app_new_def app_fields.defs)
  ultimately show ?thesis using clicks_need_their_button [of ShareButton wit_world wit_app_env] by blast
qed

text \<open>A run in which the user logs in, the list arrives and the user looks at it.\<close>

definition wit_list_env :: app_env where
  "wit_list_env = wit_app_env\<lparr>ae_net := Inr \<lparr>incoming = [msgf (AuthOk ''t''), msgf (DeviceList [\<lparr>ds_device_id = ''012 345 006'',
     ds_name = ''pc'', ds_online = True, ds_unattended_access_enabled = False\<rparr>])], sent = [], sends_left = None\<rparr>\<rparr>"

definition wit_listing :: world where
  "wit_listing = app_run [LogInClicked, RunSpawned wit_list_env 0, LoginTurn 0 TakeMessage, DevicesArrived 0,
     Edit (SelectPanel DashboardPanel)] wit_world"

lemma wit_listing_facts:
  "va_panel (wd_app wit_listing) = DashboardPanel" "sh_logged_in (wd_shared wit_listing)"
  "sh_known_devices (wd_shared wit_listing) = [\<lparr>ds_device_id = ''012 345 006'', ds_name = ''pc'', ds_online = True,
     ds_unattended_access_enabled = False\<rparr>]"
  "sh_data_channel (wd_shared wit_listing) = None"
  by (simp_all add: wit_listing_def wit_list_env_def wit_world_def shared_default_def click_log_in_def spawn_def run_spawned_def
      run_login_def dashboard_start_def signaling_connect_def authenticate_def csend_def crecv_def wit_app_env_def
      login_turn_def devices_arrive_def loop_simps)

theorem chosen_device_is_connected_witness:
  "offers (DeviceButton 0) wit_listing \<and> offers ConnectButton (app_step (DeviceClicked 0) wit_listing) \<and>
   Field TargetId False ''012 345 006'' \<in> set (ui (app_step (DeviceClicked 0) wit_listing))"
proof -
  have "reachable world_start world_trans wit_listing"
    unfolding wit_listing_def by (intro app_run_reachable reach_init wit_world_start)
  moreover have "0 < length (sh_known_devices (wd_shared wit_listing))" by (simp add: wit_listing_facts)
  ultimately show ?thesis using chosen_device_is_connected [of wit_listing 0] wit_listing_facts
    by (simp del: app_step.simps)
qed

end
