(* ===== verification/Server_Run.thy ===== *)
theory Server_Run
  imports Server_Upgrade Http_Routes
begin

text \<open>
  \<^verbatim>\<open>visuara-signaling/src/main.rs\<close> to its end: after the state has been built, the router is built over it, the
  port is bound and requests are served.  What binding answers is the parameter \<open>bind\<close>; a server that serves
  does so until the process ends.
\<close>

record serving =
  sv_port :: nat
  sv_server :: server

definition server_main ::
  "environment \<Rightarrow> string option list \<Rightarrow> int \<Rightarrow> (string \<Rightarrow> string option) \<Rightarrow> (nat \<Rightarrow> string option) \<Rightarrow> db_file \<Rightarrow>
   (string \<rightharpoonup> bytes) \<Rightarrow> (string, serving) result \<times> db_file" where
  "server_main env fs now mkdir bind_port f fls =
     (case server_boot env fs now mkdir f fls of
        (Inl e, f') \<Rightarrow> (Inl e, f')
      | (Inr st, f') \<Rightarrow>
          (case bind_port (main_port env) of
             Some e \<Rightarrow> (Inl e, f')
           | None \<Rightarrow> (Inr \<lparr>sv_port = main_port env, sv_server = \<lparr>shared = st, tasks = Map.empty\<rparr>\<rparr>, f')))"

definition may_serve ::
  "environment \<Rightarrow> (string \<Rightarrow> string option) \<Rightarrow> (nat \<Rightarrow> string option) \<Rightarrow> bool" where
  "may_serve env mkdir bind_port \<longleftrightarrow> env ''TURN_SHARED_SECRET'' \<noteq> None \<and>
     mkdir (env_or env ''FETCHED_TEMPLATES_DIR'' ''fetched-client-templates'') = None \<and> bind_port (main_port env) = None"

lemma server_main_Inr:
  assumes "server_main env fs now mkdir bind_port f fls = (Inr sv, f')"
  obtains st where "server_boot env fs now mkdir f fls = (Inr st, f')"
    and "sv = \<lparr>sv_port = main_port env, sv_server = \<lparr>shared = st, tasks = Map.empty\<rparr>\<rparr>"
  using assms by (auto simp: server_main_def split: prod.splits sum.splits option.splits)

text \<open>A database file that does not exist yet.\<close>

definition wit_new_file :: db_file where
  "wit_new_file = \<lparr>catalog = Map.empty, table_rows = (\<lambda>_. []), sequence = 0\<rparr>"

section \<open>Properties\<close>

text \<open>
  C37. The server starts: with a database that opens, a TURN secret, a directory for fetched builds and a free
  port it serves, on the port of \<open>PORT\<close> or 8080, the database it has read, and answers a health check;
  lacking any of them it does not serve.  It begins in a start state of the running server, so every
  theorem about reachable states applies to it, and starting it again on the file it leaves reads the
  same database.
\<close>

theorem server_starts:
  assumes "matcher_ok pm" and "db_wf (read_db now (upgraded f))"
  shows "(may_serve env mkdir bind_port \<longleftrightarrow> (\<exists>sv f'. server_main env [] now mkdir bind_port f fls = (Inr sv, f'))) \<and>
    (\<forall>fs sv f'. server_main env fs now mkdir bind_port f fls = (Inr sv, f') \<longrightarrow>
      server_start (sv_server sv) \<and> app_db (shared (sv_server sv)) = read_db now f' \<and> sv_port sv < 65536 \<and>
      respond pm x assets v \<lparr>ln_method = GET, ln_path = ''/healthz'', ln_headers = hs, ln_content = []\<rparr> (shared (sv_server sv)) =
        (Handled (plain OK ''ok''), shared (sv_server sv)) \<and>
      (\<forall>fs2 sv2 f2. server_main env fs2 now mkdir bind_port f' fls = (Inr sv2, f2) \<longrightarrow>
        app_db (shared (sv_server sv2)) = app_db (shared (sv_server sv))))"
proof -
  obtain g where o: "db_open [] f = (Inr (), [], g)" using db_open_no_faults by blast
  have "may_serve env mkdir bind_port \<longleftrightarrow> (\<exists>sv f'. server_main env [] now mkdir bind_port f fls = (Inr sv, f'))"
    by (auto simp: may_serve_def server_main_def server_boot_def main_state_def o split: option.split)
  moreover have "server_start (sv_server sv) \<and> app_db (shared (sv_server sv)) = read_db now f' \<and> sv_port sv < 65536 \<and>
      respond pm x assets v \<lparr>ln_method = GET, ln_path = ''/healthz'', ln_headers = hs, ln_content = []\<rparr> (shared (sv_server sv)) =
        (Handled (plain OK ''ok''), shared (sv_server sv))"
    if run: "server_main env fs now mkdir bind_port f fls = (Inr sv, f')" for fs sv f'
  proof -
    from run obtain st where b: "server_boot env fs now mkdir f fls = (Inr st, f')"
      and sv: "sv = \<lparr>sv_port = main_port env, sv_server = \<lparr>shared = st, tasks = Map.empty\<rparr>\<rparr>"
      by (rule server_main_Inr)
    note boot = server_boot_Inr [OF b]
    have "server_start (sv_server sv)" using main_state_starts [OF boot(2)] assms(2) boot(1) by (simp add: sv)
    moreover have "respond pm x assets v \<lparr>ln_method = GET, ln_path = ''/healthz'', ln_headers = hs, ln_content = []\<rparr> st' =
        (Handled (plain OK ''ok''), st')" for st'
      by (simp add: respond_def matcher_unique [OF assms(1)] route_tables)
    ultimately show ?thesis using boot(3) main_port_bound by (simp add: sv)
  qed
  moreover have "app_db (shared (sv_server sv2)) = app_db (shared (sv_server sv))"
    if "server_main env fs now mkdir bind_port f fls = (Inr sv, f')"
      and "server_main env fs2 now mkdir bind_port f' fls = (Inr sv2, f2)" for fs sv f' fs2 sv2 f2
  proof -
    have read: "app_db (shared (sv_server sv)) = read_db now f' \<and> f' = upgraded f"
      if "server_main env fs now mkdir bind_port f fls = (Inr sv, f')" for fs sv f f'
      by (rule server_main_Inr [OF that]) (use server_boot_Inr in auto)
    from read [OF that(1)] read [OF that(2)] show ?thesis by (simp add: upgraded_idem)
  qed
  ultimately show ?thesis by blast
qed

theorem server_starts_witness:
  "\<exists>sv f'. server_main [''TURN_SHARED_SECRET'' \<mapsto> ''s'', ''PORT'' \<mapsto> ''99999''] [] 7 (\<lambda>_. None) (\<lambda>_. None) wit_new_file Map.empty =
     (Inr sv, f') \<and> server_start (sv_server sv) \<and> sv_port sv = 8080"
proof -
  let ?env = "[''TURN_SHARED_SECRET'' \<mapsto> ''s'', ''PORT'' \<mapsto> ''99999'']"
  have n: "table_rows (upgraded wit_new_file) t = []" for t
    by (simp add: upgraded_def with_role_def add_column_def all_tables_def creates create_table_def wit_new_file_def)
  have w: "db_wf (read_db 7 (upgraded wit_new_file))"
    by (simp add: read_db_def db_wf_defs upgraded_sequence n, simp add: wit_new_file_def)
  have m: "may_serve ?env (\<lambda>_. None) (\<lambda>_. None)" by (simp add: may_serve_def)
  have p: "main_port ?env = 8080"
    by (simp add: main_port_def parse_u16_def undec_def digit_val_def is_digit_def)
  from server_starts [OF match_path_ok w, of ?env "\<lambda>_. None" "\<lambda>_. None" Map.empty] m obtain sv f' where
    r: "server_main ?env [] 7 (\<lambda>_. None) (\<lambda>_. None) wit_new_file Map.empty = (Inr sv, f')" "server_start (sv_server sv)"
    by blast
  then have "sv_port sv = 8080" using p by (auto elim!: server_main_Inr)
  then show ?thesis using r by blast
qed

end
