(* ===== verification/Client_Main.thy ===== *)
theory Client_Main
  imports Desktop_Properties
begin

text \<open>
  \<^verbatim>\<open>visuara-client/src/main.rs\<close>: the subcommands of the client and where each takes its parameters from, and the
  Windows half of \<^verbatim>\<open>autostart.rs\<close>.  Parsing the command line, printing and waiting for Ctrl-C are left out;
  a command ends in what it has set up, or with an error.
\<close>

section \<open>main.rs\<close>

datatype command =
  Gui
| Host "string option" string string "string option"
| HostAutostart
| Controller "string option" string string device_id string bool

datatype running =
  Window visuara_app
| Hosting host_handle wire
| Viewing session_id wire

record main_env =
  mn_app :: app_env
  mn_from_slice :: from_slice
  mn_exe_data :: "(string, bytes) result"  \<comment> \<open>the bytes of the running executable\<close>
  mn_runtime :: "string option"  \<comment> \<open>why the runtime cannot be built\<close>
  mn_gui :: "string option"  \<comment> \<open>why the window cannot be opened\<close>
  mn_now :: nat

text \<open>\<open>Command::Host\<close> and \<open>Command::HostAutostart\<close> from the injector on.\<close>

definition start_host :: "main_env \<Rightarrow> string \<Rightarrow> string \<Rightarrow> string \<Rightarrow> string \<Rightarrow> (string, running) result" where
  "start_host env url email password name =
     (case ae_injector (mn_app env) of
        Some e \<Rightarrow> Inl e
      | None \<Rightarrow>
          (case register_and_serve (ae_dbg (mn_app env)) (ae_net (mn_app env)) url email password name of
             Inl e \<Rightarrow> Inl e
           | Inr (handle, w) \<Rightarrow> Inr (Hosting handle w)))"

definition controller_credential :: "string \<Rightarrow> bool \<Rightarrow> connect_credential" where
  "controller_credential code unattended = (if unattended then UnattendedPassword code else OneTimePassword code)"

definition run_command :: "main_env \<Rightarrow> embedded_config \<Rightarrow> home \<Rightarrow> command \<Rightarrow> (string, running) result" where
  "run_command env embedded h cmd =
     (case cmd of
        Gui \<Rightarrow>
          (case mn_gui env of
             Some e \<Rightarrow> Inl (''gui error: '' @ e)
           | None \<Rightarrow> Inr (Window (visuara_app_new (ae_io (mn_app env)) (ae_js (mn_app env)) embedded (mn_now env) h)))
      | Host server_url email password device_name \<Rightarrow>
          (case host_arguments server_url device_name embedded of
             (url, name) \<Rightarrow> start_host env url email password name)
      | HostAutostart \<Rightarrow>
          (case credentials_load (ae_io (mn_app env)) (ae_creds (mn_app env)) h of
             Inl e \<Rightarrow> Inl e
           | Inr None \<Rightarrow> Inl ''no saved credentials''
           | Inr (Some creds) \<Rightarrow>
               start_host env (sc_server_url creds) (sc_email creds) (sc_password creds) (sc_device_name creds))
      | Controller server_url email password target code unattended \<Rightarrow>
          (case controller_connect (ae_dbg (mn_app env)) (ae_rtc (mn_app env)) (ae_net (mn_app env))
                  (unwrap_or_default ''ws://127.0.0.1:8080/ws'' (or_else server_url (cfg_server_url embedded)))
                  email password target (controller_credential code unattended) of
             Inl e \<Rightarrow> Inl e
           | Inr (sid, w) \<Rightarrow> Inr (Viewing sid w)))"

definition client_main :: "main_env \<Rightarrow> command option \<Rightarrow> home \<Rightarrow> (string, running) result" where
  "client_main env cmd h =
     (let embedded = startup_config (mn_from_slice env) (mn_exe_data env);
          command = (case cmd of Some c \<Rightarrow> c | None \<Rightarrow> Gui)
      in (case mn_runtime env of
            Some e \<Rightarrow> Inl e
          | None \<Rightarrow> run_command env embedded h command))"

section \<open>autostart.rs on Windows\<close>

text \<open>The registry library on the user's hive: each call may fail; \<open>delete_value\<close> needs the key.\<close>

record 'r winreg =
  create_run_key :: "'r \<Rightarrow> (string, 'r) result"
  set_run_value :: "string \<Rightarrow> string \<Rightarrow> 'r \<Rightarrow> (string, 'r) result"
  open_run_key :: "'r \<Rightarrow> bool"
  delete_run_value :: "string \<Rightarrow> 'r \<Rightarrow> (string, 'r) result"
  get_run_value :: "string \<Rightarrow> 'r \<Rightarrow> (string, string) result"

definition VALUE_NAME :: string where
  "VALUE_NAME = ''Visuara''"

definition win_enable :: "'r winreg \<Rightarrow> (string, string) result \<Rightarrow> 'r \<Rightarrow> (string, unit) result \<times> 'r" where
  "win_enable reg exe r =
     (case exe of
        Inl e \<Rightarrow> (Inl e, r)
      | Inr path \<Rightarrow>
          (case create_run_key reg r of
             Inl e \<Rightarrow> (Inl e, r)
           | Inr r1 \<Rightarrow>
               (case set_run_value reg VALUE_NAME (''\"'' @ path @ ''\" host-autostart'') r1 of
                  Inl e \<Rightarrow> (Inl e, r1)
                | Inr r2 \<Rightarrow> (Inr (), r2))))"

definition win_disable :: "'r winreg \<Rightarrow> 'r \<Rightarrow> (string, unit) result \<times> 'r" where
  "win_disable reg r =
     (Inr (), if open_run_key reg r
              then (case delete_run_value reg VALUE_NAME r of Inr r1 \<Rightarrow> r1 | Inl _ \<Rightarrow> r) else r)"

definition win_is_enabled :: "'r winreg \<Rightarrow> 'r \<Rightarrow> bool" where
  "win_is_enabled reg r = (case get_run_value reg VALUE_NAME r of Inr _ \<Rightarrow> True | Inl _ \<Rightarrow> False)"

text \<open>What the code relies on of the registry: a value that was set is read, one that was deleted is
  not, deleting fails only for a value that is not there, and a value is there only under a key that opens.\<close>

definition winreg_ok :: "'r winreg \<Rightarrow> bool" where
  "winreg_ok reg \<longleftrightarrow>
     (\<forall>n v r r'. set_run_value reg n v r = Inr r' \<longrightarrow> get_run_value reg n r' = Inr v) \<and>
     (\<forall>n r r'. delete_run_value reg n r = Inr r' \<longrightarrow> (\<exists>e. get_run_value reg n r' = Inl e)) \<and>
     (\<forall>n r e. delete_run_value reg n r = Inl e \<longrightarrow> (\<exists>e. get_run_value reg n r = Inl e)) \<and>
     (\<forall>n r v. get_run_value reg n r = Inr v \<longrightarrow> open_run_key reg r)"

lemma win_autostart_round_trip:
  assumes "winreg_ok reg" and "win_enable reg (Inr exe) r = (Inr (), r1)"
  shows "win_is_enabled reg r1 \<and> get_run_value reg VALUE_NAME r1 = Inr (''\"'' @ exe @ ''\" host-autostart'') \<and>
     fst (win_disable reg r1) = Inr () \<and> \<not> win_is_enabled reg (snd (win_disable reg r1))"
proof -
  from assms(2) obtain r0 where "set_run_value reg VALUE_NAME (''\"'' @ exe @ ''\" host-autostart'') r0 = Inr r1"
    by (auto simp: win_enable_def split: sum.splits)
  then have g: "get_run_value reg VALUE_NAME r1 = Inr (''\"'' @ exe @ ''\" host-autostart'')"
    using assms(1) unfolding winreg_ok_def by blast
  then have "open_run_key reg r1" using assms(1) unfolding winreg_ok_def by blast
  then show ?thesis
    using g assms(1) unfolding winreg_ok_def win_is_enabled_def win_disable_def
    by (cases "delete_run_value reg VALUE_NAME r1") fastforce+
qed

section \<open>Auto-start as a whole\<close>

lemma last_path_join: "p \<noteq> [] \<Longrightarrow> last (path_join b p) = last p"
  by (simp add: path_join_def)

lemma unit_path_differs:
  assumes "credentials_path h = Inr p" and "unit_path h = Inr q"
  shows "p \<noteq> q"
proof
  assume "p = q"
  then have "last p = last q" by simp
  then show False
    using assms by (auto simp: credentials_path_def config_file_def unit_path_def last_path_join split: option.splits)
qed

lemma autostart_enable_Inr:
  assumes "autostart_enable io (Inr exe) systemctl h = (Inr (), h')"
  shows "\<exists>q m. unit_path h = Inr q \<and> config_dir h' = config_dir h \<and>
     stored h' = (stored h)(q \<mapsto> \<lparr>sf_data = bytes_of (unit_text exe), sf_mode = m\<rparr>)"
  using assms by (auto simp: autostart_enable_def put_file_def split: sum.splits option.splits if_splits)

section \<open>Properties\<close>

text \<open>
  C28. Auto-start brings back the host of the window: when the button has turned auto-start on without
  an error, the service file starts this executable with \<open>host-autostart\<close>, auto-start shows as on, and that command
  registers with exactly the address, account and device name the window had, from a file only its
  owner can read.
\<close>

theorem autostart_runs_the_same_host:
  assumes "json_ok (ae_creds env)" and "readable (ae_io env)" and "sh_host_info (wd_shared w) \<noteq> None"
    and "\<not> autostart_is_enabled (wd_home w)" and "ae_exe env = Inr exe"
    and "click_toggle_autostart env w = w'" and "sh_status (wd_shared w') = []"
    and "mn_app menv = env" and "mn_runtime menv = None"
  shows "autostart_is_enabled (wd_home w') \<and>
     (\<exists>q f. unit_path (wd_home w') = Inr q \<and> stored (wd_home w') q = Some f \<and> sf_data f = bytes_of (unit_text exe)) \<and>
     client_main menv (Some HostAutostart) (wd_home w') =
       start_host menv (af_server_url (wd_app w)) (af_email (wd_app w)) (af_password (wd_app w)) (af_device_name (wd_app w)) \<and>
     (\<exists>p f. credentials_path (wd_home w') = Inr p \<and> stored (wd_home w') p = Some f \<and> sf_mode f = 384)"
proof -
  define creds where "creds = \<lparr>sc_server_url = af_server_url (wd_app w), sc_email = af_email (wd_app w),
    sc_password = af_password (wd_app w), sc_device_name = af_device_name (wd_app w)\<rparr>"
  obtain res h' where t: "toggle_autostart (ae_io env) (ae_creds env) (Inr exe) (ae_systemctl env) creds (wd_home w) = (res, h')"
    by fastforce
  have ok: "res = Inr ()" and w': "wd_home w' = h'"
    using t assms(3,4,5,6,7)
    by (auto simp: click_toggle_autostart_def creds_def set_status_def Let_def split: sum.splits)
  from t ok assms(4) obtain h1 where
    s: "credentials_save (ae_io env) (ae_creds env) creds (wd_home w) = (Inr (), h1)"
    and e: "autostart_enable (ae_io env) (Inr exe) (ae_systemctl env) h1 = (Inr (), h')"
    by (auto simp: toggle_autostart_def split: sum.splits prod.splits)
  from credentials_save_Inr [OF s] obtain p data where p: "credentials_path h1 = Inr p"
    "to_json (ae_creds env) creds = Inr data" "stored h1 p = Some \<lparr>sf_data = data, sf_mode = 384\<rparr>" by auto
  from autostart_enable_Inr [OF e] obtain q m where q: "unit_path h1 = Inr q" "config_dir h' = config_dir h1"
    "stored h' = (stored h1)(q \<mapsto> \<lparr>sf_data = bytes_of (unit_text exe), sf_mode = m\<rparr>)" by blast
  have paths: "credentials_path h' = Inr p" "unit_path h' = Inr q"
    using p(1) q(1,2) by (simp_all add: credentials_path_def config_file_def unit_path_def)
  have "p \<noteq> q" by (rule unit_path_differs [OF p(1) q(1)])
  then have f: "stored h' p = Some \<lparr>sf_data = data, sf_mode = 384\<rparr>" using p(3) q(3) by simp
  have "credentials_load (ae_io env) (ae_creds env) h' = Inr (Some creds)"
    using f paths(1) p(2) assms(1,2) by (simp add: credentials_load_def json_ok_def readable_def)
  then have "client_main menv (Some HostAutostart) h' =
      start_host menv (af_server_url (wd_app w)) (af_email (wd_app w)) (af_password (wd_app w)) (af_device_name (wd_app w))"
    using assms(8,9) by (simp add: client_main_def run_command_def creds_def)
  then show ?thesis using w' paths f q(3) by (simp add: autostart_is_enabled_def)
qed

definition wit_saved :: saved_credentials where
  "wit_saved = \<lparr>sc_server_url = ''ws://127.0.0.1:8080/ws'', sc_email = [], sc_password = [], sc_device_name = ''this-machine''\<rparr>"

definition wit_auto_env :: app_env where
  "wit_auto_env = wit_app_env\<lparr>ae_creds := \<lparr>to_json = (\<lambda>c. if c = wit_saved then Inr [7] else Inl ''unsupported''),
     from_json = (\<lambda>b. if b = [7] then Inr wit_saved else Inl ''EOF'')\<rparr>\<rparr>"

definition wit_main_env :: main_env where
  "wit_main_env = \<lparr>mn_app = wit_auto_env, mn_from_slice = (\<lambda>_. Inl ''EOF''), mn_exe_data = Inr [], mn_runtime = None,
     mn_gui = None, mn_now = 0\<rparr>"

definition wit_sharing :: world where
  "wit_sharing = wit_world\<lparr>wd_shared := shared_default\<lparr>sh_host_info := Some (''012 345 006'', ''1'')\<rparr>\<rparr>"

theorem autostart_runs_the_same_host_witness:
  "client_main wit_main_env (Some HostAutostart) (wd_home (click_toggle_autostart wit_auto_env wit_sharing)) =
     start_host wit_main_env ''ws://127.0.0.1:8080/ws'' [] [] ''this-machine''"
proof -
  let ?w' = "click_toggle_autostart wit_auto_env wit_sharing"
  have a: "wd_app wit_sharing = visuara_app_new wit_store_io wit_json default_config 0 wit_home"
    by (simp add: wit_sharing_def wit_world_def)
  have f: "af_server_url (wd_app wit_sharing) = ''ws://127.0.0.1:8080/ws''" "af_email (wd_app wit_sharing) = []"
    "af_password (wd_app wit_sharing) = []" "af_device_name (wd_app wit_sharing) = ''this-machine''"
    unfolding a
    by (simp_all add: visuara_app_new_def app_new_def app_fields.defs settings_or_default_def settings_load_def
        settings_path_def config_file_def wit_home_def default_settings_def unwrap_or_default_def default_config_def Let_def)
  have "sh_status (wd_shared ?w') = []"
    using f
    by (simp add: click_toggle_autostart_def toggle_autostart_def autostart_is_enabled_def unit_path_def wit_sharing_def
        wit_world_def wit_home_def credentials_save_def credentials_path_def config_file_def wit_auto_env_def wit_app_env_def
        wit_saved_def write_restricted_def restrict_permissions_def put_file_def wit_store_io_def autostart_enable_def shared_default_def)
  moreover have "json_ok (ae_creds wit_auto_env)" "readable (ae_io wit_auto_env)" "ae_exe wit_auto_env = Inr ''/usr/bin/visuara''"
    using wit_readable by (auto simp: json_ok_def wit_auto_env_def wit_app_env_def split: if_splits)
  moreover have "\<not> autostart_is_enabled (wd_home wit_sharing)" "sh_host_info (wd_shared wit_sharing) \<noteq> None"
    by (simp_all add: wit_sharing_def wit_world_def wit_home_def autostart_is_enabled_def unit_path_def shared_default_def)
  moreover have "mn_app wit_main_env = wit_auto_env" "mn_runtime wit_main_env = None" by (simp_all add: wit_main_env_def)
  ultimately show ?thesis
    using autostart_runs_the_same_host [of wit_auto_env wit_sharing "''/usr/bin/visuara''" ?w' wit_main_env] f by auto
qed

end
