(* ===== verification/Spec2Isabelle.thy ===== *)
theory Spec2Isabelle
  imports Visuara_Prelude Embedded_Config Server_Upgrade Database_Spec Http_Routes Stored_Types Device_Life Session_Life Device_Removal Interference
    Session_Candidates Unit_Tests
    Frame_Waits Peer_System Video_Session Clipboard_Backend Window_View Server_Run Client_Main
begin

text \<open>
  \<^bold>\<open>Visuara\<close> is a self-hosted remote desktop.  A \<^emph>\<open>signaling server\<close> (\<^verbatim>\<open>src/visuara-signaling\<close>) keeps accounts and
  devices in SQLite, offers an HTTP API to a web page and a WebSocket to the clients, pairs a \<^emph>\<open>controller\<close> with a
  \<^emph>\<open>host\<close> and relays their WebRTC handshake; it also hands out client binaries into which it has patched its own
  address.  The \<^emph>\<open>client\<close> (\<^verbatim>\<open>src/visuara-client\<close>, with the platform code of \<^verbatim>\<open>src/visuara-agent\<close>) is one program for both
  roles: it signs in, negotiates a peer connection, and then exchanges video, input, clipboard, files and monitor
  switches directly with its peer.  Messages and the embedded configuration are shared in \<^verbatim>\<open>src/visuara-common\<close>.

  \<^bold>\<open>How the code is modelled.\<close>  Structs are records, enums are datatypes, each function or handler is one definition of
  the same name (suffixed where HOL has the name).  A handler takes the shared state and returns its response with
  the new state; \<open>Result\<close> is the sum type \<open>result\<close> with \<open>Inl\<close> for the error, and every \<open>?\<close> is a case distinction.  Machine integers
  are words where their width matters (byte strings, expiry times, monitor ids, pointer coordinates); row ids are
  integers bounded by \<open>2^63\<close> in the invariant.  Whatever the environment may do is an argument: SQLite may
  refuse any statement (the field \<open>faults\<close> is an arbitrary schedule of refusals), sends may fail, a file may not be
  readable, random draws and the clock are given.  Third-party code (Argon2, HMAC, serde, bincode, webrtc, openh264,
  xcap, enigo, arboard, winreg, the GitHub API) is a parameter; what is assumed of it is a named predicate such as
  \<open>argon2_sound\<close>, \<open>json_codec\<close>, \<open>json_ok\<close>, \<open>bincode_ok\<close>, \<open>f32_rounding\<close>, \<open>winreg_ok\<close>,
  \<open>matcher_ok\<close> or \<open>clipboard_keeps\<close>, and each witness instantiates it.

  \<^bold>\<open>Shared.\<close>
  \<^item> \<open>Visuara_Prelude\<close>: results, the list and string functions of Rust's standard library that the code calls, reachable
    states, and the locale \<open>machine\<close> (an invariant of a step relation holds in every reachable state).
  \<^item> \<open>Embedded_Config\<close> (\<^verbatim>\<open>embedded_config.rs\<close>): the 4096-byte slot behind a marker; searching, patching, reading back.
  \<^item> \<open>Signaling_Messages\<close>, \<open>Control_Messages\<close> (\<^verbatim>\<open>signaling.rs\<close>, \<^verbatim>\<open>control.rs\<close>, \<^verbatim>\<open>input.rs\<close>): the two protocols and input injection.

  \<^bold>\<open>Server.\<close>
  \<^item> \<open>Database_Schema\<close> (\<open>Db::open\<close>, \<open>ensure_column\<close>): the file as a catalog of tables with dynamically typed rows, and its upgrade;
    locales \<open>file_step\<close> and \<open>file_creation\<close>.
  \<^item> \<open>Database\<close>, \<open>Database_Laws\<close> (the methods of \<^verbatim>\<open>db.rs\<close>): tables as row lists, a method as its statement; locales \<open>db_step\<close>,
    \<open>db_method\<close> (atomic, keeps the schema's constraints) and \<open>db_query\<close>, interpreted for every method.
  \<^item> \<open>Database_Spec\<close>: the abstract store, four finite maps and a counter; the locale \<open>db_refines\<close> is the simulation between
    a method and its operation on the maps, and runs of the database refine runs of the store.
  \<^item> \<open>Credentials\<close> (\<^verbatim>\<open>auth.rs\<close>, \<^verbatim>\<open>turn.rs\<close>), \<open>App_State\<close> (\<^verbatim>\<open>state.rs\<close>; the locale \<open>server_op\<close> is what every handler keeps),
    \<open>Web_Session\<close> (\<^verbatim>\<open>session.rs\<close>).
  \<^item> \<open>Ws\<close>, \<open>Ws_Properties\<close> (\<^verbatim>\<open>ws.rs\<close>): one definition per message, and what a message may change and reach.
  \<^item> \<open>Http_Api\<close>, \<open>Http_Admin\<close>, \<open>Releases\<close>, \<open>Http_Router\<close>, \<open>Http_Properties\<close>, \<open>Static_Assets\<close> (\<^verbatim>\<open>api/\<close>, \<^verbatim>\<open>platforms.rs\<close>, \<^verbatim>\<open>release_fetch.rs\<close>,
    \<^verbatim>\<open>assets.rs\<close>): the endpoints; the locale \<open>admin_endpoint\<close> is the guard that all administrator's endpoints share.
  \<^item> \<open>Http_Routes\<close> (\<^verbatim>\<open>lib.rs\<close>, \<^verbatim>\<open>api/mod.rs\<close>): the route tables with methods and path patterns, from a request line to its handler
    or to the fallback; axum's matcher is a parameter whose law leaves one function, its extractors a record of parsers.
  \<^item> \<open>Server_System\<close>, \<open>Server_Properties\<close>: the running server as a step relation over connections, messages, requests, the send
    tasks and the environment, with its invariants; \<open>Stored_Types\<close>: the shape of the roles, ids and codes it stores;
    \<open>Device_Life\<close>: runs of events, and the device ids that live and die with the connection that drew them;
    \<open>Session_Life\<close>: the cookie sessions in such runs, from login to logout; \<open>Device_Removal\<close>: what is left of a removed device.
  \<^item> \<open>Handler_Steps\<close>: each handler of \<^verbatim>\<open>ws.rs\<close> and each writing handler of \<^verbatim>\<open>api/\<close> a second time, as a program of accesses (a \<open>Db\<close> call, an
    access to a \<open>DashMap\<close>, a send), with the proof that its uninterrupted run is the handler.  \<open>Interleaving\<close>: pools of such programs
    under any schedule, and a rely-guarantee logic (\<open>rg\<close>, \<open>pool_ok\<close>) for what they keep; \<open>Interference\<close>: one program over whatever
    states it finds, and the races.
  \<^item> \<open>Server_Main\<close>, \<open>Server_Upgrade\<close>, \<open>Server_Run\<close> (\<^verbatim>\<open>main.rs\<close>): from the environment variables and the file to the first state, and
    to the port on which it is served.

  \<^bold>\<open>Client.\<close>
  \<^item> \<open>Screen_Media\<close> (\<^verbatim>\<open>capture.rs\<close>, \<^verbatim>\<open>encode.rs\<close>, \<^verbatim>\<open>decode.rs\<close>, the capture thread of \<^verbatim>\<open>host.rs\<close>, the video loop of \<^verbatim>\<open>controller.rs\<close>).
  \<^item> \<open>Client_Protocol\<close> (\<^verbatim>\<open>signaling_client.rs\<close>, \<^verbatim>\<open>session.rs\<close>, \<^verbatim>\<open>host.rs\<close>, \<^verbatim>\<open>controller.rs\<close>, \<^verbatim>\<open>dashboard.rs\<close>): the flows over the WebSocket.
    A flow reads a list of frames; its end is the close of the connection.  \<open>Frame_Waits\<close> shows that the three waiting
    loops are one search (locale \<open>frame_wait\<close>).
  \<^item> \<open>Sign_In\<close>, \<open>Session_Setup\<close>, \<open>Session_Candidates\<close>: the client's \<open>authenticate\<close> run against the server's handler, and a session
    from the first message over the answer to the candidates, with controller, server and host.
  \<^item> \<open>Peer_Session\<close>, \<open>File_Transfer\<close>, \<open>Clipboard_Sync\<close>, \<open>Clipboard_Backend\<close> (the data channel handlers of \<^verbatim>\<open>host.rs\<close> and
    \<^verbatim>\<open>controller.rs\<close>, \<^verbatim>\<open>file_transfer.rs\<close>, \<^verbatim>\<open>clipboard_sync.rs\<close>, \<^verbatim>\<open>clipboard.rs\<close>).  \<open>Peer_System\<close>: both ends of a session as one system, with
    the two clipboard threads, the tasks they spawn and the bytes in flight on the ordered channel.
  \<^item> \<open>Video_Session\<close>: the picture from the capture thread through encoder, track and decoder to the window.
  \<^item> \<open>Local_Store\<close> (\<^verbatim>\<open>local_settings.rs\<close>, \<^verbatim>\<open>saved_credentials.rs\<close>, \<^verbatim>\<open>local_storage.rs\<close>, \<^verbatim>\<open>autostart.rs\<close>): the files under the user's
    configuration directory; the locale \<open>json_file\<close> is shared by the two JSON files.  \<open>Unit_Tests\<close>: the client's unit tests as
    predicates over the model, for any home, disk and timing.
  \<^item> \<open>Pointer_Geometry\<close>, \<open>Desktop_App\<close>, \<open>Desktop_Properties\<close> (\<^verbatim>\<open>gui.rs\<close>): pointer coordinates in single precision, and the window as a
    state machine over clicks, spawned tasks in any order, and arriving data; \<open>Window_View\<close>: the widgets that a frame draws.
  \<^item> \<open>Client_Main\<close> (\<^verbatim>\<open>main.rs\<close>, the Windows half of \<^verbatim>\<open>autostart.rs\<close>): the commands.

  \<^bold>\<open>What the theorems show.\<close> \<^emph>\<open>Access:\<close> sessions are opened only with a valid
  credential, messages reach only peers, a connection is authenticated only by a password that verifies,
  administrators' endpoints are guarded, and signing in completes as the password decides; a session with a valid
  credential is established between all three programs, candidates included; every request line reaches its own
  handler, and the paths of the administrator are closed to others. \<^emph>\<open>State:\<close> in every reachable
  state the database keeps its constraints, presence and one-time passwords agree with the open connections, and with
  requests one after the other a healthy run is never without an administrator; a device that is online is traced to
  the message that made it, and one that was removed stays out of reach; roles, ids and codes are stored in their types; the window's dashboard state agrees in
  every run, and no screen shows a password. \<^emph>\<open>Refinement and equivalence:\<close> the tables refine
  maps, the video loop is its reference pipeline, the waiting loops are a search, the clipboard thread with its errors is the abstract one. \<^emph>\<open>Round trips:\<close> saved
  settings reach the client that is downloaded, patched configurations are read back, a login whose cookie holds
  until its logout whatever else happens, files sent
  in chunks through a busy session, the screen as it reaches the window, clipboards that converge without an echo, the
  unit tests of the client. \<^emph>\<open>Interleaving:\<close> with the accesses of all handlers in any order the
  database keeps its constraints, a closed connection leaves nothing behind, and a session still needs a valid
  credential, checked before. \<^emph>\<open>Failure:\<close> deleting an account and fetching a build are all or
  nothing, opening a database can be repeated. A last group proves behaviour that surprises: the races that drop an
  offer and lose the last administrators, the fixed password that dies with its connection, the guard that fails open,
  the file name that escapes its directory, the second login that logs out, input and clipboard texts that are
  reordered, an upgraded server that can never be administered.

  \<^bold>\<open>Termination and bounds.\<close>  No definition uses fuel: recursion is structural, or decreases the number of unread frames
  (\<open>await_offer\<close>, \<open>await_answer\<close>, \<open>next_incoming\<close>) or the bytes left (\<open>build_loop\<close>).  Endless loops (the capture thread, the
  ICE task, the dashboard task, the clipboard threads, the window) are functions of a list of turns or events, and
  the theorems hold for every such list.  The numbered file names stop at 9999 as in the code.

  \<^bold>\<open>Not modelled.\<close>  How egui lays out and paints the widgets; the internals of the third-party crates named above, among
  them axum's matching and extraction (parameters with laws) and the transport of RTP and of the data channel; sockets
  beyond the result of binding; log output.  In the step relation of \<open>Server_System\<close> a handler is one step; its accesses
  interleave in \<open>Interleaving\<close> and \<open>Interference\<close>, where the requests that only read, the downloads and the fetching of builds
  remain one step (\<open>request_steps\<close>), a relay or a notice is one access because the code holds the guards of the maps until
  the message is sent, and a request that the client abandons is a program that gets no further turn.  \<open>Connection::open\<close>
  succeeds whenever a schedule of statements is given.\<close>

section \<open>Settings reach the downloaded client\<close>

lemma save_settings_OK:
  assumes "faults (app_db st) = []" and "save_settings hs url name st = (resp, st1)" and "status resp = OK"
  shows "faults (app_db st1) = [] \<and> settings_tbl (app_db st1) ''server_url'' = Some (trim url) \<and>
     settings_tbl (app_db st1) ''default_device_name'' = Some (trim name)"
proof -
  obtain a where "fst (require_admin hs st) = Inr a"
    using assms(2,3) by (cases "fst (require_admin hs st)")
      (auto simp: save_settings_def case_prod_beta status_response_def require_admin_def require_account_def
        if_pair split: option.splits sum.splits if_splits)
  then show ?thesis
    using assms(1,2)
    by (auto simp: save_settings_def http_eval guard_faults set_setting_ok)
qed

lemma download_body:
  assumes "faults (app_db st) = []" and "body (fst (download_platform tv io p st)) = BinaryBody ct cd data"
  shows "\<exists>template. patch_binary tv \<lparr>cfg_server_url = settings_tbl (app_db st) ''server_url'',
      cfg_device_name = settings_tbl (app_db st) ''default_device_name''\<rparr> template = Inr data"
  using assms(2)
  by (auto simp: download_platform_def setting_or_none_ok [OF assms(1)] plain_def ok_response_def
      split: option.splits sum.splits if_splits)

text \<open>
  C7. What an administrator saves is what downloaded clients use: after the settings have been saved, a
  client binary downloaded for any platform, once started, reads exactly the saved server address and
  device name, trimmed, as its embedded configuration, and offers them as the defaults of its window
  on a machine without local settings.
\<close>

theorem settings_reach_client:
  assumes "json_codec to_vec from_slice" and "faults (app_db st) = []"
    and "save_settings hs url name st = (resp, st1)" and "status resp = OK"
    and "body (fst (download_platform to_vec io platform st1)) = BinaryBody content_type disposition data"
    and "settings_load sio js h = Inr None"
  shows "startup_config from_slice (Inr data) =
       \<lparr>cfg_server_url = Some (trim url), cfg_device_name = Some (trim name)\<rparr> \<and>
     af_server_url (app_new sio js (startup_config from_slice (Inr data)) h) = trim url \<and>
     af_device_name (app_new sio js (startup_config from_slice (Inr data)) h) = trim name"
proof -
  note s = save_settings_OK [OF assms(2-4)]
  from download_body [OF _ assms(5)] s obtain template where
    "patch_binary to_vec \<lparr>cfg_server_url = Some (trim url), cfg_device_name = Some (trim name)\<rparr> template = Inr data"
    by auto
  from patch_roundtrip [OF assms(1) this] show ?thesis
    using assms(6)
    by (simp add: app_new_def settings_or_default_def default_settings_def unwrap_or_default_def Let_def)
qed


definition wit_cfg :: embedded_config where
  "wit_cfg = \<lparr>cfg_server_url = Some ''wss://h/ws'', cfg_device_name = Some ''pc''\<rparr>"

definition wit_to_vec2 :: to_vec where
  "wit_to_vec2 c = (if c = wit_cfg then Inr [123, 125] else Inl ''unsupported'')"

definition wit_from_slice2 :: from_slice where
  "wit_from_slice2 js = (if js = [123, 125] then Inr wit_cfg else Inl ''EOF'')"

lemma wit_codec2: "json_codec wit_to_vec2 wit_from_slice2"
  by (auto simp: json_codec_def wit_to_vec2_def wit_from_slice2_def split: if_splits)

lemma wit_patch2: "patch_binary wit_to_vec2 wit_cfg wit_template = Inr wit_patched"
proof -
  have "to_slot_bytes wit_to_vec2 wit_cfg = Inr (123 # 125 # replicate 4094 0)"
    by (simp add: to_slot_bytes_def wit_to_vec2_def CONFIG_SLOT_SIZE_def)
  then show ?thesis
    using wit_marker by (simp add: patch_binary_Inr wit_patched_def CONFIG_SLOT_SIZE_def wit_template_def)
qed

definition wit_downloads :: app_state where
  "wit_downloads = wit_app\<lparr>files := [''client-templates/linux-x86_64'' \<mapsto> wit_template]\<rparr>"

lemma wit_save_settings:
  "save_settings wit_headers ''wss://h/ws'' '' pc '' wit_downloads =
     (ok_response (SettingsBody \<lparr>sv_server_url = ''wss://h/ws'', sv_default_device_name = ''pc''\<rparr>),
      wit_downloads\<lparr>app_db := wit_admin_db\<lparr>settings_tbl := [''server_url'' \<mapsto> ''wss://h/ws'', ''default_device_name'' \<mapsto> ''pc'']\<rparr>\<rparr>)"
proof -
  have t: "trim ''wss://h/ws'' = ''wss://h/ws''" "trim '' pc '' = ''pc''"
    by (simp_all add: trim_def trim_start_def is_whitespace_def)
  show ?thesis
    using wit_cookie
    by (simp add: save_settings_def require_admin_def require_account_def current_account_def with_db_def
        find_session_def stmt_def query_row_def map_account_row_def from_column_def t set_setting_def Let_def
        wit_downloads_def wit_app_def wit_admin_db_def wit_db_def)
qed

lemma wit_download:
  "body (fst (download_platform wit_to_vec2 wit_io ''linux-x86_64''
     (wit_downloads\<lparr>app_db := wit_admin_db\<lparr>settings_tbl := [''server_url'' \<mapsto> ''wss://h/ws'', ''default_device_name'' \<mapsto> ''pc'']\<rparr>\<rparr>))) =
   BinaryBody ''application/octet-stream'' ''attachment; filename=\"visuara\"'' wit_patched"
  using wit_patch2
  by (simp add: download_platform_def PLATFORMS_def resolve_template_path_def path_exists_def path_join_def
      wit_io_def setting_or_none_ok wit_downloads_def wit_app_def wit_admin_db_def wit_db_def wit_cfg_def
      ok_response_def)

theorem settings_reach_client_witness:
  "startup_config wit_from_slice2 (Inr wit_patched) = wit_cfg"
proof -
  have "status (ok_response (SettingsBody \<lparr>sv_server_url = ''wss://h/ws'', sv_default_device_name = ''pc''\<rparr>)) = OK"
    by (simp add: ok_response_def)
  moreover have "settings_load wit_store_io wit_json wit_home = Inr None"
    by (simp add: settings_load_def settings_path_def config_file_def wit_home_def)
  moreover have "faults (app_db wit_downloads) = []"
    by (simp add: wit_downloads_def wit_app_def wit_admin_db_def wit_db_def)
  moreover have "trim ''wss://h/ws'' = ''wss://h/ws''" "trim '' pc '' = ''pc''"
    by (simp_all add: trim_def trim_start_def is_whitespace_def)
  ultimately show ?thesis
    using settings_reach_client [OF wit_codec2 _ wit_save_settings _ wit_download, of wit_store_io wit_json wit_home]
    by (simp add: wit_cfg_def)
qed

section \<open>The handshake between the server and a host\<close>

text \<open>What the host sends when the given messages reach it.\<close>

definition host_sends :: "webrtc \<Rightarrow> server_message list \<Rightarrow> client_message list" where
  "host_sends rtc q = 
     sent (fst (snd (serve_connections rtc None [] \<lparr>incoming = map msgf q, sent = [], sends_left = None\<rparr>)))"

lemma host_sends_in_order:
  assumes "\<forall>servers. build_peer_connection rtc servers = Inr ()" and "add_track rtc = None" and "make_answer rtc sdp = Inr answer"
  shows "host_sends rtc [IncomingConnection sid None, TurnCredentials us u p ttl, SrvSdpOffer sid sdp] =
     [RequestTurnCredentials, SdpAnswer sid answer]"
  using assms
  by (simp add: host_sends_def serve_connections_def handle_one_connection_def csend_def crecv_def attempt_def loop_simps)

lemma host_sends_overtaken:
  assumes "\<forall>servers. build_peer_connection rtc servers = Inr ()" and "add_track rtc = None"
  shows "host_sends rtc [IncomingConnection sid None, SrvSdpOffer sid sdp, TurnCredentials us u p ttl] =
     [RequestTurnCredentials]"
  using assms
  by (simp add: host_sends_def serve_connections_def handle_one_connection_def csend_def crecv_def attempt_def loop_simps)

text \<open>The queue of a live host after a connection was granted.\<close>

lemma request_delivers:
  fixes r :: entropy
  assumes "may_connect c cn st target cred host" and "faults (app_db st) = []"
    and "connections st host = Some host" and "rx_alive (channels st host)" and "host \<noteq> cid"
  defines "st1 \<equiv> snd (snd (handle_message c r (RequestConnection target cred) cid cn st))"
  shows "inbox st1 host = inbox st host @ [IncomingConnection (rnd_uuid r) None] \<and>
     sessions st1 (rnd_uuid r) = Some (peer_session cid host) \<and> connections st1 = connections st \<and>
     rx_alive (channels st1 host) \<and> turn st1 = turn st"
proof -
  have d: "find_device target (app_db st) = (Inr (device_of (app_db st) target), app_db st)"
    by (rule find_device_ok [OF assms(2)])
  show ?thesis
    using assms(1,3,4,5) d
    by (auto simp: st1_def ws_request_connection_def ws_eval may_connect_def send_inbox peer_session_def
        send_ok [THEN iffD2] split: conn_state.splits option.splits sum.splits)
qed

text \<open>
  A race can stall every new session.  After a connection has been granted, the host asks for TURN
  credentials while the controller sends its offer.  If the server handles the host's request first,
  the host answers the session.  If it handles the offer first, the host takes the offer for the
  reply to its request, drops it, and never answers.
\<close>

theorem offer_race_stalls_session:
  fixes r :: entropy and hcn :: conn
  assumes "may_connect c cn st target cred host" and "faults (app_db st) = []"
    and "connections st host = Some host" and "rx_alive (channels st host)" and "host \<noteq> cid"
    and "inbox st host = []"
    and "\<forall>servers. build_peer_connection rtc servers = Inr ()" and "add_track rtc = None" and "make_answer rtc sdp = Inr answer"
  defines "sid \<equiv> rnd_uuid r"
  defines "st1 \<equiv> snd (snd (handle_message c r (RequestConnection target cred) cid cn st))"
    and "offer \<equiv> \<lambda>s. snd (snd (handle_message c r (SdpOffer sid sdp) cid cn s))"
    and "turn_request \<equiv> \<lambda>s. snd (snd (handle_message c r RequestTurnCredentials host hcn s))"
  shows "host_sends rtc (inbox (offer (turn_request st1)) host) = [RequestTurnCredentials, SdpAnswer sid answer] \<and>
     host_sends rtc (inbox (turn_request (offer st1)) host) = [RequestTurnCredentials]"
proof -
  note q = request_delivers [OF assms(1-5), of r, folded st1_def sid_def]
  obtain u p where up: "mint_credentials c r (turn st1) host 300 = (u, p)" by fastforce
  let ?turn = "TurnCredentials (turn_urls (turn st1)) u p 300"
  have ab: "other (peer_session cid host) cid = Some host" by (simp add: other_def peer_session_def)
  have turn: "turn_request s = snd (send host ?turn s)" if "turn s = turn st1" for s
    using that up by (simp add: turn_request_def ws_turn_credentials_def)
  have off: "offer s = snd (send host (SrvSdpOffer sid sdp) s)"
    if "sessions s = sessions st1" "connections s = connections st1" "rx_alive (channels s host)" for s
    using relay_delivers [of s sid "peer_session cid host" cid host] that q ab assms(3) by (simp add: offer_def)
  have "inbox (offer (turn_request st1)) host = [IncomingConnection sid None, ?turn, SrvSdpOffer sid sdp]"
    using turn [of st1] off [of "snd (send host ?turn st1)"] q assms(6) by (simp add: send_inbox)
  moreover have "inbox (turn_request (offer st1)) host = [IncomingConnection sid None, SrvSdpOffer sid sdp, ?turn]"
    using off [of st1] turn [of "snd (send host (SrvSdpOffer sid sdp) st1)"] q assms(6) by (simp add: send_inbox)
  ultimately show ?thesis
    using host_sends_in_order [OF assms(7-9)] host_sends_overtaken [OF assms(7,8)] by simp
qed


theorem offer_race_stalls_session_witness:
  "\<exists>st1. host_sends wit_rtc (inbox (snd (snd (handle_message wit_crypto wit_entropy RequestTurnCredentials ''host'' wit_ctl
      (snd (snd (handle_message wit_crypto wit_entropy (SdpOffer ''uuid-1'' ''v=0'') ''ctl'' wit_ctl st1)))))) ''host'') =
    [RequestTurnCredentials]"
proof -
  have m: "may_connect wit_crypto wit_ctl wit_live ''012 345 006'' (OneTimePassword ''0042 9999'') ''host''"
    by (simp add: may_connect_def wit_defs device_of_def credential_ok_def)
  have u: "rnd_uuid wit_entropy = ''uuid-1''" by (simp add: wit_entropy_def)
  have "faults (app_db wit_live) = []" "connections wit_live ''host'' = Some ''host''"
    "rx_alive (channels wit_live ''host'')" "inbox wit_live ''host'' = []"
    by (simp_all add: wit_defs inbox_def)
  moreover have "\<forall>servers. build_peer_connection wit_rtc servers = Inr ()" "add_track wit_rtc = None"
    "make_answer wit_rtc ''v=0'' = Inr (''answer to '' @ ''v=0'')"
    by (simp_all add: wit_rtc_def build_peer_connection_def make_answer_def attempt_def)
  ultimately show ?thesis
    using offer_race_stalls_session [OF m, of "''ctl''" wit_rtc "''v=0''" "''answer to '' @ ''v=0''" wit_entropy wit_ctl]
    unfolding u by auto
qed

end
